(* ===== verification/Prelude.thy ===== *)
theory Prelude
  imports Main "HOL-Library.Finite_Map" "HOL-Library.List_Lexorder" "HOL-Library.Char_ord"
    "HOL-Library.Word"
begin

text \<open>
  Shared vocabulary of the development: the Go types and library functions that the modelled
  packages use (finite maps with copy-on-write updates, \<open>time.Time\<close> and \<open>time.Duration\<close>,
  64-bit integers, ASCII case folding, deterministic iteration over map keys), and the lemmas about
  them that every component relies on.

  \<^item> a Go map is an \<open>fmap\<close>: a finite partial function, so \<open>len\<close> and \<open>range\<close> make sense;
  \<^item> a loop over a map whose result does not depend on the order visits the keys in sorted order;
  \<^item> \<open>time.Time\<close> is an \<open>int\<close>, the nanoseconds since the Unix epoch; the zero time is the Go
    zero value, 1 January of year 1;
  \<^item> \<open>time.Duration\<close> and \<open>int\<close> are \<open>int\<close>; where a computation can leave the 64-bit
    range it goes through \<open>wrap64\<close>, which is two's complement wrap-around.
\<close>

named_theorems map_simps "rewriting of Go map operations to finite-map operations"
named_theorems time_simps "unfolding of the time model"

section \<open>Machine integers and time\<close>

type_synonym go_time = int
type_synonym duration = int

definition wrap64 :: "int \<Rightarrow> int" where
  "wrap64 x = (x + 2 ^ 63) mod 2 ^ 64 - 2 ^ 63"

lemma wrap64_id: "- (2 ^ 63) \<le> x \<Longrightarrow> x < 2 ^ 63 \<Longrightarrow> wrap64 x = x"
  by (simp add: wrap64_def)

lemma wrap64_range: "- (2 ^ 63) \<le> wrap64 x" "wrap64 x < 2 ^ 63"
proof -
  have "0 \<le> (x + 2 ^ 63) mod 2 ^ 64" "(x + 2 ^ 63) mod 2 ^ 64 < (2 ^ 64 :: int)"
    by simp_all
  then show "- (2 ^ 63) \<le> wrap64 x" "wrap64 x < 2 ^ 63"
    by (simp_all add: wrap64_def)
qed

definition zero_time :: go_time where
  "zero_time = - (62135596800 * 1000000000)"

definition IsZero :: "go_time \<Rightarrow> bool" where
  "IsZero t \<longleftrightarrow> t = zero_time"

definition millisecond :: duration where
  "millisecond = 1000000"

text \<open>\<open>Time.Sub\<close> saturates at the ends of the \<open>Duration\<close> range.\<close>

definition time_sub :: "go_time \<Rightarrow> go_time \<Rightarrow> duration" where
  "time_sub t u = max (- (2 ^ 63)) (min (2 ^ 63 - 1) (t - u))"

definition UnixMilli :: "go_time \<Rightarrow> int" where
  "UnixMilli t = t div 1000000"

lemmas [time_simps] = zero_time_def IsZero_def millisecond_def time_sub_def UnixMilli_def

section \<open>Strings\<close>

text \<open>\<open>strings.ToLower\<close> on the ASCII range; bytes outside \<open>A\<close>--\<open>Z\<close> are unchanged.\<close>

definition lower_char :: "char \<Rightarrow> char" where
  "lower_char c = (let n = (of_char c :: nat) in if 65 \<le> n \<and> n \<le> 90 then char_of (n + 32) else c)"

definition ToLower :: "string \<Rightarrow> string" where
  "ToLower s = map lower_char s"

lemma lower_char_idem [simp]: "lower_char (lower_char c) = lower_char c"
  by (auto simp: lower_char_def Let_def)

lemma ToLower_idem [simp]: "ToLower (ToLower s) = ToLower s"
  by (simp add: ToLower_def comp_def)

lemma ToLower_Nil_iff [simp]: "ToLower s = [] \<longleftrightarrow> s = []"
  by (simp add: ToLower_def)

section \<open>Go maps\<close>

definition withKey :: "('k, 'v) fmap \<Rightarrow> 'k \<Rightarrow> 'v \<Rightarrow> ('k, 'v) fmap" where
  "withKey m key v = fmupd key v m"

definition withoutKey :: "('k, 'v) fmap \<Rightarrow> 'k \<Rightarrow> ('k, 'v) fmap" where
  "withoutKey m key = (if fmlookup m key = None then m else fmdrop key m)"

definition map_len :: "('k, 'v) fmap \<Rightarrow> int" where
  "map_len m = int (fcard (fmdom m))"

definition sorted_keys :: "('k::linorder, 'v) fmap \<Rightarrow> 'k list" where
  "sorted_keys m = sorted_list_of_fset (fmdom m)"

definition map_values :: "('k::linorder, 'v) fmap \<Rightarrow> 'v list" where
  "map_values m = map (\<lambda>k. the (fmlookup m k)) (sorted_keys m)"

lemma withoutKey_drop [simp, map_simps]: "withoutKey m k = fmdrop k m"
  by (auto simp: withoutKey_def fmdrop_idle fmdom_notI)

lemma withKey_upd [simp, map_simps]: "withKey m k v = fmupd k v m"
  by (simp add: withKey_def)

lemma fmlookup_None_iff: "fmlookup m k = None \<longleftrightarrow> k |\<notin>| fmdom m"
  by (auto intro: fmdomI)

lemma fmlookup_not_None_iff: "fmlookup m k \<noteq> None \<longleftrightarrow> k |\<in>| fmdom m"
  by (auto simp: fmlookup_dom_iff)

lemma set_sorted_keys [simp]: "set (sorted_keys m) = fset (fmdom m)"
  by (simp add: sorted_keys_def)

lemma distinct_sorted_keys [simp]: "distinct (sorted_keys m)"
  by (simp add: sorted_keys_def sorted_list_of_fset.rep_eq)

lemma sorted_sorted_keys [simp]: "sorted (sorted_keys m)"
  by (simp add: sorted_keys_def sorted_list_of_fset.rep_eq)

lemma length_sorted_keys [simp]: "length (sorted_keys m) = fcard (fmdom m)"
  by (simp add: sorted_keys_def sorted_list_of_fset.rep_eq fcard.rep_eq)

lemma empty_map_simps [simp]:
  "sorted_keys fmempty = []" "map_values fmempty = []" "map_len fmempty = 0"
  by (simp_all add: sorted_keys_def map_values_def map_len_def sorted_list_of_fset.rep_eq)

lemma fcard_finsert_le_Suc: "fcard (finsert x A) \<le> Suc (fcard A)"
  by (simp add: fcard_finsert_if)

lemma length_filter_sorted_keys:
  "length (filter P (sorted_keys m)) = fcard (ffilter P (fmdom m))"
proof -
  have "length (filter P (sorted_keys m)) = card (set (filter P (sorted_keys m)))"
    by (metis distinct_card distinct_filter distinct_sorted_keys)
  also have "set (filter P (sorted_keys m)) = fset (ffilter P (fmdom m))"
    by auto
  finally show ?thesis by (simp add: fcard.rep_eq)
qed

text \<open>Sums over the values of a map: the effect of an update and of a deletion.\<close>

lemma sum_list_map_values:
  "sum_list (map f (map_values m)) = (\<Sum>k\<in>fset (fmdom m). f (the (fmlookup m k)))"
  for f :: "'v \<Rightarrow> int"
proof -
  have "sum_list (map f (map_values m)) = sum_list (map (\<lambda>k. f (the (fmlookup m k))) (sorted_keys m))"
    by (simp add: map_values_def comp_def)
  also have "\<dots> = (\<Sum>k\<in>set (sorted_keys m). f (the (fmlookup m k)))"
    by (rule sum_list_distinct_conv_sum_set) simp
  finally show ?thesis by simp
qed

lemma sum_map_values_drop:
  fixes f :: "'v \<Rightarrow> int"
  assumes "fmlookup m k = Some v"
  shows "sum_list (map f (map_values (fmdrop k m))) = sum_list (map f (map_values m)) - f v"
proof -
  have k: "k \<in> fset (fmdom m)" using assms by (auto intro: fmdomI)
  have "sum_list (map f (map_values (fmdrop k m)))
      = (\<Sum>j\<in>fset (fmdom m) - {k}. f (the (fmlookup (fmdrop k m) j)))"
    by (simp add: sum_list_map_values minus_fset.rep_eq)
  also have "\<dots> = (\<Sum>j\<in>fset (fmdom m) - {k}. f (the (fmlookup m j)))"
    by (rule sum.cong) auto
  also have "\<dots> = (\<Sum>j\<in>fset (fmdom m). f (the (fmlookup m j))) - f v"
    using k assms by (simp add: sum_diff1)
  finally show ?thesis by (simp add: sum_list_map_values)
qed

lemma sum_map_values_upd:
  fixes f :: "'v \<Rightarrow> int"
  shows "sum_list (map f (map_values (fmupd k v m)))
    = sum_list (map f (map_values (fmdrop k m))) + f v"
proof -
  have "sum_list (map f (map_values (fmupd k v m)))
      = (\<Sum>j\<in>insert k (fset (fmdom m) - {k}). f (the (fmlookup (fmupd k v m) j)))"
    by (simp add: sum_list_map_values insert_Diff_single)
  also have "\<dots> = f v + (\<Sum>j\<in>fset (fmdom m) - {k}. f (the (fmlookup (fmupd k v m) j)))"
    by (subst sum.insert) auto
  also have "(\<Sum>j\<in>fset (fmdom m) - {k}. f (the (fmlookup (fmupd k v m) j)))
      = (\<Sum>j\<in>fset (fmdom m) - {k}. f (the (fmlookup (fmdrop k m) j)))"
    by (rule sum.cong) auto
  finally show ?thesis by (simp add: sum_list_map_values minus_fset.rep_eq)
qed

end
