(* ===== verification/GoLib.thy ===== *)
theory GoLib
  imports Prelude
begin

text \<open>
  The functions of Go's \<open>strings\<close>, \<open>strconv\<close> and \<open>path/filepath\<close> (Unix flavour) that the
  modelled packages call, as executable functions on byte strings, with the laws the components
  use: splitting and joining are inverse, \<open>Clean\<close> is idempotent and produces a normal form.
\<close>

section \<open>Package strings\<close>

fun join_with :: "string \<Rightarrow> string list \<Rightarrow> string" where
  "join_with sep [] = []"
| "join_with sep [x] = x"
| "join_with sep (x # y # zs) = x @ sep @ join_with sep (y # zs)"

fun split_char :: "char \<Rightarrow> string \<Rightarrow> string list" where
  "split_char c [] = [[]]"
| "split_char c (x # xs) =
     (if x = c then [] # split_char c xs
      else case split_char c xs of [] \<Rightarrow> [[x]] | p # ps \<Rightarrow> (x # p) # ps)"

definition HasPrefix :: "string \<Rightarrow> string \<Rightarrow> bool" where
  "HasPrefix s p \<longleftrightarrow> take (length p) s = p"

definition is_space :: "char \<Rightarrow> bool" where
  "is_space c \<longleftrightarrow> c \<in> {CHR '' '', CHR 0x09, CHR 0x0A, CHR 0x0B, CHR 0x0C, CHR 0x0D}"

definition TrimSpace :: "string \<Rightarrow> string" where
  "TrimSpace s = rev (dropWhile is_space (rev (dropWhile is_space s)))"

fun split_space :: "string \<Rightarrow> string list" where
  "split_space [] = [[]]"
| "split_space (x # xs) =
     (if is_space x then [] # split_space xs
      else case split_space xs of [] \<Rightarrow> [[x]] | p # ps \<Rightarrow> (x # p) # ps)"

definition Fields :: "string \<Rightarrow> string list" where
  "Fields s = filter (\<lambda>w. w \<noteq> []) (split_space s)"

lemma HasPrefix_iff: "HasPrefix s p \<longleftrightarrow> (\<exists>t. s = p @ t)"
  by (metis HasPrefix_def append_eq_conv_conj)

lemma split_char_not_Nil [simp]: "split_char c s \<noteq> []"
  by (induction s) (auto split: list.splits)

lemma split_space_not_Nil [simp]: "split_space s \<noteq> []"
  by (induction s) (auto split: list.splits)

lemma split_char_no_sep: "w \<in> set (split_char c s) \<Longrightarrow> c \<notin> set w"
  by (induction s arbitrary: w) (auto split: list.splits if_splits)

lemma join_split: "join_with [c] (split_char c s) = s"
proof (induction s)
  case (Cons x xs)
  show ?case
  proof (cases "split_char c xs")
    case (Cons p ps)
    with \<open>join_with [c] (split_char c xs) = xs\<close> show ?thesis
      by (cases ps) auto
  qed simp
qed simp

lemma split_char_free: "c \<notin> set w \<Longrightarrow> split_char c w = [w]"
  by (induction w) auto

lemma split_char_append:
  "c \<notin> set w \<Longrightarrow> split_char c (w @ c # s) = w # split_char c s"
  by (induction w) auto

lemma split_join:
  "ws \<noteq> [] \<Longrightarrow> (\<forall>w\<in>set ws. c \<notin> set w) \<Longrightarrow> split_char c (join_with [c] ws) = ws"
  by (induction "[c]" ws rule: join_with.induct) (auto simp: split_char_free split_char_append)

lemma Fields_nonempty: "w \<in> set (Fields s) \<Longrightarrow> w \<noteq> []"
  by (simp add: Fields_def)

lemma split_space_no_space: "w \<in> set (split_space s) \<Longrightarrow> c \<in> set w \<Longrightarrow> \<not> is_space c"
proof (induction s arbitrary: w)
  case (Cons x xs)
  obtain p ps where "split_space xs = p # ps"
    by (meson list.exhaust split_space_not_Nil)
  with Cons show ?case by (fastforce split: if_splits)
qed simp

lemma Fields_no_space: "w \<in> set (Fields s) \<Longrightarrow> c \<in> set w \<Longrightarrow> \<not> is_space c"
  by (auto simp: Fields_def dest: split_space_no_space)

section \<open>Package strconv\<close>

definition is_digit :: "char \<Rightarrow> bool" where
  "is_digit c \<longleftrightarrow> 48 \<le> (of_char c :: nat) \<and> (of_char c :: nat) \<le> 57"

definition digit_val :: "char \<Rightarrow> int" where
  "digit_val c = int (of_char c) - 48"

definition digits_val :: "string \<Rightarrow> int" where
  "digits_val ds = foldl (\<lambda>n d. 10 * n + digit_val d) 0 ds"

definition in_int64 :: "int \<Rightarrow> bool" where
  "in_int64 n \<longleftrightarrow> - (2 ^ 63) \<le> n \<and> n < 2 ^ 63"

text \<open>\<open>strconv.Atoi\<close>: an optional sign, then at least one decimal digit, in the range of \<open>int\<close>.\<close>

definition Atoi :: "string \<Rightarrow> int option" where
  "Atoi s =
     (let (neg, ds) = (case s of
            CHR ''-'' # r \<Rightarrow> (True, r)
          | CHR ''+'' # r \<Rightarrow> (False, r)
          | _ \<Rightarrow> (False, s));
          n = (if neg then - digits_val ds else digits_val ds)
      in if ds = [] \<or> \<not> list_all is_digit ds \<or> \<not> in_int64 n then None else Some n)"

lemma Atoi_range: "Atoi s = Some n \<Longrightarrow> in_int64 n"
  by (auto simp: Atoi_def Let_def split: prod.splits if_splits)

section \<open>Package unicode/utf8\<close>

definition in_range :: "nat \<Rightarrow> nat \<Rightarrow> char \<Rightarrow> bool" where
  "in_range lo hi c \<longleftrightarrow> lo \<le> of_char c \<and> of_char c \<le> hi"

abbreviation cont_byte :: "char \<Rightarrow> bool" where
  "cont_byte \<equiv> in_range 0x80 0xBF"

text \<open>
  The number of bytes \<open>range\<close> consumes for the first rune of a string that starts with \<open>b\<close>: the
  length of a well-formed UTF-8 sequence, and one byte for anything else.
\<close>

definition rune_width :: "char \<Rightarrow> string \<Rightarrow> nat" where
  "rune_width b s = (case s of
       [] \<Rightarrow> 1
     | b1 # s1 \<Rightarrow>
         if in_range 0xC2 0xDF b \<and> cont_byte b1 then 2
         else (case s1 of
             [] \<Rightarrow> 1
           | b2 # s2 \<Rightarrow>
               if (in_range 0xE0 0xE0 b \<and> in_range 0xA0 0xBF b1 \<or>
                   (in_range 0xE1 0xEC b \<or> in_range 0xEE 0xEF b) \<and> cont_byte b1 \<or>
                   in_range 0xED 0xED b \<and> in_range 0x80 0x9F b1) \<and> cont_byte b2 then 3
               else (case s2 of
                   [] \<Rightarrow> 1
                 | b3 # _ \<Rightarrow>
                     if (in_range 0xF0 0xF0 b \<and> in_range 0x90 0xBF b1 \<or>
                         in_range 0xF1 0xF3 b \<and> cont_byte b1 \<or>
                         in_range 0xF4 0xF4 b \<and> in_range 0x80 0x8F b1) \<and>
                        cont_byte b2 \<and> cont_byte b3 then 4
                     else 1)))"

section \<open>Package path/filepath\<close>

abbreviation slash :: char where
  "slash \<equiv> CHR ''/''"

definition IsAbs :: "string \<Rightarrow> bool" where
  "IsAbs p \<longleftrightarrow> HasPrefix p ''/''"

text \<open>
  One path component of \<open>Clean\<close>: \<open>out\<close> is the output so far, last component first. Empty and
  \<open>.\<close> components vanish, \<open>..\<close> removes the component before it, is dropped at the root of a
  rooted path and is kept at the front of a relative one.
\<close>

definition clean_step :: "bool \<Rightarrow> string list \<Rightarrow> string \<Rightarrow> string list" where
  "clean_step rooted out c =
     (if c = [] \<or> c = ''.'' then out
      else if c = ''..'' then
        (case out of
           [] \<Rightarrow> if rooted then [] else [''..'']
         | o1 # os \<Rightarrow> if o1 = ''..'' then ''..'' # out else os)
      else c # out)"

definition clean_components :: "bool \<Rightarrow> string list \<Rightarrow> string list" where
  "clean_components rooted cs = rev (foldl (clean_step rooted) [] cs)"

definition render_path :: "bool \<Rightarrow> string list \<Rightarrow> string" where
  "render_path rooted cs =
     (if rooted then slash # join_with [slash] cs
      else if cs = [] then ''.'' else join_with [slash] cs)"

definition Clean :: "string \<Rightarrow> string" where
  "Clean p = (if p = [] then ''.'' else render_path (IsAbs p) (clean_components (IsAbs p) (split_char slash p)))"

definition Join :: "string list \<Rightarrow> string" where
  "Join ps = (let qs = filter (\<lambda>p. p \<noteq> []) ps in if qs = [] then [] else Clean (join_with [slash] qs))"

text \<open>The normal form: ordinary components, preceded by \<open>..\<close> only when the path is relative.\<close>

definition plain :: "string \<Rightarrow> bool" where
  "plain c \<longleftrightarrow> c \<noteq> [] \<and> c \<noteq> ''.'' \<and> c \<noteq> ''..'' \<and> slash \<notin> set c"

definition normal :: "bool \<Rightarrow> string list \<Rightarrow> bool" where
  "normal rooted cs \<longleftrightarrow>
     (\<exists>n ps. cs = replicate n ''..'' @ ps \<and> (\<forall>c\<in>set ps. plain c) \<and> (rooted \<longrightarrow> n = 0))"

lemma normal_clean_step:
  assumes "normal rooted (rev out)" "slash \<notin> set c"
  shows "normal rooted (rev (clean_step rooted out c))"
proof -
  from assms(1) obtain n ps where out: "rev out = replicate n ''..'' @ ps"
    and ps: "\<forall>c\<in>set ps. plain c" and n: "rooted \<longrightarrow> n = 0"
    by (auto simp: normal_def)
  show ?thesis
  proof (cases "c = [] \<or> c = ''.''")
    case True
    with assms(1) show ?thesis by (auto simp: clean_step_def)
  next
    case skip: False
    show ?thesis
    proof (cases "c = ''..''")
      case False
      with skip assms(2) have "plain c" by (simp add: plain_def)
      with out ps n have "rev (c # out) = replicate n ''..'' @ (ps @ [c])"
        "\<forall>c\<in>set (ps @ [c]). plain c" by auto
      with n have "normal rooted (rev (c # out))" unfolding normal_def by blast
      with skip False show ?thesis by (simp add: clean_step_def)
    next
      case True
      show ?thesis
      proof (cases ps rule: rev_cases)
        case Nil
        with out have rout: "out = replicate n ''..''"
          by (metis append_Nil2 rev_replicate rev_rev_ident)
        show ?thesis
        proof (cases n)
          case 0
          with rout have "out = []" by simp
          with True show ?thesis
            by (cases rooted)
               (auto simp: clean_step_def normal_def intro: exI [of _ "0::nat"] exI [of _ "1::nat"])
        next
          case (Suc m)
          with rout have "clean_step rooted out c = replicate (Suc n) ''..''"
            using True by (simp add: clean_step_def)
          then have "rev (clean_step rooted out c) = replicate (Suc n) ''..'' @ []"
            by (metis append_Nil2 rev_replicate)
          moreover have "\<not> rooted" using n Suc by auto
          ultimately show ?thesis unfolding normal_def by fastforce
        qed
      next
        case (snoc qs q)
        with out have "out = q # rev (replicate n ''..'' @ qs)"
          by (metis append.assoc rev_append rev_rev_ident rev_singleton_conv append_Cons append_Nil
              rev.simps(2))
        moreover have "q \<noteq> ''..''" using ps snoc by (auto simp: plain_def)
        ultimately have "rev (clean_step rooted out c) = replicate n ''..'' @ qs"
          using True by (simp add: clean_step_def)
        with ps snoc n show ?thesis unfolding normal_def by fastforce
      qed
    qed
  qed
qed

lemma normal_foldl_clean:
  "normal rooted (rev out) \<Longrightarrow> (\<forall>c\<in>set cs. slash \<notin> set c) \<Longrightarrow>
     normal rooted (rev (foldl (clean_step rooted) out cs))"
  by (induction cs arbitrary: out) (auto simp: normal_clean_step)

lemma normal_Nil [simp]: "normal rooted []"
  by (auto simp: normal_def)

lemma normal_clean_components:
  "(\<forall>c\<in>set cs. slash \<notin> set c) \<Longrightarrow> normal rooted (clean_components rooted cs)"
  by (simp add: clean_components_def normal_foldl_clean)

lemma foldl_clean_dots:
  "foldl (clean_step False) (replicate k ''..'') (replicate n ''..'') = replicate (k + n) ''..''"
proof (induction n arbitrary: k)
  case (Suc n)
  have "clean_step False (replicate k ''..'') ''..'' = replicate (Suc k) ''..''"
    by (cases k) (simp_all add: clean_step_def)
  with Suc [of "Suc k"] show ?case by simp
qed simp

lemma foldl_clean_plain:
  "(\<forall>c\<in>set ps. plain c) \<Longrightarrow> foldl (clean_step rooted) out ps = rev ps @ out"
  by (induction ps arbitrary: out) (auto simp: clean_step_def plain_def)

lemma clean_components_normal: "normal rooted cs \<Longrightarrow> clean_components rooted cs = cs"
proof -
  assume "normal rooted cs"
  then obtain n ps where cs: "cs = replicate n ''..'' @ ps" "\<forall>c\<in>set ps. plain c" "rooted \<longrightarrow> n = 0"
    by (auto simp: normal_def)
  have "foldl (clean_step rooted) [] (replicate n ''..'') = replicate n ''..''"
    using cs(3) foldl_clean_dots [of 0 n] by (cases rooted) auto
  with cs show ?thesis by (simp add: clean_components_def foldl_clean_plain)
qed

lemma normal_member: "normal rooted cs \<Longrightarrow> c \<in> set cs \<Longrightarrow> c = ''..'' \<or> plain c"
proof -
  assume "normal rooted cs" and c: "c \<in> set cs"
  then obtain n ps where "cs = replicate n ''..'' @ ps" "\<forall>c\<in>set ps. plain c"
    unfolding normal_def by blast
  with c show ?thesis by (metis UnE in_set_replicate set_append)
qed

lemma normal_no_slash: "normal rooted cs \<Longrightarrow> c \<in> set cs \<Longrightarrow> slash \<notin> set c"
  by (drule (1) normal_member, erule disjE) (simp_all add: plain_def)

lemma normal_nonempty: "normal rooted cs \<Longrightarrow> c \<in> set cs \<Longrightarrow> c \<noteq> []"
  by (drule (1) normal_member, erule disjE) (simp_all add: plain_def)

lemma join_with_Nil_iff: "(\<forall>c\<in>set cs. c \<noteq> []) \<Longrightarrow> join_with sep cs = [] \<longleftrightarrow> cs = []"
  by (cases "(sep, cs)" rule: join_with.cases) auto

lemma hd_join_with: "cs \<noteq> [] \<Longrightarrow> hd cs \<noteq> [] \<Longrightarrow> hd (join_with sep cs) = hd (hd cs)"
  by (cases "(sep, cs)" rule: join_with.cases) auto

lemma IsAbs_iff: "IsAbs p \<longleftrightarrow> p \<noteq> [] \<and> hd p = slash"
  by (cases p) (auto simp: IsAbs_def HasPrefix_def)

lemma IsAbs_render: "normal rooted cs \<Longrightarrow> IsAbs (render_path rooted cs) = rooted"
proof (cases rooted)
  case False
  assume n: "normal rooted cs"
  show ?thesis
  proof (cases "cs = []")
    case False
    have "hd cs \<noteq> []" "slash \<notin> set (hd cs)"
      using normal_nonempty [OF n] normal_no_slash [OF n] False by (metis hd_in_set)+
    then have "hd (hd cs) \<noteq> slash" by (cases "hd cs") auto
    with False \<open>\<not> rooted\<close> \<open>hd cs \<noteq> []\<close> show ?thesis
      by (auto simp: IsAbs_iff render_path_def hd_join_with)
  qed (auto simp: \<open>\<not> rooted\<close> IsAbs_iff render_path_def)
qed (simp add: IsAbs_iff render_path_def)

lemma split_render:
  assumes "normal rooted cs"
  shows "clean_components rooted (split_char slash (render_path rooted cs)) = cs"
proof (cases "cs = []")
  case True
  then show ?thesis
    by (cases rooted) (simp_all add: render_path_def clean_components_def clean_step_def)
next
  case False
  have "split_char slash (join_with [slash] cs) = cs"
    using assms False by (intro split_join) (auto dest: normal_no_slash)
  then have "split_char slash (render_path rooted cs) = (if rooted then [] # cs else cs)"
    using False by (simp add: render_path_def)
  then show ?thesis
    using clean_components_normal [OF assms]
    by (auto simp: clean_components_def clean_step_def)
qed

lemma render_not_Nil: "normal rooted cs \<Longrightarrow> render_path rooted cs \<noteq> []"
  by (auto simp: render_path_def join_with_Nil_iff normal_nonempty)

lemma Clean_render: "normal rooted cs \<Longrightarrow> Clean (render_path rooted cs) = render_path rooted cs"
  by (simp add: Clean_def render_not_Nil IsAbs_render split_render)

definition clean_comps :: "string \<Rightarrow> string list" where
  "clean_comps p = clean_components (IsAbs p) (split_char slash p)"

lemma Clean_normal_form:
  "p \<noteq> [] \<Longrightarrow> Clean p = render_path (IsAbs p) (clean_comps p) \<and> normal (IsAbs p) (clean_comps p)"
  by (auto simp: Clean_def clean_comps_def intro!: normal_clean_components dest: split_char_no_sep)

lemma Clean_not_Nil [simp]: "Clean p \<noteq> []"
  using Clean_normal_form [of p] by (cases "p = []") (auto simp: Clean_def render_not_Nil)

lemma IsAbs_Clean [simp]: "IsAbs (Clean p) = IsAbs p"
  using Clean_normal_form [of p]
  by (cases "p = []") (auto simp: Clean_def IsAbs_render IsAbs_iff [of "[]"], simp_all add: IsAbs_iff)

lemma Clean_idem [simp]: "Clean (Clean p) = Clean p"
proof (cases "p = []")
  case True
  have "Clean ''.'' = ''.''" by code_simp
  with True show ?thesis by (simp add: Clean_def)
next
  case False
  then show ?thesis using Clean_normal_form [of p] Clean_render by simp
qed

lemma IsAbs_Join: "IsAbs p \<Longrightarrow> IsAbs (Join (p # ps))"
proof -
  assume "IsAbs p"
  then have p: "p \<noteq> []" "IsAbs p" by (simp_all add: IsAbs_iff)
  let ?qs = "p # filter (\<lambda>p. p \<noteq> []) ps"
  have "IsAbs (join_with [slash] ?qs)"
    using p hd_join_with [of ?qs "[slash]"] join_with_Nil_iff [of ?qs "[slash]"]
    by (auto simp: IsAbs_iff)
  with p show ?thesis by (simp add: Join_def)
qed

text \<open>
  \<open>filepath.Rel\<close> walks the common leading components; a mismatch under a \<open>..\<close> of the base is an
  error, otherwise the result climbs out of what is left of the base and descends the target.
\<close>

fun rel_comps :: "string list \<Rightarrow> string list \<Rightarrow> string list option" where
  "rel_comps (b # bs) (t # ts) =
     (if b = t then rel_comps bs ts
      else if b = ''..'' then None
      else Some (replicate (Suc (length bs)) ''..'' @ t # ts))"
| "rel_comps [] ts = Some ts"
| "rel_comps (b # bs) [] = Some (replicate (Suc (length bs)) ''..'')"

definition Rel :: "string \<Rightarrow> string \<Rightarrow> string option" where
  "Rel basepath targpath =
     (let base = Clean basepath; targ = Clean targpath in
      if targ = base then Some ''.''
      else if IsAbs base \<noteq> IsAbs targ then None
      else map_option (join_with [slash])
             (rel_comps (clean_comps base) (if targ = ''.'' then [''.''] else clean_comps targ)))"

lemma split_char_append_gen: "split_char c (s @ c # t) = split_char c s @ split_char c t"
proof (induction s)
  case (Cons x xs)
  obtain p ps where "split_char c xs = p # ps" by (meson list.exhaust split_char_not_Nil)
  with Cons show ?case by simp
qed simp

lemma clean_comps_render: "normal rooted cs \<Longrightarrow> clean_comps (render_path rooted cs) = cs"
  by (simp add: clean_comps_def IsAbs_render split_render)

lemma clean_comps_Clean: "p \<noteq> [] \<Longrightarrow> clean_comps (Clean p) = clean_comps p"
  using Clean_normal_form [of p] clean_comps_render by simp

lemma normal_clean_comps: "normal (IsAbs p) (clean_comps p)"
  by (auto simp: clean_comps_def intro!: normal_clean_components dest: split_char_no_sep)

lemma clean_comps_dot [simp]: "clean_comps ''.'' = []"
  by (simp add: clean_comps_def clean_components_def clean_step_def IsAbs_iff)

lemma render_clean_comps: "Clean p = p \<Longrightarrow> render_path (IsAbs p) (clean_comps p) = p"
  using Clean_normal_form [of p] Clean_not_Nil [of p] by metis

lemma IsAbs_append [simp]: "p \<noteq> [] \<Longrightarrow> IsAbs (p @ q) = IsAbs p"
  by (simp add: IsAbs_iff)

lemma clean_comps_child:
  assumes "p \<noteq> []" "slash \<notin> set k"
  shows "clean_comps (p @ slash # k) = rev (clean_step (IsAbs p) (rev (clean_comps p)) k)"
  using assms by (simp add: clean_comps_def clean_components_def split_char_append_gen split_char_free)

lemma clean_step_plain: "plain k \<Longrightarrow> clean_step r out k = k # out"
  by (simp add: clean_step_def plain_def)

lemma Join_child:
  assumes "Clean root = root" "plain k"
  shows "Join [root, k] = render_path (IsAbs root) (clean_comps root @ [k])"
    and "clean_comps (Join [root, k]) = clean_comps root @ [k]"
    and "IsAbs (Join [root, k]) = IsAbs root"
proof -
  have root: "root \<noteq> []" using Clean_not_Nil assms(1) by metis
  have k: "k \<noteq> []" "slash \<notin> set k" using assms(2) by (simp_all add: plain_def)
  have c: "clean_comps (root @ slash # k) = clean_comps root @ [k]"
    using root k assms(2) by (simp add: clean_comps_child clean_step_plain)
  show "Join [root, k] = render_path (IsAbs root) (clean_comps root @ [k])"
    using Clean_normal_form [of "root @ slash # k"] root k c by (simp add: Join_def)
  show "clean_comps (Join [root, k]) = clean_comps root @ [k]"
    using c root k clean_comps_Clean [of "root @ slash # k"] by (simp add: Join_def)
  show "IsAbs (Join [root, k]) = IsAbs root"
    using root k by (simp add: Join_def)
qed

lemma rel_comps_prefix: "rel_comps cs (cs @ ds) = Some ds"
  by (induction cs) simp_all

text \<open>
  A relative path that does not start with \<open>..\<close> means the base was walked to its end.
\<close>

lemma rel_comps_inside:
  "rel_comps bs ts = Some rs \<Longrightarrow> rs = [] \<or> hd rs \<noteq> ''..'' \<Longrightarrow> ts = bs @ rs"
  by (induction bs ts rule: rel_comps.induct) (auto split: if_splits)

lemma join_dots:
  "rs \<noteq> [] \<Longrightarrow> hd rs = ''..'' \<Longrightarrow>
     join_with [slash] rs = ''..'' \<or> HasPrefix (join_with [slash] rs) ''../''"
  by (cases "(''/'', rs)" rule: join_with.cases) (auto simp: HasPrefix_def)

end
