(* ===== verification/Wfconfig.thy ===== *)
theory Wfconfig
  imports GoLib
begin

text \<open>
  Package \<open>orchestrator/wfconfig\<close>: the typed configuration resolved from the front matter of a
  WORKFLOW.md file. A front matter value is a datatype of Go's dynamic types; a
  Go map is an association list with distinct keys whose order is the order in which \<open>range\<close>
  happens to visit it. The environment (\<open>os.Getenv\<close>) is a parameter.
\<close>

section \<open>config.go\<close>

record server_config =
  sc_Port :: int
  sc_Bind :: string

record tracker_config =
  tc_Kind :: string
  tc_Endpoint :: string
  tc_APIKey :: string
  tc_ProjectSlugs :: "string list"
  tc_ActiveStates :: "string list"
  tc_TerminalStates :: "string list"

record polling_config =
  pc_IntervalMS :: int

record workspace_config =
  wc_Root :: string

record hooks_config =
  hc_TimeoutMS :: int
  hc_AfterCreate :: string
  hc_BeforeRun :: string
  hc_AfterRun :: string
  hc_BeforeRemove :: string

record agent_config =
  ac_MaxConcurrentAgents :: int
  ac_MaxConcurrentAgentsByState :: "(string, int) fmap"
  ac_MaxTurns :: int
  ac_MaxRetryBackoffMS :: int

record codex_config =
  cc_Command :: string
  cc_TurnTimeoutMS :: int
  cc_ReadTimeoutMS :: int
  cc_StallTimeoutMS :: int
  cc_ApprovalPolicy :: string
  cc_ThreadSandbox :: string
  cc_TurnSandboxPolicy :: string

record config =
  c_Tracker :: tracker_config
  c_Polling :: polling_config
  c_Workspace :: workspace_config
  c_Hooks :: hooks_config
  c_Agent :: agent_config
  c_Codex :: codex_config
  c_Server :: server_config

text \<open>The zero value \<open>Config{}\<close>.\<close>

definition zero_config :: config where
  "zero_config =
     \<lparr> c_Tracker = \<lparr> tc_Kind = [], tc_Endpoint = [], tc_APIKey = [], tc_ProjectSlugs = [],
                     tc_ActiveStates = [], tc_TerminalStates = [] \<rparr>,
       c_Polling = \<lparr> pc_IntervalMS = 0 \<rparr>,
       c_Workspace = \<lparr> wc_Root = [] \<rparr>,
       c_Hooks = \<lparr> hc_TimeoutMS = 0, hc_AfterCreate = [], hc_BeforeRun = [], hc_AfterRun = [],
                   hc_BeforeRemove = [] \<rparr>,
       c_Agent = \<lparr> ac_MaxConcurrentAgents = 0, ac_MaxConcurrentAgentsByState = fmempty,
                   ac_MaxTurns = 0, ac_MaxRetryBackoffMS = 0 \<rparr>,
       c_Codex = \<lparr> cc_Command = [], cc_TurnTimeoutMS = 0, cc_ReadTimeoutMS = 0,
                   cc_StallTimeoutMS = 0, cc_ApprovalPolicy = [], cc_ThreadSandbox = [],
                   cc_TurnSandboxPolicy = [] \<rparr>,
       c_Server = \<lparr> sc_Port = 0, sc_Bind = [] \<rparr> \<rparr>"

text \<open>
  \<open>ErrConfigCoerce\<close> carries the path of the offending field (the \<open>fmt.Errorf\<close> prefix),
  \<open>ErrConfigValidation\<close> the field and the rejected value.
\<close>

datatype cfg_error = ErrConfigCoerce string | ErrConfigValidation string int

section \<open>coerce.go\<close>

text \<open>
  The dynamic type of a front matter value. \<open>AFloat None\<close> stands for the non-finite floats and
  \<open>AOther\<close> for every dynamic type that none of the coercions accepts (booleans, null, timestamps,
  maps with non-string keys).
\<close>

datatype any =
    AInt int
  | AInt64 int
  | AFloat "rat option"
  | AStr string
  | AList "any list"
  | AMap "(string \<times> any) list"
  | AOther

text \<open>
  \<open>float64\<close> values convert to \<open>int\<close> by truncation; outside the range of \<open>int\<close> the conversion gives
  the minimum, which differs from the value, so that the value is refused as not whole.
\<close>

definition coerceInt :: "any \<Rightarrow> cfg_error + int" where
  "coerceInt v = (case v of
       AInt t \<Rightarrow> Inr t
     | AInt64 t \<Rightarrow> Inr t
     | AFloat (Some t) \<Rightarrow>
         if t = of_int \<lfloor>t\<rfloor> \<and> in_int64 \<lfloor>t\<rfloor> then Inr \<lfloor>t\<rfloor> else Inl (ErrConfigCoerce [])
     | AFloat None \<Rightarrow> Inl (ErrConfigCoerce [])
     | AStr t \<Rightarrow> (case Atoi t of None \<Rightarrow> Inl (ErrConfigCoerce []) | Some n \<Rightarrow> Inr n)
     | _ \<Rightarrow> Inl (ErrConfigCoerce []))"

definition coerceString :: "any \<Rightarrow> cfg_error + string" where
  "coerceString v = (case v of AStr s \<Rightarrow> Inr s | _ \<Rightarrow> Inl (ErrConfigCoerce []))"

fun coerce_elems :: "any list \<Rightarrow> string list \<Rightarrow> cfg_error + string list" where
  "coerce_elems [] out = Inr out"
| "coerce_elems (AStr s # es) out = coerce_elems es (out @ [s])"
| "coerce_elems (_ # es) out = Inl (ErrConfigCoerce [])"

definition coerceStringSlice :: "any \<Rightarrow> cfg_error + string list" where
  "coerceStringSlice v =
     (case v of AList raw \<Rightarrow> coerce_elems raw [] | _ \<Rightarrow> Inl (ErrConfigCoerce []))"

definition per_state_step :: "(string, int) fmap \<Rightarrow> string \<times> any \<Rightarrow> (string, int) fmap" where
  "per_state_step out kv =
     (case coerceInt (snd kv) of
        Inl _ \<Rightarrow> out
      | Inr n \<Rightarrow> if n \<le> 0 then out else fmupd (ToLower (fst kv)) n out)"

definition coercePerStateMap :: "any \<Rightarrow> cfg_error + (string, int) fmap" where
  "coercePerStateMap v =
     (case v of AMap raw \<Rightarrow> Inr (foldl per_state_step fmempty raw) | _ \<Rightarrow> Inl (ErrConfigCoerce []))"

section \<open>resolve.go: decoding the sections\<close>

text \<open>
  Two shapes occur throughout: a section that may be absent but must be a map, and a field that may
  be absent but must coerce. A failing field aborts the decoding with the field's path.
\<close>

definition wrap_err :: "string \<Rightarrow> cfg_error \<Rightarrow> cfg_error" where
  "wrap_err path e = (case e of ErrConfigCoerce _ \<Rightarrow> ErrConfigCoerce path | _ \<Rightarrow> e)"

definition andthen :: "cfg_error + 'a \<Rightarrow> ('a \<Rightarrow> cfg_error + 'b) \<Rightarrow> cfg_error + 'b" where
  "andthen r f = (case r of Inl e \<Rightarrow> Inl e | Inr x \<Rightarrow> f x)"

definition with_section ::
  "(string \<times> any) list \<Rightarrow> string \<Rightarrow> ((string \<times> any) list \<Rightarrow> config \<Rightarrow> cfg_error + config) \<Rightarrow>
   config \<Rightarrow> cfg_error + config" where
  "with_section raw name f c =
     (case map_of raw name of
        None \<Rightarrow> Inr c
      | Some (AMap m) \<Rightarrow> f m c
      | Some _ \<Rightarrow> Inl (ErrConfigCoerce name))"

definition with_field ::
  "string \<Rightarrow> (string \<times> any) list \<Rightarrow> string \<Rightarrow> (any \<Rightarrow> cfg_error + 'a) \<Rightarrow> ('a \<Rightarrow> config \<Rightarrow> config) \<Rightarrow>
   config \<Rightarrow> cfg_error + config" where
  "with_field sec m key coerce upd c =
     (case map_of m key of
        None \<Rightarrow> Inr c
      | Some v \<Rightarrow> (case coerce v of
            Inl e \<Rightarrow> Inl (wrap_err (sec @ ''.'' @ key) e)
          | Inr x \<Rightarrow> Inr (upd x c)))"

definition decodeTracker :: "(string \<times> any) list \<Rightarrow> config \<Rightarrow> cfg_error + config" where
  "decodeTracker raw = with_section raw ''tracker'' (\<lambda>m c.
     andthen (with_field ''tracker'' m ''kind'' coerceString
               (\<lambda>x. c_Tracker_update (tc_Kind_update (\<lambda>_. x))) c) (\<lambda>c.
     andthen (with_field ''tracker'' m ''endpoint'' coerceString
               (\<lambda>x. c_Tracker_update (tc_Endpoint_update (\<lambda>_. x))) c) (\<lambda>c.
     andthen (with_field ''tracker'' m ''api_key'' coerceString
               (\<lambda>x. c_Tracker_update (tc_APIKey_update (\<lambda>_. x))) c) (\<lambda>c.
     andthen (with_field ''tracker'' m ''project_slugs'' coerceStringSlice
               (\<lambda>x. c_Tracker_update (tc_ProjectSlugs_update (\<lambda>_. x))) c) (\<lambda>c.
     andthen (with_field ''tracker'' m ''active_states'' coerceStringSlice
               (\<lambda>x. c_Tracker_update (tc_ActiveStates_update (\<lambda>_. x))) c) (\<lambda>c.
     with_field ''tracker'' m ''terminal_states'' coerceStringSlice
               (\<lambda>x. c_Tracker_update (tc_TerminalStates_update (\<lambda>_. x))) c))))))"

definition decodePolling :: "(string \<times> any) list \<Rightarrow> config \<Rightarrow> cfg_error + config" where
  "decodePolling raw = with_section raw ''polling'' (\<lambda>m.
     with_field ''polling'' m ''interval_ms'' coerceInt
       (\<lambda>x. c_Polling_update (pc_IntervalMS_update (\<lambda>_. x))))"

definition decodeWorkspace :: "(string \<times> any) list \<Rightarrow> config \<Rightarrow> cfg_error + config" where
  "decodeWorkspace raw = with_section raw ''workspace'' (\<lambda>m.
     with_field ''workspace'' m ''root'' coerceString
       (\<lambda>x. c_Workspace_update (wc_Root_update (\<lambda>_. x))))"

definition decodeHooks :: "(string \<times> any) list \<Rightarrow> config \<Rightarrow> cfg_error + config" where
  "decodeHooks raw = with_section raw ''hooks'' (\<lambda>m c.
     andthen (with_field ''hooks'' m ''timeout_ms'' coerceInt
               (\<lambda>x. c_Hooks_update (hc_TimeoutMS_update (\<lambda>_. x))) c) (\<lambda>c.
     andthen (with_field ''hooks'' m ''after_create'' coerceString
               (\<lambda>x. c_Hooks_update (hc_AfterCreate_update (\<lambda>_. x))) c) (\<lambda>c.
     andthen (with_field ''hooks'' m ''before_run'' coerceString
               (\<lambda>x. c_Hooks_update (hc_BeforeRun_update (\<lambda>_. x))) c) (\<lambda>c.
     andthen (with_field ''hooks'' m ''after_run'' coerceString
               (\<lambda>x. c_Hooks_update (hc_AfterRun_update (\<lambda>_. x))) c) (\<lambda>c.
     with_field ''hooks'' m ''before_remove'' coerceString
               (\<lambda>x. c_Hooks_update (hc_BeforeRemove_update (\<lambda>_. x))) c)))))"

definition decodeAgent :: "(string \<times> any) list \<Rightarrow> config \<Rightarrow> cfg_error + config" where
  "decodeAgent raw = with_section raw ''agent'' (\<lambda>m c.
     andthen (with_field ''agent'' m ''max_concurrent_agents'' coerceInt
               (\<lambda>x. c_Agent_update (ac_MaxConcurrentAgents_update (\<lambda>_. x))) c) (\<lambda>c.
     andthen (with_field ''agent'' m ''max_concurrent_agents_by_state'' coercePerStateMap
               (\<lambda>x. c_Agent_update (ac_MaxConcurrentAgentsByState_update (\<lambda>_. x))) c) (\<lambda>c.
     andthen (with_field ''agent'' m ''max_turns'' coerceInt
               (\<lambda>x. c_Agent_update (ac_MaxTurns_update (\<lambda>_. x))) c) (\<lambda>c.
     with_field ''agent'' m ''max_retry_backoff_ms'' coerceInt
               (\<lambda>x. c_Agent_update (ac_MaxRetryBackoffMS_update (\<lambda>_. x))) c))))"

definition decodeServer :: "(string \<times> any) list \<Rightarrow> config \<Rightarrow> cfg_error + config" where
  "decodeServer raw = with_section raw ''server'' (\<lambda>m c.
     andthen (with_field ''server'' m ''port'' coerceInt
               (\<lambda>x. c_Server_update (sc_Port_update (\<lambda>_. x))) c) (\<lambda>c.
     with_field ''server'' m ''bind'' coerceString
               (\<lambda>x. c_Server_update (sc_Bind_update (\<lambda>_. x))) c))"

definition decodeCodex :: "(string \<times> any) list \<Rightarrow> config \<Rightarrow> cfg_error + config" where
  "decodeCodex raw = with_section raw ''codex'' (\<lambda>m c.
     andthen (with_field ''codex'' m ''command'' coerceString
               (\<lambda>x. c_Codex_update (cc_Command_update (\<lambda>_. x))) c) (\<lambda>c.
     andthen (with_field ''codex'' m ''turn_timeout_ms'' coerceInt
               (\<lambda>x. c_Codex_update (cc_TurnTimeoutMS_update (\<lambda>_. x))) c) (\<lambda>c.
     andthen (with_field ''codex'' m ''read_timeout_ms'' coerceInt
               (\<lambda>x. c_Codex_update (cc_ReadTimeoutMS_update (\<lambda>_. x))) c) (\<lambda>c.
     andthen (with_field ''codex'' m ''stall_timeout_ms'' coerceInt
               (\<lambda>x. c_Codex_update (cc_StallTimeoutMS_update (\<lambda>_. x))) c) (\<lambda>c.
     andthen (with_field ''codex'' m ''approval_policy'' coerceString
               (\<lambda>x. c_Codex_update (cc_ApprovalPolicy_update (\<lambda>_. x))) c) (\<lambda>c.
     andthen (with_field ''codex'' m ''thread_sandbox'' coerceString
               (\<lambda>x. c_Codex_update (cc_ThreadSandbox_update (\<lambda>_. x))) c) (\<lambda>c.
     with_field ''codex'' m ''turn_sandbox_policy'' coerceString
               (\<lambda>x. c_Codex_update (cc_TurnSandboxPolicy_update (\<lambda>_. x))) c)))))))"

section \<open>defaults.go\<close>

text \<open>A failed type assertion leaves a nil map, in which every key is absent.\<close>

definition section_map :: "(string \<times> any) list \<Rightarrow> string \<Rightarrow> (string \<times> any) list" where
  "section_map raw name = (case map_of raw name of Some (AMap m) \<Rightarrow> m | _ \<Rightarrow> [])"

definition absent :: "(string \<times> any) list \<Rightarrow> string \<Rightarrow> bool" where
  "absent m key \<longleftrightarrow> map_of m key = None"

definition TempDir :: "(string \<Rightarrow> string) \<Rightarrow> string" where
  "TempDir getenv = (if getenv ''TMPDIR'' = [] then ''/tmp'' else getenv ''TMPDIR'')"

definition default_to :: "bool \<Rightarrow> 'a \<Rightarrow> 'a \<Rightarrow> 'a" where
  "default_to unset d x = (if unset then d else x)"

definition applyServerDefaults :: "(string \<times> any) list \<Rightarrow> config \<Rightarrow> config" where
  "applyServerDefaults m = c_Server_update (sc_Bind_update
     (\<lambda>x. default_to (absent m ''bind'' \<and> x = []) ''127.0.0.1'' x))"

definition applyTrackerDefaults :: "(string \<times> any) list \<Rightarrow> config \<Rightarrow> config" where
  "applyTrackerDefaults m = c_Tracker_update (\<lambda>t.
     t\<lparr> tc_Endpoint := default_to (absent m ''endpoint'' \<and> tc_Kind t = ''linear'' \<and> tc_Endpoint t = [])
          ''https://api.linear.app/graphql'' (tc_Endpoint t),
        tc_ActiveStates := default_to (absent m ''active_states'' \<and> tc_ActiveStates t = [])
          [''Todo'', ''In Progress''] (tc_ActiveStates t),
        tc_TerminalStates := default_to (absent m ''terminal_states'' \<and> tc_TerminalStates t = [])
          [''Closed'', ''Cancelled'', ''Canceled'', ''Duplicate'', ''Done''] (tc_TerminalStates t) \<rparr>)"

definition applyAgentDefaults :: "(string \<times> any) list \<Rightarrow> config \<Rightarrow> config" where
  "applyAgentDefaults m = c_Agent_update (\<lambda>a.
     a\<lparr> ac_MaxConcurrentAgents :=
          default_to (absent m ''max_concurrent_agents'' \<and> ac_MaxConcurrentAgents a = 0) 10
            (ac_MaxConcurrentAgents a),
        ac_MaxTurns := default_to (absent m ''max_turns'' \<and> ac_MaxTurns a = 0) 20 (ac_MaxTurns a),
        ac_MaxRetryBackoffMS :=
          default_to (absent m ''max_retry_backoff_ms'' \<and> ac_MaxRetryBackoffMS a = 0) 300000
            (ac_MaxRetryBackoffMS a) \<rparr>)"

definition applyCodexDefaults :: "(string \<times> any) list \<Rightarrow> config \<Rightarrow> config" where
  "applyCodexDefaults m = c_Codex_update (\<lambda>x.
     x\<lparr> cc_Command := default_to (absent m ''command'' \<and> cc_Command x = []) ''codex app-server''
          (cc_Command x),
        cc_TurnTimeoutMS :=
          default_to (absent m ''turn_timeout_ms'' \<and> cc_TurnTimeoutMS x = 0) 3600000 (cc_TurnTimeoutMS x),
        cc_ReadTimeoutMS :=
          default_to (absent m ''read_timeout_ms'' \<and> cc_ReadTimeoutMS x = 0) 5000 (cc_ReadTimeoutMS x),
        cc_StallTimeoutMS :=
          default_to (absent m ''stall_timeout_ms'' \<and> cc_StallTimeoutMS x = 0) 300000
            (cc_StallTimeoutMS x) \<rparr>)"

definition applyDefaults :: "(string \<Rightarrow> string) \<Rightarrow> (string \<times> any) list \<Rightarrow> config \<Rightarrow> config" where
  "applyDefaults getenv raw c =
     (let c = applyTrackerDefaults (section_map raw ''tracker'') c;
          c = c_Polling_update (pc_IntervalMS_update (\<lambda>x.
                default_to (absent (section_map raw ''polling'') ''interval_ms'' \<and> x = 0) 30000 x)) c;
          c = c_Workspace_update (wc_Root_update (\<lambda>x.
                default_to (absent (section_map raw ''workspace'') ''root'' \<and> x = [])
                  (Join [TempDir getenv, ''symphony_workspaces'']) x)) c;
          c = c_Hooks_update (hc_TimeoutMS_update (\<lambda>x.
                default_to (absent (section_map raw ''hooks'') ''timeout_ms'' \<and> x = 0) 60000 x)) c;
          c = applyAgentDefaults (section_map raw ''agent'') c;
          c = applyCodexDefaults (section_map raw ''codex'') c
      in applyServerDefaults (section_map raw ''server'') c)"

section \<open>expand.go and platform/config/path.go\<close>

definition var_start :: "char \<Rightarrow> bool" where
  "var_start c \<longleftrightarrow> c = CHR ''_'' \<or> (65 \<le> (of_char c :: nat) \<and> (of_char c :: nat) \<le> 90)"

text \<open>The anchored pattern \<open>^\$([A-Z_][A-Z0-9_]*)$\<close>: the submatch is the variable's name.\<close>

definition varPattern :: "string \<Rightarrow> string option" where
  "varPattern s = (case s of
       CHR ''$'' # n # ns \<Rightarrow>
         if var_start n \<and> list_all (\<lambda>c. var_start c \<or> is_digit c) ns then Some (n # ns) else None
     | _ \<Rightarrow> None)"

definition expandVar :: "(string \<Rightarrow> string) \<Rightarrow> string \<Rightarrow> string" where
  "expandVar getenv s = (case varPattern s of None \<Rightarrow> s | Some v \<Rightarrow> getenv v)"

text \<open>\<open>os.UserHomeDir\<close> is \<open>$HOME\<close>, the empty string (and an ignored error) when unset.\<close>

definition ExpandPath :: "(string \<Rightarrow> string) \<Rightarrow> string \<Rightarrow> string" where
  "ExpandPath getenv p = (if HasPrefix p ''~'' then Join [getenv ''HOME'', drop 1 p] else p)"

definition expandPath :: "(string \<Rightarrow> string) \<Rightarrow> string \<Rightarrow> string" where
  "expandPath getenv s = expandVar getenv (ExpandPath getenv s)"

definition expandAPIKey :: "(string \<Rightarrow> string) \<Rightarrow> string \<Rightarrow> string" where
  "expandAPIKey getenv s = expandVar getenv s"

definition expandFields :: "(string \<Rightarrow> string) \<Rightarrow> config \<Rightarrow> config" where
  "expandFields getenv c =
     (let c = c_Tracker_update (tc_APIKey_update (expandAPIKey getenv)) c;
          c = (if tc_Kind (c_Tracker c) = ''linear'' \<and> tc_APIKey (c_Tracker c) = []
               then c_Tracker_update (tc_APIKey_update (\<lambda>_. getenv ''LINEAR_API_KEY'')) c else c)
      in c_Workspace_update (wc_Root_update (expandPath getenv)) c)"

definition normalizeWorkspaceRoot :: "string \<Rightarrow> config \<Rightarrow> config" where
  "normalizeWorkspaceRoot workflowDir c =
     (let root = wc_Root (c_Workspace c) in
      if root = [] then c
      else let root = (if \<not> IsAbs root then Join [workflowDir, root] else root)
           in c_Workspace_update (wc_Root_update (\<lambda>_. Clean root)) c)"

section \<open>validate.go and Resolve\<close>

definition validate :: "config \<Rightarrow> cfg_error option" where
  "validate c =
     (if hc_TimeoutMS (c_Hooks c) \<le> 0 then
        Some (ErrConfigValidation ''hooks.timeout_ms'' (hc_TimeoutMS (c_Hooks c)))
      else if ac_MaxTurns (c_Agent c) \<le> 0 then
        Some (ErrConfigValidation ''agent.max_turns'' (ac_MaxTurns (c_Agent c)))
      else if pc_IntervalMS (c_Polling c) \<le> 0 then
        Some (ErrConfigValidation ''polling.interval_ms'' (pc_IntervalMS (c_Polling c)))
      else if cc_TurnTimeoutMS (c_Codex c) \<le> 0 then
        Some (ErrConfigValidation ''codex.turn_timeout_ms'' (cc_TurnTimeoutMS (c_Codex c)))
      else if cc_ReadTimeoutMS (c_Codex c) \<le> 0 then
        Some (ErrConfigValidation ''codex.read_timeout_ms'' (cc_ReadTimeoutMS (c_Codex c)))
      else None)"

definition decode_all :: "(string \<times> any) list \<Rightarrow> cfg_error + config" where
  "decode_all raw =
     andthen (decodeTracker raw zero_config) (\<lambda>c.
     andthen (decodePolling raw c) (\<lambda>c.
     andthen (decodeWorkspace raw c) (\<lambda>c.
     andthen (decodeHooks raw c) (\<lambda>c.
     andthen (decodeAgent raw c) (\<lambda>c.
     andthen (decodeCodex raw c) (\<lambda>c.
     decodeServer raw c))))))"

text \<open>\<open>Resolve\<close> returns the configuration together with the error, as the Go function does.\<close>

definition Resolve ::
  "(string \<Rightarrow> string) \<Rightarrow> (string \<times> any) list \<Rightarrow> string \<Rightarrow> config \<times> cfg_error option" where
  "Resolve getenv raw workflowDir =
     (case decode_all raw of
        Inl e \<Rightarrow> (zero_config, Some e)
      | Inr c \<Rightarrow>
          let c = applyDefaults getenv raw c;
              c = expandFields getenv c;
              c = normalizeWorkspaceRoot workflowDir c
          in (c, validate c))"

section \<open>Properties\<close>

lemma andthen_Inr_iff: "andthen r f = Inr y \<longleftrightarrow> (\<exists>x. r = Inr x \<and> f x = Inr y)"
  by (cases r) (auto simp: andthen_def)

lemma andthen_Inr [simp]: "andthen (Inr x) f = f x"
  by (simp add: andthen_def)

text \<open>
  A decoder keeps a predicate of the configuration when it holds after every successful decoding of
  a configuration that had it; sequencing, fields and sections compose such decoders.
\<close>

definition keeps :: "(config \<Rightarrow> bool) \<Rightarrow> (config \<Rightarrow> cfg_error + config) \<Rightarrow> bool" where
  "keeps P f \<longleftrightarrow> (\<forall>c c'. f c = Inr c' \<longrightarrow> P c \<longrightarrow> P c')"

lemma keepsD: "keeps P f \<Longrightarrow> f c = Inr c' \<Longrightarrow> P c \<Longrightarrow> P c'"
  by (auto simp: keeps_def)

lemma keeps_andthen: "keeps P f \<Longrightarrow> keeps P g \<Longrightarrow> keeps P (\<lambda>c. andthen (f c) g)"
  unfolding keeps_def andthen_Inr_iff by blast

lemma keeps_field:
  "(\<And>v x c. co v = Inr x \<Longrightarrow> P c \<Longrightarrow> P (upd x c)) \<Longrightarrow> keeps P (with_field sec m k co upd)"
  by (auto simp: keeps_def with_field_def split: option.splits sum.splits)

lemma keeps_section: "(\<And>m. keeps P (f m)) \<Longrightarrow> keeps P (with_section raw name f)"
  by (auto simp: keeps_def with_section_def split: option.splits any.splits)

lemmas keeps_intros = keeps_section keeps_andthen keeps_field

definition caps_ok :: "(string, int) fmap \<Rightarrow> bool" where
  "caps_ok m \<longleftrightarrow> fmpred (\<lambda>k n. ToLower k = k \<and> 0 < n) m"

definition cfg_caps_ok :: "config \<Rightarrow> bool" where
  "cfg_caps_ok c \<longleftrightarrow> caps_ok (ac_MaxConcurrentAgentsByState (c_Agent c))"

lemma caps_ok_step: "caps_ok out \<Longrightarrow> caps_ok (per_state_step out kv)"
  by (auto simp: per_state_step_def caps_ok_def fmpred_upd split: sum.splits)

lemma coercePerStateMap_ok: "coercePerStateMap v = Inr m \<Longrightarrow> caps_ok m"
proof -
  have "caps_ok out \<Longrightarrow> caps_ok (foldl per_state_step out raw)" for out raw
    by (induction raw arbitrary: out) (simp_all add: caps_ok_step)
  moreover have "caps_ok fmempty" by (simp add: caps_ok_def)
  moreover assume "coercePerStateMap v = Inr m"
  ultimately show ?thesis by (auto simp: coercePerStateMap_def split: any.splits)
qed

lemmas decode_defs = decodeTracker_def decodePolling_def decodeWorkspace_def decodeHooks_def
  decodeAgent_def decodeCodex_def decodeServer_def

lemma decode_keeps_caps:
  "keeps cfg_caps_ok (decodeTracker raw)" "keeps cfg_caps_ok (decodePolling raw)"
  "keeps cfg_caps_ok (decodeWorkspace raw)" "keeps cfg_caps_ok (decodeHooks raw)"
  "keeps cfg_caps_ok (decodeAgent raw)" "keeps cfg_caps_ok (decodeCodex raw)"
  "keeps cfg_caps_ok (decodeServer raw)"
  unfolding decode_defs
  by (intro keeps_intros; simp add: cfg_caps_ok_def coercePerStateMap_ok)+

lemma decode_all_caps: "decode_all raw = Inr c \<Longrightarrow> cfg_caps_ok c"
proof -
  have "keeps cfg_caps_ok (\<lambda>c. andthen (decodeTracker raw c) (\<lambda>c.
     andthen (decodePolling raw c) (\<lambda>c. andthen (decodeWorkspace raw c) (\<lambda>c.
     andthen (decodeHooks raw c) (\<lambda>c. andthen (decodeAgent raw c) (\<lambda>c.
     andthen (decodeCodex raw c) (decodeServer raw)))))))"
    by (intro keeps_andthen decode_keeps_caps)
  moreover have "cfg_caps_ok zero_config"
    by (simp add: cfg_caps_ok_def zero_config_def caps_ok_def)
  moreover assume "decode_all raw = Inr c"
  ultimately show ?thesis by (auto simp: decode_all_def dest!: keepsD)
qed

lemma defaults_caps [simp]: "cfg_caps_ok (applyDefaults getenv raw c) = cfg_caps_ok c"
  by (simp add: cfg_caps_ok_def applyDefaults_def applyTrackerDefaults_def applyAgentDefaults_def
      applyCodexDefaults_def applyServerDefaults_def Let_def)

lemma expandFields_caps [simp]: "cfg_caps_ok (expandFields getenv c) = cfg_caps_ok c"
  by (simp add: cfg_caps_ok_def expandFields_def Let_def)

lemma normalize_caps [simp]: "cfg_caps_ok (normalizeWorkspaceRoot dir c) = cfg_caps_ok c"
  by (simp add: cfg_caps_ok_def normalizeWorkspaceRoot_def Let_def)

lemma validate_None_iff:
  "validate c = None \<longleftrightarrow> 0 < hc_TimeoutMS (c_Hooks c) \<and> 0 < ac_MaxTurns (c_Agent c) \<and>
     0 < pc_IntervalMS (c_Polling c) \<and> 0 < cc_TurnTimeoutMS (c_Codex c) \<and>
     0 < cc_ReadTimeoutMS (c_Codex c)"
  by (auto simp: validate_def)

lemma normalize_root:
  "wc_Root (c_Workspace (normalizeWorkspaceRoot dir c)) =
     (let root = wc_Root (c_Workspace c)
      in if root = [] then [] else Clean (if IsAbs root then root else Join [dir, root]))"
  by (simp add: normalizeWorkspaceRoot_def Let_def)

text \<open>
  C16: A configuration that \<open>Resolve\<close> returns without an error is usable: the five timeouts and
  limits that the service divides its work by are positive, every per-state concurrency cap is
  positive and stored under a lower-case state name, and the workspace root is a cleaned path,
  absolute whenever the directory of WORKFLOW.md is, unless it is the empty string.
\<close>

theorem Resolve_usable:
  assumes "Resolve getenv raw dir = (c, None)"
  shows "0 < hc_TimeoutMS (c_Hooks c) \<and> 0 < ac_MaxTurns (c_Agent c) \<and>
    0 < pc_IntervalMS (c_Polling c) \<and> 0 < cc_TurnTimeoutMS (c_Codex c) \<and>
    0 < cc_ReadTimeoutMS (c_Codex c) \<and>
    fmpred (\<lambda>k n. ToLower k = k \<and> 0 < n) (ac_MaxConcurrentAgentsByState (c_Agent c)) \<and>
    (wc_Root (c_Workspace c) = [] \<or> (Clean (wc_Root (c_Workspace c)) = wc_Root (c_Workspace c) \<and>
       (IsAbs dir \<longrightarrow> IsAbs (wc_Root (c_Workspace c)))))"
proof -
  obtain c0 where c0: "decode_all raw = Inr c0"
    "c = normalizeWorkspaceRoot dir (expandFields getenv (applyDefaults getenv raw c0))"
    "validate c = None"
    using assms by (auto simp: Resolve_def Let_def split: sum.splits)
  have "fmpred (\<lambda>k n. ToLower k = k \<and> 0 < n) (ac_MaxConcurrentAgentsByState (c_Agent c))"
    using decode_all_caps [OF c0(1)] c0(2) by (fold caps_ok_def cfg_caps_ok_def) simp
  moreover have "wc_Root (c_Workspace c) = [] \<or>
      (Clean (wc_Root (c_Workspace c)) = wc_Root (c_Workspace c) \<and>
       (IsAbs dir \<longrightarrow> IsAbs (wc_Root (c_Workspace c))))"
    unfolding c0(2) by (auto simp: normalize_root Let_def IsAbs_Join)
  ultimately show ?thesis using c0(3) by (simp add: validate_None_iff)
qed

definition demo_raw :: "(string \<times> any) list" where
  "demo_raw = [(''agent'', AMap [(''max_turns'', AStr ''7''),
       (''max_concurrent_agents_by_state'', AMap [(''In Progress'', AInt 2), (''Todo'', AInt 0)])]),
     (''workspace'', AMap [(''root'', AStr ''ws/../issues'')])]"

theorem Resolve_usable_witness:
  "(let c = fst (Resolve (\<lambda>_. []) demo_raw ''/srv'') in
     ac_MaxTurns (c_Agent c) = 7 \<and> 0 < ac_MaxTurns (c_Agent c) \<and>
     wc_Root (c_Workspace c) = ''/srv/issues'' \<and> IsAbs (wc_Root (c_Workspace c)))"
proof -
  have r: "snd (Resolve (\<lambda>_. []) demo_raw ''/srv'') = None"
    "ac_MaxTurns (c_Agent (fst (Resolve (\<lambda>_. []) demo_raw ''/srv''))) = 7"
    "wc_Root (c_Workspace (fst (Resolve (\<lambda>_. []) demo_raw ''/srv''))) = ''/srv/issues''"
    by code_simp+
  moreover have "IsAbs ''/srv''" by code_simp
  ultimately show ?thesis
    using Resolve_usable [of "\<lambda>_. []" demo_raw "''/srv''" "fst (Resolve (\<lambda>_. []) demo_raw ''/srv'')"]
    by (simp add: Let_def prod_eq_iff)
qed



text \<open>
  The front matter that spells out every field of a configuration.
\<close>

definition encode_caps :: "(string, int) fmap \<Rightarrow> any" where
  "encode_caps m = AMap (map (\<lambda>k. (k, AInt (the (fmlookup m k)))) (sorted_keys m))"

definition front_matter :: "config \<Rightarrow> (string \<times> any) list" where
  "front_matter c =
    [(''tracker'', AMap [(''kind'', AStr (tc_Kind (c_Tracker c))),
        (''endpoint'', AStr (tc_Endpoint (c_Tracker c))),
        (''api_key'', AStr (tc_APIKey (c_Tracker c))),
        (''project_slugs'', AList (map AStr (tc_ProjectSlugs (c_Tracker c)))),
        (''active_states'', AList (map AStr (tc_ActiveStates (c_Tracker c)))),
        (''terminal_states'', AList (map AStr (tc_TerminalStates (c_Tracker c))))]),
     (''polling'', AMap [(''interval_ms'', AInt (pc_IntervalMS (c_Polling c)))]),
     (''workspace'', AMap [(''root'', AStr (wc_Root (c_Workspace c)))]),
     (''hooks'', AMap [(''timeout_ms'', AInt (hc_TimeoutMS (c_Hooks c))),
        (''after_create'', AStr (hc_AfterCreate (c_Hooks c))),
        (''before_run'', AStr (hc_BeforeRun (c_Hooks c))),
        (''after_run'', AStr (hc_AfterRun (c_Hooks c))),
        (''before_remove'', AStr (hc_BeforeRemove (c_Hooks c)))]),
     (''agent'', AMap [(''max_concurrent_agents'', AInt (ac_MaxConcurrentAgents (c_Agent c))),
        (''max_concurrent_agents_by_state'', encode_caps (ac_MaxConcurrentAgentsByState (c_Agent c))),
        (''max_turns'', AInt (ac_MaxTurns (c_Agent c))),
        (''max_retry_backoff_ms'', AInt (ac_MaxRetryBackoffMS (c_Agent c)))]),
     (''codex'', AMap [(''command'', AStr (cc_Command (c_Codex c))),
        (''turn_timeout_ms'', AInt (cc_TurnTimeoutMS (c_Codex c))),
        (''read_timeout_ms'', AInt (cc_ReadTimeoutMS (c_Codex c))),
        (''stall_timeout_ms'', AInt (cc_StallTimeoutMS (c_Codex c))),
        (''approval_policy'', AStr (cc_ApprovalPolicy (c_Codex c))),
        (''thread_sandbox'', AStr (cc_ThreadSandbox (c_Codex c))),
        (''turn_sandbox_policy'', AStr (cc_TurnSandboxPolicy (c_Codex c)))]),
     (''server'', AMap [(''port'', AInt (sc_Port (c_Server c))),
        (''bind'', AStr (sc_Bind (c_Server c)))])]"

lemma coerce_elems_map: "coerce_elems (map AStr xs) out = Inr (out @ xs)"
  by (induction xs arbitrary: out) simp_all

lemma coerce_simps [simp]:
  "coerceInt (AInt n) = Inr n" "coerceString (AStr s) = Inr s"
  "coerceStringSlice (AList (map AStr xs)) = Inr xs"
  by (simp_all add: coerceInt_def coerceString_def coerceStringSlice_def coerce_elems_map)

lemma per_state_fold:
  assumes "caps_ok m" "distinct ks" "set ks \<subseteq> fset (fmdom m)"
  shows "fmlookup (foldl per_state_step out (map (\<lambda>k. (k, AInt (the (fmlookup m k)))) ks)) k =
     (if k \<in> set ks then fmlookup m k else fmlookup out k)"
  using assms(2,3)
proof (induction ks arbitrary: out)
  case (Cons a ks)
  then obtain n where n: "fmlookup m a = Some n"
    by (auto simp: fmdom'_alt_def [symmetric] fmlookup_dom'_iff)
  with assms(1) have "ToLower a = a" "0 < n" by (auto simp: caps_ok_def fmpred_iff)
  with Cons n show ?case by (auto simp: per_state_step_def)
qed simp

lemma coercePerStateMap_encode:
  "caps_ok m \<Longrightarrow> coercePerStateMap (encode_caps m) = Inr m"
  by (auto simp: coercePerStateMap_def encode_caps_def per_state_fold fmdom_notD
      intro!: fmap_ext)

text \<open>
  C17: Decoding inverts spelling out. A configuration written out field by field is decoded to
  itself, so that only the expansion of the key and path fields, the normalisation of the workspace
  root and the validation act on it: no default ever replaces an explicit value, zeros and empty
  strings included. Per-state caps survive when they are positive and under lower-case names.
\<close>

theorem Resolve_front_matter:
  assumes "caps_ok (ac_MaxConcurrentAgentsByState (c_Agent c))"
  shows "Resolve getenv (front_matter c) dir =
     (let c' = normalizeWorkspaceRoot dir (expandFields getenv c) in (c', validate c'))"
proof -
  have "decode_all (front_matter c) = Inr c"
    using assms
    by (simp add: decode_all_def decode_defs with_section_def with_field_def front_matter_def
        zero_config_def coercePerStateMap_encode)
  moreover have "applyDefaults getenv (front_matter c) c = c"
    by (simp add: applyDefaults_def applyTrackerDefaults_def applyAgentDefaults_def
        applyCodexDefaults_def applyServerDefaults_def default_to_def absent_def section_map_def
        front_matter_def Let_def)
  ultimately show ?thesis by (simp add: Resolve_def Let_def)
qed

theorem Resolve_front_matter_witness:
  "Resolve (\<lambda>_. []) (front_matter zero_config) ''/srv'' =
     (zero_config, Some (ErrConfigValidation ''hooks.timeout_ms'' 0))"
proof -
  have "caps_ok (ac_MaxConcurrentAgentsByState (c_Agent zero_config))"
    by (simp add: zero_config_def caps_ok_def)
  then show ?thesis
    using Resolve_front_matter [of zero_config "\<lambda>_. []" "''/srv''"]
    by (simp add: zero_config_def Let_def expandFields_def expandAPIKey_def expandPath_def
        ExpandPath_def expandVar_def varPattern_def HasPrefix_def normalizeWorkspaceRoot_def
        validate_def)
qed



end
