(* ===== verification/Workspace.thy ===== *)
theory Workspace
  imports Wfconfig
begin

text \<open>
  Package \<open>orchestrator/workspace\<close>: the per-issue workspace directories. The file system is a finite
  map from cleaned paths to nodes. A shell hook is a parameter that says what the script does to the
  file system and whether it succeeds; \<open>os_err\<close> says which file system calls fail for reasons
  outside the model (permissions, a full disk).
\<close>

section \<open>The file system\<close>

datatype node = Dir | File

type_synonym fs = "(string, node) fmap"

datatype ws_error =
    ErrPathEscapesRoot string
  | ErrNotDirectory string
  | ErrCWDMismatch string
  | ErrHookFailed string
  | ErrSymlinkEscapesRoot string
  | OSError string string

type_synonym hook_exec = "string \<Rightarrow> string \<Rightarrow> string list \<Rightarrow> fs \<Rightarrow> fs \<times> bool"

text \<open>\<open>p\<close> itself and everything below it.\<close>

definition under :: "string \<Rightarrow> string \<Rightarrow> bool" where
  "under p q \<longleftrightarrow> q = p \<or> HasPrefix q (p @ ''/'')"

definition RemoveAll :: "string \<Rightarrow> fs \<Rightarrow> fs" where
  "RemoveAll p fs = fmfilter (\<lambda>q. \<not> under p q) fs"

text \<open>The directories that \<open>os.MkdirAll\<close> makes: \<open>p\<close> and its ancestors.\<close>

definition mkdir_paths :: "string \<Rightarrow> string list" where
  "mkdir_paths p = map (\<lambda>n. render_path (IsAbs p) (take (Suc n) (clean_comps p)))
     [0..<length (clean_comps p)]"

definition MkdirAll :: "string \<Rightarrow> fs \<Rightarrow> fs option" where
  "MkdirAll p fs =
     (if list_ex (\<lambda>q. fmlookup fs q = Some File) (mkdir_paths p) then None
      else Some (fold (\<lambda>q. fmupd q Dir) (mkdir_paths p) fs))"

section \<open>workspace.go\<close>

record manager =
  m_root :: string
  m_hooks :: hooks_config

definition New :: "config \<Rightarrow> manager" where
  "New cfg = \<lparr> m_root = Clean (wc_Root (c_Workspace cfg)), m_hooks = c_Hooks cfg \<rparr>"

definition key_char :: "char \<Rightarrow> bool" where
  "key_char c \<longleftrightarrow> in_range 65 90 c \<or> in_range 97 122 c \<or> in_range 48 57 c \<or>
     c \<in> {CHR ''.'', CHR ''_'', CHR ''-''}"

function sanitizeKey :: "string \<Rightarrow> string" where
  "sanitizeKey [] = []"
| "sanitizeKey (c # s) =
     (if key_char c then c else CHR ''_'') # sanitizeKey (drop (rune_width c s - 1) s)"
  by pat_completeness auto
termination by (relation "measure length") simp_all

definition escapes :: "string option \<Rightarrow> bool" where
  "escapes rel \<longleftrightarrow> (case rel of
       None \<Rightarrow> True
     | Some r \<Rightarrow> r = ''.'' \<or> r = ''..'' \<or> HasPrefix r ''../'')"

definition Path :: "manager \<Rightarrow> string \<Rightarrow> ws_error + string" where
  "Path m identifier =
     (let key = sanitizeKey identifier;
          p = Clean (Join [m_root m, key])
      in if escapes (Rel (m_root m) p) then Inl (ErrPathEscapesRoot identifier) else Inr p)"

definition Abs :: "string \<Rightarrow> string \<Rightarrow> string" where
  "Abs getwd p = (if IsAbs p then Clean p else Join [getwd, p])"

definition VerifyCWD ::
  "string \<Rightarrow> (string \<Rightarrow> string option) \<Rightarrow> manager \<Rightarrow> string \<Rightarrow> string \<Rightarrow> ws_error option" where
  "VerifyCWD getwd EvalSymlinks m identifier cwd =
     (case Path m identifier of
        Inl e \<Rightarrow> Some e
      | Inr expected \<Rightarrow>
          let abs = Abs getwd cwd in
          if Clean abs \<noteq> expected then Some (ErrCWDMismatch cwd)
          else (case EvalSymlinks abs of
              None \<Rightarrow> Some (ErrCWDMismatch cwd)
            | Some realCWD \<Rightarrow>
                (case EvalSymlinks (m_root m) of
                   None \<Rightarrow> Some (ErrCWDMismatch cwd)
                 | Some realRoot \<Rightarrow>
                     if escapes (Rel realRoot realCWD) then Some (ErrSymlinkEscapesRoot cwd)
                     else None)))"

section \<open>hooks.go\<close>

definition branchEnv :: "string \<Rightarrow> string list" where
  "branchEnv branch = [''ROOST_PROJECT_BRANCH'' @ ''='' @ branch]"

definition runHook ::
  "hook_exec \<Rightarrow> string \<Rightarrow> string \<Rightarrow> string \<Rightarrow> string list \<Rightarrow> fs \<Rightarrow> fs \<times> ws_error option" where
  "runHook exec name script cwd extraEnv fs =
     (if script = [] then (fs, None)
      else case exec script cwd extraEnv fs of
          (fs', ok) \<Rightarrow> (fs', if ok then None else Some (ErrHookFailed name)))"

definition BeforeRun ::
  "hook_exec \<Rightarrow> manager \<Rightarrow> string \<Rightarrow> string \<Rightarrow> fs \<Rightarrow> fs \<times> ws_error option" where
  "BeforeRun exec m identifier branch fs =
     (case Path m identifier of
        Inl e \<Rightarrow> (fs, Some e)
      | Inr p \<Rightarrow> runHook exec ''before_run'' (hc_BeforeRun (m_hooks m)) p (branchEnv branch) fs)"

definition AfterRun :: "hook_exec \<Rightarrow> manager \<Rightarrow> string \<Rightarrow> string \<Rightarrow> fs \<Rightarrow> fs" where
  "AfterRun exec m identifier branch fs =
     (case Path m identifier of
        Inl e \<Rightarrow> fs
      | Inr p \<Rightarrow> fst (runHook exec ''after_run'' (hc_AfterRun (m_hooks m)) p (branchEnv branch) fs))"

definition truncateOutput :: "string \<Rightarrow> nat \<Rightarrow> string" where
  "truncateOutput b mx = (if length b > mx then take mx b else b)"

section \<open>ensure.go\<close>

definition ensureDir :: "(string \<Rightarrow> string \<Rightarrow> bool) \<Rightarrow> string \<Rightarrow> fs \<Rightarrow> fs \<times> (ws_error + bool)" where
  "ensureDir os_err p fs =
     (if os_err ''stat'' p \<or> list_ex (\<lambda>q. fmlookup fs q = Some File) (butlast (mkdir_paths p))
      then (fs, Inl (OSError ''stat'' p))
      else case fmlookup fs p of
          Some File \<Rightarrow> (fs, Inl (ErrNotDirectory p))
        | Some Dir \<Rightarrow> (fs, Inr False)
        | None \<Rightarrow>
            if os_err ''mkdir'' p then (fs, Inl (OSError ''mkdir'' p))
            else (case MkdirAll p fs of
                None \<Rightarrow> (fs, Inl (OSError ''mkdir'' p))
              | Some fs' \<Rightarrow> (fs', Inr True)))"

definition Ensure ::
  "(string \<Rightarrow> string \<Rightarrow> bool) \<Rightarrow> hook_exec \<Rightarrow> manager \<Rightarrow> string \<Rightarrow> string \<Rightarrow> fs \<Rightarrow>
   fs \<times> (ws_error + string)" where
  "Ensure os_err exec m identifier branch fs =
     (case Path m identifier of
        Inl e \<Rightarrow> (fs, Inl e)
      | Inr p \<Rightarrow>
          (case ensureDir os_err p fs of
             (fs, Inl e) \<Rightarrow> (fs, Inl e)
           | (fs, Inr createdNow) \<Rightarrow>
               if createdNow then
                 (case runHook exec ''after_create'' (hc_AfterCreate (m_hooks m)) p (branchEnv branch) fs of
                    (fs, Some hookErr) \<Rightarrow>
                      (if os_err ''remove'' p then fs else RemoveAll p fs, Inl hookErr)
                  | (fs, None) \<Rightarrow> (fs, Inr p))
               else (fs, Inr p)))"

definition Remove ::
  "(string \<Rightarrow> string \<Rightarrow> bool) \<Rightarrow> hook_exec \<Rightarrow> manager \<Rightarrow> string \<Rightarrow> fs \<Rightarrow> fs \<times> ws_error option" where
  "Remove os_err exec m identifier fs =
     (case Path m identifier of
        Inl e \<Rightarrow> (fs, Some e)
      | Inr p \<Rightarrow>
          let fs = fst (runHook exec ''before_remove'' (hc_BeforeRemove (m_hooks m)) p [] fs)
          in if os_err ''remove'' p then (fs, Some (OSError ''remove'' p)) else (RemoveAll p fs, None))"

section \<open>Properties\<close>

lemma rune_width_pos: "0 < rune_width b s"
  by (auto simp: rune_width_def split: list.splits)

lemma key_char_not_slash: "\<not> key_char slash"
  by (simp add: key_char_def in_range_def)

lemma sanitizeKey_chars: "c \<in> set (sanitizeKey s) \<Longrightarrow> key_char c"
proof (induction s rule: sanitizeKey.induct)
  case (2 b s)
  then show ?case by (auto simp: key_char_def split: if_splits)
qed simp

lemma sanitizeKey_no_slash: "slash \<notin> set (sanitizeKey s)"
  using sanitizeKey_chars key_char_not_slash by blast

lemma sanitizeKey_id:
  "(\<forall>c\<in>set s. key_char c) \<Longrightarrow> sanitizeKey s = s"
proof (induction s rule: sanitizeKey.induct)
  case (2 c s)
  have "of_char c < (0x80 :: nat)" using 2(2) by (auto simp: key_char_def in_range_def)
  then have "rune_width c s = 1"
    by (auto simp: rune_width_def in_range_def split: list.splits)
  with 2 show ?case by simp
qed simp

definition manager_ok :: "manager \<Rightarrow> bool" where
  "manager_ok m \<longleftrightarrow> Clean (m_root m) = m_root m"

lemma New_ok: "manager_ok (New cfg)"
  by (simp add: manager_ok_def New_def)


lemma Rel_cleaned:
  assumes "Clean root = root" "Clean p = p" "IsAbs p = IsAbs root"
  shows "Rel root p = (if p = root then Some ''.'' else map_option (join_with [slash])
     (rel_comps (clean_comps root) (if p = ''.'' then [''.''] else clean_comps p)))"
  using assms by (simp add: Rel_def Let_def)

lemma escapes_dots: "rs \<noteq> [] \<Longrightarrow> hd rs = ''..'' \<Longrightarrow> escapes (Some (join_with [slash] rs))"
  using join_dots [of rs] by (auto simp: escapes_def)

lemma rel_comps_up: "x \<noteq> y \<Longrightarrow> x \<noteq> ''..'' \<Longrightarrow> rel_comps (bs @ [x]) bs = Some [''..'']"
  by (induction bs) simp_all

lemma Path_parent_escapes:
  assumes root: "Clean root = root"
  shows "escapes (Rel root (Clean (Join [root, ''..''])))"
proof -
  define p where "p = Clean (Join [root, ''..''])"
  have ne: "root \<noteq> []" using root Clean_not_Nil by metis
  have abs: "IsAbs p = IsAbs root" and pp: "Clean p = p"
    and comps: "clean_comps p = rev (clean_step (IsAbs root) (rev (clean_comps root)) ''..'')"
    using ne by (simp_all add: p_def Join_def clean_comps_Clean clean_comps_child)
  note rel = Rel_cleaned [OF root pp abs]
  have "escapes (Rel root p)"
  proof (cases "clean_comps root" rule: rev_cases)
    case Nil
    show ?thesis
    proof (cases "IsAbs root")
      case True
      with Nil comps have "clean_comps p = clean_comps root" by (simp add: clean_step_def)
      then have "p = root" using render_clean_comps [OF root] render_clean_comps [OF pp] abs by simp
      then show ?thesis using rel by (simp add: escapes_def)
    next
      case False
      with Nil comps have c: "clean_comps p = [''..'']" by (simp add: clean_step_def)
      then have "p \<noteq> ''.''" by auto
      then show ?thesis using rel Nil c by (auto simp: escapes_def)
    qed
  next
    case (snoc bs x)
    show ?thesis
    proof (cases "x = ''..''")
      case True
      with snoc comps have c: "clean_comps p = clean_comps root @ [''..'']" by (simp add: clean_step_def)
      then have "p \<noteq> ''.''" by auto
      then show ?thesis using rel c by (auto simp: rel_comps_prefix escapes_def)
    next
      case False
      with snoc comps have c: "clean_comps p = bs" by (simp add: clean_step_def)
      have x: "plain x" using normal_member [OF normal_clean_comps [of root], of x] snoc False by simp
      have "\<exists>rs. rel_comps (clean_comps root) (if p = ''.'' then [''.''] else bs) = Some rs \<and>
          rs \<noteq> [] \<and> hd rs = ''..''"
        using c snoc x by (auto simp: plain_def rel_comps_up)
      then show ?thesis using rel c escapes_dots by (auto simp: escapes_def)
    qed
  qed
  then show ?thesis by (simp add: p_def)
qed

lemma Path_self_escapes:
  assumes "Clean root = root" "k = [] \<or> k = ''.''"
  shows "escapes (Rel root (Clean (Join [root, k])))"
proof -
  have ne: "root \<noteq> []" using assms(1) Clean_not_Nil by metis
  have "Clean (root @ ''/.'') = root"
    using Clean_normal_form [of "root @ ''/.''"] render_clean_comps [OF assms(1)] ne
    by (simp add: clean_comps_child clean_step_def)
  then have "Clean (Join [root, k]) = root" using assms ne by (auto simp: Join_def)
  then show ?thesis using assms(1) by (simp add: Rel_def escapes_def)
qed

lemma Path_child_inside:
  assumes "Clean root = root" "plain k"
  shows "\<not> escapes (Rel root (Join [root, k]))" "Clean (Join [root, k]) = Join [root, k]"
proof -
  note child = Join_child [OF assms]
  show pp: "Clean (Join [root, k]) = Join [root, k]"
    using assms(2) by (simp add: Join_def plain_def)
  have "Join [root, k] \<noteq> root" using child(2) by auto
  moreover have "Join [root, k] \<noteq> ''.''" using child(2) by auto
  ultimately have "Rel root (Join [root, k]) = Some k"
    using Rel_cleaned [OF assms(1) pp child(3)] child(2) by (simp add: rel_comps_prefix)
  moreover have "\<not> HasPrefix k ''../''"
    using assms(2) by (auto simp: plain_def HasPrefix_def dest!: arg_cong [of _ _ set]
        dest: in_set_takeD)
  ultimately show "\<not> escapes (Rel root (Join [root, k]))"
    using assms(2) by (simp add: escapes_def plain_def)
qed

lemma Path_eq:
  assumes "manager_ok m"
  shows "Path m i = (if sanitizeKey i \<in> {[], ''.'', ''..''} then Inl (ErrPathEscapesRoot i)
     else Inr (Join [m_root m, sanitizeKey i]))"
proof -
  note root = assms [unfolded manager_ok_def]
  have "plain (sanitizeKey i)" if "sanitizeKey i \<notin> {[], ''.'', ''..''}"
    using that sanitizeKey_no_slash by (simp add: plain_def)
  then show ?thesis
    using Path_parent_escapes [OF root] Path_self_escapes [OF root] Path_child_inside [OF root]
    by (simp add: Path_def Let_def)
qed

text \<open>
  C11: The path guard of a manager built by \<open>New\<close> is exact. An identifier is refused only when its
  sanitised key is empty, a dot or two dots; otherwise the path is the root extended by exactly one
  component, which is that key, made of the characters \<open>[A-Za-z0-9._-]\<close> only. No identifier reaches
  the root itself, a parent, a sibling or a nested directory.
\<close>

theorem Path_contained:
  "case Path (New cfg) i of
     Inl e \<Rightarrow> e = ErrPathEscapesRoot i \<and> sanitizeKey i \<in> {[], ''.'', ''..''}
   | Inr p \<Rightarrow> sanitizeKey i \<notin> {[], ''.'', ''..''} \<and> list_all key_char (sanitizeKey i) \<and>
       Clean p = p \<and> IsAbs p = IsAbs (m_root (New cfg)) \<and>
       clean_comps p = clean_comps (m_root (New cfg)) @ [sanitizeKey i]"
proof -
  have root: "Clean (m_root (New cfg)) = m_root (New cfg)"
    using New_ok by (simp add: manager_ok_def)
  have "plain (sanitizeKey i)" if "sanitizeKey i \<notin> {[], ''.'', ''..''}"
    using that sanitizeKey_no_slash by (simp add: plain_def)
  then show ?thesis
    using Join_child [OF root] Path_child_inside(2) [OF root]
    by (auto simp: Path_eq [OF New_ok] list_all_iff dest: sanitizeKey_chars)
qed

lemma not_escapes_inside:
  assumes "\<not> escapes (Rel r c)" "IsAbs r"
  shows "\<exists>rest. rest \<noteq> [] \<and> clean_comps c = clean_comps r @ rest \<and> IsAbs c"
proof -
  have ne: "Clean c \<noteq> Clean r" "IsAbs c"
    using assms by (auto simp: Rel_def Let_def escapes_def split: if_splits)
  have r: "r \<noteq> []" using assms(2) by (simp add: IsAbs_iff)
  have c: "c \<noteq> []" using ne(2) by (simp add: IsAbs_iff)
  have "\<not> IsAbs ''.''" by (simp add: IsAbs_iff)
  with ne(2) have dot: "Clean c \<noteq> ''.''" by (metis IsAbs_Clean)
  have "Rel r c = map_option (join_with [slash]) (rel_comps (clean_comps r) (clean_comps c))"
    using assms(2) ne c r dot by (simp add: Rel_def Let_def clean_comps_Clean)
  moreover have "escapes None" by (simp add: escapes_def)
  ultimately obtain rs where rs: "rel_comps (clean_comps r) (clean_comps c) = Some rs"
    "\<not> escapes (Some (join_with [slash] rs))"
    using assms(1) by (cases "rel_comps (clean_comps r) (clean_comps c)") simp_all
  have "rs = [] \<or> hd rs \<noteq> ''..''" using rs(2) escapes_dots by blast
  then have app: "clean_comps c = clean_comps r @ rs" by (rule rel_comps_inside [OF rs(1)])
  have "clean_comps c \<noteq> clean_comps r"
    using ne assms(2) Clean_normal_form [OF c] Clean_normal_form [OF r] by auto
  with app ne show ?thesis by auto
qed

text \<open>
  C21: A working directory that \<open>VerifyCWD\<close> accepts is the workspace path of the identifier, and the
  directory it resolves to lies strictly below the resolved root, whatever symbolic links do (with
  a root that resolves to an absolute path).
\<close>

theorem VerifyCWD_inside:
  assumes "VerifyCWD getwd EvalSymlinks (New cfg) i cwd = None"
    and "EvalSymlinks (m_root (New cfg)) = Some realRoot" "IsAbs realRoot"
  shows "Path (New cfg) i = Inr (Clean (Abs getwd cwd)) \<and>
    (\<exists>realCWD rest. EvalSymlinks (Abs getwd cwd) = Some realCWD \<and> rest \<noteq> [] \<and>
       clean_comps realCWD = clean_comps realRoot @ rest \<and> IsAbs realCWD)"
  using assms not_escapes_inside [of realRoot]
  by (auto simp: VerifyCWD_def Let_def split: sum.splits if_splits option.splits)

definition demo_config :: config where
  "demo_config = c_Workspace_update (wc_Root_update (\<lambda>_. ''/ws''))
     (c_Hooks_update (hc_AfterCreate_update (\<lambda>_. ''init'')) zero_config)"

lemma demo_root [simp]: "m_root (New demo_config) = ''/ws''"
  by (simp add: New_def demo_config_def, code_simp)

lemma demo_path: "Path (New demo_config) ''A-1'' = Inr ''/ws/A-1''"
  by (simp add: Path_eq [OF New_ok], code_simp)

theorem VerifyCWD_inside_witness:
  "VerifyCWD ''/'' Some (New demo_config) ''A-1'' ''/ws/A-1'' = None \<and>
   (\<exists>rest. rest \<noteq> [] \<and> clean_comps ''/ws/A-1'' = clean_comps ''/ws'' @ rest)"
proof -
  have abs: "Abs ''/'' ''/ws/A-1'' = ''/ws/A-1''" "Clean ''/ws/A-1'' = ''/ws/A-1''"
    "\<not> escapes (Rel ''/ws'' ''/ws/A-1'')" "IsAbs ''/ws''"
    by code_simp+
  then have "VerifyCWD ''/'' Some (New demo_config) ''A-1'' ''/ws/A-1'' = None"
    by (simp add: VerifyCWD_def demo_path Let_def)
  with VerifyCWD_inside [of "''/''" Some demo_config "''A-1''" "''/ws/A-1''" "''/ws''"] abs
  show ?thesis by auto
qed

lemma lookup_RemoveAll: "fmlookup (RemoveAll p fs) q = (if under p q then None else fmlookup fs q)"
  by (simp add: RemoveAll_def)

text \<open>
  C22: A failed \<open>after_create\<close> hook leaves no trace that would hide it. Nothing remains at or below the
  workspace path (unless removing it fails), so the next \<open>Ensure\<close> that gets as far as a directory
  has created it anew and runs the hook again, whatever the hook then does.
\<close>

theorem Ensure_hook_retried:
  assumes "Path (New cfg) i = Inr p" "\<not> os_err ''remove'' p"
    and "Ensure os_err exec (New cfg) i branch fs = (fs', Inl (ErrHookFailed n))"
    and "ensureDir os_err p fs' = (fs'', Inr created)"
  shows "(\<forall>q. under p q \<longrightarrow> fmlookup fs' q = None) \<and>
    Ensure os_err exec' (New cfg) i branch fs' =
      (case exec' (hc_AfterCreate (c_Hooks cfg)) p (branchEnv branch) fs'' of
         (f, True) \<Rightarrow> (f, Inr p)
       | (f, False) \<Rightarrow> (RemoveAll p f, Inl (ErrHookFailed ''after_create'')))"
proof -
  have hooks: "hc_AfterCreate (m_hooks (New cfg)) = hc_AfterCreate (c_Hooks cfg)"
    by (simp add: New_def)
  have script: "hc_AfterCreate (c_Hooks cfg) \<noteq> []"
    and gone: "\<forall>q. under p q \<longrightarrow> fmlookup fs' q = None"
    using assms(1-3) by (auto simp: Ensure_def ensureDir_def runHook_def lookup_RemoveAll hooks
        split: prod.splits sum.splits if_splits option.splits node.splits)
  have "fmlookup fs' p = None" using gone by (simp add: under_def)
  then have "created" using assms(4) by (auto simp: ensureDir_def split: if_splits option.splits)
  with gone script assms show ?thesis
    by (auto simp: Ensure_def runHook_def hooks split: prod.splits bool.splits)
qed

lemma demo_mkdir: "mkdir_paths ''/ws/A-1'' = [''/ws'', ''/ws/A-1'']"
  by code_simp

theorem Ensure_hook_retried_witness:
  "Ensure (\<lambda>_ _. False) (\<lambda>_ _ _ f. (f, True)) (New demo_config) ''A-1'' ''main''
     (RemoveAll ''/ws/A-1'' (fmupd ''/ws/A-1'' Dir (fmupd ''/ws'' Dir fmempty))) =
   (fmupd ''/ws/A-1'' Dir (fmupd ''/ws'' Dir
      (RemoveAll ''/ws/A-1'' (fmupd ''/ws/A-1'' Dir (fmupd ''/ws'' Dir fmempty)))), Inr ''/ws/A-1'')"
proof -
  let ?fs = "RemoveAll ''/ws/A-1'' (fmupd ''/ws/A-1'' Dir (fmupd ''/ws'' Dir fmempty))"
  have hook: "hc_AfterCreate (m_hooks (New demo_config)) = ''init''"
    "hc_AfterCreate (c_Hooks demo_config) = ''init''"
    by (simp_all add: New_def demo_config_def)
  have "Ensure (\<lambda>_ _. False) (\<lambda>_ _ _ f. (f, False)) (New demo_config) ''A-1'' ''main'' fmempty =
      (?fs, Inl (ErrHookFailed ''after_create''))"
    by (simp add: Ensure_def demo_path ensureDir_def demo_mkdir MkdirAll_def runHook_def hook)
  moreover have "ensureDir (\<lambda>_ _. False) ''/ws/A-1'' ?fs =
      (fmupd ''/ws/A-1'' Dir (fmupd ''/ws'' Dir ?fs), Inr True)"
    by (simp add: ensureDir_def demo_mkdir MkdirAll_def lookup_RemoveAll under_def HasPrefix_def)
  ultimately show ?thesis
    using Ensure_hook_retried [of demo_config "''A-1''" "''/ws/A-1''" "\<lambda>_ _. False"
        "\<lambda>_ _ _ f. (f, False)" "''main''" fmempty ?fs "''after_create''" _ _ "\<lambda>_ _ _ f. (f, True)"]
    by (simp add: demo_path)
qed

lemma child_string:
  assumes "Clean root = root" "plain k"
  shows "Join [root, k] =
    (if root = ''/'' then ''/'' else if root = ''.'' then [] else root @ ''/'') @ k"
proof -
  have join_snoc: "cs \<noteq> [] \<Longrightarrow> join_with s (cs @ [x]) = join_with s cs @ s @ x" for s x cs
    by (induction s cs rule: join_with.induct) simp_all
  have "root = render_path (IsAbs root) (clean_comps root)"
    using render_clean_comps [OF assms(1)] by simp
  moreover have "clean_comps root = [] \<longleftrightarrow> root = ''/'' \<or> root = ''.''"
  proof
    assume "clean_comps root = []"
    then show "root = ''/'' \<or> root = ''.''"
      using render_clean_comps [OF assms(1)] by (auto simp: render_path_def split: if_splits)
  next
    assume "root = ''/'' \<or> root = ''.''"
    then show "clean_comps root = []"
      by (auto simp: clean_comps_def clean_components_def clean_step_def)
  qed
  ultimately show ?thesis
    using Join_child(1) [OF assms] join_snoc [of "clean_comps root" "''/''" k]
    by (cases "clean_comps root = []") (auto simp: render_path_def IsAbs_iff split: if_splits)
qed

lemma underE:
  assumes "under p q"
  obtains t where "q = p @ t" "t = [] \<or> hd t = slash"
proof (cases "q = p")
  case False
  with assms obtain t where "q = (p @ ''/'') @ t" unfolding under_def HasPrefix_iff by blast
  then show ?thesis by (intro that [of "slash # t"]) simp_all
next
  case True
  then show ?thesis by (intro that [of "[]"]) simp_all
qed

lemma takeWhile_key:
  assumes "c \<notin> set k" "t = [] \<or> hd t = c"
  shows "takeWhile (\<lambda>x. x \<noteq> c) (k @ t) = k"
  using assms by (induction k) (cases t; auto)+

lemma key_before_slash:
  assumes "slash \<notin> set k" "slash \<notin> set k'" "k @ t = k' @ t'"
    and "t = [] \<or> hd t = slash" "t' = [] \<or> hd t' = slash"
  shows "k = k'"
  using takeWhile_key [OF assms(1,4)] takeWhile_key [OF assms(2,5)] assms(3) by simp

lemma under_children_disjoint:
  assumes "Clean root = root" "plain k" "plain k'" "under (Join [root, k]) q" "under (Join [root, k']) q"
  shows "k = k'"
proof -
  obtain t where t: "q = Join [root, k] @ t" "t = [] \<or> hd t = slash"
    using assms(4) by (rule underE)
  obtain t' where t': "q = Join [root, k'] @ t'" "t' = [] \<or> hd t' = slash"
    using assms(5) by (rule underE)
  have "k @ t = k' @ t'"
    using t(1) t'(1) child_string [OF assms(1,2)] child_string [OF assms(1,3)] by simp
  then show ?thesis
    using key_before_slash [of k k' t t'] t(2) t'(2) assms(2,3) by (simp add: plain_def)
qed



end
