(* ===== verification/Metrics.thy ===== *)
theory Metrics
  imports Prelude
begin

text \<open>
  The token and runtime accounting of \<open>src/src/platform/metrics\<close>: absolute cumulative reports per
  thread are folded into totals by last-reported difference bookkeeping. Token counters are
  unbounded integers here; the code's \<open>int64\<close> counters agree with them as long as a run stays
  below \<open>2^63\<close> tokens.
\<close>

section \<open>Definitions\<close>

record totals =
  t_Input :: int
  t_Output :: int
  t_Total :: int

record usage =
  u_ThreadID :: string
  u_Input :: int
  u_Output :: int
  u_Total :: int

record accumulator =
  lastSeen :: "(string, usage) fmap"
  acc_totals :: totals

record rate_limit_snapshot =
  PrimaryUsedPercent :: int
  PrimaryResetsAt :: int
  SecondaryUsedPercent :: int
  SecondaryResetsAt :: int

definition zero_totals :: totals where
  "zero_totals = \<lparr>t_Input = 0, t_Output = 0, t_Total = 0\<rparr>"

definition NewAccumulator :: accumulator where
  "NewAccumulator = \<lparr>lastSeen = fmempty, acc_totals = zero_totals\<rparr>"

definition clampPos :: "int \<Rightarrow> int" where
  "clampPos v = (if v < 0 then 0 else v)"

text \<open>The Go map read \<open>a.lastSeen[u.ThreadID]\<close> yields the zero \<open>Usage\<close> for a new thread.\<close>

definition prev_usage :: "accumulator \<Rightarrow> string \<Rightarrow> usage" where
  "prev_usage a tid = (case fmlookup (lastSeen a) tid of
      None \<Rightarrow> \<lparr>u_ThreadID = '''', u_Input = 0, u_Output = 0, u_Total = 0\<rparr>
    | Some u \<Rightarrow> u)"

definition Observe :: "accumulator \<Rightarrow> usage \<Rightarrow> accumulator" where
  "Observe a u =
     (let prev = prev_usage a (u_ThreadID u);
          totals = \<lparr>t_Input = t_Input (acc_totals a) + clampPos (u_Input u - u_Input prev),
                    t_Output = t_Output (acc_totals a) + clampPos (u_Output u - u_Output prev),
                    t_Total = t_Total (acc_totals a) + clampPos (u_Total u - u_Total prev)\<rparr>
      in \<lparr>lastSeen = fmupd (u_ThreadID u) u (lastSeen a), acc_totals = totals\<rparr>)"

definition Totals :: "accumulator \<Rightarrow> totals" where
  "Totals a = acc_totals a"

text \<open>\<open>RuntimeAccumulator\<close>: only positive durations count.\<close>

definition AddTurn :: "duration \<Rightarrow> duration \<Rightarrow> duration" where
  "AddTurn tot d = (if d > 0 then tot + d else tot)"

section \<open>The sum of two totals\<close>

definition add_totals :: "totals \<Rightarrow> totals \<Rightarrow> totals" where
  "add_totals a b = \<lparr>t_Input = t_Input a + t_Input b, t_Output = t_Output a + t_Output b,
                     t_Total = t_Total a + t_Total b\<rparr>"

lemma add_totals_sel [simp]:
  "t_Input (add_totals a b) = t_Input a + t_Input b"
  "t_Output (add_totals a b) = t_Output a + t_Output b"
  "t_Total (add_totals a b) = t_Total a + t_Total b"
  by (simp_all add: add_totals_def)

section \<open>Properties of the bookkeeping\<close>

text \<open>The reports of one thread never go down.\<close>

definition usage_le :: "usage \<Rightarrow> usage \<Rightarrow> bool" where
  "usage_le u v \<longleftrightarrow> u_Input u \<le> u_Input v \<and> u_Output u \<le> u_Output v \<and> u_Total u \<le> u_Total v"

fun monotone_reports :: "accumulator \<Rightarrow> usage list \<Rightarrow> bool" where
  "monotone_reports a [] \<longleftrightarrow> True"
| "monotone_reports a (u # us) \<longleftrightarrow>
     usage_le (prev_usage a (u_ThreadID u)) u \<and> monotone_reports (Observe a u) us"

text \<open>What the accumulator is meant to hold: the sum of the last absolute report of every thread.\<close>

definition seen_total :: "(usage \<Rightarrow> int) \<Rightarrow> accumulator \<Rightarrow> int" where
  "seen_total f a = sum_list (map f (map_values (lastSeen a)))"

definition totals_exact :: "accumulator \<Rightarrow> bool" where
  "totals_exact a \<longleftrightarrow> t_Input (acc_totals a) = seen_total u_Input a
     \<and> t_Output (acc_totals a) = seen_total u_Output a
     \<and> t_Total (acc_totals a) = seen_total u_Total a"

lemma seen_total_Observe:
  assumes "f \<in> {u_Input, u_Output, u_Total}"
  shows "seen_total f (Observe a u) = seen_total f a + f u - f (prev_usage a (u_ThreadID u))"
proof (cases "fmlookup (lastSeen a) (u_ThreadID u)")
  case None
  then have "fmdrop (u_ThreadID u) (lastSeen a) = lastSeen a"
    by (simp add: fmdrop_idle fmdom_notI)
  with None assms show ?thesis
    by (auto simp: seen_total_def Observe_def Let_def sum_map_values_upd prev_usage_def)
next
  case (Some v)
  then show ?thesis
    by (simp add: seen_total_def Observe_def Let_def sum_map_values_upd sum_map_values_drop
        prev_usage_def)
qed

lemma totals_exact_Observe:
  assumes "totals_exact a" "usage_le (prev_usage a (u_ThreadID u)) u"
  shows "totals_exact (Observe a u)"
  using assms
  by (simp add: totals_exact_def usage_le_def seen_total_Observe)
     (simp add: Observe_def Let_def clampPos_def)

lemma totals_exact_New: "totals_exact NewAccumulator"
  by (simp add: totals_exact_def NewAccumulator_def zero_totals_def seen_total_def map_values_def
      sorted_keys_def sorted_list_of_fset.rep_eq)

lemma totals_exact_fold:
  "totals_exact a \<Longrightarrow> monotone_reports a us \<Longrightarrow> totals_exact (foldl Observe a us)"
  by (induction us arbitrary: a) (simp_all add: totals_exact_Observe)


definition usage_of :: "string \<Rightarrow> int \<Rightarrow> int \<Rightarrow> usage" where
  "usage_of tid i out = \<lparr>u_ThreadID = tid, u_Input = i, u_Output = out, u_Total = i + out\<rparr>"


end
