(* ===== verification/Sched_State.thy ===== *)
theory Sched_State
  imports Metrics Wfconfig
begin

text \<open>
  The state of \<open>orchestrator/scheduler\<close> (\<open>state.go\<close>) and its transitions (\<open>transitions.go\<close>), with the
  issue model of \<open>platform/tracker\<close>. A Go map is a finite map, the claim set a finite set. The
  transitions are the only code that touches the maps; the lemmas say what each does to the set of
  running, claimed and retrying issues.
\<close>

section \<open>platform/tracker: the issue model\<close>

record project =
  p_Name :: string
  p_Content :: string

record blocker =
  b_ID :: string
  b_Identifier :: string
  b_State :: string

record issue =
  i_ID :: string
  i_Identifier :: string
  i_Title :: string
  i_Description :: string
  i_Priority :: "int option"
  i_State :: string
  i_BranchName :: string
  i_URL :: string
  i_Labels :: "string list"
  i_BlockedBy :: "blocker list"
  i_Project :: project
  i_CreatedAt :: go_time
  i_UpdatedAt :: go_time

section \<open>state.go\<close>

datatype claim_state = Unclaimed | Claimed | Running | RetryQueued | Released

datatype run_phase =
    PhasePreparingWorkspace | PhaseBuildingPrompt | PhaseLaunchingAgentProcess
  | PhaseInitializingSession | PhaseStreamingTurn | PhaseFinishing | PhaseSucceeded | PhaseFailed
  | PhaseTimedOut | PhaseStalled | PhaseCanceledByReconciliation

datatype retry_kind = RetryContinuation | RetryBackoff

text \<open>
  The errors the scheduler itself makes; \<open>ExternalErr\<close> is any error of an injected dependency.
\<close>

datatype sched_err =
    ErrDuplicateDispatch
  | ErrStall
  | ErrNotInRefresh
  | ErrLeftActiveStates
  | ErrNoSlots
  | ExternalErr string

record live_session =
  ls_SessionID :: string
  ls_ThreadID :: string
  ls_TurnID :: string
  ls_StartedAt :: go_time

record run_attempt =
  ra_Issue :: issue
  ra_Session :: live_session
  ra_Attempt :: int
  ra_Phase :: run_phase
  ra_TurnCount :: int
  ra_StartedAt :: go_time
  ra_LastCodexMessage :: string
  ra_LastCodexEvent :: string
  ra_LastCodexTimestamp :: go_time
  ra_CodexAppServerPID :: int
  ra_TotalInputTokens :: int
  ra_TotalOutputTokens :: int
  ra_TotalTokens :: int
  ra_TotalRuntime :: duration
  ra_RateLimit :: "rate_limit_snapshot option"

record retry_entry =
  re_IssueID :: string
  re_Identifier :: string
  re_Attempt :: int
  re_Kind :: retry_kind
  re_Err :: "sched_err option"
  re_DueAtMS :: int

record state =
  s_Running :: "(string, run_attempt) fmap"
  s_Claimed :: "string fset"
  s_RetryAttempts :: "(string, retry_entry) fmap"
  s_Usage :: "(string, accumulator) fmap"
  s_Runtime :: "(string, duration) fmap"
  s_CodexTotals :: totals
  s_CodexRuntime :: duration

definition NewState :: state where
  "NewState = \<lparr> s_Running = fmempty, s_Claimed = {||}, s_RetryAttempts = fmempty,
     s_Usage = fmempty, s_Runtime = fmempty, s_CodexTotals = zero_totals, s_CodexRuntime = 0 \<rparr>"

text \<open>
  The projection for observers. \<open>CodexSecondsRunning\<close> is the exact quotient, before rounding to a
  float.
\<close>

record state_snapshot =
  ss_Running :: "(string, run_attempt) fmap"
  ss_Claimed :: "string fset"
  ss_RetryAttempts :: "(string, retry_entry) fmap"
  ss_CodexTotals :: totals
  ss_CodexSecondsRunning :: rat

definition Snapshot :: "state \<Rightarrow> state_snapshot" where
  "Snapshot s =
     (let totals = foldl (\<lambda>t acc. add_totals t (Totals acc)) (s_CodexTotals s) (map_values (s_Usage s));
          rt = foldl (\<lambda>r d. r + d) (s_CodexRuntime s) (map_values (s_Runtime s))
      in \<lparr> ss_Running = s_Running s, ss_Claimed = s_Claimed s, ss_RetryAttempts = s_RetryAttempts s,
           ss_CodexTotals = totals, ss_CodexSecondsRunning = of_int rt / 1000000000 \<rparr>)"

section \<open>transitions.go\<close>

definition claim :: "state \<Rightarrow> issue \<Rightarrow> sched_err + state" where
  "claim s iss =
     (if i_ID iss |\<in>| s_Claimed s then Inl ErrDuplicateDispatch
      else if fmlookup (s_Running s) (i_ID iss) \<noteq> None then Inl ErrDuplicateDispatch
      else Inr (s\<lparr> s_RetryAttempts := withoutKey (s_RetryAttempts s) (i_ID iss),
                   s_Claimed := finsert (i_ID iss) (s_Claimed s) \<rparr>))"

definition claimFromRetry :: "state \<Rightarrow> string \<Rightarrow> sched_err + state" where
  "claimFromRetry s issueID =
     (if fmlookup (s_RetryAttempts s) issueID = None then Inl ErrDuplicateDispatch
      else if fmlookup (s_Running s) issueID \<noteq> None then Inl ErrDuplicateDispatch
      else if issueID |\<notin>| s_Claimed s then Inl ErrDuplicateDispatch
      else Inr (s\<lparr> s_RetryAttempts := withoutKey (s_RetryAttempts s) issueID \<rparr>))"

definition markRunning :: "state \<Rightarrow> issue \<Rightarrow> int \<Rightarrow> live_session \<Rightarrow> state" where
  "markRunning s iss attempt session =
     s\<lparr> s_Running := withKey (s_Running s) (i_ID iss)
          \<lparr> ra_Issue = iss, ra_Session = session, ra_Attempt = attempt,
            ra_Phase = PhasePreparingWorkspace, ra_TurnCount = 0,
            ra_StartedAt = ls_StartedAt session, ra_LastCodexMessage = [], ra_LastCodexEvent = [],
            ra_LastCodexTimestamp = zero_time, ra_CodexAppServerPID = 0, ra_TotalInputTokens = 0,
            ra_TotalOutputTokens = 0, ra_TotalTokens = 0, ra_TotalRuntime = 0,
            ra_RateLimit = None \<rparr> \<rparr>"

definition updateIssueSnapshot :: "state \<Rightarrow> string \<Rightarrow> issue \<Rightarrow> state" where
  "updateIssueSnapshot s issueID iss =
     (case fmlookup (s_Running s) issueID of
        None \<Rightarrow> s
      | Some run \<Rightarrow> s\<lparr> s_Running := withKey (s_Running s) issueID (run\<lparr> ra_Issue := iss \<rparr>) \<rparr>)"

definition workerExitNormal :: "state \<Rightarrow> string \<Rightarrow> (state \<times> retry_entry) option" where
  "workerExitNormal s issueID =
     (case fmlookup (s_Running s) issueID of
        None \<Rightarrow> None
      | Some run \<Rightarrow> Some (s\<lparr> s_Running := withoutKey (s_Running s) issueID \<rparr>,
          \<lparr> re_IssueID = issueID, re_Identifier = i_Identifier (ra_Issue run),
            re_Attempt = ra_Attempt run + 1, re_Kind = RetryContinuation, re_Err = None,
            re_DueAtMS = 0 \<rparr>))"

definition workerExitAbnormal ::
  "state \<Rightarrow> string \<Rightarrow> sched_err \<Rightarrow> int \<Rightarrow> (state \<times> retry_entry) option" where
  "workerExitAbnormal s issueID err attempt =
     (case fmlookup (s_Running s) issueID of
        None \<Rightarrow> None
      | Some run \<Rightarrow> Some (s\<lparr> s_Running := withoutKey (s_Running s) issueID \<rparr>,
          \<lparr> re_IssueID = issueID, re_Identifier = i_Identifier (ra_Issue run),
            re_Attempt = attempt + 1, re_Kind = RetryBackoff, re_Err = Some err,
            re_DueAtMS = 0 \<rparr>))"

definition releaseClaim :: "state \<Rightarrow> string \<Rightarrow> state" where
  "releaseClaim s issueID =
     (let s = (case fmlookup (s_Usage s) issueID of
                 None \<Rightarrow> s
               | Some acc \<Rightarrow> s\<lparr> s_CodexTotals := add_totals (s_CodexTotals s) (Totals acc),
                                s_Usage := withoutKey (s_Usage s) issueID \<rparr>);
          s = (case fmlookup (s_Runtime s) issueID of
                 None \<Rightarrow> s
               | Some rt \<Rightarrow> s\<lparr> s_CodexRuntime := s_CodexRuntime s + rt,
                               s_Runtime := withoutKey (s_Runtime s) issueID \<rparr>)
      in s\<lparr> s_Running := withoutKey (s_Running s) issueID,
            s_Claimed := s_Claimed s |-| {|issueID|},
            s_RetryAttempts := withoutKey (s_RetryAttempts s) issueID \<rparr>)"

definition enqueueRetry :: "state \<Rightarrow> retry_entry \<Rightarrow> state" where
  "enqueueRetry s entry =
     s\<lparr> s_RetryAttempts := withKey (s_RetryAttempts s) (re_IssueID entry) entry \<rparr>"

text \<open>Bookkeeping on a running attempt: nothing happens for an issue that is not running.\<close>

definition on_running :: "(run_attempt \<Rightarrow> run_attempt) \<Rightarrow> state \<Rightarrow> string \<Rightarrow> state" where
  "on_running f s issueID =
     (case fmlookup (s_Running s) issueID of
        None \<Rightarrow> s
      | Some run \<Rightarrow> s\<lparr> s_Running := withKey (s_Running s) issueID (f run) \<rparr>)"

definition incrementTurnCount :: "state \<Rightarrow> string \<Rightarrow> state" where
  "incrementTurnCount = on_running (\<lambda>run. run\<lparr> ra_TurnCount := ra_TurnCount run + 1 \<rparr>)"

definition updateCodexActivity :: "state \<Rightarrow> string \<Rightarrow> string \<Rightarrow> string \<Rightarrow> go_time \<Rightarrow> state" where
  "updateCodexActivity s issueID event message ts =
     on_running (\<lambda>run. run\<lparr> ra_LastCodexEvent := event, ra_LastCodexTimestamp := ts,
       ra_LastCodexMessage := (if message \<noteq> [] then message else ra_LastCodexMessage run) \<rparr>) s issueID"

text \<open>\<open>s.Usage[issueID]\<close> of an absent key is the zero accumulator.\<close>

definition recordUsage :: "state \<Rightarrow> string \<Rightarrow> usage \<Rightarrow> state" where
  "recordUsage s issueID u =
     (case fmlookup (s_Running s) issueID of
        None \<Rightarrow> s
      | Some run \<Rightarrow>
          let acc = Observe (case fmlookup (s_Usage s) issueID of None \<Rightarrow> NewAccumulator | Some a \<Rightarrow> a) u;
              t = Totals acc
          in s\<lparr> s_Usage := withKey (s_Usage s) issueID acc,
                s_Running := withKey (s_Running s) issueID
                  (run\<lparr> ra_TotalInputTokens := t_Input t, ra_TotalOutputTokens := t_Output t,
                        ra_TotalTokens := t_Total t \<rparr>) \<rparr>)"

definition recordRateLimit :: "state \<Rightarrow> string \<Rightarrow> rate_limit_snapshot \<Rightarrow> state" where
  "recordRateLimit s issueID rl = on_running (\<lambda>run. run\<lparr> ra_RateLimit := Some rl \<rparr>) s issueID"

definition addRuntime :: "state \<Rightarrow> string \<Rightarrow> duration \<Rightarrow> state" where
  "addRuntime s issueID d =
     (case fmlookup (s_Running s) issueID of
        None \<Rightarrow> s
      | Some run \<Rightarrow>
          if d \<le> 0 then s
          else s\<lparr> s_Running := withKey (s_Running s) issueID
                    (run\<lparr> ra_TotalRuntime := ra_TotalRuntime run + d \<rparr>),
                  s_Runtime := withKey (s_Runtime s) issueID
                    ((case fmlookup (s_Runtime s) issueID of None \<Rightarrow> 0 | Some r \<Rightarrow> r) + d) \<rparr>)"

section \<open>What the transitions do to the three populations\<close>

named_theorems pop "effect of a transition on the running, claimed and retrying issues"

abbreviation run_ids :: "state \<Rightarrow> string fset" where
  "run_ids s \<equiv> fmdom (s_Running s)"

abbreviation retry_ids :: "state \<Rightarrow> string fset" where
  "retry_ids s \<equiv> fmdom (s_RetryAttempts s)"

lemma pop_markRunning [pop]:
  "run_ids (markRunning s iss a ses) = finsert (i_ID iss) (run_ids s)"
  "s_Claimed (markRunning s iss a ses) = s_Claimed s"
  "s_RetryAttempts (markRunning s iss a ses) = s_RetryAttempts s"
  by (simp_all add: markRunning_def)

lemma pop_updateIssueSnapshot [pop]:
  "run_ids (updateIssueSnapshot s i iss) = run_ids s"
  "s_Claimed (updateIssueSnapshot s i iss) = s_Claimed s"
  "s_RetryAttempts (updateIssueSnapshot s i iss) = s_RetryAttempts s"
  by (auto simp: updateIssueSnapshot_def split: option.splits intro: fmdomI)

lemma pop_enqueueRetry [pop]:
  "s_Running (enqueueRetry s e) = s_Running s"
  "s_Claimed (enqueueRetry s e) = s_Claimed s"
  "retry_ids (enqueueRetry s e) = finsert (re_IssueID e) (retry_ids s)"
  by (simp_all add: enqueueRetry_def)

lemma pop_releaseClaim [pop]:
  "s_Running (releaseClaim s i) = fmdrop i (s_Running s)"
  "s_Claimed (releaseClaim s i) = s_Claimed s |-| {|i|}"
  "s_RetryAttempts (releaseClaim s i) = fmdrop i (s_RetryAttempts s)"
  by (simp_all add: releaseClaim_def Let_def split: option.splits)

lemma pop_on_running [pop]:
  "run_ids (on_running f s i) = run_ids s"
  "s_Claimed (on_running f s i) = s_Claimed s"
  "s_RetryAttempts (on_running f s i) = s_RetryAttempts s"
  by (auto simp: on_running_def split: option.splits intro: fmdomI)

lemma pop_recordUsage [pop]:
  "run_ids (recordUsage s i u) = run_ids s"
  "s_Claimed (recordUsage s i u) = s_Claimed s"
  "s_RetryAttempts (recordUsage s i u) = s_RetryAttempts s"
  by (auto simp: recordUsage_def Let_def split: option.splits intro: fmdomI)

lemma pop_addRuntime [pop]:
  "run_ids (addRuntime s i d) = run_ids s"
  "s_Claimed (addRuntime s i d) = s_Claimed s"
  "s_RetryAttempts (addRuntime s i d) = s_RetryAttempts s"
  by (auto simp: addRuntime_def split: option.splits intro: fmdomI)

lemma pop_bookkeeping [pop]:
  "run_ids (incrementTurnCount s i) = run_ids s"
  "s_Claimed (incrementTurnCount s i) = s_Claimed s"
  "s_RetryAttempts (incrementTurnCount s i) = s_RetryAttempts s"
  "run_ids (updateCodexActivity s i ev m ts) = run_ids s"
  "s_Claimed (updateCodexActivity s i ev m ts) = s_Claimed s"
  "s_RetryAttempts (updateCodexActivity s i ev m ts) = s_RetryAttempts s"
  "run_ids (recordRateLimit s i rl) = run_ids s"
  "s_Claimed (recordRateLimit s i rl) = s_Claimed s"
  "s_RetryAttempts (recordRateLimit s i rl) = s_RetryAttempts s"
  by (simp_all add: incrementTurnCount_def updateCodexActivity_def recordRateLimit_def pop)

lemma claim_Inr_iff:
  "claim s iss = Inr s' \<longleftrightarrow> i_ID iss |\<notin>| s_Claimed s \<and> i_ID iss |\<notin>| run_ids s \<and>
     s' = s\<lparr> s_RetryAttempts := fmdrop (i_ID iss) (s_RetryAttempts s),
             s_Claimed := finsert (i_ID iss) (s_Claimed s) \<rparr>"
  by (auto simp: claim_def fmlookup_None_iff)

lemma claimFromRetry_Inr_iff:
  "claimFromRetry s i = Inr s' \<longleftrightarrow> i |\<in>| retry_ids s \<and> i |\<notin>| run_ids s \<and> i |\<in>| s_Claimed s \<and>
     s' = s\<lparr> s_RetryAttempts := fmdrop i (s_RetryAttempts s) \<rparr>"
  by (auto simp: claimFromRetry_def fmlookup_None_iff)

lemma workerExitAbnormal_Some_iff:
  "workerExitAbnormal s i err a = Some (s', e) \<longleftrightarrow>
     (\<exists>run. fmlookup (s_Running s) i = Some run \<and> s' = s\<lparr> s_Running := fmdrop i (s_Running s) \<rparr> \<and>
       e = \<lparr> re_IssueID = i, re_Identifier = i_Identifier (ra_Issue run), re_Attempt = a + 1,
             re_Kind = RetryBackoff, re_Err = Some err, re_DueAtMS = 0 \<rparr>)"
  by (auto simp: workerExitAbnormal_def split: option.splits)

lemma workerExitNormal_Some_iff:
  "workerExitNormal s i = Some (s', e) \<longleftrightarrow>
     (\<exists>run. fmlookup (s_Running s) i = Some run \<and> s' = s\<lparr> s_Running := fmdrop i (s_Running s) \<rparr> \<and>
       e = \<lparr> re_IssueID = i, re_Identifier = i_Identifier (ra_Issue run),
             re_Attempt = ra_Attempt run + 1, re_Kind = RetryContinuation, re_Err = None,
             re_DueAtMS = 0 \<rparr>)"
  by (auto simp: workerExitNormal_def split: option.splits)

section \<open>The lifetime totals\<close>

lemma foldl_add_totals:
  "t_Input (foldl (\<lambda>t a. add_totals t (Totals a)) t0 as) = t_Input t0 + sum_list (map (t_Input \<circ> Totals) as)"
  "t_Output (foldl (\<lambda>t a. add_totals t (Totals a)) t0 as) = t_Output t0 + sum_list (map (t_Output \<circ> Totals) as)"
  "t_Total (foldl (\<lambda>t a. add_totals t (Totals a)) t0 as) = t_Total t0 + sum_list (map (t_Total \<circ> Totals) as)"
  by (induction as arbitrary: t0) simp_all

lemma foldl_plus: "foldl (\<lambda>r d. r + d) r0 ds = r0 + sum_list (map id ds)" for r0 :: int
  by (induction ds arbitrary: r0) simp_all

lemma totals_eqI:
  "t_Input a = t_Input b \<Longrightarrow> t_Output a = t_Output b \<Longrightarrow> t_Total a = t_Total b \<Longrightarrow> a = (b :: totals)"
  by (cases a, cases b) simp

text \<open>
  C15: Releasing an issue loses no accounting. The lifetime token totals and the lifetime runtime that
  observers see are the same before and after the roll-up of the released issue's accumulators, and
  the issue is gone from every map.
\<close>

theorem releaseClaim_conserves:
  "ss_CodexTotals (Snapshot (releaseClaim s i)) = ss_CodexTotals (Snapshot s) \<and>
   ss_CodexSecondsRunning (Snapshot (releaseClaim s i)) = ss_CodexSecondsRunning (Snapshot s) \<and>
   i |\<notin>| run_ids (releaseClaim s i) \<and> i |\<notin>| s_Claimed (releaseClaim s i) \<and>
   i |\<notin>| retry_ids (releaseClaim s i) \<and> i |\<notin>| fmdom (s_Usage (releaseClaim s i)) \<and>
   i |\<notin>| fmdom (s_Runtime (releaseClaim s i))"
proof -
  have "ss_CodexTotals (Snapshot (releaseClaim s i)) = ss_CodexTotals (Snapshot s)"
    by (rule totals_eqI; simp add: Snapshot_def releaseClaim_def Let_def foldl_add_totals
        sum_map_values_drop split: option.splits)
  moreover have "foldl (\<lambda>r d. r + d) (s_CodexRuntime (releaseClaim s i)) (map_values (s_Runtime (releaseClaim s i)))
      = foldl (\<lambda>r d. r + d) (s_CodexRuntime s) (map_values (s_Runtime s))"
    unfolding foldl_plus
    by (simp add: releaseClaim_def Let_def sum_map_values_drop [where f = id, simplified] split: option.splits)
  moreover have "i |\<notin>| fmdom (s_Usage (releaseClaim s i)) \<and> i |\<notin>| fmdom (s_Runtime (releaseClaim s i))"
    by (simp add: releaseClaim_def Let_def fmlookup_None_iff split: option.splits)
  ultimately show ?thesis by (simp add: pop) (simp add: Snapshot_def Let_def)
qed


end
