(* ===== verification/Sched_Reduce.thy ===== *)
theory Sched_Reduce
  imports Sched_State "HOL-Library.Product_Lexorder"
begin

text \<open>
  The pure core of \<open>orchestrator/scheduler\<close>: the events and effects (\<open>event.go\<close>, \<open>effect.go\<close>), the
  slot arithmetic (\<open>slots.go\<close>), eligibility and order of candidates (\<open>eligibility.go\<close>), the backoff
  (\<open>retry.go\<close>) and \<open>Reduce\<close> with all its handlers (\<open>reduce*.go\<close>). Time enters as a parameter.
\<close>

section \<open>event.go and effect.go\<close>

datatype event =
    EvTick bool
  | EvCandidatesFetched "issue list"
  | EvTrackerRefreshed "string list" "issue list"
  | EvRevalidated issue int "issue option"
  | EvRetryResolved string string int "issue list" "sched_err option"
  | EvSpawned issue int live_session
  | EvSpawnFailed issue int sched_err
  | EvWorkerExit string "sched_err option" int
  | EvRetryDue string string int
  | EvCodexActivity string string string go_time "usage option" "rate_limit_snapshot option"
      "duration option" bool

datatype effect =
    EffFetchCandidates
  | EffRefreshTracker "string list"
  | EffRevalidate issue int
  | EffRetryFetch string string int
  | EffSpawn issue int
  | EffKillWorker string string
  | EffRemoveWorkspace string
  | EffArmRetryTimer string string int duration
  | EffCancelRetryTimer string

section \<open>util.go\<close>

definition sortedRunningIDs :: "state \<Rightarrow> string list" where
  "sortedRunningIDs s = sorted_keys (s_Running s)"

definition sortedIDs :: "string list \<Rightarrow> string list" where
  "sortedIDs ids = sort ids"

section \<open>slots.go\<close>

definition retryQueuedCount :: "state \<Rightarrow> int" where
  "retryQueuedCount s =
     int (length (filter (\<lambda>i. fmlookup (s_Running s) i = None) (sorted_keys (s_RetryAttempts s))))"

definition availableGlobalSlots :: "state \<Rightarrow> config \<Rightarrow> int" where
  "availableGlobalSlots s cfg =
     (let used = map_len (s_Running s) + retryQueuedCount s;
          avail = ac_MaxConcurrentAgents (c_Agent cfg) - used
      in if avail < 0 then 0 else avail)"

definition runningInState :: "state \<Rightarrow> string \<Rightarrow> int" where
  "runningInState s norm =
     int (length (filter (\<lambda>run. ToLower (i_State (ra_Issue run)) = norm) (map_values (s_Running s))))"

definition state_capacity :: "config \<Rightarrow> string \<Rightarrow> int" where
  "state_capacity cfg norm =
     (case fmlookup (ac_MaxConcurrentAgentsByState (c_Agent cfg)) norm of
        Some capacity \<Rightarrow> capacity
      | None \<Rightarrow> ac_MaxConcurrentAgents (c_Agent cfg))"

definition availablePerStateSlots :: "string \<Rightarrow> state \<Rightarrow> config \<Rightarrow> int" where
  "availablePerStateSlots st s cfg =
     (let norm = ToLower st;
          avail = state_capacity cfg norm - runningInState s norm
      in if avail < 0 then 0 else avail)"

definition retryReclaimHasSlot :: "state \<Rightarrow> config \<Rightarrow> string \<Rightarrow> string \<Rightarrow> bool" where
  "retryReclaimHasSlot s cfg issueID st =
     (let globalUsed = map_len (s_Running s) + retryQueuedCount s;
          globalUsed = (if fmlookup (s_RetryAttempts s) issueID \<noteq> None then globalUsed - 1 else globalUsed)
      in if globalUsed \<ge> ac_MaxConcurrentAgents (c_Agent cfg) then False
         else availablePerStateSlots st s cfg > 0)"

section \<open>eligibility.go\<close>

definition normSet :: "string list \<Rightarrow> string list" where
  "normSet states = map ToLower states"

definition hasActiveBlocker :: "blocker list \<Rightarrow> string list \<Rightarrow> bool" where
  "hasActiveBlocker blockers terminal =
     list_ex (\<lambda>b. ToLower (b_State b) \<notin> set terminal) blockers"

definition eligible :: "issue \<Rightarrow> state \<Rightarrow> string list \<Rightarrow> string list \<Rightarrow> bool" where
  "eligible iss s active terminal =
     (if i_ID iss = [] \<or> i_Identifier iss = [] \<or> i_Title iss = [] \<or> i_State iss = [] then False
      else let norm = ToLower (i_State iss) in
        if norm \<notin> set active \<or> norm \<in> set terminal then False
        else if fmlookup (s_Running s) (i_ID iss) \<noteq> None then False
        else if i_ID iss |\<in>| s_Claimed s then False
        else if fmlookup (s_RetryAttempts s) (i_ID iss) \<noteq> None then False
        else if norm = ''todo'' \<and> hasActiveBlocker (i_BlockedBy iss) terminal then False
        else True)"

definition filterEligible :: "issue list \<Rightarrow> state \<Rightarrow> config \<Rightarrow> issue list" where
  "filterEligible cands s cfg =
     (let active = normSet (tc_ActiveStates (c_Tracker cfg));
          terminal = normSet (tc_TerminalStates (c_Tracker cfg))
      in filter (\<lambda>iss. eligible iss s active terminal) cands)"

text \<open>The comparison of \<open>sortCandidates\<close>: does \<open>a\<close> come strictly before \<open>b\<close>?\<close>

definition cand_less :: "issue \<Rightarrow> issue \<Rightarrow> bool" where
  "cand_less a b =
     (let rest = (if i_CreatedAt a \<noteq> i_CreatedAt b then i_CreatedAt a < i_CreatedAt b
                  else i_Identifier a < i_Identifier b)
      in case (i_Priority a, i_Priority b) of
           (None, Some _) \<Rightarrow> False
         | (Some _, None) \<Rightarrow> True
         | (Some p, Some q) \<Rightarrow> if p \<noteq> q then p < q else rest
         | (None, None) \<Rightarrow> rest)"

text \<open>\<open>sort.SliceStable\<close>: elements that the comparison does not separate keep their order.\<close>

fun stable_insert :: "('a \<Rightarrow> 'a \<Rightarrow> bool) \<Rightarrow> 'a \<Rightarrow> 'a list \<Rightarrow> 'a list" where
  "stable_insert lt x [] = [x]"
| "stable_insert lt x (y # ys) = (if lt y x then y # stable_insert lt x ys else x # y # ys)"

definition SliceStable :: "('a \<Rightarrow> 'a \<Rightarrow> bool) \<Rightarrow> 'a list \<Rightarrow> 'a list" where
  "SliceStable lt xs = foldr (stable_insert lt) xs []"

definition sortCandidates :: "issue list \<Rightarrow> issue list" where
  "sortCandidates = SliceStable cand_less"

section \<open>retry.go\<close>

definition continuationDelay :: duration where
  "continuationDelay = 1000 * millisecond"

text \<open>\<open>int\<close> and \<open>time.Duration\<close> are 64 bits wide: the product and the conversion wrap around.\<close>

definition backoffDelay :: "int \<Rightarrow> config \<Rightarrow> duration" where
  "backoffDelay attempt cfg =
     (let attempt = (if attempt < 1 then 1 else attempt);
          shift = attempt - 1;
          shift = (if shift > 62 then 62 else shift);
          ms = wrap64 (10000 * 2 ^ nat shift);
          maxMS = ac_MaxRetryBackoffMS (c_Agent cfg);
          ms = (if maxMS > 0 \<and> ms > maxMS then maxMS else ms)
      in wrap64 (ms * millisecond))"

section \<open>reduce.go: arming a retry\<close>

definition armRetry :: "state \<Rightarrow> retry_entry \<Rightarrow> duration \<Rightarrow> go_time \<Rightarrow> state \<times> effect list" where
  "armRetry s entry delay now =
     (enqueueRetry s (entry\<lparr> re_DueAtMS := UnixMilli (now + delay) \<rparr>),
      [EffArmRetryTimer (re_IssueID entry) (re_Identifier entry) (re_Attempt entry) delay])"

section \<open>reduce_reconcile.go\<close>

text \<open>Kill a running attempt and queue its retry; the effects are appended to \<open>effs\<close>.\<close>

definition reconcileKillRetry ::
  "state \<Rightarrow> effect list \<Rightarrow> string \<Rightarrow> int \<Rightarrow> sched_err \<Rightarrow> string \<Rightarrow> config \<Rightarrow> go_time \<Rightarrow> state \<times> effect list"
where
  "reconcileKillRetry s effs i attempt cause reason cfg now =
     (case workerExitAbnormal s i cause attempt of
        None \<Rightarrow> (s, effs)
      | Some (ns, entry) \<Rightarrow>
          (case armRetry ns entry (backoffDelay (re_Attempt entry) cfg) now of
             (ns, armEffs) \<Rightarrow> (ns, (effs @ [EffKillWorker i reason]) @ armEffs)))"

definition stalled :: "config \<Rightarrow> go_time \<Rightarrow> run_attempt \<Rightarrow> bool" where
  "stalled cfg now run =
     (let threshold = wrap64 (cc_StallTimeoutMS (c_Codex cfg) * millisecond);
          base = (if IsZero (ra_LastCodexTimestamp run) then ra_StartedAt run
                  else ra_LastCodexTimestamp run)
      in \<not> (IsZero base \<or> time_sub now base \<le> threshold))"

fun stall_loop :: "config \<Rightarrow> go_time \<Rightarrow> string list \<Rightarrow> state \<Rightarrow> effect list \<Rightarrow> state \<times> effect list" where
  "stall_loop cfg now [] s effs = (s, effs)"
| "stall_loop cfg now (i # ids) s effs =
     (case fmlookup (s_Running s) i of
        None \<Rightarrow> stall_loop cfg now ids s effs
      | Some run \<Rightarrow>
          if \<not> stalled cfg now run then stall_loop cfg now ids s effs
          else (case reconcileKillRetry s effs i (ra_Attempt run) ErrStall ''stall'' cfg now of
              (s, effs) \<Rightarrow> stall_loop cfg now ids s effs))"

definition reduceStall :: "state \<Rightarrow> config \<Rightarrow> go_time \<Rightarrow> state \<times> effect list" where
  "reduceStall s cfg now =
     (if cc_StallTimeoutMS (c_Codex cfg) \<le> 0 then (s, [])
      else stall_loop cfg now (sortedRunningIDs s) s [])"

text \<open>\<open>byID\<close>: a later issue with the same ID overwrites an earlier one.\<close>

definition by_id :: "issue list \<Rightarrow> string \<Rightarrow> issue option" where
  "by_id issues i = find (\<lambda>iss. i_ID iss = i) (rev issues)"

fun refresh_loop ::
  "(string \<Rightarrow> issue option) \<Rightarrow> config \<Rightarrow> go_time \<Rightarrow> string list \<Rightarrow> state \<Rightarrow> effect list \<Rightarrow> state \<times> effect list"
where
  "refresh_loop byID cfg now [] s effs = (s, effs)"
| "refresh_loop byID cfg now (i # ids) s effs =
     (case fmlookup (s_Running s) i of
        None \<Rightarrow> refresh_loop byID cfg now ids s effs
      | Some run \<Rightarrow>
          (case byID i of
             None \<Rightarrow>
               (case reconcileKillRetry s effs i (ra_Attempt run) ErrNotInRefresh ''not-found'' cfg now of
                  (s, effs) \<Rightarrow> refresh_loop byID cfg now ids s effs)
           | Some iss \<Rightarrow>
               let norm = ToLower (i_State iss) in
               if norm \<in> set (normSet (tc_TerminalStates (c_Tracker cfg))) then
                 refresh_loop byID cfg now ids (releaseClaim s i)
                   (effs @ [EffKillWorker i ''terminal'', EffRemoveWorkspace (i_Identifier (ra_Issue run))])
               else if norm \<in> set (normSet (tc_ActiveStates (c_Tracker cfg))) then
                 refresh_loop byID cfg now ids (updateIssueSnapshot s i iss) effs
               else
                 (case reconcileKillRetry s effs i (ra_Attempt run) ErrLeftActiveStates ''non-active'' cfg now of
                    (s, effs) \<Rightarrow> refresh_loop byID cfg now ids s effs)))"

definition reduceTrackerRefreshed ::
  "state \<Rightarrow> string list \<Rightarrow> issue list \<Rightarrow> config \<Rightarrow> go_time \<Rightarrow> state \<times> effect list" where
  "reduceTrackerRefreshed s requested issues cfg now =
     refresh_loop (by_id issues) cfg now (sortedIDs requested) s []"

section \<open>reduce_dispatch.go\<close>

definition used_in :: "(string, int) fmap \<Rightarrow> string \<Rightarrow> int" where
  "used_in m norm = (case fmlookup m norm of None \<Rightarrow> 0 | Some n \<Rightarrow> n)"

definition count_running :: "state \<Rightarrow> (string, int) fmap" where
  "count_running s =
     foldl (\<lambda>m run. let norm = ToLower (i_State (ra_Issue run)) in fmupd norm (used_in m norm + 1) m)
       fmempty (map_values (s_Running s))"

fun dispatch_loop ::
  "config \<Rightarrow> issue list \<Rightarrow> int \<Rightarrow> (string, int) fmap \<Rightarrow> state \<Rightarrow> effect list \<Rightarrow> state \<times> effect list" where
  "dispatch_loop cfg [] globalAvail perStateUsed s effs = (s, effs)"
| "dispatch_loop cfg (iss # rest) globalAvail perStateUsed s effs =
     (if globalAvail \<le> 0 then (s, effs)
      else let norm = ToLower (i_State iss) in
        if used_in perStateUsed norm \<ge> state_capacity cfg norm then
          dispatch_loop cfg rest globalAvail perStateUsed s effs
        else (case claim s iss of
            Inl _ \<Rightarrow> dispatch_loop cfg rest globalAvail perStateUsed s effs
          | Inr ns \<Rightarrow> dispatch_loop cfg rest (globalAvail - 1)
              (fmupd norm (used_in perStateUsed norm + 1) perStateUsed) ns
              (effs @ [EffRevalidate iss 0])))"

definition reduceCandidates :: "state \<Rightarrow> issue list \<Rightarrow> config \<Rightarrow> state \<times> effect list" where
  "reduceCandidates s cands cfg =
     dispatch_loop cfg (sortCandidates (filterEligible cands s cfg)) (availableGlobalSlots s cfg)
       (count_running s) s []"

definition still_active :: "config \<Rightarrow> string \<Rightarrow> bool" where
  "still_active cfg st =
     (let norm = ToLower st in
      \<not> (norm \<notin> set (normSet (tc_ActiveStates (c_Tracker cfg))) \<or>
         norm \<in> set (normSet (tc_TerminalStates (c_Tracker cfg)))))"

definition reduceRevalidated ::
  "state \<Rightarrow> issue \<Rightarrow> int \<Rightarrow> issue option \<Rightarrow> config \<Rightarrow> state \<times> effect list" where
  "reduceRevalidated s iss attempt fresh cfg =
     (case fresh of
        None \<Rightarrow> (releaseClaim s (i_ID iss), [])
      | Some f \<Rightarrow>
          if \<not> still_active cfg (i_State f) then (releaseClaim s (i_ID iss), [])
          else (s, [EffSpawn iss attempt]))"

section \<open>reduce_retry.go\<close>

definition findIssue :: "issue list \<Rightarrow> string \<Rightarrow> issue option" where
  "findIssue issues i = find (\<lambda>iss. i_ID iss = i) issues"

definition retryEntry :: "string \<Rightarrow> string \<Rightarrow> int \<Rightarrow> sched_err \<Rightarrow> retry_entry" where
  "retryEntry issueID identifier attempt cause =
     \<lparr> re_IssueID = issueID, re_Identifier = identifier, re_Attempt = attempt,
       re_Kind = RetryBackoff, re_Err = Some cause, re_DueAtMS = 0 \<rparr>"

definition reduceRetryResolved ::
  "state \<Rightarrow> string \<Rightarrow> string \<Rightarrow> int \<Rightarrow> issue list \<Rightarrow> sched_err option \<Rightarrow> config \<Rightarrow> go_time \<Rightarrow>
   state \<times> effect list" where
  "reduceRetryResolved s issueID identifier attempt issues fetchErr cfg now =
     (case fetchErr of
        Some err \<Rightarrow> armRetry s (retryEntry issueID identifier (attempt + 1) err)
                      (backoffDelay (attempt + 1) cfg) now
      | None \<Rightarrow>
          (case findIssue issues issueID of
             None \<Rightarrow> (releaseClaim s issueID, [])
           | Some found \<Rightarrow>
               if \<not> still_active cfg (i_State found) then (releaseClaim s issueID, [])
               else if \<not> retryReclaimHasSlot s cfg issueID (i_State found) then
                 armRetry s (retryEntry issueID identifier (attempt + 1) ErrNoSlots)
                   (backoffDelay (attempt + 1) cfg) now
               else (case claimFromRetry s issueID of
                   Inl _ \<Rightarrow> (s, [])
                 | Inr ns \<Rightarrow> (ns, [EffSpawn found attempt]))))"

section \<open>reduce.go: the handlers and Reduce\<close>

definition reduceTick :: "state \<Rightarrow> bool \<Rightarrow> config \<Rightarrow> go_time \<Rightarrow> state \<times> effect list" where
  "reduceTick s configValid cfg now =
     (case reduceStall s cfg now of
        (s, effs) \<Rightarrow>
          let effs = (if map_len (s_Running s) > 0 then effs @ [EffRefreshTracker (sortedRunningIDs s)]
                      else effs);
              effs = (if configValid then effs @ [EffFetchCandidates] else effs)
          in (s, effs))"

definition reduceWorkerExit ::
  "state \<Rightarrow> string \<Rightarrow> sched_err option \<Rightarrow> int \<Rightarrow> config \<Rightarrow> go_time \<Rightarrow> state \<times> effect list" where
  "reduceWorkerExit s issueID err attempt cfg now =
     (case err of
        None \<Rightarrow>
          (case workerExitNormal s issueID of
             None \<Rightarrow> (s, [])
           | Some (ns, entry) \<Rightarrow> armRetry ns entry continuationDelay now)
      | Some err \<Rightarrow>
          (case workerExitAbnormal s issueID err attempt of
             None \<Rightarrow> (s, [])
           | Some (ns, entry) \<Rightarrow> armRetry ns entry (backoffDelay (re_Attempt entry) cfg) now))"

definition reduceSpawnFailed ::
  "state \<Rightarrow> issue \<Rightarrow> int \<Rightarrow> sched_err \<Rightarrow> config \<Rightarrow> go_time \<Rightarrow> state \<times> effect list" where
  "reduceSpawnFailed s iss attempt err cfg now =
     (let s = releaseClaim s (i_ID iss);
          entry = retryEntry (i_ID iss) (i_Identifier iss) (attempt + 1) err
      in armRetry s entry (backoffDelay (re_Attempt entry) cfg) now)"

definition reduceCodexActivity ::
  "state \<Rightarrow> string \<Rightarrow> string \<Rightarrow> string \<Rightarrow> go_time \<Rightarrow> usage option \<Rightarrow> rate_limit_snapshot option \<Rightarrow>
   duration option \<Rightarrow> bool \<Rightarrow> state" where
  "reduceCodexActivity s issueID ev message ts u rl d completed =
     (let s = updateCodexActivity s issueID ev message ts;
          s = (case u of None \<Rightarrow> s | Some u \<Rightarrow> recordUsage s issueID u);
          s = (case rl of None \<Rightarrow> s | Some rl \<Rightarrow> recordRateLimit s issueID rl);
          s = (case d of None \<Rightarrow> s | Some d \<Rightarrow> addRuntime s issueID d)
      in if completed then incrementTurnCount s issueID else s)"

fun Reduce :: "state \<Rightarrow> event \<Rightarrow> config \<Rightarrow> go_time \<Rightarrow> state \<times> effect list" where
  "Reduce s (EvTick valid) cfg now = reduceTick s valid cfg now"
| "Reduce s (EvTrackerRefreshed ids issues) cfg now = reduceTrackerRefreshed s ids issues cfg now"
| "Reduce s (EvCandidatesFetched issues) cfg now = reduceCandidates s issues cfg"
| "Reduce s (EvRevalidated iss attempt fresh) cfg now = reduceRevalidated s iss attempt fresh cfg"
| "Reduce s (EvRetryDue i ident attempt) cfg now = (s, [EffRetryFetch i ident attempt])"
| "Reduce s (EvRetryResolved i ident attempt issues err) cfg now =
     reduceRetryResolved s i ident attempt issues err cfg now"
| "Reduce s (EvSpawned iss attempt ses) cfg now = (markRunning s iss attempt ses, [])"
| "Reduce s (EvSpawnFailed iss attempt err) cfg now = reduceSpawnFailed s iss attempt err cfg now"
| "Reduce s (EvWorkerExit i err attempt) cfg now = reduceWorkerExit s i err attempt cfg now"
| "Reduce s (EvCodexActivity i ev message ts u rl d completed) cfg now =
     (reduceCodexActivity s i ev message ts u rl d completed, [])"

end
