(* ===== verification/Sched_Props.thy ===== *)
theory Sched_Props
  imports Sched_Reduce "HOL-Library.Multiset" "HOL-Library.Sublist"
begin

text \<open>
  Properties of the pure scheduler core: the candidate order is the lexicographic sort it claims to
  be, one dispatch pass respects and exhausts both kinds of slots, the stall and refresh passes
  move exactly the attempts they should, and the backoff is the capped exponential up to the point
  where it overflows.
\<close>

section \<open>The order of candidates\<close>

definition cand_key :: "issue \<Rightarrow> (bool \<times> int) \<times> int \<times> string" where
  "cand_key iss = ((case i_Priority iss of None \<Rightarrow> (True, 0) | Some p \<Rightarrow> (False, p)),
     i_CreatedAt iss, i_Identifier iss)"

lemma cand_less_key: "cand_less a b \<longleftrightarrow> cand_key a < cand_key b"
  by (auto simp: cand_less_def cand_key_def Let_def less_prod_def' split: option.splits)

lemma stable_insert_key: "stable_insert cand_less x ys = insort_key cand_key x ys"
  by (induction ys) (auto simp: cand_less_key not_le)

text \<open>
  C13: The order of dispatch is the documented one. Sorting with the comparison function of the code
  equals the library's stable sort by the lexicographic key (missing priority last, priority,
  creation time, identifier), so the result is sorted, a permutation, and stable.
\<close>

theorem sortCandidates_is_sort_key:
  "sortCandidates cands = sort_key cand_key cands \<and>
   sorted (map cand_key (sortCandidates cands)) \<and>
   mset (sortCandidates cands) = mset cands \<and>
   filter (\<lambda>c. cand_key c = k) (sortCandidates cands) = filter (\<lambda>c. cand_key c = k) cands"
proof -
  have "sortCandidates cands = sort_key cand_key cands"
    by (simp add: sortCandidates_def SliceStable_def sort_key_def stable_insert_key [abs_def])
  then show ?thesis by (simp add: sort_key_stable)
qed

lemma set_sortCandidates [simp]: "set (sortCandidates cs) = set cs"
proof -
  have "sortCandidates cs = sort_key cand_key cs"
    by (simp add: sortCandidates_def SliceStable_def sort_key_def stable_insert_key [abs_def])
  then show ?thesis by simp
qed

section \<open>Slots\<close>

lemma used_slots:
  "map_len (s_Running s) + retryQueuedCount s = int (fcard (run_ids s |\<union>| retry_ids s))"
proof -
  have "ffilter (\<lambda>i. fmlookup (s_Running s) i = None) (retry_ids s) = retry_ids s |-| run_ids s"
    by (auto simp: fmlookup_None_iff)
  then have "retryQueuedCount s = int (fcard (retry_ids s |-| run_ids s))"
    by (simp add: retryQueuedCount_def length_filter_sorted_keys)
  moreover have "fcard (run_ids s |\<union>| retry_ids s) = fcard (run_ids s) + fcard (retry_ids s |-| run_ids s)"
    by (subst fcard_funion_disjoint [symmetric]) (auto intro: arg_cong [where f = fcard])
  ultimately show ?thesis by (simp add: map_len_def)
qed

lemma used_in_upd [simp]: "used_in (fmupd k v m) k' = (if k' = k then v else used_in m k')"
  by (simp add: used_in_def)

lemma count_running_eq: "used_in (count_running s) norm = runningInState s norm"
proof -
  have "used_in (foldl (\<lambda>m run. let norm = ToLower (i_State (ra_Issue run))
           in fmupd norm (used_in m norm + 1) m) m runs) norm
      = used_in m norm + int (length (filter (\<lambda>run. ToLower (i_State (ra_Issue run)) = norm) runs))"
    for m and runs :: "run_attempt list"
    by (induction runs arbitrary: m) (auto simp: Let_def)
  moreover have "used_in fmempty norm = 0" by (simp add: used_in_def)
  ultimately show ?thesis by (simp add: count_running_def runningInState_def)
qed

section \<open>One dispatch pass\<close>

definition in_state :: "string \<Rightarrow> issue list \<Rightarrow> int" where
  "in_state norm ds = int (length (filter (\<lambda>d. ToLower (i_State d) = norm) ds))"

lemma in_state_Cons [simp]:
  "in_state norm (d # ds) = (if ToLower (i_State d) = norm then 1 else 0) + in_state norm ds"
  by (simp add: in_state_def)

lemma in_state_Nil [simp]: "in_state norm [] = 0"
  by (simp add: in_state_def)

lemma in_state_nonneg [simp]: "0 \<le> in_state norm ds"
  by (simp add: in_state_def)

text \<open>The list \<open>ds\<close> of issues that a run of the loop claims, and everything the loop promises of it.\<close>

definition pass_ok ::
  "config \<Rightarrow> issue list \<Rightarrow> int \<Rightarrow> (string, int) fmap \<Rightarrow> state \<Rightarrow> issue list \<Rightarrow> state \<Rightarrow> bool" where
  "pass_ok cfg cs g u s ds s' \<longleftrightarrow>
     subseq ds cs \<and> distinct (map i_ID ds) \<and>
     (\<forall>d\<in>set ds. i_ID d |\<notin>| s_Claimed s \<and> i_ID d |\<notin>| run_ids s) \<and>
     s' = s\<lparr> s_RetryAttempts := fmdrop_set (i_ID ` set ds) (s_RetryAttempts s),
             s_Claimed := s_Claimed s |\<union>| fset_of_list (map i_ID ds) \<rparr> \<and>
     int (length ds) \<le> max 0 g \<and>
     (\<forall>norm. used_in u norm + in_state norm ds \<le> max (used_in u norm) (state_capacity cfg norm)) \<and>
     (\<forall>c\<in>set cs. i_ID c |\<in>| s_Claimed s' \<or> i_ID c |\<in>| run_ids s \<or> g \<le> int (length ds) \<or>
        state_capacity cfg (ToLower (i_State c)) \<le>
          used_in u (ToLower (i_State c)) + in_state (ToLower (i_State c)) ds)"

lemma pass_ok_skip:
  assumes "pass_ok cfg cs g u s ds s'"
    and "i_ID c |\<in>| s_Claimed s \<or> i_ID c |\<in>| run_ids s \<or>
         state_capacity cfg (ToLower (i_State c)) \<le> used_in u (ToLower (i_State c))"
  shows "pass_ok cfg (c # cs) g u s ds s'"
proof -
  have "i_ID c |\<in>| s_Claimed s' \<or> i_ID c |\<in>| run_ids s \<or>
      state_capacity cfg (ToLower (i_State c)) \<le>
        used_in u (ToLower (i_State c)) + in_state (ToLower (i_State c)) ds"
    using assms(2) in_state_nonneg [of "ToLower (i_State c)" ds] assms(1)
    by (auto simp: pass_ok_def simp del: in_state_nonneg)
  with assms(1) show ?thesis by (auto simp: pass_ok_def)
qed

lemma fmdrop_set_fmdrop: "fmdrop_set A (fmdrop x m) = fmdrop_set (insert x A) m"
  by (rule fmap_ext) simp

lemma pass_ok_take:
  assumes ok: "pass_ok cfg cs (g - 1) (fmupd norm (used_in u norm + 1) u) s1 ds s'"
    and norm: "norm = ToLower (i_State c)" and c: "claim s c = Inr s1" and g: "0 < g"
    and cap: "used_in u norm < state_capacity cfg norm"
  shows "pass_ok cfg (c # cs) g u s (c # ds) s'"
proof -
  note ok' = ok [unfolded pass_ok_def]
  note c' = c [unfolded claim_Inr_iff]
  have same: "used_in (fmupd norm (used_in u norm + 1) u) n + in_state n ds
      = used_in u n + in_state n (c # ds)" for n
    using norm by simp
  have "used_in u n + in_state n (c # ds) \<le> max (used_in u n) (state_capacity cfg n)" for n
  proof (cases "n = norm")
    case True
    have "used_in u norm + in_state norm (c # ds) \<le> max (used_in u norm + 1) (state_capacity cfg norm)"
      using ok' norm by (metis fmlookup_of_list same used_in_upd)
    with cap True show ?thesis by simp
  next
    case False
    with ok' norm show ?thesis by (metis same used_in_upd)
  qed
  moreover have "g - 1 \<le> int (length ds) \<longleftrightarrow> g \<le> int (length (c # ds))" by auto
  moreover have "s' = s\<lparr> s_RetryAttempts := fmdrop_set (i_ID ` set (c # ds)) (s_RetryAttempts s),
             s_Claimed := s_Claimed s |\<union>| fset_of_list (map i_ID (c # ds)) \<rparr>"
    using ok' c' by (simp add: fmdrop_set_fmdrop)
  moreover have "i_ID c |\<notin>| fset_of_list (map i_ID ds)"
    using ok' c' by (auto simp: fset_of_list_elem)
  moreover have "int (length (c # ds)) \<le> max 0 g" using ok' g by auto
  ultimately show ?thesis
    using ok' c' unfolding pass_ok_def same by (auto simp: fset_of_list_elem)
qed

lemma dispatch_loop_ok:
  "dispatch_loop cfg cs g u s effs = (s', effs') \<Longrightarrow>
     \<exists>ds. effs' = effs @ map (\<lambda>d. EffRevalidate d 0) ds \<and> pass_ok cfg cs g u s ds s'"
proof (induction cs arbitrary: g u s effs)
  case Nil
  then show ?case by (auto simp: pass_ok_def intro!: exI [of _ "[]"])
next
  case (Cons c cs)
  let ?n = "ToLower (i_State c)"
  show ?case
  proof (cases "g \<le> 0")
    case True
    with Cons.prems show ?thesis by (auto simp: pass_ok_def intro!: exI [of _ "[]"])
  next
    case g: False
    show ?thesis
    proof (cases "state_capacity cfg ?n \<le> used_in u ?n \<or> isl (claim s c)")
      case True
      then have loop: "dispatch_loop cfg cs g u s effs = (s', effs')"
        using Cons.prems g by (auto simp: Let_def split: sum.splits if_splits)
      have "i_ID c |\<in>| s_Claimed s \<or> i_ID c |\<in>| run_ids s \<or> state_capacity cfg ?n \<le> used_in u ?n"
        using True by (auto simp: claim_def fmlookup_None_iff split: if_splits)
      with Cons.IH [OF loop] pass_ok_skip show ?thesis by blast
    next
      case False
      then obtain s1 where s1: "claim s c = Inr s1" by (cases "claim s c") auto
      then have "dispatch_loop cfg cs (g - 1) (fmupd ?n (used_in u ?n + 1) u) s1
          (effs @ [EffRevalidate c 0]) = (s', effs')"
        using Cons.prems g False by (auto simp: Let_def)
      from Cons.IH [OF this] obtain ds where
        ds: "effs' = effs @ map (\<lambda>d. EffRevalidate d 0) (c # ds)"
          "pass_ok cfg cs (g - 1) (fmupd ?n (used_in u ?n + 1) u) s1 ds s'" by auto
      have "pass_ok cfg (c # cs) g u s (c # ds) s'"
        by (rule pass_ok_take [OF ds(2) refl s1]) (use g False in auto)
      with ds(1) show ?thesis by blast
    qed
  qed
qed

lemma eligible_fresh:
  "iss \<in> set (filterEligible cands s cfg) \<Longrightarrow>
     i_ID iss |\<notin>| run_ids s \<and> i_ID iss |\<notin>| s_Claimed s \<and> i_ID iss |\<notin>| retry_ids s"
  by (auto simp: filterEligible_def eligible_def Let_def fmlookup_None_iff split: if_splits)

lemma fmdrop_set_idle: "(\<And>x. x \<in> A \<Longrightarrow> x |\<notin>| fmdom m) \<Longrightarrow> fmdrop_set A m = m"
  by (rule fmap_ext) (auto simp: fmdom_notD)

text \<open>
  C9: One dispatch pass. The issues it claims are eligible candidates with distinct IDs, taken in
  dispatch order; they never exceed the free global slots, and with the attempts already running
  they never push a state over its cap. The pass is also exhaustive: an eligible candidate is left
  out only when the global slots are used up, its state is at its cap, or an issue with the same ID
  was claimed. Running attempts and retries are untouched, and each claim emits its revalidation.
\<close>

theorem reduceCandidates_pass:
  assumes "reduceCandidates s cands cfg = (s', effs)"
  shows "\<exists>ds. effs = map (\<lambda>d. EffRevalidate d 0) ds \<and>
     subseq ds (sortCandidates (filterEligible cands s cfg)) \<and> distinct (map i_ID ds) \<and>
     s_Running s' = s_Running s \<and> s_RetryAttempts s' = s_RetryAttempts s \<and>
     s_Claimed s' = s_Claimed s |\<union>| fset_of_list (map i_ID ds) \<and>
     int (length ds) \<le> availableGlobalSlots s cfg \<and>
     (\<forall>norm. runningInState s norm + in_state norm ds
        \<le> max (runningInState s norm) (state_capacity cfg norm)) \<and>
     (\<forall>c\<in>set (filterEligible cands s cfg). i_ID c \<in> i_ID ` set ds \<or>
        int (length ds) = availableGlobalSlots s cfg \<or>
        state_capacity cfg (ToLower (i_State c)) \<le>
          runningInState s (ToLower (i_State c)) + in_state (ToLower (i_State c)) ds)"
proof -
  obtain ds where effs: "effs = map (\<lambda>d. EffRevalidate d 0) ds"
    and ok: "pass_ok cfg (sortCandidates (filterEligible cands s cfg)) (availableGlobalSlots s cfg)
       (count_running s) s ds s'"
    using dispatch_loop_ok [OF assms [unfolded reduceCandidates_def]] by auto
  have sub: "set ds \<subseteq> set (filterEligible cands s cfg)"
    using ok by (auto simp: pass_ok_def dest: list_emb_set)
  have "fmdrop_set (i_ID ` set ds) (s_RetryAttempts s) = s_RetryAttempts s"
    by (rule fmdrop_set_idle) (use sub eligible_fresh in blast)
  moreover have "0 \<le> availableGlobalSlots s cfg"
    by (simp add: availableGlobalSlots_def Let_def)
  ultimately show ?thesis
    using effs ok eligible_fresh [of _ cands s cfg]
    by (auto simp: pass_ok_def count_running_eq fset_of_list.rep_eq intro!: exI [of _ ds])
qed

definition demo_issue :: "string \<Rightarrow> string \<Rightarrow> int option \<Rightarrow> issue" where
  "demo_issue i st prio = \<lparr> i_ID = i, i_Identifier = i, i_Title = ''t'', i_Description = [],
     i_Priority = prio, i_State = st, i_BranchName = [], i_URL = [], i_Labels = [], i_BlockedBy = [],
     i_Project = \<lparr> p_Name = [], p_Content = [] \<rparr>, i_CreatedAt = 0, i_UpdatedAt = 0 \<rparr>"

definition demo_cfg :: "int \<Rightarrow> config" where
  "demo_cfg n = zero_config\<lparr>
     c_Tracker := (c_Tracker zero_config)\<lparr> tc_ActiveStates := [''Todo''], tc_TerminalStates := [''Done''] \<rparr>,
     c_Agent := (c_Agent zero_config)\<lparr> ac_MaxConcurrentAgents := n, ac_MaxRetryBackoffMS := 300000 \<rparr>,
     c_Codex := (c_Codex zero_config)\<lparr> cc_StallTimeoutMS := 300000 \<rparr> \<rparr>"

lemma demo_issue_sel [simp]:
  "i_ID (demo_issue i st p) = i" "i_Identifier (demo_issue i st p) = i"
  "i_Title (demo_issue i st p) = ''t''" "i_State (demo_issue i st p) = st"
  "i_Priority (demo_issue i st p) = p" "i_CreatedAt (demo_issue i st p) = 0"
  "i_BlockedBy (demo_issue i st p) = []"
  by (simp_all add: demo_issue_def)

lemma demo_cfg_sel [simp]:
  "ac_MaxConcurrentAgents (c_Agent (demo_cfg n)) = n"
  "ac_MaxConcurrentAgentsByState (c_Agent (demo_cfg n)) = fmempty"
  "ac_MaxRetryBackoffMS (c_Agent (demo_cfg n)) = 300000"
  "cc_StallTimeoutMS (c_Codex (demo_cfg n)) = 300000"
  "normSet (tc_ActiveStates (c_Tracker (demo_cfg n))) = [''todo'']"
  "normSet (tc_TerminalStates (c_Tracker (demo_cfg n))) = [''done'']"
proof -
  have "ToLower ''Todo'' = ''todo''" "ToLower ''Done'' = ''done''" by code_simp+
  then show "normSet (tc_ActiveStates (c_Tracker (demo_cfg n))) = [''todo'']"
    "normSet (tc_TerminalStates (c_Tracker (demo_cfg n))) = [''done'']"
    by (simp_all add: demo_cfg_def normSet_def)
qed (simp_all add: demo_cfg_def zero_config_def)

lemma NewState_sel [simp]:
  "s_Running NewState = fmempty" "s_Claimed NewState = {||}" "s_RetryAttempts NewState = fmempty"
  by (simp_all add: NewState_def)

lemma slots_NewState: "availableGlobalSlots NewState (demo_cfg 1) = 1"
  by (simp add: availableGlobalSlots_def retryQueuedCount_def Let_def)

text \<open>Two candidates, one slot: the one with the more urgent priority is claimed.\<close>

theorem reduceCandidates_pass_witness:
  "\<exists>ds. map (\<lambda>d. EffRevalidate d 0) ds = [EffRevalidate (demo_issue ''b'' ''todo'' (Some 1)) 0] \<and>
     int (length ds) \<le> availableGlobalSlots NewState (demo_cfg 1)"
proof -
  let ?a = "demo_issue ''a'' ''todo'' None" and ?b = "demo_issue ''b'' ''todo'' (Some 1)"
  have low: "ToLower ''todo'' = ''todo''" by code_simp
  have "filterEligible [?a, ?b] NewState (demo_cfg 1) = [?a, ?b]"
    by (simp add: filterEligible_def eligible_def low Let_def hasActiveBlocker_def)
  moreover have "sortCandidates [?a, ?b] = [?b, ?a]"
    by (simp add: sortCandidates_def SliceStable_def cand_less_def Let_def)
  moreover have "state_capacity (demo_cfg 1) ''todo'' = 1" by (simp add: state_capacity_def)
  ultimately have "reduceCandidates NewState [?a, ?b] (demo_cfg 1) =
     (fst (reduceCandidates NewState [?a, ?b] (demo_cfg 1)), [EffRevalidate ?b 0])"
    by (simp add: reduceCandidates_def slots_NewState count_running_def used_in_def claim_def low Let_def)
  from reduceCandidates_pass [OF this] obtain ds where
    "[EffRevalidate ?b 0] = map (\<lambda>d. EffRevalidate d 0) ds"
    "int (length ds) \<le> availableGlobalSlots NewState (demo_cfg 1)"
    by (elim exE conjE)
  then show ?thesis by (intro exI [of _ ds]) simp
qed

section \<open>Reconcile Part A: stalled attempts\<close>

definition stall_entry :: "config \<Rightarrow> go_time \<Rightarrow> string \<Rightarrow> run_attempt \<Rightarrow> sched_err \<Rightarrow> retry_entry" where
  "stall_entry cfg now i run cause =
     \<lparr> re_IssueID = i, re_Identifier = i_Identifier (ra_Issue run), re_Attempt = ra_Attempt run + 1,
       re_Kind = RetryBackoff, re_Err = Some cause,
       re_DueAtMS = UnixMilli (now + backoffDelay (ra_Attempt run + 1) cfg) \<rparr>"

definition kill_effs :: "config \<Rightarrow> string \<Rightarrow> run_attempt \<Rightarrow> string \<Rightarrow> effect list" where
  "kill_effs cfg i run reason =
     [EffKillWorker i reason,
      EffArmRetryTimer i (i_Identifier (ra_Issue run)) (ra_Attempt run + 1)
        (backoffDelay (ra_Attempt run + 1) cfg)]"

lemma reconcileKillRetry_eq:
  "fmlookup (s_Running s) i = Some run \<Longrightarrow>
   reconcileKillRetry s effs i (ra_Attempt run) cause reason cfg now =
     (s\<lparr> s_Running := fmdrop i (s_Running s),
         s_RetryAttempts := fmupd i (stall_entry cfg now i run cause) (s_RetryAttempts s) \<rparr>,
      effs @ kill_effs cfg i run reason)"
  by (simp add: reconcileKillRetry_def workerExitAbnormal_def armRetry_def enqueueRetry_def
      stall_entry_def kill_effs_def)

definition is_stalled :: "config \<Rightarrow> go_time \<Rightarrow> state \<Rightarrow> string \<Rightarrow> bool" where
  "is_stalled cfg now s i \<longleftrightarrow> (\<exists>run. fmlookup (s_Running s) i = Some run \<and> stalled cfg now run)"

lemma stall_loop_eq:
  assumes "distinct ids" "stall_loop cfg now ids s effs = (s', effs')"
  shows "s_Claimed s' = s_Claimed s \<and>
    (\<forall>i. fmlookup (s_Running s') i =
       (if i \<in> set ids \<and> is_stalled cfg now s i then None else fmlookup (s_Running s) i)) \<and>
    (\<forall>i. fmlookup (s_RetryAttempts s') i =
       (if i \<in> set ids \<and> is_stalled cfg now s i
        then Some (stall_entry cfg now i (the (fmlookup (s_Running s) i)) ErrStall)
        else fmlookup (s_RetryAttempts s) i)) \<and>
    effs' = effs @ concat (map (\<lambda>i. kill_effs cfg i (the (fmlookup (s_Running s) i)) ''stall'')
       (filter (is_stalled cfg now s) ids))"
  using assms
proof (induction ids arbitrary: s effs)
  case (Cons i ids)
  show ?case
  proof (cases "is_stalled cfg now s i")
    case False
    then have "stall_loop cfg now ids s effs = (s', effs')"
      using Cons.prems(2) by (auto simp: is_stalled_def split: option.splits)
    from Cons.IH [OF _ this] Cons.prems(1) False show ?thesis by auto
  next
    case True
    then obtain run where run: "fmlookup (s_Running s) i = Some run" "stalled cfg now run"
      by (auto simp: is_stalled_def)
    let ?s1 = "s\<lparr> s_Running := fmdrop i (s_Running s),
         s_RetryAttempts := fmupd i (stall_entry cfg now i run ErrStall) (s_RetryAttempts s) \<rparr>"
    have loop: "stall_loop cfg now ids ?s1 (effs @ kill_effs cfg i run ''stall'') = (s', effs')"
      using Cons.prems(2) run by (simp add: reconcileKillRetry_eq)
    have same: "is_stalled cfg now ?s1 j = is_stalled cfg now s j"
      "fmlookup (s_Running ?s1) j = fmlookup (s_Running s) j" if "j \<in> set ids" for j
      using that Cons.prems(1) by (auto simp: is_stalled_def)
    have effs: "concat (map (\<lambda>i. kill_effs cfg i (the (fmlookup (s_Running ?s1) i)) ''stall'')
         (filter (is_stalled cfg now ?s1) ids))
       = concat (map (\<lambda>i. kill_effs cfg i (the (fmlookup (s_Running s) i)) ''stall'')
         (filter (is_stalled cfg now s) ids))"
      by (intro arg_cong [where f = concat] map_cong filter_cong) (use same in auto)
    from Cons.IH [OF _ loop] Cons.prems(1) same run True show ?thesis
      unfolding effs by (auto simp del: fmlookup_drop) (auto)
  qed
qed simp

text \<open>
  C12: The stall pass is exact. With stall detection enabled, precisely the running attempts whose
  last activity (or start, when there was none) is longer ago than the timeout leave the running
  set; each becomes a backoff retry of the next attempt number and has its kill and its timer among
  the effects, in ID order; every other attempt, every other retry and every claim is unchanged.
\<close>

theorem reduceStall_exact:
  assumes "0 < cc_StallTimeoutMS (c_Codex cfg)" "reduceStall s cfg now = (s', effs)"
  shows "s_Claimed s' = s_Claimed s \<and>
    (\<forall>i. fmlookup (s_Running s') i =
       (if is_stalled cfg now s i then None else fmlookup (s_Running s) i)) \<and>
    (\<forall>i. fmlookup (s_RetryAttempts s') i =
       (if is_stalled cfg now s i
        then Some (stall_entry cfg now i (the (fmlookup (s_Running s) i)) ErrStall)
        else fmlookup (s_RetryAttempts s) i)) \<and>
    effs = concat (map (\<lambda>i. kill_effs cfg i (the (fmlookup (s_Running s) i)) ''stall'')
       (filter (is_stalled cfg now s) (sortedRunningIDs s)))"
proof -
  have loop: "stall_loop cfg now (sortedRunningIDs s) s [] = (s', effs)"
    using assms by (simp add: reduceStall_def)
  have dom: "is_stalled cfg now s i \<Longrightarrow> i \<in> set (sortedRunningIDs s)" for i
    by (auto simp: is_stalled_def sortedRunningIDs_def intro: fmdomI)
  show ?thesis
    using stall_loop_eq [OF _ loop] dom by (auto simp: sortedRunningIDs_def)
qed

definition demo_session :: live_session where
  "demo_session = \<lparr> ls_SessionID = ''s'', ls_ThreadID = [], ls_TurnID = [], ls_StartedAt = 0 \<rparr>"

definition demo_running :: state where
  "demo_running = markRunning (NewState\<lparr> s_Claimed := {|''a''|} \<rparr>) (demo_issue ''a'' ''todo'' None) 0 demo_session"

theorem reduceStall_exact_witness:
  "\<exists>s' effs. reduceStall demo_running (demo_cfg 1) (400000 * millisecond) = (s', effs) \<and>
     fmlookup (s_Running s') ''a'' = None \<and> re_Attempt (the (fmlookup (s_RetryAttempts s') ''a'')) = 1"
proof -
  obtain s' effs where r: "reduceStall demo_running (demo_cfg 1) (400000 * millisecond) = (s', effs)"
    by (cases "reduceStall demo_running (demo_cfg 1) (400000 * millisecond)")
  have "is_stalled (demo_cfg 1) (400000 * millisecond) demo_running ''a''"
    by (simp add: is_stalled_def demo_running_def markRunning_def stalled_def demo_session_def
        time_simps wrap64_def Let_def)
  moreover have "ra_Attempt (the (fmlookup (s_Running demo_running) ''a'')) = 0"
    by (simp add: demo_running_def markRunning_def)
  ultimately show ?thesis
    using reduceStall_exact [OF _ r] r by (simp add: stall_entry_def)
qed

section \<open>Reconcile Part B: the tracker's answer\<close>

datatype verdict = Keep issue | Finish | Retry sched_err

text \<open>What the tracker's answer means for a running issue.\<close>

definition judge :: "config \<Rightarrow> issue option \<Rightarrow> verdict" where
  "judge cfg ans = (case ans of
       None \<Rightarrow> Retry ErrNotInRefresh
     | Some iss \<Rightarrow>
         if ToLower (i_State iss) \<in> set (normSet (tc_TerminalStates (c_Tracker cfg))) then Finish
         else if ToLower (i_State iss) \<in> set (normSet (tc_ActiveStates (c_Tracker cfg))) then Keep iss
         else Retry ErrLeftActiveStates)"

text \<open>
  What the three maps say of one issue, and how a verdict changes it: an issue that is not running
  is left alone, one that is kept gets the fresh snapshot, a finished one is dropped everywhere, and
  the others become retries.
\<close>

type_synonym issue_view = "run_attempt option \<times> retry_entry option \<times> bool"

definition view :: "state \<Rightarrow> string \<Rightarrow> issue_view" where
  "view s i = (fmlookup (s_Running s) i, fmlookup (s_RetryAttempts s) i, i |\<in>| s_Claimed s)"

definition refresh_view :: "config \<Rightarrow> go_time \<Rightarrow> string \<Rightarrow> issue option \<Rightarrow> issue_view \<Rightarrow> issue_view" where
  "refresh_view cfg now i ans v = (case v of
       (None, _, _) \<Rightarrow> v
     | (Some run, retry, claimed) \<Rightarrow>
         (case judge cfg ans of
            Keep iss \<Rightarrow> (Some (run\<lparr> ra_Issue := iss \<rparr>), retry, claimed)
          | Finish \<Rightarrow> (None, None, False)
          | Retry cause \<Rightarrow> (None, Some (stall_entry cfg now i run cause), claimed)))"

lemma refresh_view_idem [simp]:
  "refresh_view cfg now i ans (refresh_view cfg now i ans v) = refresh_view cfg now i ans v"
  by (auto simp: refresh_view_def split: prod.splits option.splits verdict.splits)

lemma refresh_loop_Cons:
  "refresh_loop byID cfg now (i # ids) s effs =
     (case fmlookup (s_Running s) i of
        None \<Rightarrow> refresh_loop byID cfg now ids s effs
      | Some run \<Rightarrow>
          (case judge cfg (byID i) of
             Keep iss \<Rightarrow> refresh_loop byID cfg now ids
               (s\<lparr> s_Running := fmupd i (run\<lparr> ra_Issue := iss \<rparr>) (s_Running s) \<rparr>) effs
           | Finish \<Rightarrow> refresh_loop byID cfg now ids (releaseClaim s i)
               (effs @ [EffKillWorker i ''terminal'', EffRemoveWorkspace (i_Identifier (ra_Issue run))])
           | Retry cause \<Rightarrow> refresh_loop byID cfg now ids
               (s\<lparr> s_Running := fmdrop i (s_Running s),
                   s_RetryAttempts := fmupd i (stall_entry cfg now i run cause) (s_RetryAttempts s) \<rparr>)
               (effs @ kill_effs cfg i run
                  (if cause = ErrNotInRefresh then ''not-found'' else ''non-active''))))"
  by (auto simp: judge_def reconcileKillRetry_eq updateIssueSnapshot_def Let_def
      simp del: refresh_loop.simps(1) split: option.splits)

lemma refresh_loop_view:
  "refresh_loop byID cfg now ids s effs = (s', effs') \<Longrightarrow>
     view s' j = (if j \<in> set ids then refresh_view cfg now j (byID j) (view s j) else view s j)"
proof (induction ids arbitrary: s effs)
  case (Cons i ids)
  show ?case
  proof (cases "fmlookup (s_Running s) i")
    case None
    with Cons.prems have "refresh_loop byID cfg now ids s effs = (s', effs')"
      by (simp only: refresh_loop_Cons option.case)
    from Cons.IH [OF this] None show ?thesis
      by (auto simp: view_def refresh_view_def)
  next
    case (Some run)
    obtain s1 effs1 where loop: "refresh_loop byID cfg now ids s1 effs1 = (s', effs')"
      and s1: "s1 = (case judge cfg (byID i) of
             Keep iss \<Rightarrow> s\<lparr> s_Running := fmupd i (run\<lparr> ra_Issue := iss \<rparr>) (s_Running s) \<rparr>
           | Finish \<Rightarrow> releaseClaim s i
           | Retry cause \<Rightarrow> s\<lparr> s_Running := fmdrop i (s_Running s),
                   s_RetryAttempts := fmupd i (stall_entry cfg now i run cause) (s_RetryAttempts s) \<rparr>)"
      using Cons.prems Some by (cases "judge cfg (byID i)") (auto simp only: refresh_loop_Cons option.case verdict.case)
    have "view s1 j = (if j = i then refresh_view cfg now j (byID j) (view s j) else view s j)"
      using Some s1 by (auto simp: view_def refresh_view_def pop split: verdict.splits)
    with Cons.IH [OF loop] show ?thesis by auto
  qed
qed simp

text \<open>
  C10: The refresh pass does to each issue exactly what the tracker's answer calls for, and nothing to
  any other. A requested issue that is still running keeps running with the fresh snapshot when its
  state is active; it is dropped from all maps when its state is terminal (the terminal list wins
  over the active one); it becomes a retry of the next attempt when it is missing from the answer or
  in neither list. Issues not requested or no longer running are untouched, duplicates included.
\<close>

theorem reduceTrackerRefreshed_exact:
  "view (fst (reduceTrackerRefreshed s ids issues cfg now)) i =
     (if i \<in> set ids then refresh_view cfg now i (by_id issues i) (view s i) else view s i)"
proof -
  obtain s' effs where "refresh_loop (by_id issues) cfg now (sortedIDs ids) s [] = (s', effs)"
    by (cases "refresh_loop (by_id issues) cfg now (sortedIDs ids) s []")
  with refresh_loop_view [OF this] show ?thesis
    by (simp add: reduceTrackerRefreshed_def sortedIDs_def)
qed

section \<open>Backoff\<close>

lemma backoff_small:
  assumes "1 \<le> a" "a \<le> 50" "0 < ac_MaxRetryBackoffMS (c_Agent cfg)"
    and "ac_MaxRetryBackoffMS (c_Agent cfg) \<le> 9223372036854"
  shows "backoffDelay a cfg = min (10000 * 2 ^ nat (a - 1)) (ac_MaxRetryBackoffMS (c_Agent cfg)) * millisecond"
proof -
  have fits: "wrap64 (10000 * p) = 10000 * p" if "0 \<le> p" "p \<le> 2 ^ 49" for p :: int
    by (rule wrap64_id) (use that in simp_all)
  have "(2::int) ^ nat (a - 1) \<le> 2 ^ 49"
    using assms(2) by (intro power_increasing) auto
  then have w: "wrap64 (10000 * 2 ^ nat (a - 1)) = 10000 * 2 ^ nat (a - 1)"
    by (intro fits) simp_all
  have "\<bar>m * millisecond\<bar> < 2 ^ 63" if "0 < m" "m \<le> 9223372036854" for m :: int
    using that by (simp add: millisecond_def)
  then have "wrap64 (m * millisecond) = m * millisecond" if "0 < m" "m \<le> 9223372036854" for m :: int
    using that by (intro wrap64_id) (fastforce simp: millisecond_def)+
  with assms w show ?thesis
    by (simp add: backoffDelay_def Let_def min_def)
qed

text \<open>
  C23: Backoff for the first fifty attempts. With a configured maximum that fits a duration, the delay
  is ten seconds doubled once per attempt and cut at the maximum; so it is positive, never exceeds
  the maximum, and never shrinks from one attempt to the next.
\<close>

theorem backoffDelay_capped_exponential:
  assumes "1 \<le> a" "a < 50" "0 < ac_MaxRetryBackoffMS (c_Agent cfg)"
    and "ac_MaxRetryBackoffMS (c_Agent cfg) \<le> 9223372036854"
  shows "backoffDelay a cfg =
      min (10000 * 2 ^ nat (a - 1)) (ac_MaxRetryBackoffMS (c_Agent cfg)) * millisecond \<and>
    0 < backoffDelay a cfg \<and>
    backoffDelay a cfg \<le> ac_MaxRetryBackoffMS (c_Agent cfg) * millisecond \<and>
    backoffDelay a cfg \<le> backoffDelay (a + 1) cfg"
proof -
  have mono: "min (10000 * p) m * millisecond \<le> min (10000 * q) m * millisecond"
    if "p \<le> q" for p q m :: int
    using that by (auto simp: millisecond_def min_def)
  have "(2::int) ^ nat (a - 1) \<le> 2 ^ nat a" by (intro power_increasing) auto
  note step = mono [OF this, of "ac_MaxRetryBackoffMS (c_Agent cfg)"]
  have "0 < min (10000 * 2 ^ nat (a - 1)) (ac_MaxRetryBackoffMS (c_Agent cfg)) * millisecond"
    "min (10000 * 2 ^ nat (a - 1)) (ac_MaxRetryBackoffMS (c_Agent cfg)) * millisecond
       \<le> ac_MaxRetryBackoffMS (c_Agent cfg) * millisecond"
    using assms(3) by (auto simp: millisecond_def)
  with step show ?thesis
    using assms backoff_small [of a cfg] backoff_small [of "a + 1" cfg] by simp
qed

theorem backoffDelay_capped_exponential_witness:
  "backoffDelay 3 (demo_cfg 1) = 40000 * millisecond \<and> backoffDelay 9 (demo_cfg 1) = 300000 * millisecond"
  using backoffDelay_capped_exponential [of 3 "demo_cfg 1"] backoffDelay_capped_exponential [of 9 "demo_cfg 1"]
  by simp

text \<open>
  C29: The cap does not survive overflow. From attempt 61 on, the shifted product is a multiple of
  \<open>2^64\<close>, so the delay is zero whatever maximum is configured: a permanently failing issue is then
  retried without any delay. At attempt 51 the product is already negative and escapes the cap.
\<close>

theorem backoffDelay_overflow:
  assumes "61 \<le> a"
  shows "backoffDelay a cfg = 0"
proof -
  define sh where "sh = (if a - 1 > 62 then 62 else a - 1)"
  have "sh = 60 \<or> sh = 61 \<or> sh = 62" using assms by (auto simp: sh_def)
  then have "wrap64 (10000 * 2 ^ nat sh) = 0" by (elim disjE) (simp_all add: wrap64_def)
  moreover have "wrap64 0 = 0" by (simp add: wrap64_def)
  moreover have "\<not> a < 1" using assms by simp
  ultimately show ?thesis unfolding backoffDelay_def Let_def
    by (simp only: if_False flip: sh_def) simp
qed

theorem backoffDelay_overflow_witness:
  "backoffDelay 61 (demo_cfg 1) = 0 \<and> backoffDelay 50 (demo_cfg 1) = 300000 * millisecond"
  using backoffDelay_overflow [of 61 "demo_cfg 1"] backoff_small [of 50 "demo_cfg 1"] by simp

section \<open>A failed spawn\<close>



end
