(* ===== verification/Workflowfile.thy ===== *)
theory Workflowfile
  imports Wfconfig
begin

text \<open>
  Package \<open>orchestrator/workflowfile\<close>: splitting a WORKFLOW.md file into front matter and prompt
  template. The YAML decoder is a parameter: it fails, or yields nothing (an empty document), or
  yields a value. The file's content is a byte string; white space is ASCII white space.
\<close>

record workflow =
  w_Config :: "(string \<times> any) list"
  w_PromptTemplate :: string

datatype wf_error =
    ErrMissingWorkflowFile string
  | ErrWorkflowParse
  | ErrFrontMatterNotMap

type_synonym yaml_decoder = "string \<Rightarrow> any option option"

abbreviation newline :: char where
  "newline \<equiv> CHR 0x0A"

abbreviation carriage :: char where
  "carriage \<equiv> CHR 0x0D"

text \<open>\<open>strings.ReplaceAll\<close> of CR LF by LF.\<close>

fun replace_crlf :: "string \<Rightarrow> string" where
  "replace_crlf (c # d # s) =
     (if c = carriage \<and> d = newline then newline # replace_crlf s else c # replace_crlf (d # s))"
| "replace_crlf s = s"

text \<open>The loop of \<open>splitFrontMatter\<close>: \<open>fm\<close> holds the lines before index \<open>i\<close>.\<close>

fun scan_front :: "string list \<Rightarrow> string list \<Rightarrow> (string list \<times> string list) option" where
  "scan_front fm [] = None"
| "scan_front fm (l # ls) = (if l = ''---'' then Some (fm, ls) else scan_front (fm @ [l]) ls)"

definition splitFrontMatter :: "string list \<Rightarrow> wf_error + (string \<times> string)" where
  "splitFrontMatter lines =
     (case scan_front [] (drop 1 lines) of
        None \<Rightarrow> Inl ErrWorkflowParse
      | Some (fm, body) \<Rightarrow> Inr (join_with [newline] fm, join_with [newline] body))"

definition buildWorkflow :: "yaml_decoder \<Rightarrow> string \<Rightarrow> string \<Rightarrow> wf_error + workflow" where
  "buildWorkflow yaml fm body =
     (case yaml fm of
        None \<Rightarrow> Inl ErrWorkflowParse
      | Some None \<Rightarrow> Inr \<lparr> w_Config = [], w_PromptTemplate = TrimSpace body \<rparr>
      | Some (Some (AMap cfg)) \<Rightarrow> Inr \<lparr> w_Config = cfg, w_PromptTemplate = TrimSpace body \<rparr>
      | Some (Some _) \<Rightarrow> Inl ErrFrontMatterNotMap)"

definition Parse :: "yaml_decoder \<Rightarrow> string \<Rightarrow> wf_error + workflow" where
  "Parse yaml data =
     (let text = replace_crlf data; lines = split_char newline text in
      if lines = [] \<or> hd lines \<noteq> ''---'' then Inr \<lparr> w_Config = [], w_PromptTemplate = TrimSpace text \<rparr>
      else case splitFrontMatter lines of
          Inl e \<Rightarrow> Inl e
        | Inr (fm, body) \<Rightarrow> buildWorkflow yaml fm body)"

definition Load :: "(string \<Rightarrow> string option) \<Rightarrow> yaml_decoder \<Rightarrow> string \<Rightarrow> wf_error + workflow" where
  "Load ReadFile yaml path =
     (case ReadFile path of
        None \<Rightarrow> Inl (ErrMissingWorkflowFile path)
      | Some data \<Rightarrow> Parse yaml data)"

section \<open>Properties\<close>

lemma replace_crlf_id: "carriage \<notin> set s \<Longrightarrow> replace_crlf s = s"
  by (induction s rule: replace_crlf.induct) auto

lemma scan_front_app:
  "''---'' \<notin> set fm \<Longrightarrow> scan_front acc (fm @ ls) = scan_front (acc @ fm) ls"
  by (induction fm arbitrary: acc) auto

lemma set_join_with: "set (join_with sep ws) \<subseteq> set sep \<union> (\<Union>w\<in>set ws. set w)"
  by (induction sep ws rule: join_with.induct) auto

definition text_line :: "string \<Rightarrow> bool" where
  "text_line l \<longleftrightarrow> newline \<notin> set l \<and> carriage \<notin> set l"

lemma lines_of_document:
  assumes "ls \<noteq> []" "list_all text_line ls"
  shows "split_char newline (replace_crlf (join_with [newline] ls)) = ls"
proof -
  have "carriage \<notin> set (join_with [newline] ls)"
    using assms(2) set_join_with [of "[newline]" ls] by (fastforce simp: list_all_iff text_line_def)
  with assms show ?thesis
    by (simp add: replace_crlf_id) (rule split_join, auto simp: list_all_iff text_line_def)
qed

text \<open>
  C19: The grammar of the file, on every branch. A document opened by a \<open>---\<close> line whose next
  \<open>---\<close> line comes after the lines \<open>fm\<close> hands exactly \<open>fm\<close> to the YAML decoder and exactly the
  lines after it to the prompt (a later \<open>---\<close> line is body text); without a closing line it is a
  parse error; a document that does not start with a \<open>---\<close> line is all prompt.
\<close>

theorem Parse_document:
  assumes "list_all text_line fm" "list_all text_line body" "''---'' \<notin> set fm"
  shows "Parse yaml (join_with [newline] (''---'' # fm @ ''---'' # body)) =
      buildWorkflow yaml (join_with [newline] fm) (join_with [newline] body) \<and>
    Parse yaml (join_with [newline] (''---'' # fm)) = Inl ErrWorkflowParse \<and>
    (fm \<noteq> [] \<longrightarrow> Parse yaml (join_with [newline] (fm @ body)) =
      Inr \<lparr> w_Config = [], w_PromptTemplate = TrimSpace (join_with [newline] (fm @ body)) \<rparr>)"
proof -
  have dash: "text_line ''---''" by (simp add: text_line_def)
  have "split_char newline (replace_crlf (join_with [newline] (''---'' # fm @ ''---'' # body))) =
      ''---'' # fm @ ''---'' # body"
    by (rule lines_of_document) (use assms dash in \<open>simp_all add: list_all_append\<close>)
  moreover have "split_char newline (replace_crlf (join_with [newline] (''---'' # fm))) = ''---'' # fm"
    by (rule lines_of_document) (use assms dash in \<open>simp_all add: list_all_append\<close>)
  moreover have "split_char newline (replace_crlf (join_with [newline] (fm @ body))) = fm @ body"
    if "fm \<noteq> []"
    by (rule lines_of_document) (use assms that in \<open>simp_all add: list_all_append\<close>)
  moreover have "replace_crlf (join_with [newline] (fm @ body)) = join_with [newline] (fm @ body)"
    using assms(1,2) set_join_with [of "[newline]" "fm @ body"]
    by (intro replace_crlf_id) (fastforce simp: list_all_iff text_line_def)
  moreover have "fm \<noteq> [] \<Longrightarrow> hd (fm @ body) \<noteq> ''---''"
    using assms(3) by (metis hd_append2 hd_in_set)
  ultimately show ?thesis
    using scan_front_app [OF assms(3), of "[]" "''---'' # body"] scan_front_app [OF assms(3), of "[]" "[]"]
    by (simp add: Parse_def Let_def splitFrontMatter_def)
qed

theorem Parse_document_witness:
  "Parse (\<lambda>_. Some (Some (AMap [(''k'', AStr ''v'')])))
     (join_with [newline] [''---'', ''k: v'', ''---'', '' Fix it'', ''---'']) =
   Inr \<lparr> w_Config = [(''k'', AStr ''v'')], w_PromptTemplate = join_with [newline] [''Fix it'', ''---''] \<rparr>"
proof -
  have "list_all text_line [''k: v'']" "list_all text_line ['' Fix it'', ''---'']"
    by (simp_all add: text_line_def)
  then show ?thesis
    using Parse_document [of "[''k: v'']" "['' Fix it'', ''---'']"
        "\<lambda>_. Some (Some (AMap [(''k'', AStr ''v'')]))"]
    by (simp add: buildWorkflow_def TrimSpace_def is_space_def)
qed

end
