(* ===== verification/Sched_Shell.thy ===== *)
theory Sched_Shell
  imports Sched_Props Workflowfile
begin

text \<open>
  The imperative shell of \<open>orchestrator/scheduler\<close> (\<open>scheduler.go\<close>, \<open>effects_exec.go\<close>,
  \<open>preflight.go\<close>, \<open>startup.go\<close>, \<open>snapshot.go\<close>): the loop that folds events through \<open>Reduce\<close>,
  performs the effects and feeds their results back. The injected dependencies are a record of
  functions on a world \<open>'w\<close>, a nil dependency is \<open>None\<close>; a live worker is a handle, a timer is the
  request it will deliver, with a flag that says whether it is still armed.
\<close>

section \<open>dispatch.go and clock.go: the injected dependencies\<close>

record 'w tracker_api =
  api_RefreshStates :: "string list \<Rightarrow> 'w \<Rightarrow> (sched_err + issue list) \<times> 'w"
  api_TerminalIssues :: "'w \<Rightarrow> (sched_err + issue list) \<times> 'w"

record 'w deps =
  d_Tracker :: "('w \<Rightarrow> (sched_err + issue list) \<times> 'w) option"
  d_Spawn :: "(issue \<Rightarrow> int \<Rightarrow> 'w \<Rightarrow> (sched_err + live_session \<times> nat option) \<times> 'w) option"
  d_RefreshTracker :: "'w tracker_api option"
  d_Workspace :: "(string \<Rightarrow> 'w \<Rightarrow> sched_err option \<times> 'w) option"
  d_Kill :: "nat \<Rightarrow> string \<Rightarrow> 'w \<Rightarrow> 'w"
  d_Now :: "'w \<Rightarrow> go_time"
  d_ReadFile :: "'w \<Rightarrow> string \<Rightarrow> string option"
  d_Yaml :: yaml_decoder
  d_Getenv :: "'w \<Rightarrow> string \<Rightarrow> string"

definition revalidateIssue ::
  "'w tracker_api \<Rightarrow> string \<Rightarrow> 'w \<Rightarrow> (sched_err + issue option) \<times> 'w" where
  "revalidateIssue rv issueID w =
     (case api_RefreshStates rv [issueID] w of
        (Inl err, w) \<Rightarrow> (Inl err, w)
      | (Inr issues, w) \<Rightarrow> (Inr (findIssue issues issueID), w))"

section \<open>preflight.go\<close>

datatype preflight_err =
  KindRequired | KindNotSupported string | APIKeyRequired | ProjectSlugsRequired | CommandRequired

definition supportedTrackerKinds :: "string list" where
  "supportedTrackerKinds = [''linear'']"

definition Preflight :: "config \<Rightarrow> preflight_err option" where
  "Preflight cfg =
     (if tc_Kind (c_Tracker cfg) = [] then Some KindRequired
      else if tc_Kind (c_Tracker cfg) \<notin> set supportedTrackerKinds then
        Some (KindNotSupported (tc_Kind (c_Tracker cfg)))
      else if tc_APIKey (c_Tracker cfg) = [] then Some APIKeyRequired
      else if tc_Kind (c_Tracker cfg) = ''linear'' \<and> tc_ProjectSlugs (c_Tracker cfg) = [] then
        Some ProjectSlugsRequired
      else if cc_Command (c_Codex cfg) = [] then Some CommandRequired
      else None)"

section \<open>scheduler.go: the scheduler\<close>

record retry_fire_req =
  rf_IssueID :: string
  rf_Identifier :: string
  rf_Attempt :: int

record timer =
  tm_Req :: retry_fire_req
  tm_Delay :: duration
  tm_Armed :: bool

text \<open>
  The channels: \<open>reloadCh\<close> holds at most one signal, \<open>retryFire\<close> is the queue of fired requests (a
  callback that finds the channel full waits in its own goroutine, so nothing is dropped).
\<close>

record 'w scheduler =
  sh_WorkflowPath :: string
  sh_Interval :: duration
  sh_LastGood :: config
  sh_LastGoodTemplate :: string
  sh_ReloadCh :: bool
  sh_Degraded :: bool
  sh_Available :: bool
  sh_Cur :: state
  sh_Cfg :: config
  sh_Published :: "state option"
  sh_Workers :: "(string, nat) fmap"
  sh_Timers :: "(string, timer) fmap"
  sh_RetryFire :: "retry_fire_req list"
  sh_World :: 'w

definition publish :: "'w scheduler \<Rightarrow> 'w scheduler" where
  "publish s = s\<lparr> sh_Published := Some (sh_Cur s) \<rparr>"

definition NewScheduler :: "string \<Rightarrow> config \<Rightarrow> string \<Rightarrow> 'w \<Rightarrow> 'w scheduler" where
  "NewScheduler workflowPath cfg tmpl w = publish
     \<lparr> sh_WorkflowPath = workflowPath,
       sh_Interval = wrap64 (pc_IntervalMS (c_Polling cfg) * millisecond),
       sh_LastGood = cfg, sh_LastGoodTemplate = tmpl, sh_ReloadCh = False, sh_Degraded = False,
       sh_Available = False, sh_Cur = NewState, sh_Cfg = cfg, sh_Published = None,
       sh_Workers = fmempty, sh_Timers = fmempty, sh_RetryFire = [], sh_World = w \<rparr>"

text \<open>\<open>Refresh\<close> queues a tick; the result says whether one was pending already.\<close>

definition Refresh :: "'w scheduler \<Rightarrow> 'w scheduler \<times> bool" where
  "Refresh s = (if sh_ReloadCh s then (s, True) else (s\<lparr> sh_ReloadCh := True \<rparr>, False))"

definition intervalOrFallback :: "'w scheduler \<Rightarrow> duration" where
  "intervalOrFallback s = (if sh_Interval s > 0 then sh_Interval s else 1000 * millisecond)"

definition applyInterval :: "'w scheduler \<Rightarrow> 'w scheduler" where
  "applyInterval s =
     (let want = wrap64 (pc_IntervalMS (c_Polling (sh_LastGood s)) * millisecond)
      in if want > 0 \<and> want \<noteq> sh_Interval s then s\<lparr> sh_Interval := want \<rparr> else s)"

definition markDegraded :: "'w scheduler \<Rightarrow> 'w scheduler" where
  "markDegraded s = (if \<not> sh_Degraded s then s\<lparr> sh_Degraded := True \<rparr> else s)"

text \<open>\<open>filepath.Dir\<close>: everything up to the last separator, cleaned.\<close>

definition path_dir :: "string \<Rightarrow> string" where
  "path_dir p = Clean (rev (dropWhile (\<lambda>c. c \<noteq> slash) (rev p)))"

definition reloadConfig :: "'w deps \<Rightarrow> 'w scheduler \<Rightarrow> 'w scheduler \<times> config \<times> bool" where
  "reloadConfig d s =
     (case Load (d_ReadFile d (sh_World s)) (d_Yaml d) (sh_WorkflowPath s) of
        Inl _ \<Rightarrow> (markDegraded s, sh_LastGood s, False)
      | Inr wfl \<Rightarrow>
          (case Resolve (d_Getenv d (sh_World s)) (w_Config wfl) (path_dir (sh_WorkflowPath s)) of
             (_, Some _) \<Rightarrow> (markDegraded s, sh_LastGood s, False)
           | (cfg, None) \<Rightarrow>
               (case Preflight cfg of
                  Some _ \<Rightarrow> (markDegraded s, sh_LastGood s, False)
                | None \<Rightarrow>
                    (s\<lparr> sh_Degraded := False, sh_LastGood := cfg,
                        sh_LastGoodTemplate := w_PromptTemplate wfl \<rparr>, cfg, True))))"

section \<open>effects\_exec.go: performing one effect\<close>

text \<open>
  Each function performs the I/O of one effect and yields the event that the code then folds with
  \<open>step\<close>, when there is one.
\<close>

definition execFetchCandidates :: "'w deps \<Rightarrow> 'w scheduler \<Rightarrow> 'w scheduler \<times> event option" where
  "execFetchCandidates d s =
     (case (d_Tracker d, d_Spawn d) of
        (Some cand, Some _) \<Rightarrow>
          (case cand (sh_World s) of
             (Inl _, w) \<Rightarrow> (s\<lparr> sh_World := w \<rparr>, None)
           | (Inr cands, w) \<Rightarrow> (s\<lparr> sh_World := w \<rparr>, Some (EvCandidatesFetched cands)))
      | _ \<Rightarrow> (s, None))"

definition execRefreshTracker ::
  "'w deps \<Rightarrow> 'w scheduler \<Rightarrow> string list \<Rightarrow> 'w scheduler \<times> event option" where
  "execRefreshTracker d s ids =
     (case (d_RefreshTracker d, d_Workspace d) of
        (Some api, Some _) \<Rightarrow>
          (case api_RefreshStates api ids (sh_World s) of
             (Inl _, w) \<Rightarrow> (s\<lparr> sh_World := w \<rparr>, None)
           | (Inr issues, w) \<Rightarrow> (s\<lparr> sh_World := w \<rparr>, Some (EvTrackerRefreshed ids issues)))
      | _ \<Rightarrow> (s, None))"

definition execRevalidate ::
  "'w deps \<Rightarrow> 'w scheduler \<Rightarrow> issue \<Rightarrow> int \<Rightarrow> 'w scheduler \<times> event option" where
  "execRevalidate d s iss attempt =
     (case d_RefreshTracker d of
        None \<Rightarrow> (s, Some (EvRevalidated iss attempt (Some iss)))
      | Some api \<Rightarrow>
          (case revalidateIssue api (i_ID iss) (sh_World s) of
             (Inl _, w) \<Rightarrow> (s\<lparr> sh_World := w \<rparr>, Some (EvRevalidated iss attempt None))
           | (Inr fresh, w) \<Rightarrow> (s\<lparr> sh_World := w \<rparr>, Some (EvRevalidated iss attempt fresh))))"

definition execRetryFetch ::
  "'w deps \<Rightarrow> 'w scheduler \<Rightarrow> string \<Rightarrow> string \<Rightarrow> int \<Rightarrow> 'w scheduler \<times> event option" where
  "execRetryFetch d s issueID identifier attempt =
     (case (d_Tracker d, d_Spawn d) of
        (Some cand, Some _) \<Rightarrow>
          (case cand (sh_World s) of
             (Inl err, w) \<Rightarrow>
               (s\<lparr> sh_World := w \<rparr>, Some (EvRetryResolved issueID identifier attempt [] (Some err)))
           | (Inr cands, w) \<Rightarrow>
               (s\<lparr> sh_World := w \<rparr>, Some (EvRetryResolved issueID identifier attempt cands None)))
      | _ \<Rightarrow> (s, None))"

definition execSpawn :: "'w deps \<Rightarrow> 'w scheduler \<Rightarrow> issue \<Rightarrow> int \<Rightarrow> 'w scheduler \<times> event option" where
  "execSpawn d s iss attempt =
     (case d_Spawn d of
        None \<Rightarrow> (s, None)
      | Some spawn \<Rightarrow>
          (case spawn iss attempt (sh_World s) of
             (Inl err, w) \<Rightarrow> (s\<lparr> sh_World := w \<rparr>, Some (EvSpawnFailed iss attempt err))
           | (Inr (session, worker), w) \<Rightarrow>
               (s\<lparr> sh_World := w,
                   sh_Workers := (case worker of None \<Rightarrow> sh_Workers s
                                  | Some h \<Rightarrow> fmupd (i_ID iss) h (sh_Workers s)) \<rparr>,
                Some (EvSpawned iss attempt session))))"

text \<open>The kill itself runs in a goroutine of its own; here it is an action on the world.\<close>

definition execKillWorker :: "'w deps \<Rightarrow> 'w scheduler \<Rightarrow> string \<Rightarrow> string \<Rightarrow> 'w scheduler" where
  "execKillWorker d s issueID reason =
     (case fmlookup (sh_Workers s) issueID of
        None \<Rightarrow> s
      | Some h \<Rightarrow> s\<lparr> sh_Workers := fmdrop issueID (sh_Workers s),
                    sh_World := d_Kill d h reason (sh_World s) \<rparr>)"

definition execRemoveWorkspace :: "'w deps \<Rightarrow> 'w scheduler \<Rightarrow> string \<Rightarrow> 'w scheduler" where
  "execRemoveWorkspace d s identifier =
     (case d_Workspace d of
        None \<Rightarrow> s
      | Some remove \<Rightarrow> s\<lparr> sh_World := snd (remove identifier (sh_World s)) \<rparr>)"

text \<open>Arming replaces a pending timer of the issue, which is thereby stopped.\<close>

definition armTimer ::
  "'w scheduler \<Rightarrow> string \<Rightarrow> string \<Rightarrow> int \<Rightarrow> duration \<Rightarrow> 'w scheduler" where
  "armTimer s issueID identifier attempt delay =
     s\<lparr> sh_Timers := fmupd issueID
          \<lparr> tm_Req = \<lparr> rf_IssueID = issueID, rf_Identifier = identifier, rf_Attempt = attempt \<rparr>,
            tm_Delay = delay, tm_Armed = True \<rparr> (sh_Timers s) \<rparr>"

definition cancelTimer :: "'w scheduler \<Rightarrow> string \<Rightarrow> 'w scheduler" where
  "cancelTimer s issueID = s\<lparr> sh_Timers := fmdrop issueID (sh_Timers s) \<rparr>"

fun perform :: "'w deps \<Rightarrow> 'w scheduler \<Rightarrow> effect \<Rightarrow> 'w scheduler \<times> event option" where
  "perform d s EffFetchCandidates = execFetchCandidates d s"
| "perform d s (EffRefreshTracker ids) = execRefreshTracker d s ids"
| "perform d s (EffRevalidate iss attempt) = execRevalidate d s iss attempt"
| "perform d s (EffRetryFetch i ident attempt) = execRetryFetch d s i ident attempt"
| "perform d s (EffSpawn iss attempt) = execSpawn d s iss attempt"
| "perform d s (EffKillWorker i reason) = (execKillWorker d s i reason, None)"
| "perform d s (EffRemoveWorkspace ident) = (execRemoveWorkspace d s ident, None)"
| "perform d s (EffArmRetryTimer i ident attempt delay) = (armTimer s i ident attempt delay, None)"
| "perform d s (EffCancelRetryTimer i) = (cancelTimer s i, None)"

section \<open>step and exec: the depth-first drain\<close>

text \<open>
  The recursion of \<open>step\<close> and \<open>exec\<close> ends because effects and events come in ranks: an event only
  emits effects of lower rank, and performing an effect only yields events of lower rank.
\<close>

fun eff_rank :: "effect \<Rightarrow> nat" where
  "eff_rank EffFetchCandidates = 6"
| "eff_rank (EffRefreshTracker _) = 6"
| "eff_rank (EffRevalidate _ _) = 4"
| "eff_rank (EffRetryFetch _ _ _) = 4"
| "eff_rank (EffSpawn _ _) = 2"
| "eff_rank _ = 0"

fun ev_rank :: "event \<Rightarrow> nat" where
  "ev_rank (EvTick _) = 7"
| "ev_rank (EvCandidatesFetched _) = 5"
| "ev_rank (EvRetryDue _ _ _) = 5"
| "ev_rank (EvRevalidated _ _ _) = 3"
| "ev_rank (EvRetryResolved _ _ _ _ _) = 3"
| "ev_rank _ = 1"

lemma perform_rank: "perform d s eff = (s', Some ev) \<Longrightarrow> ev_rank ev < eff_rank eff"
  by (cases eff) (auto simp: execFetchCandidates_def execRefreshTracker_def execRevalidate_def
      execRetryFetch_def execSpawn_def split: option.splits prod.splits sum.splits)

lemma stall_loop_rank:
  "e \<in> set (snd (stall_loop cfg now ids s effs)) \<Longrightarrow> e \<in> set effs \<or> eff_rank e = 0"
proof (induction ids arbitrary: s effs)
  case (Cons i ids)
  show ?case
  proof (cases "fmlookup (s_Running s) i")
    case (Some run)
    show ?thesis
    proof (cases "stalled cfg now run")
      case True
      with Some Cons.prems Cons.IH show ?thesis
        by (fastforce simp: reconcileKillRetry_eq kill_effs_def)
    next
      case False
      with Some Cons.prems Cons.IH show ?thesis by auto
    qed
  qed (use Cons in auto)
qed auto

lemma refresh_loop_rank:
  "e \<in> set (snd (refresh_loop byID cfg now ids s effs)) \<Longrightarrow> e \<in> set effs \<or> eff_rank e = 0"
proof (induction ids arbitrary: s effs)
  case (Cons i ids)
  show ?case
  proof (cases "fmlookup (s_Running s) i")
    case None
    with Cons show ?thesis by (auto simp only: refresh_loop_Cons option.case)
  next
    case (Some run)
    show ?thesis
      using Cons.prems Cons.IH unfolding refresh_loop_Cons Some
      by (cases "judge cfg (byID i)") (fastforce simp: kill_effs_def)+
  qed
qed auto

lemma dispatch_loop_rank:
  "e \<in> set (snd (dispatch_loop cfg cs g u s effs)) \<Longrightarrow> e \<in> set effs \<or> eff_rank e = 4"
proof -
  obtain s' effs' where r: "dispatch_loop cfg cs g u s effs = (s', effs')"
    by (cases "dispatch_loop cfg cs g u s effs")
  assume "e \<in> set (snd (dispatch_loop cfg cs g u s effs))"
  with dispatch_loop_ok [OF r] r show ?thesis by auto
qed

lemma Reduce_rank: "e \<in> set (snd (Reduce s ev cfg now)) \<Longrightarrow> eff_rank e < ev_rank ev"
proof (cases ev)
  case (EvTick v)
  assume "e \<in> set (snd (Reduce s ev cfg now))"
  moreover have "e \<in> set (snd (reduceStall s cfg now)) \<Longrightarrow> eff_rank e = 0"
    by (auto simp: reduceStall_def dest: stall_loop_rank split: if_splits)
  ultimately show ?thesis using EvTick
    by (auto simp: reduceTick_def Let_def split: prod.splits if_splits)
next
  case (EvTrackerRefreshed ids issues)
  assume "e \<in> set (snd (Reduce s ev cfg now))"
  with EvTrackerRefreshed show ?thesis
    by (auto simp: reduceTrackerRefreshed_def dest: refresh_loop_rank)
next
  case (EvCandidatesFetched cs)
  assume "e \<in> set (snd (Reduce s ev cfg now))"
  with EvCandidatesFetched show ?thesis
    by (auto simp: reduceCandidates_def dest: dispatch_loop_rank)
qed (auto simp: reduceRevalidated_def reduceRetryResolved_def reduceSpawnFailed_def reduceWorkerExit_def
      armRetry_def Let_def split: option.splits if_splits sum.splits prod.splits)

definition max_rank :: "effect list \<Rightarrow> nat" where
  "max_rank effs = foldr (max \<circ> eff_rank) effs 0"

lemma max_rank_simps [simp]:
  "max_rank [] = 0" "max_rank (e # es) = max (eff_rank e) (max_rank es)"
  by (simp_all add: max_rank_def)

lemma max_rank_Reduce: "max_rank (snd (Reduce s ev cfg now)) < ev_rank ev"
proof -
  have "max_rank effs < n" if "\<And>e. e \<in> set effs \<Longrightarrow> eff_rank e < n" "0 < n" for effs n
    using that by (induction effs) auto
  moreover have "0 < ev_rank ev" by (cases ev) auto
  ultimately show ?thesis using Reduce_rank by blast
qed

function step :: "'w deps \<Rightarrow> 'w scheduler \<Rightarrow> event \<Rightarrow> 'w scheduler"
  and exec :: "'w deps \<Rightarrow> 'w scheduler \<Rightarrow> effect \<Rightarrow> 'w scheduler"
  and exec_all :: "'w deps \<Rightarrow> 'w scheduler \<Rightarrow> effect list \<Rightarrow> 'w scheduler" where
  "step d s ev =
     (let r = Reduce (sh_Cur s) ev (sh_Cfg s) (d_Now d (sh_World s))
      in exec_all d (publish (s\<lparr> sh_Cur := fst r \<rparr>)) (snd r))"
| "exec d s eff =
     (case perform d s eff of
        (s', None) \<Rightarrow> s'
      | (s', Some ev) \<Rightarrow> step d s' ev)"
| "exec_all d s [] = s"
| "exec_all d s (eff # effs) = exec_all d (exec d s eff) effs"
  by pat_completeness auto
termination
proof (relation "inv_image (less_than <*lex*> less_than <*lex*> less_than)
    (\<lambda>x. case x of
        Inl (_, _, ev) \<Rightarrow> (ev_rank ev, 0, 0)
      | Inr (Inl (_, _, eff)) \<Rightarrow> (eff_rank eff, 0, 0)
      | Inr (Inr (_, _, effs)) \<Rightarrow> (max_rank effs, 1, length effs))", goal_cases)
qed (auto simp: max_rank_Reduce max_def dest: perform_rank [OF sym])

declare step.simps [simp del] exec.simps [simp del]

section \<open>scheduler.go: the handlers of the loop\<close>

definition tick :: "'w deps \<Rightarrow> 'w scheduler \<Rightarrow> 'w scheduler" where
  "tick d s =
     (case reloadConfig d s of (s, cfg, valid) \<Rightarrow> step d (s\<lparr> sh_Cfg := cfg \<rparr>) (EvTick valid))"

definition handleRetryFire :: "'w deps \<Rightarrow> 'w scheduler \<Rightarrow> retry_fire_req \<Rightarrow> 'w scheduler" where
  "handleRetryFire d s req =
     (case reloadConfig d (s\<lparr> sh_Timers := fmdrop (rf_IssueID req) (sh_Timers s) \<rparr>) of
        (s, cfg, valid) \<Rightarrow>
          if \<not> valid then
            let s = (case fmlookup (s_RetryAttempts (sh_Cur s)) (rf_IssueID req) of
                       None \<Rightarrow> s
                     | Some entry \<Rightarrow> publish (s\<lparr> sh_Cur := enqueueRetry (sh_Cur s)
                         (entry\<lparr> re_DueAtMS := UnixMilli (d_Now d (sh_World s) + continuationDelay) \<rparr>) \<rparr>))
            in armTimer s (rf_IssueID req) (rf_Identifier req) (rf_Attempt req) continuationDelay
          else step d (s\<lparr> sh_Cfg := cfg \<rparr>) (EvRetryDue (rf_IssueID req) (rf_Identifier req) (rf_Attempt req)))"

definition handleWorkerDone ::
  "'w deps \<Rightarrow> 'w scheduler \<Rightarrow> string \<Rightarrow> sched_err option \<Rightarrow> int \<Rightarrow> 'w scheduler" where
  "handleWorkerDone d s issueID err attempt =
     (case reloadConfig d (s\<lparr> sh_Workers := fmdrop issueID (sh_Workers s) \<rparr>) of
        (s, cfg, _) \<Rightarrow> step d (s\<lparr> sh_Cfg := cfg \<rparr>) (EvWorkerExit issueID err attempt))"

definition StartupCleanup :: "'w deps \<Rightarrow> 'w scheduler \<Rightarrow> 'w scheduler" where
  "StartupCleanup d s =
     (case (d_RefreshTracker d, d_Workspace d) of
        (Some api, Some remove) \<Rightarrow>
          (case api_TerminalIssues api (sh_World s) of
             (Inl _, w) \<Rightarrow> s\<lparr> sh_World := w \<rparr>
           | (Inr issues, w) \<Rightarrow>
               s\<lparr> sh_World := foldl (\<lambda>w iss. snd (remove (i_Identifier iss) w)) w issues \<rparr>)
      | _ \<Rightarrow> s)"

text \<open>The part of \<open>Run\<close> before the loop.\<close>

definition Run_start :: "'w deps \<Rightarrow> 'w scheduler \<Rightarrow> 'w scheduler" where
  "Run_start d s = tick d (StartupCleanup d (s\<lparr> sh_Available := True \<rparr>))"

text \<open>
  The loop: one rule per \<open>select\<close> case, one for a timer that fires and one for the passing of time
  in the world outside (files change, the clock advances, issues move).
\<close>

inductive run_step :: "'w deps \<Rightarrow> 'w scheduler \<Rightarrow> 'w scheduler \<Rightarrow> bool" for d where
  ticker: "run_step d s (applyInterval (tick d s))"
| retry_fire: "sh_RetryFire s = req # q \<Longrightarrow> run_step d s (handleRetryFire d (s\<lparr> sh_RetryFire := q \<rparr>) req)"
| worker_done: "run_step d s (handleWorkerDone d s i err attempt)"
| codex_activity: "run_step d s (step d s (EvCodexActivity i ev message ts u rl dur completed))"
| reload: "sh_ReloadCh s \<Longrightarrow> run_step d s (applyInterval (tick d (s\<lparr> sh_ReloadCh := False \<rparr>)))"
| refresh: "run_step d s (fst (Refresh s))"
| timer_fires: "fmlookup (sh_Timers s) i = Some t \<Longrightarrow> tm_Armed t \<Longrightarrow>
    run_step d s (s\<lparr> sh_Timers := fmupd i (t\<lparr> tm_Armed := False \<rparr>) (sh_Timers s),
                    sh_RetryFire := sh_RetryFire s @ [tm_Req t] \<rparr>)"
| world: "run_step d s (s\<lparr> sh_World := w \<rparr>)"

inductive reachable :: "'w deps \<Rightarrow> 'w scheduler \<Rightarrow> bool" for d where
  start: "reachable d (Run_start d (NewScheduler path cfg tmpl w))"
| step: "reachable d s \<Longrightarrow> run_step d s s' \<Longrightarrow> reachable d s'"

section \<open>snapshot.go\<close>

definition zero_snapshot :: state_snapshot where
  "zero_snapshot = \<lparr> ss_Running = fmempty, ss_Claimed = {||}, ss_RetryAttempts = fmempty,
     ss_CodexTotals = zero_totals, ss_CodexSecondsRunning = 0 \<rparr>"

definition published_snapshot :: "'w scheduler \<Rightarrow> state_snapshot" where
  "published_snapshot s =
     (case sh_Published s of None \<Rightarrow> zero_snapshot | Some st \<Rightarrow> Snapshot st)"

text \<open>\<open>None\<close> is \<open>ErrOrchestratorUnavailable\<close>.\<close>

definition SnapshotCtx :: "bool \<Rightarrow> 'w scheduler \<Rightarrow> state_snapshot option" where
  "SnapshotCtx ctx_done s =
     (if \<not> sh_Available s \<or> ctx_done then None else Some (published_snapshot s))"

end
