(* ===== verification/Sched_Inv.thy ===== *)
theory Sched_Inv
  imports Sched_Shell
begin

text \<open>
  The invariant of the scheduler loop. While a step drains its effects depth-first, the invariant
  holds up to obligations that the pending effects still have to discharge: a kill for a worker whose
  attempt has left the running set, a timer for a retry that has just been queued, a spawn or a
  release for an issue that has been claimed. Each event and each effect carries such obligations as
  tokens; the lemmas say that every move of the core and of the shell trades tokens correctly.
\<close>

section \<open>Obligations\<close>

datatype token = TKill string | TArm string | TClaim string | TSpawned string | TRetry string | TFetch | TCancel

fun eff_tok :: "effect \<Rightarrow> token multiset" where
  "eff_tok EffFetchCandidates = {#TFetch#}"
| "eff_tok (EffRevalidate iss _) = {#TClaim (i_ID iss)#}"
| "eff_tok (EffSpawn iss _) = {#TClaim (i_ID iss)#}"
| "eff_tok (EffRetryFetch i _ _) = {#TRetry i#}"
| "eff_tok (EffKillWorker i _) = {#TKill i#}"
| "eff_tok (EffArmRetryTimer i _ _ _) = {#TArm i#}"
| "eff_tok (EffCancelRetryTimer i) = {#TCancel#}"
| "eff_tok _ = {#}"

definition eff_toks :: "effect list \<Rightarrow> token multiset" where
  "eff_toks effs = (\<Sum>e\<leftarrow>effs. eff_tok e)"

lemma eff_toks_simps [simp]:
  "eff_toks [] = {#}" "eff_toks (e # es) = eff_tok e + eff_toks es"
  "eff_toks (es @ fs) = eff_toks es + eff_toks fs"
  by (simp_all add: eff_toks_def)

fun ev_tok :: "event \<Rightarrow> token multiset" where
  "ev_tok (EvTick _) = {#TFetch#}"
| "ev_tok (EvCandidatesFetched _) = {#TFetch#}"
| "ev_tok (EvRevalidated iss _ _) = {#TClaim (i_ID iss)#}"
| "ev_tok (EvSpawned iss _ _) = {#TSpawned (i_ID iss)#}"
| "ev_tok (EvSpawnFailed iss _ _) = {#TClaim (i_ID iss)#}"
| "ev_tok (EvRetryDue i _ _) = {#TRetry i#}"
| "ev_tok (EvRetryResolved i _ _ _ _) = {#TRetry i#}"
| "ev_tok _ = {#}"

definition is_claim :: "token \<Rightarrow> bool" where
  "is_claim t \<longleftrightarrow> (\<exists>i. t = TClaim i \<or> t = TSpawned i)"

lemma is_claim_simps [simp]:
  "is_claim (TClaim i)" "is_claim (TSpawned i)" "\<not> is_claim (TKill i)" "\<not> is_claim (TArm i)" "\<not> is_claim (TRetry i)"
  "\<not> is_claim TFetch" "\<not> is_claim TCancel"
  by (simp_all add: is_claim_def)

definition is_busy :: "token \<Rightarrow> bool" where
  "is_busy t \<longleftrightarrow> is_claim t \<or> (\<exists>i. t = TRetry i)"

lemma is_busy_simps [simp]:
  "is_busy (TClaim i)" "is_busy (TSpawned i)" "is_busy (TRetry i)" "\<not> is_busy (TKill i)"
  "\<not> is_busy (TArm i)" "\<not> is_busy TFetch" "\<not> is_busy TCancel"
  by (simp_all add: is_busy_def)

section \<open>The invariant on populations\<close>

text \<open>
  \<open>R\<close> are the running, \<open>C\<close> the claimed, \<open>Q\<close> the retrying issues, \<open>W\<close> the issues with a worker handle,
  \<open>A\<close> those with an armed timer and \<open>F\<close> the queued requests; \<open>T\<close> are the obligations.
\<close>

definition once :: "token multiset \<Rightarrow> bool" where
  "once T \<longleftrightarrow> (\<forall>t. (\<forall>i. t \<noteq> TKill i) \<longrightarrow> count T t \<le> 1)"

definition pops_ok :: "string fset \<Rightarrow> string fset \<Rightarrow> string fset \<Rightarrow> bool" where
  "pops_ok R C Q \<longleftrightarrow> R |\<subseteq>| C \<and> R |\<inter>| Q = {||}"

definition workers_ok :: "string fset \<Rightarrow> string fset \<Rightarrow> token multiset \<Rightarrow> bool" where
  "workers_ok R W T \<longleftrightarrow> (\<forall>i. i |\<in>| W \<longrightarrow> i |\<in>| R \<or> TKill i \<in># T \<or> TSpawned i \<in># T)"

definition timers_ok :: "string fset \<Rightarrow> string set \<Rightarrow> string list \<Rightarrow> bool" where
  "timers_ok Q A F \<longleftrightarrow> distinct F \<and> set F \<subseteq> fset Q \<and> A \<subseteq> fset Q \<and> A \<inter> set F = {}"

definition retries_live ::
  "string fset \<Rightarrow> string fset \<Rightarrow> string set \<Rightarrow> string list \<Rightarrow> token multiset \<Rightarrow> bool" where
  "retries_live C Q A F T \<longleftrightarrow> (\<forall>i. i |\<in>| C \<longrightarrow> i |\<in>| Q \<longrightarrow>
     i \<in> A \<or> i \<in> set F \<or> TArm i \<in># T \<or> TRetry i \<in># T)"

definition claims_ok :: "string fset \<Rightarrow> string fset \<Rightarrow> string fset \<Rightarrow> token multiset \<Rightarrow> bool" where
  "claims_ok R C Q T \<longleftrightarrow> (\<forall>i. \<not> (TClaim i \<in># T \<and> TSpawned i \<in># T) \<and>
     (TClaim i \<in># T \<or> TSpawned i \<in># T \<longrightarrow> i |\<in>| C \<and> i |\<notin>| R \<and> i |\<notin>| Q))"

definition arms_ok :: "string fset \<Rightarrow> string set \<Rightarrow> string list \<Rightarrow> token multiset \<Rightarrow> bool" where
  "arms_ok Q A F T \<longleftrightarrow> (\<forall>i. \<not> (TArm i \<in># T \<and> TRetry i \<in># T) \<and>
     (TArm i \<in># T \<or> TRetry i \<in># T \<longrightarrow> i |\<in>| Q \<and> i \<notin> A \<and> i \<notin> set F))"

definition fetch_ok :: "token multiset \<Rightarrow> bool" where
  "fetch_ok T \<longleftrightarrow> TCancel \<notin># T \<and> (TFetch \<in># T \<longrightarrow> filter_mset is_busy T = {#})"

definition slots_ok :: "int \<Rightarrow> string fset \<Rightarrow> string fset \<Rightarrow> token multiset \<Rightarrow> bool" where
  "slots_ok M R Q T \<longleftrightarrow> int (fcard (R |\<union>| Q)) + int (size (filter_mset is_claim T)) \<le> M"

definition pop_inv ::
  "int \<Rightarrow> string fset \<Rightarrow> string fset \<Rightarrow> string fset \<Rightarrow> string fset \<Rightarrow> string set \<Rightarrow> string list \<Rightarrow>
   token multiset \<Rightarrow> bool" where
  "pop_inv M R C Q W A F T \<longleftrightarrow> once T \<and> pops_ok R C Q \<and> workers_ok R W T \<and> timers_ok Q A F \<and>
     retries_live C Q A F T \<and> claims_ok R C Q T \<and> arms_ok Q A F T \<and> fetch_ok T \<and> slots_ok M R Q T"

text \<open>Adding one obligation to each part of the invariant.\<close>

lemma once_add_iff:
  "once (add_mset t T) \<longleftrightarrow> once T \<and> ((\<forall>i. t \<noteq> TKill i) \<longrightarrow> t \<notin># T)"
proof
  assume l: "once (add_mset t T)"
  have "count T u \<le> 1" if "\<forall>i. u \<noteq> TKill i" for u
    using l [unfolded once_def, THEN spec, of u] that by (cases "u = t") auto
  moreover have "t \<notin># T" if "\<forall>i. t \<noteq> TKill i"
    using l [unfolded once_def, THEN spec, of t] that by (simp add: not_in_iff)
  ultimately show "once T \<and> ((\<forall>i. t \<noteq> TKill i) \<longrightarrow> t \<notin># T)" by (simp add: once_def)
next
  assume "once T \<and> ((\<forall>i. t \<noteq> TKill i) \<longrightarrow> t \<notin># T)"
  then show "once (add_mset t T)" by (auto simp: once_def not_in_iff)
qed

lemma once_add [simp]:
  "once (add_mset (TKill i) T) \<longleftrightarrow> once T"
  "once (add_mset (TClaim i) T) \<longleftrightarrow> once T \<and> TClaim i \<notin># T"
  "once (add_mset (TSpawned i) T) \<longleftrightarrow> once T \<and> TSpawned i \<notin># T"
  "once (add_mset (TArm i) T) \<longleftrightarrow> once T \<and> TArm i \<notin># T"
  "once (add_mset (TRetry i) T) \<longleftrightarrow> once T \<and> TRetry i \<notin># T"
  "once (add_mset TFetch T) \<longleftrightarrow> once T \<and> TFetch \<notin># T"
  by (simp_all add: once_add_iff)

lemma claims_ok_add [simp]:
  "claims_ok R C Q (add_mset (TClaim i) T) \<longleftrightarrow>
     claims_ok R C Q T \<and> TSpawned i \<notin># T \<and> i |\<in>| C \<and> i |\<notin>| R \<and> i |\<notin>| Q"
  "claims_ok R C Q (add_mset (TSpawned i) T) \<longleftrightarrow>
     claims_ok R C Q T \<and> TClaim i \<notin># T \<and> i |\<in>| C \<and> i |\<notin>| R \<and> i |\<notin>| Q"
  "claims_ok R C Q (add_mset (TKill i) T) \<longleftrightarrow> claims_ok R C Q T"
  "claims_ok R C Q (add_mset (TArm i) T) \<longleftrightarrow> claims_ok R C Q T"
  "claims_ok R C Q (add_mset (TRetry i) T) \<longleftrightarrow> claims_ok R C Q T"
  "claims_ok R C Q (add_mset TFetch T) \<longleftrightarrow> claims_ok R C Q T"
  by (auto simp: claims_ok_def)

lemma arms_ok_add [simp]:
  "arms_ok Q A F (add_mset (TArm i) T) \<longleftrightarrow> arms_ok Q A F T \<and> TRetry i \<notin># T \<and>
     i |\<in>| Q \<and> i \<notin> A \<and> i \<notin> set F"
  "arms_ok Q A F (add_mset (TRetry i) T) \<longleftrightarrow> arms_ok Q A F T \<and> TArm i \<notin># T \<and>
     i |\<in>| Q \<and> i \<notin> A \<and> i \<notin> set F"
  "arms_ok Q A F (add_mset (TClaim i) T) \<longleftrightarrow> arms_ok Q A F T"
  "arms_ok Q A F (add_mset (TSpawned i) T) \<longleftrightarrow> arms_ok Q A F T"
  "arms_ok Q A F (add_mset (TKill i) T) \<longleftrightarrow> arms_ok Q A F T"
  "arms_ok Q A F (add_mset TFetch T) \<longleftrightarrow> arms_ok Q A F T"
  by (auto simp: arms_ok_def)

lemma fetch_ok_add [simp]:
  "fetch_ok (add_mset TFetch T) \<longleftrightarrow> TCancel \<notin># T \<and> filter_mset is_busy T = {#}"
  "fetch_ok (add_mset (TClaim i) T) \<longleftrightarrow> fetch_ok T \<and> TFetch \<notin># T"
  "fetch_ok (add_mset (TSpawned i) T) \<longleftrightarrow> fetch_ok T \<and> TFetch \<notin># T"
  "fetch_ok (add_mset (TKill i) T) \<longleftrightarrow> fetch_ok T"
  "fetch_ok (add_mset (TArm i) T) \<longleftrightarrow> fetch_ok T"
  "fetch_ok (add_mset (TRetry i) T) \<longleftrightarrow> fetch_ok T \<and> TFetch \<notin># T"
  by (auto simp: fetch_ok_def)

lemma slots_ok_add [simp]:
  "slots_ok M R Q (add_mset (TKill i) T) \<longleftrightarrow> slots_ok M R Q T"
  "slots_ok M R Q (add_mset (TArm i) T) \<longleftrightarrow> slots_ok M R Q T"
  "slots_ok M R Q (add_mset (TRetry i) T) \<longleftrightarrow> slots_ok M R Q T"
  "slots_ok M R Q (add_mset TFetch T) \<longleftrightarrow> slots_ok M R Q T"
  "slots_ok M R Q (add_mset (TClaim i) T) \<longleftrightarrow> slots_ok (M - 1) R Q T"
  "slots_ok M R Q (add_mset (TSpawned i) T) \<longleftrightarrow> slots_ok (M - 1) R Q T"
  by (auto simp: slots_ok_def)

lemma slots_mono: "slots_ok M R Q T \<Longrightarrow> R' |\<union>| Q' |\<subseteq>| R |\<union>| Q \<Longrightarrow> M \<le> M' \<Longrightarrow> slots_ok M' R' Q' T"
  using fcard_mono [of "R' |\<union>| Q'" "R |\<union>| Q"] by (simp add: slots_ok_def)

lemma slots_insert: "slots_ok (M - 1) R Q T \<Longrightarrow> R' |\<union>| Q' |\<subseteq>| finsert i (R |\<union>| Q) \<Longrightarrow> slots_ok M R' Q' T"
  using fcard_mono [of "R' |\<union>| Q'" "finsert i (R |\<union>| Q)"] fcard_finsert_le_Suc [of i "R |\<union>| Q"]
  by (simp add: slots_ok_def)

lemma slots_remove:
  "slots_ok M R Q T \<Longrightarrow> i |\<in>| Q \<Longrightarrow> i |\<notin>| R \<Longrightarrow> slots_ok (M - 1) R (Q |-| {|i|}) T"
proof -
  assume a: "slots_ok M R Q T" "i |\<in>| Q" "i |\<notin>| R"
  then have "R |\<union>| Q = finsert i (R |\<union>| (Q |-| {|i|}))" "i |\<notin>| R |\<union>| (Q |-| {|i|})" by auto
  then have "fcard (R |\<union>| Q) = Suc (fcard (R |\<union>| (Q |-| {|i|})))"
    by (metis fcard_finsert_disjoint)
  with a show ?thesis by (simp add: slots_ok_def)
qed

section \<open>The moves\<close>

named_theorems moves "preservation of the invariant by one move"

lemmas pop_parts = pop_inv_def pops_ok_def workers_ok_def timers_ok_def retries_live_def

lemma move_claim:
  assumes "pop_inv M R C Q W A F T" "i |\<notin>| C" "TFetch \<notin># T" "i |\<notin>| Q" "slots_ok (M - 1) R Q T"
  shows "pop_inv M R (finsert i C) Q W A F (add_mset (TClaim i) T)"
proof -
  have "claims_ok R (finsert i C) Q T" "TClaim i \<notin># T" "TSpawned i \<notin># T"
    using assms by (auto simp: pop_inv_def claims_ok_def)
  with assms show ?thesis by (auto simp: pop_parts)
qed

text \<open>A claimed issue is released without having been spawned.\<close>

lemma move_release:
  assumes "pop_inv M R C Q W A F (add_mset (TClaim i) T)"
  shows "pop_inv M R (C |-| {|i|}) Q W A F T"
proof -
  have "claims_ok R (C |-| {|i|}) Q T"
    using assms by (auto simp: pop_inv_def claims_ok_def)
  with assms show ?thesis by (auto simp: pop_parts intro: slots_mono)
qed

lemma move_run:
  assumes "pop_inv M R C Q W A F (add_mset (TSpawned i) T)"
  shows "pop_inv M (finsert i R) C Q W A F T"
proof -
  have "claims_ok (finsert i R) C Q T"
    using assms by (auto simp: pop_inv_def claims_ok_def)
  moreover have "slots_ok M (finsert i R) Q T"
    using assms by (auto simp: pop_inv_def intro: slots_insert [where i = i])
  ultimately show ?thesis using assms by (auto simp: pop_parts)
qed

lemma move_spawn_failed:
  assumes "pop_inv M R C Q W A F (add_mset (TClaim i) T)"
  shows "pop_inv M R (C |-| {|i|}) (finsert i Q) W A F (add_mset (TArm i) T)"
proof -
  have "claims_ok R (C |-| {|i|}) (finsert i Q) T"
    using assms by (auto simp: pop_inv_def claims_ok_def)
  moreover have "slots_ok M R (finsert i Q) T"
    using assms by (auto simp: pop_inv_def intro: slots_insert [where i = i])
  moreover have "i \<notin> A" "i \<notin> set F" "TArm i \<notin># T" "TRetry i \<notin># T"
    using assms by (auto simp: pop_inv_def timers_ok_def arms_ok_def)
  moreover have "arms_ok (finsert i Q) A F T"
    using assms by (auto simp: pop_inv_def arms_ok_def)
  ultimately show ?thesis using assms by (auto simp: pop_parts)
qed

text \<open>A running attempt becomes a retry; its worker, if it still has a handle, must be killed.\<close>

lemma move_retry:
  assumes "pop_inv M R C Q W A F T" "i |\<in>| R"
  shows "pop_inv M (R |-| {|i|}) C (finsert i Q) W A F (add_mset (TKill i) (add_mset (TArm i) T))"
proof -
  have q: "i |\<notin>| Q" using assms by (auto simp: pop_inv_def pops_ok_def)
  have "claims_ok (R |-| {|i|}) C (finsert i Q) T"
    using assms by (auto simp: pop_inv_def claims_ok_def)
  moreover have "slots_ok M (R |-| {|i|}) (finsert i Q) T"
    by (rule slots_mono [of M R Q]) (use assms in \<open>auto simp: pop_inv_def\<close>)
  moreover have "i \<notin> A" "i \<notin> set F" "TArm i \<notin># T" "TRetry i \<notin># T"
    using assms q by (auto simp: pop_inv_def timers_ok_def arms_ok_def)
  moreover have "arms_ok (finsert i Q) A F T"
    using assms by (auto simp: pop_inv_def arms_ok_def)
  ultimately show ?thesis using assms q by (auto simp: pop_parts)
qed

lemma move_exit:
  assumes "pop_inv M R C Q W A F T" "i |\<in>| R" "i |\<notin>| W"
  shows "pop_inv M (R |-| {|i|}) C (finsert i Q) W A F (add_mset (TArm i) T)"
  using move_retry [OF assms(1,2)] assms(3) by (auto simp: pop_parts)

lemma move_finish:
  assumes "pop_inv M R C Q W A F T" "i |\<in>| R"
  shows "pop_inv M (R |-| {|i|}) (C |-| {|i|}) Q W A F (add_mset (TKill i) T)"
proof -
  have "claims_ok (R |-| {|i|}) (C |-| {|i|}) Q T"
    using assms by (auto simp: pop_inv_def claims_ok_def)
  moreover have "slots_ok M (R |-| {|i|}) Q T"
    by (rule slots_mono [of M R Q]) (use assms in \<open>auto simp: pop_inv_def\<close>)
  ultimately show ?thesis using assms by (auto simp: pop_parts)
qed

text \<open>The four ends of a fired retry: queued again, dropped, spawned again, refused.\<close>

lemma move_rearm:
  assumes "pop_inv M R C Q W A F (add_mset (TRetry i) T)"
  shows "pop_inv M R C Q W A F (add_mset (TArm i) T)"
  using assms by (auto simp: pop_parts)

lemma move_drop:
  assumes "pop_inv M R C Q W A F (add_mset (TRetry i) T)"
  shows "pop_inv M R (C |-| {|i|}) (Q |-| {|i|}) W A F T"
proof -
  have r: "i |\<notin>| R" using assms by (auto simp: pop_inv_def pops_ok_def)
  have "claims_ok R (C |-| {|i|}) (Q |-| {|i|}) T"
    using assms by (auto simp: pop_inv_def claims_ok_def)
  moreover have "slots_ok M R (Q |-| {|i|}) T"
    by (rule slots_mono [of M R Q]) (use assms in \<open>auto simp: pop_inv_def\<close>)
  moreover have "arms_ok (Q |-| {|i|}) A F T"
    using assms by (auto simp: pop_inv_def arms_ok_def)
  ultimately show ?thesis using assms r by (auto simp: pop_parts)
qed

lemma move_respawn:
  assumes "pop_inv M R C Q W A F (add_mset (TRetry i) T)" "i |\<in>| C"
  shows "pop_inv M R C (Q |-| {|i|}) W A F (add_mset (TClaim i) T)"
proof -
  have r: "i |\<notin>| R" using assms by (auto simp: pop_inv_def pops_ok_def)
  have "claims_ok R C (Q |-| {|i|}) T" "TClaim i \<notin># T" "TSpawned i \<notin># T"
    using assms by (auto simp: pop_inv_def claims_ok_def)
  moreover have "slots_ok (M - 1) R (Q |-| {|i|}) T"
    using assms r by (auto simp: pop_inv_def intro: slots_remove)
  moreover have "arms_ok (Q |-| {|i|}) A F T"
    using assms by (auto simp: pop_inv_def arms_ok_def)
  ultimately show ?thesis using assms r by (auto simp: pop_parts)
qed

lemma move_refused:
  assumes "pop_inv M R C Q W A F (add_mset (TRetry i) T)" "i |\<notin>| C"
  shows "pop_inv M R C Q W A F T"
  using assms by (auto simp: pop_parts)

text \<open>The shell discharges obligations.\<close>

lemma move_killed:
  assumes "pop_inv M R C Q W A F (add_mset (TKill i) T)"
  shows "pop_inv M R C Q (W |-| {|i|}) A F T"
  using assms by (auto simp: pop_parts)

lemma move_armed:
  assumes "pop_inv M R C Q W A F (add_mset (TArm i) T)"
  shows "pop_inv M R C Q W (insert i A) F T"
proof -
  have "arms_ok Q (insert i A) F T"
    using assms by (auto simp: pop_inv_def arms_ok_def)
  with assms show ?thesis by (auto simp: pop_parts)
qed

lemma move_spawned:
  assumes "pop_inv M R C Q W A F (add_mset (TClaim i) T)" "W' |\<subseteq>| finsert i W"
  shows "pop_inv M R C Q W' A F (add_mset (TSpawned i) T)"
proof -
  have "workers_ok R W' (add_mset (TSpawned i) T)"
    using assms by (auto simp: pop_inv_def workers_ok_def)
  with assms(1) show ?thesis by (auto simp: pop_inv_def retries_live_def)
qed

lemma move_fetched:
  assumes "pop_inv M R C Q W A F (add_mset TFetch T)"
  shows "pop_inv M R C Q W A F T"
  using assms by (auto simp: pop_parts fetch_ok_def)

text \<open>A timer fires; the loop takes a request off the queue; a worker's handle is dropped.\<close>

lemma move_fires:
  assumes "pop_inv M R C Q W A F T" "i \<in> A"
  shows "pop_inv M R C Q W (A - {i}) (F @ [i]) T"
proof -
  have "arms_ok Q (A - {i}) (F @ [i]) T"
    using assms by (auto simp: pop_inv_def arms_ok_def)
  with assms show ?thesis by (auto simp: pop_parts)
qed

lemma move_popped:
  assumes "pop_inv M R C Q W A (i # F) T" "TFetch \<notin># T"
  shows "pop_inv M R C Q W A F (add_mset (TRetry i) T)"
proof -
  have "arms_ok Q A F T" "TArm i \<notin># T" "TRetry i \<notin># T"
    using assms by (auto simp: pop_inv_def arms_ok_def)
  with assms show ?thesis by (auto simp: pop_parts)
qed

lemma move_unhandle:
  assumes "pop_inv M R C Q W A F T"
  shows "pop_inv M R C Q (W |-| {|i|}) A F T"
  using assms by (auto simp: pop_parts)

lemma move_bound: "pop_inv M R C Q W A F T \<Longrightarrow> M \<le> M' \<Longrightarrow> pop_inv M' R C Q W A F T"
  by (auto simp: pop_inv_def slots_ok_def)

section \<open>Every event of the core trades its obligations\<close>

definition core_inv ::
  "int \<Rightarrow> state \<Rightarrow> string fset \<Rightarrow> string set \<Rightarrow> string list \<Rightarrow> token multiset \<Rightarrow> bool" where
  "core_inv M s W A F T \<longleftrightarrow> pop_inv M (run_ids s) (s_Claimed s) (retry_ids s) W A F T"

lemma core_inv_cong:
  "run_ids s = run_ids s' \<Longrightarrow> s_Claimed s = s_Claimed s' \<Longrightarrow> retry_ids s = retry_ids s' \<Longrightarrow>
     core_inv M s W A F T = core_inv M s' W A F T"
  by (simp add: core_inv_def)

lemma core_kill_retry:
  assumes "core_inv M s W A F T" "fmlookup (s_Running s) i = Some run"
  shows "core_inv M (s\<lparr> s_Running := fmdrop i (s_Running s),
       s_RetryAttempts := fmupd i e (s_RetryAttempts s) \<rparr>) W A F (eff_toks (kill_effs cfg i run reason) + T)"
  using move_retry [of M "run_ids s" "s_Claimed s" "retry_ids s" W A F T i] assms
  by (simp add: core_inv_def kill_effs_def fmdomI add_mset_commute)

lemma core_stall_loop:
  "stall_loop cfg now ids s effs = (s', effs') \<Longrightarrow> core_inv M s W A F (eff_toks effs + T) \<Longrightarrow>
     core_inv M s' W A F (eff_toks effs' + T)"
proof (induction ids arbitrary: s effs)
  case (Cons i ids)
  show ?case
  proof (cases "is_stalled cfg now s i")
    case False
    then have "stall_loop cfg now ids s effs = (s', effs')"
      using Cons.prems(1) by (auto simp: is_stalled_def split: option.splits)
    from Cons.IH [OF this Cons.prems(2)] show ?thesis .
  next
    case True
    then obtain run where run: "fmlookup (s_Running s) i = Some run" "stalled cfg now run"
      by (auto simp: is_stalled_def)
    with Cons.prems(1) have "stall_loop cfg now ids (s\<lparr> s_Running := fmdrop i (s_Running s),
         s_RetryAttempts := fmupd i (stall_entry cfg now i run ErrStall) (s_RetryAttempts s) \<rparr>)
         (effs @ kill_effs cfg i run ''stall'') = (s', effs')"
      by (simp add: reconcileKillRetry_eq)
    from Cons.IH [OF this] core_kill_retry [OF Cons.prems(2) run(1)] show ?thesis
      by (simp add: ac_simps)
  qed
qed simp

lemma core_refresh_loop:
  "refresh_loop byID cfg now ids s effs = (s', effs') \<Longrightarrow> core_inv M s W A F (eff_toks effs + T) \<Longrightarrow>
     core_inv M s' W A F (eff_toks effs' + T)"
proof (induction ids arbitrary: s effs)
  case (Cons i ids)
  note loop = Cons.prems(1) [unfolded refresh_loop_Cons]
  show ?case
  proof (cases "fmlookup (s_Running s) i")
    case None
    with loop Cons.IH [OF _ Cons.prems(2)] show ?thesis by simp
  next
    case (Some run)
    then have dom: "i |\<in>| run_ids s" by (rule fmdomI)
    show ?thesis
    proof (cases "judge cfg (byID i)")
      case (Keep iss)
      have "core_inv M (s\<lparr> s_Running := fmupd i (run\<lparr> ra_Issue := iss \<rparr>) (s_Running s) \<rparr>) W A F (eff_toks effs + T)"
        using Cons.prems(2) dom by (simp add: core_inv_def finsert_absorb)
      with loop Some Keep Cons.IH show ?thesis by simp
    next
      case Finish
      have "i |\<notin>| retry_ids s" using Cons.prems(2) dom by (auto simp: core_inv_def pop_inv_def pops_ok_def)
      then have "core_inv M (releaseClaim s i) W A F (eff_toks (effs @ [EffKillWorker i ''terminal'',
          EffRemoveWorkspace (i_Identifier (ra_Issue run))]) + T)"
        using move_finish [OF Cons.prems(2) [unfolded core_inv_def] dom]
        by (simp add: core_inv_def pop)
      with loop Some Finish Cons.IH show ?thesis by simp
    next
      case (Retry cause)
      with loop Some have "refresh_loop byID cfg now ids (s\<lparr> s_Running := fmdrop i (s_Running s),
           s_RetryAttempts := fmupd i (stall_entry cfg now i run cause) (s_RetryAttempts s) \<rparr>)
           (effs @ kill_effs cfg i run (if cause = ErrNotInRefresh then ''not-found'' else ''non-active''))
         = (s', effs')" by simp
      from Cons.IH [OF this] core_kill_retry [OF Cons.prems(2) Some] show ?thesis
        by (simp add: ac_simps)
    qed
  qed
qed simp

lemma core_dispatch:
  assumes "core_inv M s W A F T" "filter_mset is_claim T = {#}" "TFetch \<notin># T"
    and "distinct (map i_ID ds)" "\<And>d. d \<in> set ds \<Longrightarrow> i_ID d |\<notin>| s_Claimed s \<and> i_ID d |\<notin>| retry_ids s"
    and "int (fcard (run_ids s |\<union>| retry_ids s)) + int (length ds) \<le> M"
  shows "core_inv M (s\<lparr> s_Claimed := s_Claimed s |\<union>| fset_of_list (map i_ID ds) \<rparr>) W A F
     (eff_toks (map (\<lambda>d. EffRevalidate d 0) ds) + T)"
  using assms(4-)
proof (induction ds)
  case Nil
  with assms(1) show ?case by simp
next
  case (Cons d ds)
  let ?s = "s\<lparr> s_Claimed := s_Claimed s |\<union>| fset_of_list (map i_ID ds) \<rparr>"
  let ?T = "eff_toks (map (\<lambda>d. EffRevalidate d 0) ds) + T"
  have IH: "core_inv M ?s W A F ?T" using Cons by simp
  have nofetch: "TFetch \<notin># ?T" using assms(3) by (induction ds) auto
  have size: "size (filter_mset is_claim ?T) = length ds" using assms(2) by (induction ds) auto
  then have "slots_ok (M - 1) (run_ids s) (retry_ids s) ?T"
    using Cons.prems(3) by (simp add: slots_ok_def)
  then have "pop_inv M (run_ids s) (finsert (i_ID d) (s_Claimed ?s)) (retry_ids s) W A F
      (add_mset (TClaim (i_ID d)) ?T)"
    using IH Cons.prems(1,2) nofetch
    by (intro move_claim) (auto simp: core_inv_def fset_of_list_elem fset_of_list.rep_eq)
  then show ?case by (simp add: core_inv_def)
qed

text \<open>
  An exit of a worker is reported after its handle has been dropped; no other event makes a demand.
\<close>

fun ev_ok :: "string fset \<Rightarrow> event \<Rightarrow> bool" where
  "ev_ok W (EvWorkerExit i _ _) \<longleftrightarrow> i |\<notin>| W"
| "ev_ok W _ \<longleftrightarrow> True"

lemma core_candidates:
  assumes "core_inv M s W A F (add_mset TFetch T)" "ac_MaxConcurrentAgents (c_Agent cfg) \<le> M"
    and "reduceCandidates s cands cfg = (s', effs)"
  shows "core_inv M s' W A F (eff_toks effs + T)"
proof -
  have inv: "core_inv M s W A F T"
    using assms(1) unfolding core_inv_def by (rule move_fetched)
  have T: "TFetch \<notin># T" "filter_mset is_claim T = {#}"
    using assms(1) by (auto simp: core_inv_def pop_inv_def is_busy_def)
  obtain ds where effs: "effs = map (\<lambda>d. EffRevalidate d 0) ds"
    and ok: "pass_ok cfg (sortCandidates (filterEligible cands s cfg)) (availableGlobalSlots s cfg)
       (count_running s) s ds s'"
    using dispatch_loop_ok [OF assms(3) [unfolded reduceCandidates_def]] by auto
  have sub: "set ds \<subseteq> set (filterEligible cands s cfg)"
    using ok by (auto simp: pass_ok_def dest: list_emb_set)
  have idle: "fmdrop_set (i_ID ` set ds) (s_RetryAttempts s) = s_RetryAttempts s"
    by (rule fmdrop_set_idle) (use sub eligible_fresh in blast)
  have "int (fcard (run_ids s |\<union>| retry_ids s)) + int (length ds) \<le> M"
    using ok inv assms(2)
    by (auto simp: pass_ok_def availableGlobalSlots_def used_slots Let_def core_inv_def pop_inv_def
        slots_ok_def split: if_splits)
  moreover have "i_ID d |\<notin>| s_Claimed s \<and> i_ID d |\<notin>| retry_ids s" if "d \<in> set ds" for d
    using eligible_fresh [of d cands s cfg] sub that by blast
  moreover have "distinct (map i_ID ds)"
    "s' = s\<lparr> s_Claimed := s_Claimed s |\<union>| fset_of_list (map i_ID ds) \<rparr>"
    using ok idle by (simp_all add: pass_ok_def)
  ultimately show ?thesis
    using core_dispatch [OF inv T(2,1), of ds] unfolding effs by blast
qed

lemma core_arm:
  assumes "pop_inv M (run_ids s) (s_Claimed s) (finsert (re_IssueID e) (retry_ids s)) W A F
      (add_mset (TArm (re_IssueID e)) T)"
    and "armRetry s e delay now = (s', effs)"
  shows "core_inv M s' W A F (eff_toks effs + T)"
  using assms by (auto simp: core_inv_def armRetry_def pop)

lemma reduceRetryResolved_cases:
  assumes "reduceRetryResolved s i ident attempt issues err cfg now = (s', effs)"
  obtains (drop) "s' = releaseClaim s i" "effs = []"
    | (rearm) a e delay where "armRetry s (retryEntry i ident a e) delay now = (s', effs)"
    | (refused) e where "claimFromRetry s i = Inl e" "s' = s" "effs = []"
    | (respawn) found where "claimFromRetry s i = Inr s'" "effs = [EffSpawn found attempt]" "i_ID found = i"
proof (cases err)
  case (Some e)
  show ?thesis by (rule rearm) (use assms Some in \<open>simp add: reduceRetryResolved_def\<close>)
next
  case err: None
  show ?thesis
  proof (cases "findIssue issues i")
    case None
    show ?thesis by (rule drop) (use assms err None in \<open>simp_all add: reduceRetryResolved_def\<close>)
  next
    case found: (Some found)
    then have ids: "i_ID found = i" by (auto simp: findIssue_def find_Some_iff)
    show ?thesis
    proof (cases "still_active cfg (i_State found)")
      case False
      show ?thesis by (rule drop) (use assms err found False in \<open>simp_all add: reduceRetryResolved_def\<close>)
    next
      case active: True
      show ?thesis
      proof (cases "retryReclaimHasSlot s cfg i (i_State found)")
        case False
        show ?thesis
          by (rule rearm) (use assms err found active False in \<open>simp add: reduceRetryResolved_def\<close>)
      next
        case slot: True
        show ?thesis
        proof (cases "claimFromRetry s i")
          case (Inl e)
          show ?thesis
            by (rule refused [OF Inl]) (use assms err found active slot Inl in \<open>simp_all add: reduceRetryResolved_def\<close>)
        next
          case (Inr ns)
          show ?thesis
            by (rule respawn [of found]) (use assms err found active slot Inr ids in
                \<open>simp_all add: reduceRetryResolved_def\<close>)
        qed
      qed
    qed
  qed
qed

lemma core_retry_resolved:
  assumes "core_inv M s W A F (add_mset (TRetry i) T)"
    and "reduceRetryResolved s i ident attempt issues err cfg now = (s', effs)"
  shows "core_inv M s' W A F (eff_toks effs + T)"
proof -
  note inv = assms(1) [unfolded core_inv_def]
  have i: "i |\<in>| retry_ids s" "i |\<notin>| run_ids s"
    using inv by (auto simp: pop_inv_def pops_ok_def)
  from assms(2) show ?thesis
  proof (cases rule: reduceRetryResolved_cases)
    case drop
    with move_drop [OF inv] i show ?thesis by (simp add: core_inv_def pop)
  next
    case (rearm a e delay)
    from core_arm [OF _ this] move_rearm [OF inv] i show ?thesis
      by (simp add: retryEntry_def finsert_absorb)
  next
    case (refused e)
    then have "i |\<notin>| s_Claimed s"
      using i by (auto simp: claimFromRetry_def fmlookup_None_iff split: if_splits)
    with refused move_refused [OF inv] show ?thesis by (simp add: core_inv_def)
  next
    case (respawn found)
    with move_respawn [OF inv] show ?thesis by (auto simp: core_inv_def claimFromRetry_Inr_iff)
  qed
qed

lemma core_exit:
  assumes "core_inv M s W A F T" "i |\<notin>| W" "reduceWorkerExit s i err attempt cfg now = (s', effs)"
  shows "core_inv M s' W A F (eff_toks effs + T)"
proof (cases "fmlookup (s_Running s) i")
  case None
  with assms show ?thesis
    by (auto simp: reduceWorkerExit_def workerExitNormal_def workerExitAbnormal_def split: option.splits)
next
  case (Some run)
  then have "pop_inv M (run_ids s |-| {|i|}) (s_Claimed s) (finsert i (retry_ids s)) W A F (add_mset (TArm i) T)"
    using move_exit [OF assms(1) [unfolded core_inv_def] fmdomI assms(2)] by blast
  with assms(3) Some show ?thesis
    by (auto simp: core_inv_def reduceWorkerExit_def workerExitNormal_def workerExitAbnormal_def armRetry_def
        pop split: option.splits)
qed

lemma core_stall:
  assumes "core_inv M s W A F T" "reduceStall s cfg now = (s', effs)"
  shows "core_inv M s' W A F (eff_toks effs + T)"
proof (cases "cc_StallTimeoutMS (c_Codex cfg) \<le> 0")
  case True
  with assms show ?thesis by (simp add: reduceStall_def)
next
  case False
  with assms(2) have "stall_loop cfg now (sortedRunningIDs s) s [] = (s', effs)"
    by (simp add: reduceStall_def)
  from core_stall_loop [OF this] assms(1) show ?thesis by simp
qed

lemma core_tick:
  assumes "core_inv M s W A F (add_mset TFetch T)" "reduceTick s valid cfg now = (s', effs)"
  shows "core_inv M s' W A F (eff_toks effs + T)"
proof -
  obtain s1 effs1 where st: "reduceStall s cfg now = (s1, effs1)" by (cases "reduceStall s cfg now")
  have inv: "core_inv M s1 W A F (add_mset TFetch (eff_toks effs1 + T))"
    using core_stall [OF assms(1) st] by simp
  then have inv': "core_inv M s1 W A F (eff_toks effs1 + T)"
    unfolding core_inv_def by (rule move_fetched)
  have "s' = s1" "eff_toks effs + T = (if valid then add_mset TFetch (eff_toks effs1 + T) else eff_toks effs1 + T)"
    using assms(2) st by (auto simp: reduceTick_def Let_def)
  with inv inv' show ?thesis by simp
qed

lemma core_spawn_failed:
  assumes "core_inv M s W A F (add_mset (TClaim (i_ID iss)) T)"
    and "reduceSpawnFailed s iss attempt err cfg now = (s', effs)"
  shows "core_inv M s' W A F (eff_toks effs + T)"
proof -
  note inv = assms(1) [unfolded core_inv_def]
  have "i_ID iss |\<notin>| run_ids s" "i_ID iss |\<notin>| retry_ids s"
    using inv by (auto simp: pop_inv_def)
  then show ?thesis
    using assms(2) move_spawn_failed [OF inv]
    by (auto simp: reduceSpawnFailed_def Let_def armRetry_def retryEntry_def core_inv_def pop)
qed

lemma core_revalidated:
  assumes "core_inv M s W A F (add_mset (TClaim (i_ID iss)) T)"
    and "reduceRevalidated s iss attempt fresh cfg = (s', effs)"
  shows "core_inv M s' W A F (eff_toks effs + T)"
proof -
  note inv = assms(1) [unfolded core_inv_def]
  have "i_ID iss |\<notin>| run_ids s" "i_ID iss |\<notin>| retry_ids s"
    using inv by (auto simp: pop_inv_def)
  then have "core_inv M (releaseClaim s (i_ID iss)) W A F T"
    using move_release [OF inv] by (simp add: core_inv_def pop)
  with assms show ?thesis by (auto simp: reduceRevalidated_def split: option.splits if_splits)
qed

lemma core_activity:
  "core_inv M (reduceCodexActivity s i e m ts u rl d c) W A F T = core_inv M s W A F T"
  by (auto simp: core_inv_def reduceCodexActivity_def Let_def pop split: option.splits)

lemma core_Reduce:
  assumes inv: "core_inv M s W A F (ev_tok ev + T)" and M: "ac_MaxConcurrentAgents (c_Agent cfg) \<le> M"
    and ok: "ev_ok W ev" and r: "Reduce s ev cfg now = (s', effs)"
  shows "core_inv M s' W A F (eff_toks effs + T)"
proof (cases ev)
  case (EvTick valid)
  show ?thesis by (rule core_tick) (use inv r EvTick in simp_all)
next
  case (EvSpawnFailed iss attempt err)
  show ?thesis by (rule core_spawn_failed) (use inv r EvSpawnFailed in simp_all)
next
  case (EvRevalidated iss attempt fresh)
  show ?thesis by (rule core_revalidated) (use inv r EvRevalidated in simp_all)
next
  case (EvCodexActivity i e m ts u rl d c)
  then show ?thesis using inv r by (auto simp: core_activity)
next
  case (EvSpawned iss attempt ses)
  then have "s' = markRunning s iss attempt ses" "effs = []" using r by auto
  then show ?thesis
    using inv EvSpawned move_run [of M "run_ids s" "s_Claimed s" "retry_ids s" W A F "i_ID iss" T]
    by (simp add: core_inv_def pop)
next
  case (EvTrackerRefreshed ids issues)
  show ?thesis
    using core_refresh_loop [of "by_id issues" cfg now "sortedIDs ids" s "[]" s' effs M W A F T] inv r EvTrackerRefreshed
    by (simp add: reduceTrackerRefreshed_def)
next
  case (EvCandidatesFetched cands)
  show ?thesis by (rule core_candidates [OF _ M]) (use inv r EvCandidatesFetched in simp_all)
next
  case (EvRetryResolved i ident attempt issues err)
  show ?thesis by (rule core_retry_resolved) (use inv r EvRetryResolved in simp_all)
next
  case (EvWorkerExit i err attempt)
  show ?thesis by (rule core_exit) (use inv ok r EvWorkerExit in simp_all)
next
  case (EvRetryDue i ident attempt)
  then show ?thesis using inv r by auto
qed

section \<open>Retry entries sit under their own ID\<close>

definition retry_keyed :: "state \<Rightarrow> bool" where
  "retry_keyed s \<longleftrightarrow> (\<forall>i e. fmlookup (s_RetryAttempts s) i = Some e \<longrightarrow> re_IssueID e = i)"

lemma keyed_release [simp]: "retry_keyed s \<Longrightarrow> retry_keyed (releaseClaim s i)"
  by (simp add: retry_keyed_def pop)

lemma keyed_arm: "retry_keyed s \<Longrightarrow> armRetry s e delay now = (s', effs) \<Longrightarrow> retry_keyed s'"
  by (auto simp: retry_keyed_def armRetry_def enqueueRetry_def split: if_splits)

lemma keyed_kill:
  "retry_keyed s \<Longrightarrow> retry_keyed (s\<lparr> s_Running := R,
     s_RetryAttempts := fmupd i (stall_entry cfg now i run cause) (s_RetryAttempts s) \<rparr>)"
  by (simp add: retry_keyed_def stall_entry_def)

lemma keyed_stall_loop:
  "stall_loop cfg now ids s effs = (s', effs') \<Longrightarrow> retry_keyed s \<Longrightarrow> retry_keyed s'"
proof (induction ids arbitrary: s effs)
  case (Cons i ids)
  show ?case
  proof (cases "is_stalled cfg now s i")
    case False
    then have "stall_loop cfg now ids s effs = (s', effs')"
      using Cons.prems(1) by (auto simp: is_stalled_def split: option.splits)
    from Cons.IH [OF this Cons.prems(2)] show ?thesis .
  next
    case True
    then obtain run where run: "fmlookup (s_Running s) i = Some run" "stalled cfg now run"
      by (auto simp: is_stalled_def)
    with Cons.prems(1) have "stall_loop cfg now ids (s\<lparr> s_Running := fmdrop i (s_Running s),
         s_RetryAttempts := fmupd i (stall_entry cfg now i run ErrStall) (s_RetryAttempts s) \<rparr>)
         (effs @ kill_effs cfg i run ''stall'') = (s', effs')"
      by (simp add: reconcileKillRetry_eq)
    from Cons.IH [OF this keyed_kill [OF Cons.prems(2)]] show ?thesis .
  qed
qed simp

lemma keyed_refresh_loop:
  assumes "refresh_loop byID cfg now ids s effs = (s', effs')" "retry_keyed s"
  shows "retry_keyed s'"
proof -
  have "re_IssueID e = i" if "fmlookup (s_RetryAttempts s') i = Some e" for i e
  proof -
    have "fst (snd (view s' i)) = Some e" using that by (simp add: view_def)
    with refresh_loop_view [OF assms(1), of i] assms(2) show ?thesis
      by (auto simp: view_def refresh_view_def retry_keyed_def stall_entry_def
          split: if_splits option.splits verdict.splits)
  qed
  then show ?thesis by (simp add: retry_keyed_def)
qed

lemma keyed_exit:
  "retry_keyed s \<Longrightarrow> reduceWorkerExit s i err attempt cfg now = (s', effs) \<Longrightarrow> retry_keyed s'"
  by (auto simp: reduceWorkerExit_def workerExitNormal_def workerExitAbnormal_def armRetry_def
      enqueueRetry_def retry_keyed_def split: option.splits if_splits)

lemma keyed_Reduce:
  assumes "retry_keyed s" "Reduce s ev cfg now = (s', effs)"
  shows "retry_keyed s'"
proof (cases ev)
  case (EvTick v)
  obtain s1 effs1 where st: "reduceStall s cfg now = (s1, effs1)" by (cases "reduceStall s cfg now")
  with assms EvTick have "s' = s1" by (simp add: reduceTick_def Let_def)
  with st assms(1) keyed_stall_loop [of cfg now "sortedRunningIDs s" s "[]" s1 effs1] show ?thesis
    by (auto simp: reduceStall_def split: if_splits)
next
  case (EvTrackerRefreshed ids issues)
  with assms(2) have "refresh_loop (by_id issues) cfg now (sortedIDs ids) s [] = (s', effs)"
    by (simp add: reduceTrackerRefreshed_def)
  then show ?thesis using assms(1) by (rule keyed_refresh_loop)
next
  case (EvCandidatesFetched cands)
  with assms(2) have "reduceCandidates s cands cfg = (s', effs)" by simp
  from dispatch_loop_ok [OF this [unfolded reduceCandidates_def]] obtain ds where
    "pass_ok cfg (sortCandidates (filterEligible cands s cfg)) (availableGlobalSlots s cfg)
       (count_running s) s ds s'" by blast
  then have "s_RetryAttempts s' = fmdrop_set (i_ID ` set ds) (s_RetryAttempts s)"
    by (simp add: pass_ok_def)
  with assms(1) show ?thesis by (auto simp: retry_keyed_def split: if_splits)
next
  case (EvRetryResolved i ident attempt issues err)
  from assms(2) [unfolded EvRetryResolved Reduce.simps] show ?thesis
  proof (cases rule: reduceRetryResolved_cases)
    case (rearm a e delay)
    with assms(1) show ?thesis by (rule keyed_arm)
  next
    case (respawn found)
    then show ?thesis using assms(1) by (auto simp: claimFromRetry_Inr_iff retry_keyed_def split: if_splits)
  qed (simp_all add: assms(1))
next
  case (EvWorkerExit i err attempt)
  with assms(2) have "reduceWorkerExit s i err attempt cfg now = (s', effs)" by simp
  with assms(1) show ?thesis by (rule keyed_exit)
next
  case (EvSpawnFailed iss attempt err)
  with assms(2) show ?thesis
    by (intro keyed_arm [OF keyed_release [OF assms(1)]]) (simp add: reduceSpawnFailed_def Let_def)
next
  case (EvCodexActivity i e m ts u rl d c)
  with assms have "s' = reduceCodexActivity s i e m ts u rl d c" by simp
  then have "s_RetryAttempts s' = s_RetryAttempts s"
    by (simp add: reduceCodexActivity_def Let_def pop split: option.splits)
  with assms(1) show ?thesis by (simp add: retry_keyed_def)
next
  case (EvRevalidated iss attempt fresh)
  with assms show ?thesis by (auto simp: reduceRevalidated_def split: option.splits if_splits)
next
  case (EvSpawned iss attempt ses)
  then have "s_RetryAttempts s' = s_RetryAttempts s" using assms(2) by (auto simp: pop)
  with assms(1) show ?thesis by (simp add: retry_keyed_def)
next
  case (EvRetryDue i ident attempt)
  with assms show ?thesis by simp
qed

section \<open>The shell\<close>

definition armed_ids :: "'w scheduler \<Rightarrow> string set" where
  "armed_ids s = {i. \<exists>t. fmlookup (sh_Timers s) i = Some t \<and> tm_Armed t}"

definition queued_ids :: "'w scheduler \<Rightarrow> string list" where
  "queued_ids s = map rf_IssueID (sh_RetryFire s)"

definition timers_keyed :: "'w scheduler \<Rightarrow> bool" where
  "timers_keyed s \<longleftrightarrow> (\<forall>i t. fmlookup (sh_Timers s) i = Some t \<longrightarrow> rf_IssueID (tm_Req t) = i)"

definition shell_inv :: "int \<Rightarrow> 'w scheduler \<Rightarrow> token multiset \<Rightarrow> bool" where
  "shell_inv M s T \<longleftrightarrow>
     core_inv M (sh_Cur s) (fmdom (sh_Workers s)) (armed_ids s) (queued_ids s) T \<and>
     timers_keyed s \<and> retry_keyed (sh_Cur s) \<and> sh_Published s = Some (sh_Cur s)"

text \<open>Dispatch is wired: the scheduler has a candidate source and a spawn function.\<close>

definition wired :: "'w deps \<Rightarrow> bool" where
  "wired d \<longleftrightarrow> d_Tracker d \<noteq> None \<and> d_Spawn d \<noteq> None"

definition max_agents :: "'w scheduler \<Rightarrow> int" where
  "max_agents s = ac_MaxConcurrentAgents (c_Agent (sh_Cfg s))"

lemma shell_inv_irrelevant [simp]:
  "shell_inv M (s\<lparr> sh_World := w \<rparr>) T = shell_inv M s T"
  "shell_inv M (s\<lparr> sh_Cfg := c \<rparr>) T = shell_inv M s T"
  "shell_inv M (s\<lparr> sh_ReloadCh := b \<rparr>) T = shell_inv M s T"
  "shell_inv M (s\<lparr> sh_Interval := n \<rparr>) T = shell_inv M s T"
  "shell_inv M (s\<lparr> sh_Available := b \<rparr>) T = shell_inv M s T"
  "shell_inv M (s\<lparr> sh_Degraded := b \<rparr>) T = shell_inv M s T"
  "shell_inv M (s\<lparr> sh_LastGood := c \<rparr>) T = shell_inv M s T"
  "shell_inv M (s\<lparr> sh_LastGoodTemplate := x \<rparr>) T = shell_inv M s T"
  by (simp_all add: shell_inv_def armed_ids_def queued_ids_def timers_keyed_def)

lemma shell_reload:
  assumes "reloadConfig d s = (s', cfg, valid)"
  shows "shell_inv M s' T = shell_inv M s T" "sh_RetryFire s' = sh_RetryFire s"
    "sh_Cur s' = sh_Cur s" "sh_Timers s' = sh_Timers s" "sh_Workers s' = sh_Workers s"
  using assms by (auto simp: reloadConfig_def markDegraded_def split: sum.splits prod.splits option.splits if_splits)

lemma shell_fetched: "shell_inv M s (add_mset TFetch T) \<Longrightarrow> shell_inv M s T"
  using move_fetched by (auto simp: shell_inv_def core_inv_def)

lemma shell_killed:
  assumes "shell_inv M s (add_mset (TKill i) T)"
  shows "shell_inv M (execKillWorker d s i reason) T"
proof (cases "fmlookup (sh_Workers s) i")
  case None
  then have "fmdom (sh_Workers s) |-| {|i|} = fmdom (sh_Workers s)"
    by (auto simp: fmlookup_None_iff)
  with assms None move_killed show ?thesis
    by (fastforce simp: shell_inv_def core_inv_def execKillWorker_def)
next
  case (Some h)
  with assms move_killed show ?thesis
    by (auto simp: shell_inv_def core_inv_def execKillWorker_def armed_ids_def queued_ids_def timers_keyed_def)
qed

lemma shell_armed:
  assumes "shell_inv M s (add_mset (TArm i) T)"
  shows "shell_inv M (armTimer s i ident attempt delay) T"
proof -
  have "armed_ids (armTimer s i ident attempt delay) = insert i (armed_ids s)"
    by (auto simp: armed_ids_def armTimer_def)
  moreover have "timers_keyed (armTimer s i ident attempt delay)"
    using assms by (auto simp: shell_inv_def timers_keyed_def armTimer_def)
  ultimately show ?thesis
    using assms move_armed by (auto simp: shell_inv_def core_inv_def armTimer_def queued_ids_def)
qed

lemma shell_spawn:
  assumes "shell_inv M s (add_mset (TClaim (i_ID iss)) T)" "wired d" "execSpawn d s iss attempt = (s', evo)"
  shows "\<exists>ev. evo = Some ev \<and> shell_inv M s' (ev_tok ev + T) \<and> (\<forall>W. ev_ok W ev)"
proof -
  obtain spawn where sp: "d_Spawn d = Some spawn" using assms(2) by (auto simp: wired_def)
  obtain r w where r: "spawn iss attempt (sh_World s) = (r, w)" by (cases "spawn iss attempt (sh_World s)")
  show ?thesis
  proof (cases r)
    case (Inl err)
    with assms(1,3) sp r show ?thesis by (auto simp: execSpawn_def)
  next
    case (Inr p)
    then obtain ses h where p: "r = Inr (ses, h)" by (cases p) auto
    let ?W = "case h of None \<Rightarrow> sh_Workers s | Some h \<Rightarrow> fmupd (i_ID iss) h (sh_Workers s)"
    have "fmdom ?W |\<subseteq>| finsert (i_ID iss) (fmdom (sh_Workers s))" by (auto split: option.splits)
    then have "shell_inv M (s\<lparr> sh_World := w, sh_Workers := ?W \<rparr>) (add_mset (TSpawned (i_ID iss)) T)"
      using assms(1) move_spawned
      by (auto simp: shell_inv_def core_inv_def armed_ids_def queued_ids_def timers_keyed_def)
    with assms(3) sp r p show ?thesis by (auto simp: execSpawn_def)
  qed
qed

definition after :: "int \<Rightarrow> 'w scheduler \<Rightarrow> event option \<Rightarrow> token multiset \<Rightarrow> bool" where
  "after M s evo T \<longleftrightarrow> (case evo of
       None \<Rightarrow> shell_inv M s T
     | Some ev \<Rightarrow> shell_inv M s (ev_tok ev + T) \<and> (\<forall>W. ev_ok W ev))"

lemma shell_perform:
  assumes "shell_inv M s (eff_tok eff + T)" "wired d" "perform d s eff = (s', evo)"
  shows "after M s' evo T"
proof (cases eff)
  case EffFetchCandidates
  with assms shell_fetched [of M s T] show ?thesis
    by (auto simp: after_def execFetchCandidates_def split: option.splits prod.splits sum.splits)
next
  case (EffRefreshTracker ids)
  with assms show ?thesis
    by (auto simp: after_def execRefreshTracker_def split: option.splits prod.splits sum.splits)
next
  case (EffRevalidate iss a)
  with assms show ?thesis
    by (auto simp: after_def execRevalidate_def split: option.splits prod.splits sum.splits)
next
  case (EffRetryFetch i ident a)
  with assms show ?thesis
    by (auto simp: after_def execRetryFetch_def wired_def split: option.splits prod.splits sum.splits)
next
  case (EffSpawn iss a)
  with assms shell_spawn [of M s iss T d a s' evo] show ?thesis by (auto simp: after_def)
next
  case (EffKillWorker i reason)
  with assms shell_killed show ?thesis by (auto simp: after_def)
next
  case (EffRemoveWorkspace ident)
  with assms show ?thesis by (auto simp: after_def execRemoveWorkspace_def split: option.splits)
next
  case (EffArmRetryTimer i ident a delay)
  with assms shell_armed show ?thesis by (auto simp: after_def)
next
  case (EffCancelRetryTimer i)
  with assms(1) show ?thesis by (simp add: shell_inv_def core_inv_def pop_inv_def fetch_ok_def)
qed

lemma perform_cfg: "perform d s eff = (s', evo) \<Longrightarrow> sh_Cfg s' = sh_Cfg s"
  by (cases eff) (auto simp: execFetchCandidates_def execRefreshTracker_def execRevalidate_def
      execRetryFetch_def execSpawn_def execKillWorker_def execRemoveWorkspace_def armTimer_def
      cancelTimer_def split: option.splits prod.splits sum.splits)

lemma shell_Reduce:
  assumes "shell_inv M s (ev_tok ev + T)" "max_agents s \<le> M" "ev_ok (fmdom (sh_Workers s)) ev"
  shows "shell_inv M (publish (s\<lparr> sh_Cur := fst (Reduce (sh_Cur s) ev (sh_Cfg s) now) \<rparr>))
     (eff_toks (snd (Reduce (sh_Cur s) ev (sh_Cfg s) now)) + T)"
proof -
  obtain s' effs where r: "Reduce (sh_Cur s) ev (sh_Cfg s) now = (s', effs)"
    by (cases "Reduce (sh_Cur s) ev (sh_Cfg s) now")
  note inv = assms(1) [unfolded shell_inv_def]
  have "core_inv M s' (fmdom (sh_Workers s)) (armed_ids s) (queued_ids s) (eff_toks effs + T)"
    by (rule core_Reduce [OF _ _ assms(3) r]) (use inv assms(2) in \<open>simp_all add: max_agents_def\<close>)
  moreover have "retry_keyed s'" by (rule keyed_Reduce [OF _ r]) (use inv in simp)
  ultimately show ?thesis
    using inv r by (simp add: shell_inv_def publish_def armed_ids_def queued_ids_def timers_keyed_def)
qed

lemma drain:
  "wired d \<Longrightarrow> shell_inv M s (ev_tok ev + T) \<Longrightarrow> ev_ok (fmdom (sh_Workers s)) ev \<Longrightarrow> max_agents s \<le> M \<Longrightarrow>
     shell_inv M (step d s ev) T \<and> sh_Cfg (step d s ev) = sh_Cfg s"
  "wired d \<Longrightarrow> shell_inv M s (eff_tok eff + T) \<Longrightarrow> max_agents s \<le> M \<Longrightarrow>
     shell_inv M (exec d s eff) T \<and> sh_Cfg (exec d s eff) = sh_Cfg s"
  "wired d \<Longrightarrow> shell_inv M s (eff_toks effs + T) \<Longrightarrow> max_agents s \<le> M \<Longrightarrow>
     shell_inv M (exec_all d s effs) T \<and> sh_Cfg (exec_all d s effs) = sh_Cfg s"
proof (induction d s ev and d s eff and d s effs arbitrary: T and T and T rule: step_exec_exec_all.induct)
  case (1 d s ev)
  let ?r = "Reduce (sh_Cur s) ev (sh_Cfg s) (d_Now d (sh_World s))"
  let ?s = "publish (s\<lparr> sh_Cur := fst ?r \<rparr>)"
  have "shell_inv M ?s (eff_toks (snd ?r) + T)" by (rule shell_Reduce) (use 1 in auto)
  moreover have "max_agents ?s \<le> M" "sh_Cfg ?s = sh_Cfg s"
    using 1(5) by (simp_all add: max_agents_def publish_def)
  ultimately show ?case
    using 1(1) [OF refl 1(2), of T] by (simp add: step.simps Let_def)
next
  case (2 d s eff)
  obtain s' evo where p: "perform d s eff = (s', evo)" by (cases "perform d s eff")
  have a: "after M s' evo T" by (rule shell_perform [OF 2(3) 2(2) p])
  have c: "sh_Cfg s' = sh_Cfg s" by (rule perform_cfg [OF p])
  show ?case
  proof (cases evo)
    case None
    with a c p show ?thesis by (simp add: exec.simps after_def)
  next
    case (Some ev)
    with a have "shell_inv M s' (ev_tok ev + T)" "ev_ok (fmdom (sh_Workers s')) ev"
      by (simp_all add: after_def)
    moreover have "max_agents s' \<le> M" using 2(4) c by (simp add: max_agents_def)
    ultimately show ?thesis
      using 2(1) [OF p [symmetric] Some 2(2)] c p Some by (simp add: exec.simps)
  qed
next
  case (3 d s)
  then show ?case by simp
next
  case (4 d s eff effs)
  have "shell_inv M (exec d s eff) (eff_toks effs + T) \<and> sh_Cfg (exec d s eff) = sh_Cfg s"
    using 4(1) [OF 4(3), of "eff_toks effs + T"] 4(4,5) by (simp add: ac_simps)
  then show ?case
    using 4(2) [OF 4(3), of T] 4(5) by (simp add: max_agents_def)
qed

section \<open>The loop\<close>

definition slots_used :: "'w scheduler \<Rightarrow> int" where
  "slots_used s = map_len (s_Running (sh_Cur s)) + retryQueuedCount (sh_Cur s)"

text \<open>Between two events there are no obligations, so the bound can be the slots in use.\<close>

definition quiet :: "'w scheduler \<Rightarrow> bool" where
  "quiet s \<longleftrightarrow> shell_inv (slots_used s) s {#}"

lemma shell_inv_bound: "shell_inv M s T \<Longrightarrow> M \<le> M' \<Longrightarrow> shell_inv M' s T"
  using move_bound by (auto simp: shell_inv_def core_inv_def)

lemma shell_quiet_iff: "shell_inv M s {#} \<longleftrightarrow> quiet s \<and> slots_used s \<le> M"
  by (auto simp: quiet_def shell_inv_def core_inv_def pop_inv_def slots_ok_def slots_used_def used_slots)

lemma shell_add_fetch: "shell_inv M s {#} \<Longrightarrow> shell_inv M s {#TFetch#}"
  by (auto simp: shell_inv_def core_inv_def pop_parts)

definition bound_for :: "'w scheduler \<Rightarrow> config \<Rightarrow> int" where
  "bound_for s cfg = max (slots_used s) (ac_MaxConcurrentAgents (c_Agent cfg))"

lemma quiet_bound: "quiet s \<Longrightarrow> shell_inv (bound_for s cfg) s {#}"
  by (simp add: shell_quiet_iff bound_for_def)

definition loop_ok :: "'w scheduler \<Rightarrow> 'w scheduler \<Rightarrow> bool" where
  "loop_ok s s' \<longleftrightarrow> quiet s' \<and> slots_used s' \<le> max (slots_used s) (max_agents s')"

lemma loop_okI: "shell_inv (bound_for s (sh_Cfg s')) s' {#} \<Longrightarrow> loop_ok s s'"
  by (simp add: loop_ok_def shell_quiet_iff bound_for_def max_agents_def)

lemma tick_ok:
  assumes "quiet s" "wired d"
  shows "loop_ok s (tick d s)"
proof -
  obtain s1 cfg valid where r: "reloadConfig d s = (s1, cfg, valid)" by (cases "reloadConfig d s") auto
  let ?s = "s1\<lparr> sh_Cfg := cfg \<rparr>" and ?M = "bound_for s cfg"
  have "shell_inv ?M ?s {#}"
    using quiet_bound [OF assms(1)] shell_reload(1) [OF r] by simp
  then have "shell_inv ?M (step d ?s (EvTick valid)) {#} \<and> sh_Cfg (step d ?s (EvTick valid)) = cfg"
    using drain(1) [OF assms(2), of ?M ?s "EvTick valid" "{#}"] shell_add_fetch [of ?M ?s]
    by (simp add: max_agents_def bound_for_def)
  then show ?thesis by (intro loop_okI) (simp add: tick_def r)
qed

lemma applyInterval_ok: "loop_ok s s' \<Longrightarrow> loop_ok s (applyInterval s')"
  by (auto simp: loop_ok_def applyInterval_def Let_def quiet_def slots_used_def max_agents_def)

lemma worker_done_ok:
  assumes "quiet s" "wired d"
  shows "loop_ok s (handleWorkerDone d s i err attempt)"
proof -
  let ?pre = "s\<lparr> sh_Workers := fmdrop i (sh_Workers s) \<rparr>"
  obtain s1 cfg valid where r: "reloadConfig d ?pre = (s1, cfg, valid)" by (cases "reloadConfig d ?pre") auto
  let ?s = "s1\<lparr> sh_Cfg := cfg \<rparr>" and ?M = "bound_for s cfg" and ?ev = "EvWorkerExit i err attempt"
  have "shell_inv ?M ?pre {#}"
    using quiet_bound [OF assms(1)] move_unhandle
    by (auto simp: shell_inv_def core_inv_def armed_ids_def queued_ids_def timers_keyed_def)
  then have "shell_inv ?M ?s {#}" "i |\<notin>| fmdom (sh_Workers ?s)"
    using shell_reload [OF r] by simp_all
  then have "shell_inv ?M (step d ?s ?ev) {#} \<and> sh_Cfg (step d ?s ?ev) = cfg"
    using drain(1) [OF assms(2), of ?M ?s ?ev "{#}"] by (simp add: max_agents_def bound_for_def)
  then show ?thesis by (intro loop_okI) (simp add: handleWorkerDone_def r)
qed

lemma rearm_ok:
  assumes "shell_inv M s {#TRetry i#}" "fmlookup (s_RetryAttempts (sh_Cur s)) i = Some e"
  shows "shell_inv M (armTimer (publish (s\<lparr> sh_Cur := enqueueRetry (sh_Cur s) (e\<lparr> re_DueAtMS := due \<rparr>) \<rparr>))
     i ident attempt delay) {#}"
proof -
  let ?post = "publish (s\<lparr> sh_Cur := enqueueRetry (sh_Cur s) (e\<lparr> re_DueAtMS := due \<rparr>) \<rparr>)"
  have e: "re_IssueID e = i" "i |\<in>| retry_ids (sh_Cur s)"
    using assms by (auto simp: shell_inv_def retry_keyed_def intro: fmdomI)
  then have "retry_ids (sh_Cur ?post) = retry_ids (sh_Cur s)" "retry_keyed (sh_Cur ?post)"
    using assms(1) by (auto simp: publish_def enqueueRetry_def shell_inv_def retry_keyed_def split: if_splits)
  then have "shell_inv M ?post {#TArm i#}"
    using assms(1) move_rearm [of M "run_ids (sh_Cur s)" "s_Claimed (sh_Cur s)" "retry_ids (sh_Cur s)"
        "fmdom (sh_Workers s)" "armed_ids s" "queued_ids s" i "{#}"]
    by (auto simp: shell_inv_def core_inv_def publish_def pop armed_ids_def queued_ids_def timers_keyed_def)
  then show ?thesis by (rule shell_armed)
qed

lemma retry_popped:
  assumes "quiet s" "sh_RetryFire s = req # q" "i = rf_IssueID req"
  shows "shell_inv (bound_for s c) (s\<lparr> sh_RetryFire := q, sh_Timers := fmdrop i (sh_Timers s) \<rparr>) {#TRetry i#}"
proof -
  let ?pre = "s\<lparr> sh_RetryFire := q, sh_Timers := fmdrop i (sh_Timers s) \<rparr>"
  have "i \<notin> armed_ids s"
    using assms by (auto simp: quiet_def shell_inv_def core_inv_def pop_inv_def timers_ok_def queued_ids_def)
  then have "armed_ids ?pre = armed_ids s" by (auto simp: armed_ids_def)
  moreover have "pop_inv (bound_for s c) (run_ids (sh_Cur s)) (s_Claimed (sh_Cur s)) (retry_ids (sh_Cur s))
      (fmdom (sh_Workers s)) (armed_ids s) (map rf_IssueID q) {#TRetry i#}"
    using quiet_bound [OF assms(1), of c] assms(2,3)
    by (intro move_popped) (simp_all add: shell_inv_def core_inv_def queued_ids_def)
  ultimately show ?thesis
    using assms(1) by (simp add: quiet_def shell_inv_def core_inv_def queued_ids_def timers_keyed_def)
qed

lemma reload_invalid: "reloadConfig d s = (s', cfg, False) \<Longrightarrow> sh_Cfg s' = sh_Cfg s"
  by (auto simp: reloadConfig_def markDegraded_def split: sum.splits prod.splits option.splits if_splits)

lemma retry_fire_ok:
  assumes "quiet s" "wired d" "sh_RetryFire s = req # q"
  shows "loop_ok s (handleRetryFire d (s\<lparr> sh_RetryFire := q \<rparr>) req)"
proof -
  let ?i = "rf_IssueID req"
  let ?pre = "s\<lparr> sh_RetryFire := q, sh_Timers := fmdrop ?i (sh_Timers s) \<rparr>"
  obtain s1 cfg valid where r: "reloadConfig d ?pre = (s1, cfg, valid)" by (cases "reloadConfig d ?pre") auto
  have inv: "shell_inv (bound_for s c) s1 {#TRetry ?i#}" for c
    using retry_popped [OF assms(1,3) refl] shell_reload(1) [OF r] by simp
  show ?thesis
  proof (cases valid)
    case True
    let ?s = "s1\<lparr> sh_Cfg := cfg \<rparr>" and ?ev = "EvRetryDue ?i (rf_Identifier req) (rf_Attempt req)"
    have "shell_inv (bound_for s cfg) (step d ?s ?ev) {#} \<and> sh_Cfg (step d ?s ?ev) = cfg"
      using drain(1) [OF assms(2), of "bound_for s cfg" ?s ?ev "{#}"] inv
      by (simp add: max_agents_def bound_for_def)
    then show ?thesis using True r by (intro loop_okI) (simp add: handleRetryFire_def)
  next
    case False
    have "?i |\<in>| retry_ids (sh_Cur s1)"
      using inv [of cfg] by (simp add: shell_inv_def core_inv_def pop_inv_def)
    then obtain e where e: "fmlookup (s_RetryAttempts (sh_Cur s1)) ?i = Some e"
      by (auto simp: fmlookup_dom_iff)
    have "sh_Cfg s1 = sh_Cfg s" using reload_invalid r False by fastforce
    with rearm_ok [OF inv e] show ?thesis
      using False r e by (intro loop_okI) (simp add: handleRetryFire_def armTimer_def publish_def)
  qed
qed

lemma timer_fires_ok:
  assumes "quiet s" "fmlookup (sh_Timers s) i = Some t" "tm_Armed t"
  shows "loop_ok s (s\<lparr> sh_Timers := fmupd i (t\<lparr> tm_Armed := False \<rparr>) (sh_Timers s),
                      sh_RetryFire := sh_RetryFire s @ [tm_Req t] \<rparr>)" (is "loop_ok s ?s")
proof -
  have i: "i \<in> armed_ids s" "rf_IssueID (tm_Req t) = i"
    using assms by (auto simp: armed_ids_def quiet_def shell_inv_def timers_keyed_def)
  have "armed_ids ?s = armed_ids s - {i}" by (auto simp: armed_ids_def)
  moreover have "queued_ids ?s = queued_ids s @ [i]" using i by (simp add: queued_ids_def)
  moreover have "timers_keyed ?s" using assms by (auto simp: quiet_def shell_inv_def timers_keyed_def)
  ultimately have "shell_inv (bound_for s (sh_Cfg ?s)) ?s {#}"
    using quiet_bound [OF assms(1), of "sh_Cfg ?s"] i(1)
    by (simp add: shell_inv_def core_inv_def move_fires)
  then show ?thesis by (rule loop_okI)
qed

lemma activity_ok:
  assumes "quiet s" "wired d"
  shows "loop_ok s (step d s (EvCodexActivity i ev message ts u rl dur completed))"
proof -
  let ?ev = "EvCodexActivity i ev message ts u rl dur completed"
  have "shell_inv (bound_for s (sh_Cfg s)) (step d s ?ev) {#} \<and> sh_Cfg (step d s ?ev) = sh_Cfg s"
    using drain(1) [OF assms(2), of "bound_for s (sh_Cfg s)" s ?ev "{#}"] quiet_bound [OF assms(1)]
    by (simp add: max_agents_def bound_for_def)
  then show ?thesis by (intro loop_okI) simp
qed

lemma run_step_ok:
  assumes "run_step d s s'" "quiet s" "wired d"
  shows "loop_ok s s'"
  using assms
proof (induction rule: run_step.induct)
  case (ticker s)
  then show ?case by (intro applyInterval_ok tick_ok)
next
  case (retry_fire s req q)
  then show ?case by (intro retry_fire_ok)
next
  case (worker_done s i err attempt)
  then show ?case by (intro worker_done_ok)
next
  case (codex_activity s i ev message ts u rl dur completed)
  then show ?case by (intro activity_ok)
next
  case (reload s)
  then have "quiet (s\<lparr> sh_ReloadCh := False \<rparr>)" by (simp add: quiet_def slots_used_def)
  then have "loop_ok (s\<lparr> sh_ReloadCh := False \<rparr>) (applyInterval (tick d (s\<lparr> sh_ReloadCh := False \<rparr>)))"
    using reload by (intro applyInterval_ok tick_ok)
  then show ?case by (simp add: loop_ok_def slots_used_def)
next
  case (refresh s)
  then show ?case by (simp add: Refresh_def loop_ok_def quiet_def slots_used_def)
next
  case (timer_fires s i t)
  then show ?case by (intro timer_fires_ok)
next
  case (world s w)
  then show ?case by (simp add: loop_ok_def quiet_def slots_used_def)
qed

lemma start_quiet:
  assumes "wired d"
  shows "quiet (Run_start d (NewScheduler path cfg tmpl w))"
proof -
  let ?n = "NewScheduler path cfg tmpl w"
  have "quiet ?n"
    by (simp add: quiet_def slots_used_def NewScheduler_def publish_def shell_inv_def core_inv_def
        pop_parts claims_ok_def arms_ok_def fetch_ok_def slots_ok_def once_def armed_ids_def
        queued_ids_def timers_keyed_def retry_keyed_def retryQueuedCount_def NewState_def)
  then have "quiet (StartupCleanup d (?n\<lparr> sh_Available := True \<rparr>))"
    by (auto simp: StartupCleanup_def quiet_def slots_used_def split: option.splits prod.splits sum.splits)
  from tick_ok [OF this assms] show ?thesis by (simp add: Run_start_def loop_ok_def)
qed

lemma reachable_quiet: "reachable d s \<Longrightarrow> wired d \<Longrightarrow> quiet s"
proof (induction rule: reachable.induct)
  case (start path cfg tmpl w)
  then show ?case by (rule start_quiet)
next
  case (step s s')
  then show ?case using run_step_ok [of d s s'] by (simp add: loop_ok_def)
qed

text \<open>
  C7: What holds between any two events of the running scheduler. Running issues are claimed and
  never also waiting for a retry; a worker handle belongs to a running issue, so no process is left
  without an owner; a fired or armed timer belongs to a waiting retry and no issue has two; and no
  retry is lost: every claimed issue that waits for a retry has its timer armed or its request
  queued. Observers read exactly the current state.
\<close>

theorem scheduler_invariant:
  assumes "reachable d s" "wired d"
  shows "run_ids (sh_Cur s) |\<subseteq>| s_Claimed (sh_Cur s) \<and>
    run_ids (sh_Cur s) |\<inter>| retry_ids (sh_Cur s) = {||} \<and>
    fmdom (sh_Workers s) |\<subseteq>| run_ids (sh_Cur s) \<and>
    distinct (queued_ids s) \<and> armed_ids s \<inter> set (queued_ids s) = {} \<and>
    armed_ids s \<union> set (queued_ids s) \<subseteq> fset (retry_ids (sh_Cur s)) \<and>
    fset (s_Claimed (sh_Cur s)) \<inter> fset (retry_ids (sh_Cur s)) \<subseteq> armed_ids s \<union> set (queued_ids s) \<and>
    sh_Published s = Some (sh_Cur s)"
  using reachable_quiet [OF assms]
  by (auto simp: quiet_def shell_inv_def core_inv_def pop_parts)

text \<open>
  C8: The concurrency limit, step by step. Whatever the loop does next, the slots in use (running
  attempts and queued retries) afterwards exceed neither the slots in use before nor the limit of
  the configuration in force; so a run never climbs over the limit, and after the limit has been
  lowered it can only fall towards it.
\<close>

theorem scheduler_slots:
  assumes "reachable d s" "wired d" "run_step d s s'"
  shows "slots_used s' \<le> max (slots_used s) (max_agents s')"
  using run_step_ok [OF assms(3) reachable_quiet [OF assms(1,2)] assms(2)] by (simp add: loop_ok_def)

definition demo_deps :: "unit deps" where
  "demo_deps = \<lparr> d_Tracker = Some (\<lambda>w. (Inr [demo_issue ''a'' ''todo'' None], w)),
     d_Spawn = Some (\<lambda>iss attempt w. (Inr (demo_session, Some 7), w)),
     d_RefreshTracker = None, d_Workspace = None, d_Kill = (\<lambda>h reason w. w), d_Now = (\<lambda>w. 0),
     d_ReadFile = (\<lambda>w path. None), d_Yaml = (\<lambda>text. None), d_Getenv = (\<lambda>w name. []) \<rparr>"

lemma demo_wired: "wired demo_deps"
  by (simp add: wired_def demo_deps_def)

theorem scheduler_invariant_witness:
  "fmdom (sh_Workers (Run_start demo_deps (NewScheduler ''W'' (demo_cfg 1) [] ()))) |\<subseteq>|
     run_ids (sh_Cur (Run_start demo_deps (NewScheduler ''W'' (demo_cfg 1) [] ())))"
  using scheduler_invariant [OF reachable.start demo_wired, of "''W''" "demo_cfg 1" "[]" "()"] by simp

theorem scheduler_slots_witness:
  "\<exists>s s'. run_step demo_deps s s' \<and> slots_used s' \<le> max (slots_used s) (max_agents s')"
proof -
  let ?s = "Run_start demo_deps (NewScheduler ''W'' (demo_cfg 1) [] ())"
  have "run_step demo_deps ?s (applyInterval (tick demo_deps ?s))" by (rule run_step.ticker)
  with scheduler_slots [OF reachable.start demo_wired this] show ?thesis by blast
qed

end
