(* ===== verification/Client_State.thy ===== *)
theory Client_State
  imports Prelude GoLib
begin

text \<open>
  The data of the client daemon's functional core (\<open>client/state\<close> and \<open>client/state/view\<close>): session
  status and views, launch plans, the events a driver sees, the effects a reducer requests, the driver
  plug-in interface with its optional capabilities and the registry that resolves a command to a
  driver, and the daemon state itself.

  \<^item> \<open>ConnID\<close> and \<open>JobID\<close> are 64-bit words, terminal sizes 16-bit words; the other identifiers are
    strings;
  \<^item> the sealed interface \<open>DriverState\<close> is the type variable \<open>'ds\<close>; a nil interface value is \<open>None\<close>;
  \<^item> a driver is a record of functions, an optional Go interface that it may implement is an
    \<open>option\<close> field; a failed type assertion in \<open>Status\<close>, which panics, is \<open>None\<close>;
  \<^item> identifiers come from \<open>crypto/rand\<close>: the n-th identifier drawn is \<open>rand n\<close>, and the state
    counts the draws in the field \<open>st_Draws\<close>, which has no counterpart in the code.
\<close>

section \<open>view/status.go, view/view.go\<close>

datatype status = StatusRunning | StatusWaiting | StatusIdle | StatusStopped | StatusPending

fun Status_String :: "status \<Rightarrow> string" where
  "Status_String StatusRunning = ''running''"
| "Status_String StatusWaiting = ''waiting''"
| "Status_String StatusIdle = ''idle''"
| "Status_String StatusStopped = ''stopped''"
| "Status_String StatusPending = ''pending''"

fun SymbolKey :: "status \<Rightarrow> string" where
  "SymbolKey StatusRunning = ''status.running''"
| "SymbolKey StatusWaiting = ''status.waiting''"
| "SymbolKey StatusIdle = ''status.idle''"
| "SymbolKey StatusStopped = ''status.stopped''"
| "SymbolKey StatusPending = ''status.pending''"

definition ParseStatus :: "string \<Rightarrow> status option" where
  "ParseStatus name =
     (if name = ''running'' then Some StatusRunning
      else if name = ''waiting'' then Some StatusWaiting
      else if name = ''idle'' then Some StatusIdle
      else if name = ''stopped'' then Some StatusStopped
      else if name = ''pending'' then Some StatusPending
      else None)"

record tag =
  tag_Text :: string
  tag_Foreground :: string
  tag_Background :: string

definition no_tag :: tag where
  "no_tag = \<lparr> tag_Text = [], tag_Foreground = [], tag_Background = [] \<rparr>"

record card =
  card_Title :: string
  card_Tags :: "tag list"
  card_BorderTitle :: tag
  card_BorderTitleSecondary :: tag
  card_BorderBadge :: string

record log_tab =
  tab_Label :: string
  tab_Path :: string
  tab_Kind :: string
  tab_RendererCfg :: string

record info_line =
  il_Label :: string
  il_Value :: string

record view =
  v_Card :: card
  v_DisplayName :: string
  v_LogTabs :: "log_tab list"
  v_InfoExtras :: "info_line list"
  v_SuppressInfo :: bool
  v_StatusLine :: string
  v_Status :: status
  v_StatusChangedAt :: go_time

definition HostTag :: tag where
  "HostTag = \<lparr> tag_Text = ''host'', tag_Foreground = ''#FFFFFF'', tag_Background = ''#7C5CBF'' \<rparr>"

section \<open>driver_iface.go: launch plans\<close>

type_synonym session_id = string
type_synonym frame_id = string
type_synonym subsystem_id = string
type_synonym target_id = string
type_synonym conn_id = "64 word"
type_synonym job_id = "64 word"
type_synonym bytes = string

datatype launch_mode = LaunchModeCreate | LaunchModeColdStart | LaunchModeWarmStart

datatype sandbox_override = SandboxOverrideAuto | SandboxOverrideHost

record worktree_option =
  wt_Enabled :: bool

record launch_options =
  lo_Worktree :: worktree_option
  lo_InitialInput :: bytes
  lo_Cols :: "16 word"
  lo_Rows :: "16 word"

definition zero_options :: launch_options where
  "zero_options = \<lparr> lo_Worktree = \<lparr> wt_Enabled = False \<rparr>, lo_InitialInput = [], lo_Cols = 0, lo_Rows = 0 \<rparr>"

datatype launch_subsystem = LaunchSubsystemNone | LaunchSubsystemCLI | LaunchSubsystemStream

datatype stream_sandbox_policy = StreamSandboxPolicyDefault | StreamSandboxPolicyExternal

datatype stream_approval_policy = StreamApprovalPolicyDefault | StreamApprovalPolicyAutoApprove

record resume_target =
  rt_ThreadID :: string
  rt_RolloutPath :: string

record stream_launch_options =
  sl_SandboxPolicy :: stream_sandbox_policy
  sl_ApprovalPolicy :: stream_approval_policy
  sl_ResumeTarget :: resume_target
  sl_ColdStartSessionID :: string

definition zero_stream :: stream_launch_options where
  "zero_stream = \<lparr> sl_SandboxPolicy = StreamSandboxPolicyDefault,
     sl_ApprovalPolicy = StreamApprovalPolicyDefault,
     sl_ResumeTarget = \<lparr> rt_ThreadID = [], rt_RolloutPath = [] \<rparr>, sl_ColdStartSessionID = [] \<rparr>"

record launch_plan =
  lp_Command :: string
  lp_StartDir :: string
  lp_Project :: string
  lp_Sandbox :: sandbox_override
  lp_Options :: launch_options
  lp_Subsystem :: launch_subsystem
  lp_Stream :: stream_launch_options
  lp_Stdin :: bytes

definition zero_plan :: launch_plan where
  "zero_plan = \<lparr> lp_Command = [], lp_StartDir = [], lp_Project = [], lp_Sandbox = SandboxOverrideAuto,
     lp_Options = zero_options, lp_Subsystem = LaunchSubsystemNone, lp_Stream = zero_stream,
     lp_Stdin = [] \<rparr>"

record create_launch =
  cl_Command :: string
  cl_StartDir :: string
  cl_Options :: launch_options

section \<open>driver_iface.go: the events of a driver\<close>

datatype prompt_phase =
  PromptPhaseNone | PromptPhaseStart | PromptPhaseInput | PromptPhaseCommand | PromptPhaseComplete

datatype subsystem_kind = SubsystemCLI | SubsystemStream

datatype subsystem_event_kind =
  SubsystemSessionReady | SubsystemFailed | SubsystemPromptSubmitted | SubsystemTurnStarted
  | SubsystemTurnCompleted | SubsystemToolStarted | SubsystemToolCompleted
  | SubsystemApprovalRequested | SubsystemApprovalResolved | SubsystemPlanUpdated
  | SubsystemDiffUpdated | SubsystemMessageUpdated

record subsystem_turn =
  su_Role :: string
  su_Text :: string

record subsystem_tool =
  to_ID :: string
  to_Name :: string
  to_Command :: string
  to_Path :: string
  to_Error :: string
  to_PermissionMode :: string
  to_IsInterrupt :: bool

record subsystem_approval =
  ap_ID :: string
  ap_Kind :: string
  ap_Command :: string
  ap_Path :: string
  ap_Reason :: string
  ap_AutoApprove :: bool
  ap_Resolved :: bool
  ap_Denied :: bool

record subsystem_diff =
  df_Summary :: string
  df_Paths :: "string list"

record subsystem_payload =
  pl_SessionID :: string
  pl_ColdStartSessionID :: string
  pl_TurnID :: string
  pl_TargetID :: string
  pl_RequestedTargetID :: string
  pl_ObservedTargetID :: string
  pl_ResumePhase :: string
  pl_Prompt :: string
  pl_Error :: string
  pl_LastAssistantMessage :: string
  pl_StatusLine :: string
  pl_TranscriptPath :: string
  pl_Tool :: "subsystem_tool option"
  pl_Approval :: "subsystem_approval option"
  pl_Plan :: "string option"
  pl_Diff :: "subsystem_diff option"
  pl_Message :: "subsystem_turn list option"

record frame_context =
  fc_ID :: frame_id
  fc_Project :: string
  fc_Command :: string
  fc_LaunchOptions :: launch_options
  fc_CreatedAt :: go_time
  fc_IsRoot :: bool

text \<open>The jobs of \<open>driver/jobs.go\<close> and their results.\<close>

record summary_turn =
  tn_Role :: string
  tn_Text :: string

datatype job_input =
    TranscriptParseInput string string
  | CodexTranscriptParseInput string
  | GeminiTranscriptParseInput string
  | SummaryCommandInput string
  | BranchDetectInput string

record branch_detect_result =
  br_Branch :: string
  br_Background :: string
  br_Foreground :: string
  br_IsWorktree :: bool
  br_ParentBranch :: string

record transcript_parse_result =
  tp_Title :: string
  tp_LastPrompt :: string
  tp_StatusLine :: string
  tp_CurrentTool :: string
  tp_Subagents :: "(string, int) fmap"
  tp_RecentTurns :: "summary_turn list"
  tp_PlanFile :: string

record codex_transcript_parse_result =
  cp_Title :: string
  cp_LastPrompt :: string
  cp_LastAssistantMessage :: string
  cp_StatusLine :: string
  cp_RecentTurns :: "summary_turn list"

record gemini_transcript_parse_result =
  gp_Title :: string
  gp_LastPrompt :: string
  gp_LastAssistantMessage :: string
  gp_StatusLine :: string
  gp_CurrentTool :: string
  gp_RecentTurns :: "summary_turn list"

text \<open>\<open>NoResult\<close> is the nil result of a job that failed.\<close>

datatype job_result =
    TranscriptParseResult transcript_parse_result
  | CodexTranscriptParseResult codex_transcript_parse_result
  | GeminiTranscriptParseResult gemini_transcript_parse_result
  | SummaryCommandResult string
  | BranchDetectResult branch_detect_result
  | NoResult

fun JobKind :: "job_input \<Rightarrow> string" where
  "JobKind (TranscriptParseInput _ _) = ''transcript_parse''"
| "JobKind (CodexTranscriptParseInput _) = ''codex_transcript_parse''"
| "JobKind (GeminiTranscriptParseInput _) = ''gemini_transcript_parse''"
| "JobKind (SummaryCommandInput _) = ''summary_command''"
| "JobKind (BranchDetectInput _) = ''branch_detect''"

datatype driver_event =
    DEvHook string go_time string bytes
  | DEvSubsystem subsystem_kind subsystem_event_kind go_time subsystem_payload
  | DEvTick go_time bool string "64 word" "64 word"
  | DEvJobResult job_result "string option" go_time
  | DEvFileChanged string
  | DEvFrameOsc int string string go_time
  | DEvFramePrompt prompt_phase "int option" go_time
  | DEvStatusLineClick string go_time
  | DEvWorktreeResolved string string
  | DEvCommandExited int go_time

section \<open>effect.go\<close>

record spawn_frame =
  sf_SessionID :: session_id
  sf_FrameID :: frame_id
  sf_Mode :: launch_mode
  sf_Project :: string
  sf_Command :: string
  sf_StartDir :: string
  sf_Sandbox :: sandbox_override
  sf_Options :: launch_options
  sf_Subsystem :: launch_subsystem
  sf_Stream :: stream_launch_options
  sf_Stdin :: bytes
  sf_Env :: "(string, string) fmap"
  sf_ReplyConn :: conn_id
  sf_ReplyReqID :: string

text \<open>The bodies that reducers put into a response.\<close>

datatype reply_body =
    NoBody
  | CreateSessionReply session_id
  | SessionsReply
  | SurfaceReadTextReply session_id int
  | DriverListReply

datatype effect =
    EffSpawnFrame spawn_frame
  | EffKillFrame frame_id
  | EffRegisterFrame frame_id bool
  | EffUnregisterFrame frame_id
  | EffSetSessionEnv string string
  | EffUnsetSessionEnv string
  | EffReleaseFrameSandboxes
  | EffReleaseFrameSandbox frame_id
  | EffSendResponse conn_id string reply_body
  | EffSendResponseSync conn_id string reply_body
  | EffSendError conn_id string string string
  | EffBroadcastSessionsChanged
  | EffBroadcastEvent string reply_body string
  | EffCloseConn conn_id
  | EffSendFrameKeys conn_id string session_id string string bool
  | EffPersistSnapshot
  | EffWatchFile frame_id string string
  | EffUnwatchFile frame_id
  | EffEventLogAppend frame_id string
  | EffToolLogAppend string string string
  | EffReconcileWindows
  | EffRecordNotification session_id frame_id int string string
  | EffPushDriver session_id string
  | EffStartJob job_id job_input
  | EffSurfaceSubscribeStart conn_id session_id
  | EffSurfaceSubscribeStop conn_id session_id
  | EffSurfaceResize session_id "16 word" "16 word"
  | EffSurfaceWriteRaw session_id bytes

section \<open>driver_iface.go: drivers and their registry\<close>

type_synonym bag = "(string, string) fmap"

record 'ds forkable =
  fk_ForkCommand :: "'ds option \<Rightarrow> string \<Rightarrow> string option"
  fk_ForkChildState :: "'ds option \<Rightarrow> go_time \<Rightarrow> 'ds"

record 'ds start_dir_aware =
  sd_StartDir :: "'ds option \<Rightarrow> string"
  sd_WithStartDir :: "'ds \<Rightarrow> string \<Rightarrow> 'ds"

record 'ds driver =
  drv_Name :: string
  drv_DisplayName :: string
  drv_NewState :: "go_time \<Rightarrow> 'ds"
  drv_Step :: "'ds \<Rightarrow> frame_context \<Rightarrow> driver_event \<Rightarrow> 'ds \<times> effect list \<times> view"
  drv_Status :: "'ds \<Rightarrow> status option"
  drv_View :: "'ds \<Rightarrow> view"
  drv_Persist :: "'ds \<Rightarrow> bag"
  drv_Restore :: "bag \<Rightarrow> go_time \<Rightarrow> 'ds"
  drv_PrepareLaunch ::
    "'ds \<Rightarrow> launch_mode \<Rightarrow> string \<Rightarrow> string \<Rightarrow> launch_options \<Rightarrow> bool \<Rightarrow> string + launch_plan"
  drv_PrepareCreate ::
    "('ds \<Rightarrow> session_id \<Rightarrow> string \<Rightarrow> string \<Rightarrow> launch_options \<Rightarrow> string + 'ds \<times> create_launch) option"
  drv_Forkable :: "'ds forkable option"
  drv_StartDirAware :: "'ds start_dir_aware option"
  drv_BootstrapSessionStart ::
    "('ds option \<Rightarrow> frame_context \<Rightarrow> go_time \<Rightarrow> 'ds \<times> effect list) option"
  drv_WarmStartRecover :: "('ds option \<Rightarrow> go_time \<Rightarrow> 'ds \<times> effect list) option"
  drv_RecoverableOnColdStart :: "('ds option \<Rightarrow> bool) option"

record 'ds registry =
  reg_Drivers :: "(string, 'ds driver) fmap"
  reg_Factory :: "(string \<Rightarrow> 'ds driver) option"

text \<open>Registration panics (\<open>None\<close>) when the name is taken.\<close>

definition Register :: "'ds registry \<Rightarrow> 'ds driver \<Rightarrow> 'ds registry option" where
  "Register reg d =
     (if fmlookup (reg_Drivers reg) (drv_Name d) \<noteq> None then None
      else Some (reg\<lparr> reg_Drivers := fmupd (drv_Name d) d (reg_Drivers reg) \<rparr>))"

definition RegisterDefaultFactory :: "'ds registry \<Rightarrow> (string \<Rightarrow> 'ds driver) \<Rightarrow> 'ds registry" where
  "RegisterDefaultFactory reg factory = reg\<lparr> reg_Factory := Some factory \<rparr>"

definition ClearRegistry :: "'ds registry" where
  "ClearRegistry = \<lparr> reg_Drivers = fmempty, reg_Factory = None \<rparr>"

definition FirstToken :: "string \<Rightarrow> string" where
  "FirstToken command = takeWhile (\<lambda>c. c \<noteq> CHR '' '' \<and> c \<noteq> CHR 0x09) command"

definition GetDriver :: "'ds registry \<Rightarrow> string \<Rightarrow> 'ds driver option" where
  "GetDriver reg command =
     (let name = FirstToken command in
      case fmlookup (reg_Drivers reg) name of
        Some d \<Rightarrow> Some d
      | None \<Rightarrow>
          (case reg_Factory reg of
             Some factory \<Rightarrow> Some (factory command)
           | None \<Rightarrow> fmlookup (reg_Drivers reg) []))"

section \<open>state.go\<close>

record 'ds session_frame =
  fr_ID :: frame_id
  fr_SubsystemID :: subsystem_id
  fr_TargetID :: target_id
  fr_Project :: string
  fr_Command :: string
  fr_LaunchOptions :: launch_options
  fr_CreatedAt :: go_time
  fr_Driver :: "'ds option"

record 'ds session =
  se_ID :: session_id
  se_Project :: string
  se_CreatedAt :: go_time
  se_Frames :: "'ds session_frame list"
  se_HeadFrameID :: frame_id
  se_MRUFrameIDs :: "frame_id list"
  se_Command :: string
  se_Sandbox :: sandbox_override
  se_LaunchOptions :: launch_options
  se_Driver :: "'ds option"

record subscriber =
  sub_ConnID :: conn_id
  sub_Filters :: "string list"

record job_meta =
  jm_SessionID :: session_id
  jm_FrameID :: frame_id
  jm_StartedAt :: go_time

record 'ds state =
  st_Sessions :: "(session_id, 'ds session) fmap"
  st_Subscribers :: "(conn_id, subscriber) fmap"
  st_SurfaceSubs :: "(conn_id, session_id fset) fmap"
  st_Jobs :: "(job_id, job_meta) fmap"
  st_NextJobID :: job_id
  st_NextConnID :: conn_id
  st_Now :: go_time
  st_Aliases :: "(string, string) fmap"
  st_DefaultCommand :: string
  st_SandboxedProject :: "(string \<Rightarrow> bool) option"
  st_Features :: "string fset"
  st_Draws :: nat

definition New :: "'ds state" where
  "New = \<lparr> st_Sessions = fmempty, st_Subscribers = fmempty, st_SurfaceSubs = fmempty,
     st_Jobs = fmempty, st_NextJobID = 0, st_NextConnID = 0, st_Now = zero_time,
     st_Aliases = fmempty, st_DefaultCommand = [], st_SandboxedProject = None,
     st_Features = {||}, st_Draws = 0 \<rparr>"

section \<open>event.go\<close>

record frame_spawned =
  fs_SessionID :: session_id
  fs_FrameID :: frame_id
  fs_SubsystemID :: subsystem_id
  fs_WorktreeStartDir :: string
  fs_WorktreeName :: string
  fs_ReplyConn :: conn_id
  fs_ReplyReqID :: string

datatype event =
    EvEvent conn_id string string bytes
  | EvDriverEvent conn_id string string go_time frame_id bytes
  | EvSubsystem conn_id string frame_id subsystem_kind subsystem_event_kind go_time subsystem_payload
  | EvFrameSpawned frame_spawned
  | EvSpawnFailed session_id frame_id string conn_id string
  | EvFrameVanished frame_id
  | EvFrameCommandExited frame_id int
  | EvTick go_time "64 word"
  | EvJobResult job_id job_result "string option"
  | EvFileChanged frame_id string
  | EvFrameOsc frame_id int string string go_time
  | EvFramePrompt frame_id prompt_phase "int option" go_time
  | EvConnOpened conn_id
  | EvConnClosed conn_id
  | EvCmdSubscribe conn_id string "string list"
  | EvCmdUnsubscribe conn_id string
  | EvCmdSurfaceReadText conn_id string session_id int
  | EvCmdSurfaceSendText conn_id string session_id string
  | EvCmdSurfaceSendKey conn_id string session_id string
  | EvCmdDriverList conn_id string
  | EvCmdSurfaceSubscribe conn_id string session_id
  | EvCmdSurfaceUnsubscribe conn_id string session_id
  | EvCmdSurfaceResize conn_id string session_id "16 word" "16 word"
  | EvCmdSurfaceWriteRaw conn_id string session_id bytes

section \<open>Facts about statuses and the registry\<close>

text \<open>C33: The status names round-trip: every status is parsed back from its name, and no other
  string is accepted.\<close>

theorem ParseStatus_String: "ParseStatus name = Some st \<longleftrightarrow> name = Status_String st"
  by (cases st) (auto simp: ParseStatus_def)

lemma FirstToken_prefix: "\<exists>rest. command = FirstToken command @ rest"
  by (metis FirstToken_def takeWhile_dropWhile_id)

lemma FirstToken_idem [simp]: "FirstToken (FirstToken command) = FirstToken command"
  by (simp add: FirstToken_def)

lemma GetDriver_registered:
  "fmlookup (reg_Drivers reg) (FirstToken command) = Some d \<Longrightarrow> GetDriver reg command = Some d"
  by (simp add: GetDriver_def)

lemma Register_lookup:
  assumes "Register reg d = Some reg'"
  shows "fmlookup (reg_Drivers reg') name
    = (if name = drv_Name d then Some d else fmlookup (reg_Drivers reg) name)"
    and "reg_Factory reg' = reg_Factory reg"
  using assms by (auto simp: Register_def split: if_splits)

end
