(* ===== verification/Client_Helpers.thy ===== *)
theory Client_Helpers
  imports Client_State
begin

text \<open>
  The helpers the client's reducers share (\<open>reduce_helpers.go\<close>, \<open>reduce_frame_evict.go\<close>): drawing
  identifiers, the head and root frame of a session, the most-recently-used stack, frame lookup and
  removal, running a driver on one frame or on every session, and the effects that tear a frame down.

  A lookup that ranges over the session map visits the sessions in the order of their identifiers;
  frame identifiers are unique in every reachable state, so at most one session can match.
\<close>

section \<open>The environment of the reducers\<close>

record create_session_params =
  csp_Project :: string
  csp_Command :: string
  csp_Sandbox :: sandbox_override
  csp_Options :: launch_options

record push_driver_params =
  pdp_SessionID :: string
  pdp_Project :: string
  pdp_Command :: string
  pdp_Options :: launch_options
  pdp_Input :: bytes

record set_head_frame_params =
  shp_SessionID :: string
  shp_FrameID :: string

text \<open>
  What the reducers take from outside the state: the driver registry, the identifiers read from
  \<open>crypto/rand\<close>, and \<open>json.Unmarshal\<close> for the payload types, which yields an error message or the
  decoded value.
\<close>

record 'ds env =
  env_Registry :: "'ds registry"
  env_Rand :: "nat \<Rightarrow> string"
  env_CreateSession :: "bytes \<Rightarrow> string + create_session_params"
  env_PushDriver :: "bytes \<Rightarrow> string + push_driver_params"
  env_SessionOnly :: "bytes \<Rightarrow> string + string"
  env_SetHeadFrame :: "bytes \<Rightarrow> string + set_head_frame_params"
  env_Empty :: "bytes \<Rightarrow> string + unit"

abbreviation get_driver :: "'ds env \<Rightarrow> string \<Rightarrow> 'ds driver option" where
  "get_driver env \<equiv> GetDriver (env_Registry env)"

definition allocSessionID :: "'ds env \<Rightarrow> 'ds state \<Rightarrow> session_id \<times> 'ds state" where
  "allocSessionID env s = (env_Rand env (st_Draws s), s\<lparr> st_Draws := Suc (st_Draws s) \<rparr>)"

definition allocFrameID :: "'ds env \<Rightarrow> 'ds state \<Rightarrow> frame_id \<times> 'ds state" where
  "allocFrameID env s = allocSessionID env s"

definition isSandboxed :: "'ds state \<Rightarrow> string \<Rightarrow> sandbox_override \<Rightarrow> bool" where
  "isSandboxed s project override =
     (case st_SandboxedProject s of
        None \<Rightarrow> False
      | Some f \<Rightarrow> f project \<and> override \<noteq> SandboxOverrideHost)"

definition spawnEffect ::
  "session_id \<Rightarrow> frame_id \<Rightarrow> launch_plan \<Rightarrow> conn_id \<Rightarrow> string \<Rightarrow> effect" where
  "spawnEffect sessID frameID plan connID reqID = EffSpawnFrame
     \<lparr> sf_SessionID = sessID, sf_FrameID = frameID, sf_Mode = LaunchModeCreate,
       sf_Project = lp_Project plan, sf_Command = lp_Command plan, sf_StartDir = lp_StartDir plan,
       sf_Sandbox = lp_Sandbox plan, sf_Options = lp_Options plan, sf_Subsystem = lp_Subsystem plan,
       sf_Stream = lp_Stream plan, sf_Stdin = lp_Stdin plan,
       sf_Env = fmupd ''ROOST_FRAME_ID'' frameID (fmupd ''ROOST_SESSION_ID'' sessID fmempty),
       sf_ReplyConn = connID, sf_ReplyReqID = reqID \<rparr>"

section \<open>Frames of a session\<close>

definition rootFrame :: "'ds session \<Rightarrow> 'ds session_frame option" where
  "rootFrame sess =
     (case se_Frames sess of
        [] \<Rightarrow>
          if se_Command sess = [] \<or> se_Driver sess = None then None
          else Some \<lparr> fr_ID = se_ID sess, fr_SubsystemID = [], fr_TargetID = [],
                      fr_Project = se_Project sess, fr_Command = se_Command sess,
                      fr_LaunchOptions = se_LaunchOptions sess, fr_CreatedAt = se_CreatedAt sess,
                      fr_Driver = se_Driver sess \<rparr>
      | frame # _ \<Rightarrow> Some frame)"

definition headFrame :: "'ds session \<Rightarrow> 'ds session_frame option" where
  "headFrame sess =
     (if se_Frames sess = [] then rootFrame sess
      else if se_HeadFrameID sess \<noteq> [] then
        (case find (\<lambda>f. fr_ID f = se_HeadFrameID sess) (se_Frames sess) of
           Some f \<Rightarrow> Some f
         | None \<Rightarrow> Some (last (se_Frames sess)))
      else Some (last (se_Frames sess)))"

definition pushMRU :: "'ds session \<Rightarrow> frame_id \<Rightarrow> 'ds session" where
  "pushMRU sess frameID =
     (if frameID = [] then sess
      else sess\<lparr> se_MRUFrameIDs :=
             take 16 (frameID # filter (\<lambda>i. i \<noteq> frameID) (se_MRUFrameIDs sess)) \<rparr>)"

fun pop_mru :: "frame_id set \<Rightarrow> frame_id list \<Rightarrow> frame_id \<times> frame_id list" where
  "pop_mru existing [] = ([], [])"
| "pop_mru existing (i # ids) = (if i \<in> existing then (i, ids) else pop_mru existing ids)"

definition popMRU :: "'ds session \<Rightarrow> frame_id \<times> 'ds session" where
  "popMRU sess =
     (let existing = set (map fr_ID (se_Frames sess)) in
      case pop_mru existing (se_MRUFrameIDs sess) of
        (i, rest) \<Rightarrow> (i, sess\<lparr> se_MRUFrameIDs := rest \<rparr>))"

definition removeFrameByIndex :: "'ds session \<Rightarrow> nat \<Rightarrow> 'ds session \<times> 'ds session_frame" where
  "removeFrameByIndex sess i =
     (sess\<lparr> se_Frames := take i (se_Frames sess) @ drop (Suc i) (se_Frames sess) \<rparr>,
      se_Frames sess ! i)"

fun find_index_from :: "nat \<Rightarrow> frame_id \<Rightarrow> 'ds session_frame list \<Rightarrow> nat option" where
  "find_index_from i frameID [] = None"
| "find_index_from i frameID (f # fs) =
     (if fr_ID f = frameID then Some i else find_index_from (Suc i) frameID fs)"

definition findFrameIndex :: "'ds session \<Rightarrow> frame_id \<Rightarrow> nat option" where
  "findFrameIndex sess frameID = find_index_from 0 frameID (se_Frames sess)"

fun find_in_sessions ::
  "(session_id, 'ds session) fmap \<Rightarrow> frame_id \<Rightarrow> session_id list \<Rightarrow>
   (session_id \<times> 'ds session \<times> nat) option" where
  "find_in_sessions m frameID [] = None"
| "find_in_sessions m frameID (sid # sids) =
     (case fmlookup m sid of
        None \<Rightarrow> find_in_sessions m frameID sids
      | Some sess \<Rightarrow>
          (case findFrameIndex sess frameID of
             Some idx \<Rightarrow> Some (sid, sess, idx)
           | None \<Rightarrow> find_in_sessions m frameID sids))"

definition findFrame :: "'ds state \<Rightarrow> frame_id \<Rightarrow> (session_id \<times> 'ds session \<times> nat) option" where
  "findFrame s frameID = find_in_sessions (st_Sessions s) frameID (sorted_keys (st_Sessions s))"

definition truncateFrames :: "'ds session \<Rightarrow> nat \<Rightarrow> 'ds session_frame list" where
  "truncateFrames sess from = drop from (se_Frames sess)"

section \<open>Running drivers\<close>

definition postProcessEffect ::
  "'ds state \<Rightarrow> session_id \<Rightarrow> frame_id \<Rightarrow> effect \<Rightarrow> effect \<times> 'ds state" where
  "postProcessEffect s sessID frameID eff =
     (case eff of
        EffStartJob _ input \<Rightarrow>
          let jobID = st_NextJobID s + 1;
              meta = \<lparr> jm_SessionID = sessID, jm_FrameID = frameID, jm_StartedAt = st_Now s \<rparr>
          in (EffStartJob jobID input,
              s\<lparr> st_NextJobID := jobID, st_Jobs := fmupd jobID meta (st_Jobs s) \<rparr>)
      | EffEventLogAppend i line \<Rightarrow> (EffEventLogAppend (if i = [] then frameID else i) line, s)
      | EffWatchFile i path kind \<Rightarrow> (EffWatchFile (if i = [] then frameID else i) path kind, s)
      | EffUnwatchFile i \<Rightarrow> (EffUnwatchFile (if i = [] then frameID else i), s)
      | EffPushDriver sid command \<Rightarrow> (EffPushDriver (if sid = [] then sessID else sid) command, s)
      | EffRecordNotification sid i cmd title body \<Rightarrow>
          (EffRecordNotification (if sid = [] then sessID else sid) (if i = [] then frameID else i)
             cmd title body, s)
      | _ \<Rightarrow> (eff, s))"

fun post_process ::
  "'ds state \<Rightarrow> session_id \<Rightarrow> frame_id \<Rightarrow> effect list \<Rightarrow> effect list \<Rightarrow> 'ds state \<times> effect list" where
  "post_process s sessID frameID [] out = (s, out)"
| "post_process s sessID frameID (eff # effs) out =
     (case postProcessEffect s sessID frameID eff of
        (patched, s) \<Rightarrow> post_process s sessID frameID effs (out @ [patched]))"

definition frame_ctx :: "'ds session_frame \<Rightarrow> bool \<Rightarrow> frame_context" where
  "frame_ctx frame is_root =
     \<lparr> fc_ID = fr_ID frame, fc_Project = fr_Project frame, fc_Command = fr_Command frame,
       fc_LaunchOptions = fr_LaunchOptions frame, fc_CreatedAt = fr_CreatedAt frame,
       fc_IsRoot = is_root \<rparr>"

definition put_frame ::
  "'ds state \<Rightarrow> session_id \<Rightarrow> 'ds session \<Rightarrow> nat \<Rightarrow> 'ds session_frame \<Rightarrow> 'ds state" where
  "put_frame s sessID sess idx frame =
     s\<lparr> st_Sessions := fmupd sessID (sess\<lparr> se_Frames := (se_Frames sess)[idx := frame] \<rparr>)
          (st_Sessions s) \<rparr>"

definition stepDriver ::
  "'ds env \<Rightarrow> 'ds state \<Rightarrow> frame_id \<Rightarrow> driver_event \<Rightarrow> ('ds state \<times> effect list) option" where
  "stepDriver env s frameID ev =
     (case findFrame s frameID of
        None \<Rightarrow> None
      | Some (sessID, sess, frameIdx) \<Rightarrow>
          let frame = se_Frames sess ! frameIdx in
          (case get_driver env (fr_Command frame) of
             None \<Rightarrow> None
           | Some drv \<Rightarrow>
               let ctx = frame_ctx frame (frameIdx = 0);
                   ds = (case fr_Driver frame of None \<Rightarrow> drv_NewState drv (st_Now s) | Some ds \<Rightarrow> ds);
                   (nextDS, rawEffs, _) = drv_Step drv ds ctx ev;
                   s = put_frame s sessID sess frameIdx (frame\<lparr> fr_Driver := Some nextDS \<rparr>)
               in Some (post_process s sessID frameID rawEffs [])))"

definition bootstrapDriverSessionStart ::
  "'ds env \<Rightarrow> 'ds state \<Rightarrow> frame_id \<Rightarrow> ('ds state \<times> effect list) option" where
  "bootstrapDriverSessionStart env s frameID =
     (case findFrame s frameID of
        None \<Rightarrow> None
      | Some (sessID, sess, frameIdx) \<Rightarrow>
          if frameIdx \<noteq> 0 then None
          else
            let frame = se_Frames sess ! frameIdx in
            (case get_driver env (fr_Command frame) of
               None \<Rightarrow> None
             | Some drv \<Rightarrow>
                 (case drv_BootstrapSessionStart drv of
                    None \<Rightarrow> None
                  | Some bootstrap \<Rightarrow>
                      let (nextDS, rawEffs) = bootstrap (fr_Driver frame) (frame_ctx frame True) (st_Now s);
                          s = put_frame s sessID sess frameIdx (frame\<lparr> fr_Driver := Some nextDS \<rparr>)
                      in Some (post_process s sessID frameID rawEffs []))))"

definition sessionWatched :: "'ds state \<Rightarrow> session_id \<Rightarrow> bool" where
  "sessionWatched s sid \<longleftrightarrow> fBex (fmran (st_SurfaceSubs s)) (\<lambda>subs. sid |\<in>| subs)"

text \<open>
  The loop over the sessions. The callback that builds the event may keep a counter between calls,
  as the one of the tick does; it is passed along explicitly.
\<close>

fun step_sessions ::
  "'ds env \<Rightarrow> ('c \<Rightarrow> session_id \<Rightarrow> 'ds session \<Rightarrow> bool \<Rightarrow> driver_event \<times> 'c) \<Rightarrow> session_id list \<Rightarrow> 'c \<Rightarrow>
   'ds state \<Rightarrow> effect list \<Rightarrow> bool \<Rightarrow> 'ds state \<times> effect list \<times> bool" where
  "step_sessions env makeEv [] c s effs changed = (s, effs, changed)"
| "step_sessions env makeEv (sessID # ids) c s effs changed =
     (case fmlookup (st_Sessions s) sessID of
        None \<Rightarrow> step_sessions env makeEv ids c s effs changed
      | Some sess \<Rightarrow>
          (case rootFrame sess of
             None \<Rightarrow> step_sessions env makeEv ids c s effs changed
           | Some frame \<Rightarrow>
               (case get_driver env (fr_Command frame) of
                  None \<Rightarrow> step_sessions env makeEv ids c s effs changed
                | Some drv \<Rightarrow>
                    (case makeEv c sessID sess (sessionWatched s sessID) of
                       (ev, c) \<Rightarrow>
                         (case stepDriver env s (fr_ID frame) ev of
                            None \<Rightarrow> step_sessions env makeEv ids c s effs changed
                          | Some (next, sessEffs) \<Rightarrow>
                              if sessEffs \<noteq> [] then
                                step_sessions env makeEv ids c next (effs @ sessEffs) True
                              else step_sessions env makeEv ids c next effs changed)))))"

definition stepActiveSessions ::
  "'ds env \<Rightarrow> 'ds state \<Rightarrow> ('c \<Rightarrow> session_id \<Rightarrow> 'ds session \<Rightarrow> bool \<Rightarrow> driver_event \<times> 'c) \<Rightarrow> 'c \<Rightarrow>
   'ds state \<times> effect list \<times> bool" where
  "stepActiveSessions env s makeEv c =
     step_sessions env makeEv (sorted_keys (st_Sessions s)) c s [] False"

definition errResp :: "conn_id \<Rightarrow> string \<Rightarrow> string \<Rightarrow> string \<Rightarrow> effect" where
  "errResp connID reqID code message = EffSendError connID reqID code message"

definition okResp :: "conn_id \<Rightarrow> string \<Rightarrow> reply_body \<Rightarrow> effect" where
  "okResp connID reqID body = EffSendResponse connID reqID body"

section \<open>reduce_frame_evict.go\<close>

definition frameTeardownEffects :: "frame_id \<Rightarrow> bool \<Rightarrow> effect list" where
  "frameTeardownEffects frameID killWindow =
     (if killWindow then [EffKillFrame frameID] else []) @
     [EffReleaseFrameSandbox frameID, EffUnregisterFrame frameID, EffUnwatchFile frameID]"

definition evictRootFrame ::
  "'ds state \<Rightarrow> session_id \<Rightarrow> 'ds session \<Rightarrow> bool \<Rightarrow> 'ds state \<times> effect list" where
  "evictRootFrame s sessID sess killWindow =
     (let allRemoved = truncateFrames sess 0 in
      (s\<lparr> st_Sessions := fmdrop sessID (st_Sessions s) \<rparr>,
       concat (map (\<lambda>frame. frameTeardownEffects (fr_ID frame) killWindow) allRemoved) @
       [EffPersistSnapshot, EffBroadcastSessionsChanged]))"

definition evictChildFrame ::
  "'ds state \<Rightarrow> session_id \<Rightarrow> 'ds session \<Rightarrow> nat \<Rightarrow> frame_id \<Rightarrow> bool \<Rightarrow> 'ds state \<times> effect list" where
  "evictChildFrame s sessID sess idx frameID killWindow =
     (let wasActive = (se_HeadFrameID sess = frameID);
          (sess, removed) = removeFrameByIndex sess idx;
          sess = (if wasActive then
                    (case popMRU sess of
                       (fallback, next) \<Rightarrow>
                         next\<lparr> se_HeadFrameID :=
                           (if fallback = [] then fr_ID (se_Frames next ! 0) else fallback) \<rparr>)
                  else sess)
      in (s\<lparr> st_Sessions := fmupd sessID sess (st_Sessions s) \<rparr>,
          frameTeardownEffects (fr_ID removed) killWindow @
          [EffPersistSnapshot, EffBroadcastSessionsChanged]))"

definition evictFrame :: "'ds state \<Rightarrow> frame_id \<Rightarrow> bool \<Rightarrow> ('ds state \<times> effect list) option" where
  "evictFrame s frameID killWindow =
     (case findFrame s frameID of
        None \<Rightarrow> None
      | Some (sessID, sess, idx) \<Rightarrow>
          Some (if idx = 0 then evictRootFrame s sessID sess killWindow
                else evictChildFrame s sessID sess idx frameID killWindow))"

definition ErrCodeNotFound :: string where "ErrCodeNotFound = ''not_found''"
definition ErrCodeInvalidArgument :: string where "ErrCodeInvalidArgument = ''invalid_argument''"
definition ErrCodeInternal :: string where "ErrCodeInternal = ''internal''"
definition ErrCodeUnsupported :: string where "ErrCodeUnsupported = ''unsupported''"
definition ErrCodeResourceExhausted :: string where "ErrCodeResourceExhausted = ''resource_exhausted''"
definition ErrCodeFrameNotReady :: string where "ErrCodeFrameNotReady = ''frame_not_ready''"

end
