(* ===== verification/GoFmt.thy ===== *)
theory GoFmt
  imports GoLib
begin

text \<open>
  Decimal formatting (\<open>strconv.Itoa\<close> and the verb \<open>%d\<close>) and substring search, with the round trip
  through \<open>strconv.Atoi\<close>.
\<close>

fun nat_digits :: "nat \<Rightarrow> string" where
  "nat_digits n =
     (if n < 10 then [char_of (48 + n)] else nat_digits (n div 10) @ [char_of (48 + n mod 10)])"

declare nat_digits.simps [simp del]

definition Itoa :: "int \<Rightarrow> string" where
  "Itoa i = (if i < 0 then CHR ''-'' # nat_digits (nat (- i)) else nat_digits (nat i))"

fun Contains :: "string \<Rightarrow> string \<Rightarrow> bool" where
  "Contains [] sub \<longleftrightarrow> sub = []"
| "Contains (c # s) sub \<longleftrightarrow> HasPrefix (c # s) sub \<or> Contains s sub"

lemma Contains_iff: "Contains s sub \<longleftrightarrow> (\<exists>u v. s = u @ sub @ v)"
proof (induction s)
  case (Cons c s)
  note IH = Cons
  show ?case
  proof
    assume "Contains (c # s) sub"
    then consider t where "c # s = sub @ t" | u v where "s = u @ sub @ v"
      using Cons by (auto simp: HasPrefix_iff)
    then show "\<exists>u v. c # s = u @ sub @ v"
      by cases (metis append_Nil, metis append_Cons)
  next
    assume "\<exists>u v. c # s = u @ sub @ v"
    then obtain u v where uv: "c # s = u @ sub @ v" by blast
    show "Contains (c # s) sub"
    proof (cases u)
      case Nil
      with uv have "HasPrefix (c # s) sub" by (auto simp: HasPrefix_iff)
      then show ?thesis by simp
    next
      case (Cons a w)
      with uv have "s = w @ sub @ v" by simp
      with IH show ?thesis by auto
    qed
  qed
qed simp

lemma digit_char: "d < 10 \<Longrightarrow> is_digit (char_of (48 + d)) \<and> digit_val (char_of (48 + d)) = int d"
  by (simp add: is_digit_def digit_val_def)

lemma digits_val_snoc: "digits_val (ds @ [d]) = 10 * digits_val ds + digit_val d"
  by (simp add: digits_val_def)

lemma nat_digits_ok:
  "nat_digits n \<noteq> [] \<and> list_all is_digit (nat_digits n) \<and> digits_val (nat_digits n) = int n"
proof (induction n rule: nat_digits.induct)
  case (1 n)
  show ?case
  proof (cases "n < 10")
    case True
    then show ?thesis
      using digit_char [of n] by (simp add: nat_digits.simps [of n] digits_val_def)
  next
    case False
    have "int n = 10 * int (n div 10) + int (n mod 10)" by (simp add: zdiv_int zmod_int)
    with False 1 digit_char [of "n mod 10"] show ?thesis
      by (simp add: nat_digits.simps [of n] digits_val_snoc)
  qed
qed

lemma nat_digits_head:
  "\<exists>d ds. nat_digits n = d # ds \<and> d \<noteq> CHR ''-'' \<and> d \<noteq> CHR ''+''"
proof -
  obtain d ds where n: "nat_digits n = d # ds"
    using nat_digits_ok [of n] by (cases "nat_digits n") auto
  with nat_digits_ok [of n] have "is_digit d" by simp
  then have "d \<noteq> CHR ''-''" "d \<noteq> CHR ''+''" by (auto simp: is_digit_def)
  with n show ?thesis by blast
qed

lemma Itoa_not_Nil [simp]: "Itoa i \<noteq> []"
  using nat_digits_ok [of "nat i"] by (simp add: Itoa_def)

lemma unsigned_case:
  "d \<noteq> CHR ''-'' \<Longrightarrow> d \<noteq> CHR ''+'' \<Longrightarrow>
   (case d # ds of CHR ''-'' # r \<Rightarrow> (True, r) | CHR ''+'' # r \<Rightarrow> (False, r) | _ \<Rightarrow> (False, d # ds))
     = (False, d # ds)"
  by (cases d) (simp split: bool.split, blast)

lemma Atoi_Itoa:
  assumes "in_int64 i"
  shows "Atoi (Itoa i) = Some i"
proof (cases "i < 0")
  case True
  with assms nat_digits_ok [of "nat (- i)"] show ?thesis
    by (simp add: Atoi_def Itoa_def)
next
  case False
  obtain d ds where d: "nat_digits (nat i) = d # ds" "d \<noteq> CHR ''-''" "d \<noteq> CHR ''+''"
    using nat_digits_head by blast
  have "Atoi (d # ds) = (if \<not> list_all is_digit (d # ds) \<or> \<not> in_int64 (digits_val (d # ds)) then None
      else Some (digits_val (d # ds)))"
    unfolding Atoi_def unsigned_case [OF d(2,3)] by simp
  with False assms d(1) nat_digits_ok [of "nat i"] show ?thesis
    by (simp add: Itoa_def)
qed

end
