(* ===== verification/Client_Reduce.thy ===== *)
theory Client_Reduce
  imports Client_Helpers GoFmt
begin

text \<open>
  The reducers of the client daemon, one definition per handler (\<open>reduce_*.go\<close>, \<open>event_dispatch.go\<close>),
  and \<open>Reduce\<close> itself. \<open>Reduce\<close> yields \<open>None\<close> where the code panics: on a command event without a
  registered handler, and on a driver state of a foreign type in \<open>Driver.Status\<close>.
\<close>

section \<open>reduce_session.go\<close>

definition resolveCreateCommand :: "'ds state \<Rightarrow> string \<Rightarrow> string" where
  "resolveCreateCommand s command =
     (let command = (if command = [] then st_DefaultCommand s else command);
          command = (if command = [] then ''shell'' else command)
      in case fmlookup (st_Aliases s) command of Some expanded \<Rightarrow> expanded | None \<Rightarrow> command)"

definition prepareSessionDriver ::
  "'ds state \<Rightarrow> 'ds driver \<Rightarrow> session_id \<Rightarrow> string \<Rightarrow> string \<Rightarrow> launch_options \<Rightarrow>
   string + 'ds \<times> create_launch" where
  "prepareSessionDriver s drv sessID project command options =
     (let driverState = drv_NewState drv (st_Now s);
          launch = \<lparr> cl_Command = command, cl_StartDir = project, cl_Options = options \<rparr>
      in case drv_PrepareCreate drv of
           None \<Rightarrow> Inr (driverState, launch)
         | Some prepare \<Rightarrow> prepare driverState sessID project command options)"

definition reduceCreateSession ::
  "'ds env \<Rightarrow> 'ds state \<Rightarrow> conn_id \<Rightarrow> string \<Rightarrow> create_session_params \<Rightarrow> 'ds state \<times> effect list" where
  "reduceCreateSession env s connID reqID p =
     (if csp_Project p = [] then
        (s, [errResp connID reqID ErrCodeInvalidArgument ''project arg required''])
      else
        let command = resolveCreateCommand s (csp_Command p);
            (sessID, s) = allocSessionID env s
        in case get_driver env command of
             None \<Rightarrow>
               (s, [errResp connID reqID ErrCodeUnsupported
                      (''no driver registered for command '' @ command)])
           | Some drv \<Rightarrow>
               (case prepareSessionDriver s drv sessID (csp_Project p) command (csp_Options p) of
                  Inl err \<Rightarrow> (s, [errResp connID reqID ErrCodeInvalidArgument err])
                | Inr (driverState, createLaunch) \<Rightarrow>
                    let (rootFrameID, s) = allocFrameID env s in
                    (case drv_PrepareLaunch drv driverState LaunchModeCreate (csp_Project p)
                            (cl_Command createLaunch) (cl_Options createLaunch)
                            (isSandboxed s (csp_Project p) (csp_Sandbox p)) of
                       Inl err \<Rightarrow> (s, [errResp connID reqID ErrCodeInvalidArgument err])
                     | Inr plan \<Rightarrow>
                         let launch = plan\<lparr> lp_Project := csp_Project p, lp_Sandbox := csp_Sandbox p \<rparr>;
                             frame = \<lparr> fr_ID = rootFrameID, fr_SubsystemID = [], fr_TargetID = rootFrameID,
                                       fr_Project = csp_Project p, fr_Command = command,
                                       fr_LaunchOptions = lp_Options launch, fr_CreatedAt = st_Now s,
                                       fr_Driver = Some driverState \<rparr>;
                             session = \<lparr> se_ID = sessID, se_Project = csp_Project p,
                                         se_CreatedAt = st_Now s, se_Frames = [frame],
                                         se_HeadFrameID = rootFrameID, se_MRUFrameIDs = [],
                                         se_Command = command, se_Sandbox = csp_Sandbox p,
                                         se_LaunchOptions = csp_Options p,
                                         se_Driver = Some driverState \<rparr>
                         in (s\<lparr> st_Sessions := fmupd sessID session (st_Sessions s) \<rparr>,
                             [spawnEffect sessID rootFrameID launch connID reqID]))))"

text \<open>The child frame starts in the directory of the root frame when both drivers know theirs.\<close>

definition inherit_start_dir ::
  "'ds driver option \<Rightarrow> 'ds option \<Rightarrow> 'ds driver \<Rightarrow> 'ds \<Rightarrow> 'ds" where
  "inherit_start_dir rootDrv rootState drv driverState =
     (case Option.bind rootDrv drv_StartDirAware of
        None \<Rightarrow> driverState
      | Some rp \<Rightarrow>
          let parentDir = sd_StartDir rp rootState in
          if parentDir = [] then driverState
          else (case drv_StartDirAware drv of
                  None \<Rightarrow> driverState
                | Some wp \<Rightarrow> sd_WithStartDir wp driverState parentDir))"

definition pushDriverInternal ::
  "'ds env \<Rightarrow> 'ds state \<Rightarrow> session_id \<Rightarrow> string \<Rightarrow> string \<Rightarrow> launch_options \<Rightarrow> bytes \<Rightarrow> conn_id \<Rightarrow> string \<Rightarrow>
   'ds state \<times> (string + effect list)" where
  "pushDriverInternal env s sid project rawCommand options input connID reqID =
     (case fmlookup (st_Sessions s) sid of
        None \<Rightarrow> (s, Inl ''session not found'')
      | Some sess \<Rightarrow>
          let project = (if project = [] then se_Project sess else project);
              options = options\<lparr> lo_InitialInput := input \<rparr>;
              command = resolveCreateCommand s rawCommand
          in case get_driver env command of
               None \<Rightarrow> (s, Inl (''no driver registered for command '' @ command))
             | Some drv \<Rightarrow>
                 (case prepareSessionDriver s drv sid project command options of
                    Inl err \<Rightarrow> (s, Inl err)
                  | Inr (driverState, createLaunch) \<Rightarrow>
                      let driverState =
                            (case rootFrame sess of
                               None \<Rightarrow> driverState
                             | Some rootF \<Rightarrow>
                                 inherit_start_dir (get_driver env (fr_Command rootF)) (fr_Driver rootF)
                                   drv driverState);
                          (frameID, s) = allocFrameID env s;
                          frame = \<lparr> fr_ID = frameID, fr_SubsystemID = [], fr_TargetID = frameID,
                                    fr_Project = project, fr_Command = command,
                                    fr_LaunchOptions = zero_options, fr_CreatedAt = st_Now s,
                                    fr_Driver = Some driverState \<rparr>;
                          sess = pushMRU sess (se_HeadFrameID sess);
                          sess = sess\<lparr> se_HeadFrameID := frameID, se_Frames := se_Frames sess @ [frame] \<rparr>;
                          s = s\<lparr> st_Sessions := fmupd sid sess (st_Sessions s) \<rparr>
                      in (case drv_PrepareLaunch drv driverState LaunchModeCreate project
                                 (cl_Command createLaunch) (cl_Options createLaunch)
                                 (isSandboxed s project (se_Sandbox sess)) of
                            Inl err \<Rightarrow> (s, Inl err)
                          | Inr plan \<Rightarrow>
                              let launch = plan\<lparr> lp_Project := project, lp_Sandbox := se_Sandbox sess \<rparr>;
                                  frames = se_Frames sess;
                                  sess = sess\<lparr> se_Frames := frames[length frames - 1 :=
                                           (last frames)\<lparr> fr_LaunchOptions := lp_Options launch \<rparr>] \<rparr>
                              in (s\<lparr> st_Sessions := fmupd sid sess (st_Sessions s) \<rparr>,
                                  Inr [spawnEffect sid frameID launch connID reqID]))))"

text \<open>
  On an error the caller drops the state that \<open>pushDriverInternal\<close> returns and keeps its own; only
  the identifiers that were drawn stay drawn.
\<close>

definition keep_draws :: "'ds state \<Rightarrow> 'ds state \<Rightarrow> 'ds state" where
  "keep_draws s s' = s\<lparr> st_Draws := st_Draws s' \<rparr>"

definition reducePushDriver ::
  "'ds env \<Rightarrow> 'ds state \<Rightarrow> conn_id \<Rightarrow> string \<Rightarrow> push_driver_params \<Rightarrow> 'ds state \<times> effect list" where
  "reducePushDriver env s connID reqID p =
     (let sid = pdp_SessionID p in
      if sid = [] then (s, [errResp connID reqID ErrCodeInvalidArgument ''session_id required''])
      else if fmlookup (st_Sessions s) sid = None then
        (s, [errResp connID reqID ErrCodeNotFound ''session not found''])
      else
        (case pushDriverInternal env s sid (pdp_Project p) (pdp_Command p) (pdp_Options p)
                (pdp_Input p) connID reqID of
           (newS, Inl err) \<Rightarrow> (keep_draws s newS, [errResp connID reqID ErrCodeInvalidArgument err])
         | (newS, Inr effs) \<Rightarrow> (newS, effs)))"

fun resolve_push ::
  "'ds env \<Rightarrow> 'ds state \<Rightarrow> effect list \<Rightarrow> effect list \<Rightarrow> 'ds state \<times> effect list" where
  "resolve_push env s [] effs = (s, effs)"
| "resolve_push env s (eff # rest) effs =
     (case eff of
        EffPushDriver sid command \<Rightarrow>
          (case pushDriverInternal env s sid [] command zero_options [] 0 [] of
             (newS, Inl err) \<Rightarrow> resolve_push env (keep_draws s newS) rest effs
           | (newS, Inr pushEffs) \<Rightarrow> resolve_push env newS rest (effs @ pushEffs))
      | _ \<Rightarrow> resolve_push env s rest (effs @ [eff]))"

definition resolvePushDriverEffects ::
  "'ds env \<Rightarrow> 'ds state \<Rightarrow> effect list \<Rightarrow> 'ds state \<times> effect list" where
  "resolvePushDriverEffects env s rawEffs = resolve_push env s rawEffs []"

definition resolveForkDrv ::
  "'ds env \<Rightarrow> 'ds state \<Rightarrow> conn_id \<Rightarrow> string \<Rightarrow> 'ds session_frame \<Rightarrow>
   effect list + 'ds driver \<times> 'ds forkable \<times> 'ds driver \<times> string" where
  "resolveForkDrv env s connID reqID rootF =
     (case get_driver env (fr_Command rootF) of
        None \<Rightarrow> Inl [errResp connID reqID ErrCodeUnsupported (''no driver for command '' @ fr_Command rootF)]
      | Some rootDrv \<Rightarrow>
          (case drv_Forkable rootDrv of
             None \<Rightarrow> Inl [errResp connID reqID ErrCodeUnsupported
                            (drv_Name rootDrv @ '' driver does not support fork'')]
           | Some forkable \<Rightarrow>
               (case fk_ForkCommand forkable (fr_Driver rootF) (fr_Command rootF) of
                  None \<Rightarrow> Inl [errResp connID reqID ErrCodeUnsupported
                                 ''fork not available (session ID not yet established)'']
                | Some forkCmd \<Rightarrow>
                    let forkCommand = resolveCreateCommand s forkCmd in
                    (case get_driver env forkCommand of
                       None \<Rightarrow> Inl [errResp connID reqID ErrCodeUnsupported
                                      (''no driver for fork command '' @ forkCommand)]
                     | Some forkDrv \<Rightarrow> Inr (rootDrv, forkable, forkDrv, forkCommand)))))"

definition makeForkSession ::
  "'ds state \<Rightarrow> 'ds session \<Rightarrow> session_id \<Rightarrow> frame_id \<Rightarrow> string \<Rightarrow> launch_options \<Rightarrow> 'ds \<Rightarrow> 'ds session" where
  "makeForkSession s src newSessID rootFrameID durableCommand opts driverState =
     \<lparr> se_ID = newSessID, se_Project = se_Project src, se_CreatedAt = st_Now s,
       se_Frames =
         [\<lparr> fr_ID = rootFrameID, fr_SubsystemID = [], fr_TargetID = [], fr_Project = se_Project src,
            fr_Command = durableCommand, fr_LaunchOptions = zero_options, fr_CreatedAt = st_Now s,
            fr_Driver = Some driverState \<rparr>],
       se_HeadFrameID = rootFrameID, se_MRUFrameIDs = [], se_Command = durableCommand,
       se_Sandbox = se_Sandbox src, se_LaunchOptions = opts, se_Driver = Some driverState \<rparr>"

definition spawnForkSession ::
  "'ds env \<Rightarrow> 'ds state \<Rightarrow> conn_id \<Rightarrow> string \<Rightarrow> 'ds session \<Rightarrow> 'ds driver \<Rightarrow> 'ds \<Rightarrow> string \<Rightarrow> string \<Rightarrow>
   launch_options \<Rightarrow> 'ds state \<times> effect list" where
  "spawnForkSession env s connID reqID sess forkDrv driverState durableCommand launchCommand opts =
     (let (newSessID, s) = allocSessionID env s;
          (rootFrameID, s) = allocFrameID env s;
          newSess = makeForkSession s sess newSessID rootFrameID durableCommand opts driverState
      in case drv_PrepareLaunch forkDrv driverState LaunchModeCreate (se_Project sess) launchCommand
                opts (isSandboxed s (se_Project sess) (se_Sandbox sess)) of
           Inl err \<Rightarrow> (s, [errResp connID reqID ErrCodeInvalidArgument err])
         | Inr plan \<Rightarrow>
             let launch = plan\<lparr> lp_Project := se_Project sess, lp_Sandbox := se_Sandbox sess \<rparr>;
                 frames = se_Frames newSess;
                 newSess = newSess\<lparr> se_Frames :=
                   frames[0 := (frames ! 0)\<lparr> fr_LaunchOptions := lp_Options launch \<rparr>] \<rparr>
             in (s\<lparr> st_Sessions := fmupd newSessID newSess (st_Sessions s) \<rparr>,
                 [spawnEffect newSessID rootFrameID launch connID reqID]))"

definition buildForkSession ::
  "'ds env \<Rightarrow> 'ds state \<Rightarrow> conn_id \<Rightarrow> string \<Rightarrow> 'ds session \<Rightarrow> 'ds session_frame \<Rightarrow> 'ds driver \<Rightarrow>
   'ds forkable \<Rightarrow> 'ds driver \<Rightarrow> string \<Rightarrow> 'ds state \<times> effect list" where
  "buildForkSession env s connID reqID sess rootF rootDrv forkable forkDrv forkCommand =
     (let driverState = fk_ForkChildState forkable (fr_Driver rootF) (st_Now s);
          driverState = inherit_start_dir (Some rootDrv) (fr_Driver rootF) forkDrv driverState
      in spawnForkSession env s connID reqID sess forkDrv driverState (fr_Command rootF) forkCommand
           zero_options)"

definition reduceForkSession ::
  "'ds env \<Rightarrow> 'ds state \<Rightarrow> conn_id \<Rightarrow> string \<Rightarrow> string \<Rightarrow> 'ds state \<times> effect list" where
  "reduceForkSession env s connID reqID sid =
     (if sid = [] then (s, [errResp connID reqID ErrCodeInvalidArgument ''session_id required''])
      else case fmlookup (st_Sessions s) sid of
        None \<Rightarrow> (s, [errResp connID reqID ErrCodeNotFound ''session not found''])
      | Some sess \<Rightarrow>
          (case rootFrame sess of
             None \<Rightarrow> (s, [errResp connID reqID ErrCodeInvalidArgument ''session has no root frame''])
           | Some rootF \<Rightarrow>
               (case resolveForkDrv env s connID reqID rootF of
                  Inl errEff \<Rightarrow> (s, errEff)
                | Inr (rootDrv, forkable, forkDrv, forkCommand) \<Rightarrow>
                    buildForkSession env s connID reqID sess rootF rootDrv forkable forkDrv forkCommand)))"

definition reduceStopSession ::
  "'ds state \<Rightarrow> conn_id \<Rightarrow> string \<Rightarrow> string \<Rightarrow> 'ds state \<times> effect list" where
  "reduceStopSession s connID reqID sid =
     (case fmlookup (st_Sessions s) sid of
        None \<Rightarrow> (s, [errResp connID reqID ErrCodeNotFound ''session not found''])
      | Some sess \<Rightarrow>
          let removed = truncateFrames sess 0 in
          (s\<lparr> st_Sessions := fmdrop sid (st_Sessions s) \<rparr>,
           [EffBroadcastSessionsChanged] @
           concat (map (\<lambda>frame. frameTeardownEffects (fr_ID frame) True) removed) @
           [okResp connID reqID NoBody, EffPersistSnapshot]))"

section \<open>reduce_session_nav.go, reduce_frame.go, reduce_lifecycle.go\<close>

definition reduceFrameSpawned ::
  "'ds env \<Rightarrow> 'ds state \<Rightarrow> frame_spawned \<Rightarrow> 'ds state \<times> effect list" where
  "reduceFrameSpawned env s e =
     (case fmlookup (st_Sessions s) (fs_SessionID e) of
        None \<Rightarrow> (s, [])
      | Some sess \<Rightarrow>
          (case findFrameIndex sess (fs_FrameID e) of
             None \<Rightarrow> (s, [])
           | Some frameIdx \<Rightarrow>
               let frame = se_Frames sess ! frameIdx;
                   rename = fs_SubsystemID e \<noteq> [] \<and> fr_SubsystemID frame \<noteq> fs_SubsystemID e;
                   frame = (if rename then frame\<lparr> fr_SubsystemID := fs_SubsystemID e \<rparr> else frame);
                   s = (if rename then put_frame s (fs_SessionID e) sess frameIdx frame else s);
                   s = (if fs_WorktreeStartDir e \<noteq> [] then
                          (case stepDriver env s (fs_FrameID e)
                                  (DEvWorktreeResolved (fs_WorktreeStartDir e) (fs_WorktreeName e)) of
                             None \<Rightarrow> s
                           | Some (next, _) \<Rightarrow> next)
                        else s);
                   (s, bootstrapEffs) =
                     (if frameIdx = 0 then
                        (case bootstrapDriverSessionStart env s (fs_FrameID e) of
                           None \<Rightarrow> (s, [])
                         | Some r \<Rightarrow> r)
                      else (s, []))
               in (s, bootstrapEffs @
                      [EffRegisterFrame (fs_FrameID e) (frameIdx = 0 \<or> fr_SubsystemID frame \<noteq> []),
                       EffPersistSnapshot, EffBroadcastSessionsChanged] @
                      (if fs_ReplyConn e \<noteq> 0 then
                         [okResp (fs_ReplyConn e) (fs_ReplyReqID e) (CreateSessionReply (fs_SessionID e))]
                       else []))))"

definition reduceSpawnFailed ::
  "'ds state \<Rightarrow> frame_id \<Rightarrow> string \<Rightarrow> conn_id \<Rightarrow> string \<Rightarrow> 'ds state \<times> effect list" where
  "reduceSpawnFailed s frameID err replyConn replyReqID =
     (let (s, effs) = (case evictFrame s frameID False of None \<Rightarrow> (s, []) | Some r \<Rightarrow> r) in
      if replyConn = 0 then (s, effs)
      else (s, effs @ [errResp replyConn replyReqID ErrCodeInternal (''frame spawn failed: '' @ err)]))"

definition reduceListSessions :: "'ds state \<Rightarrow> conn_id \<Rightarrow> string \<Rightarrow> 'ds state \<times> effect list" where
  "reduceListSessions s connID reqID = (s, [okResp connID reqID SessionsReply])"

definition reduceSetHeadFrame ::
  "'ds state \<Rightarrow> conn_id \<Rightarrow> string \<Rightarrow> set_head_frame_params \<Rightarrow> 'ds state \<times> effect list" where
  "reduceSetHeadFrame s connID reqID p =
     (let sid = shp_SessionID p; fid = shp_FrameID p in
      case fmlookup (st_Sessions s) sid of
        None \<Rightarrow> (s, [errResp connID reqID ErrCodeNotFound ''session not found''])
      | Some sess \<Rightarrow>
          if findFrameIndex sess fid = None then
            (s, [errResp connID reqID ErrCodeNotFound ''frame not found''])
          else if se_HeadFrameID sess = fid then (s, [okResp connID reqID NoBody])
          else
            let sess = (pushMRU sess (se_HeadFrameID sess))\<lparr> se_HeadFrameID := fid \<rparr> in
            (s\<lparr> st_Sessions := fmupd sid sess (st_Sessions s) \<rparr>,
             [okResp connID reqID NoBody, EffPersistSnapshot, EffBroadcastSessionsChanged]))"

definition reduceShutdown :: "'ds state \<Rightarrow> conn_id \<Rightarrow> string \<Rightarrow> 'ds state \<times> effect list" where
  "reduceShutdown s connID reqID =
     (s, [EffPersistSnapshot, EffSendResponseSync connID reqID NoBody, EffReleaseFrameSandboxes])"

section \<open>event_dispatch.go, reduce_event.go\<close>

definition RegisterEvent ::
  "(bytes \<Rightarrow> string + 'p) \<Rightarrow> 'p \<Rightarrow> ('ds state \<Rightarrow> conn_id \<Rightarrow> string \<Rightarrow> 'p \<Rightarrow> 'ds state \<times> effect list) \<Rightarrow>
   'ds state \<Rightarrow> conn_id \<Rightarrow> string \<Rightarrow> bytes \<Rightarrow> 'ds state \<times> effect list" where
  "RegisterEvent unmarshal zero handler s connID reqID payload =
     (if payload = [] then handler s connID reqID zero
      else case unmarshal payload of
             Inl err \<Rightarrow> (s, [errResp connID reqID ErrCodeInvalidArgument (''invalid payload: '' @ err)])
           | Inr p \<Rightarrow> handler s connID reqID p)"

definition eventHandlers ::
  "'ds env \<Rightarrow> string \<Rightarrow> ('ds state \<Rightarrow> conn_id \<Rightarrow> string \<Rightarrow> bytes \<Rightarrow> 'ds state \<times> effect list) option" where
  "eventHandlers env event =
     (if event = ''create-session'' then
        Some (RegisterEvent (env_CreateSession env)
          \<lparr> csp_Project = [], csp_Command = [], csp_Sandbox = SandboxOverrideAuto,
            csp_Options = zero_options \<rparr> (reduceCreateSession env))
      else if event = ''push-driver'' then
        Some (RegisterEvent (env_PushDriver env)
          \<lparr> pdp_SessionID = [], pdp_Project = [], pdp_Command = [], pdp_Options = zero_options,
            pdp_Input = [] \<rparr> (reducePushDriver env))
      else if event = ''fork-session'' then
        Some (RegisterEvent (env_SessionOnly env) [] (reduceForkSession env))
      else if event = ''stop-session'' then
        Some (RegisterEvent (env_SessionOnly env) [] reduceStopSession)
      else if event = ''list-sessions'' then
        Some (RegisterEvent (env_Empty env) () (\<lambda>s connID reqID _. reduceListSessions s connID reqID))
      else if event = ''set-head-frame'' then
        Some (RegisterEvent (env_SetHeadFrame env) \<lparr> shp_SessionID = [], shp_FrameID = [] \<rparr>
          reduceSetHeadFrame)
      else if event = ''shutdown'' then
        Some (RegisterEvent (env_Empty env) () (\<lambda>s connID reqID _. reduceShutdown s connID reqID))
      else None)"

definition IsRegisteredEvent :: "'ds env \<Rightarrow> string \<Rightarrow> bool" where
  "IsRegisteredEvent env name \<longleftrightarrow> eventHandlers env name \<noteq> None"

definition reduceEvent ::
  "'ds env \<Rightarrow> 'ds state \<Rightarrow> conn_id \<Rightarrow> string \<Rightarrow> string \<Rightarrow> bytes \<Rightarrow> ('ds state \<times> effect list) option" where
  "reduceEvent env s connID reqID event payload =
     (case eventHandlers env event of
        None \<Rightarrow> None
      | Some fn \<Rightarrow> Some (fn s connID reqID payload))"

definition reduceDriverHook ::
  "'ds env \<Rightarrow> 'ds state \<Rightarrow> conn_id \<Rightarrow> string \<Rightarrow> string \<Rightarrow> go_time \<Rightarrow> frame_id \<Rightarrow> bytes \<Rightarrow>
   'ds state \<times> effect list" where
  "reduceDriverHook env s connID reqID event timestamp senderID payload =
     (if senderID = [] then
        (s, [errResp connID reqID ErrCodeInvalidArgument (''driver event requires sender_id: '' @ event)])
      else if findFrame s senderID = None then
        (s, [errResp connID reqID ErrCodeNotFound ''unknown session''])
      else
        (case stepDriver env s senderID (DEvHook event timestamp senderID payload) of
           None \<Rightarrow> (s, [errResp connID reqID ErrCodeInternal ''no driver for session''])
         | Some (s, rawEffs) \<Rightarrow>
             let (s, effs) = resolvePushDriverEffects env s rawEffs in
             (s, effs @ [EffPersistSnapshot, EffBroadcastSessionsChanged] @
                 (if connID \<noteq> 0 then [okResp connID reqID NoBody] else []))))"

definition reduceSubsystem ::
  "'ds env \<Rightarrow> 'ds state \<Rightarrow> conn_id \<Rightarrow> string \<Rightarrow> frame_id \<Rightarrow> subsystem_kind \<Rightarrow> subsystem_event_kind \<Rightarrow>
   go_time \<Rightarrow> subsystem_payload \<Rightarrow> 'ds state \<times> effect list" where
  "reduceSubsystem env s connID reqID frameID source kind timestamp payload =
     (if frameID = [] then
        (s, [errResp connID reqID ErrCodeInvalidArgument ''subsystem event requires frame_id''])
      else case findFrame s frameID of
        None \<Rightarrow> (s, [errResp connID reqID ErrCodeNotFound ''unknown session''])
      | Some (sessID, sess, frameIdx) \<Rightarrow>
          let frame = se_Frames sess ! frameIdx;
              targetID = pl_TargetID payload;
              s = (if targetID \<noteq> [] \<and> targetID \<noteq> fr_TargetID frame then
                     put_frame s sessID sess frameIdx (frame\<lparr> fr_TargetID := targetID \<rparr>)
                   else s)
          in (case stepDriver env s frameID (DEvSubsystem source kind timestamp payload) of
                None \<Rightarrow> (s, [errResp connID reqID ErrCodeInternal ''no driver for session''])
              | Some (s, rawEffs) \<Rightarrow>
                  let (s, effs) = resolvePushDriverEffects env s rawEffs in
                  (s, effs @ [EffPersistSnapshot, EffBroadcastSessionsChanged] @
                      (if connID \<noteq> 0 then [okResp connID reqID NoBody] else []))))"

section \<open>reduce_tick.go, reduce_job.go\<close>

definition reduceTick :: "'ds env \<Rightarrow> 'ds state \<Rightarrow> go_time \<Rightarrow> 64 word \<Rightarrow> 'ds state \<times> effect list" where
  "reduceTick env s now n =
     (let s = s\<lparr> st_Now := now \<rparr>;
          makeEv = (\<lambda>seq sessID sess watched.
            (DEvTick now watched (case rootFrame sess of None \<Rightarrow> [] | Some f \<Rightarrow> fr_Project f) n seq,
             seq + 1 :: 64 word));
          (s, effs, changed) = stepActiveSessions env s makeEv 0
      in (s, effs @ (if n mod 5 = 0 then [EffReconcileWindows] else []) @
             (if changed then [EffPersistSnapshot, EffBroadcastSessionsChanged] else [])))"

definition reduceFrameVanished :: "'ds state \<Rightarrow> frame_id \<Rightarrow> 'ds state \<times> effect list" where
  "reduceFrameVanished s frameID =
     (case evictFrame s frameID False of None \<Rightarrow> (s, []) | Some r \<Rightarrow> r)"

definition isIntentionalExit :: "int \<Rightarrow> bool" where
  "isIntentionalExit code \<longleftrightarrow> code \<in> {0, 129, 130, 137, 143}"

definition reduceFrameCommandExited ::
  "'ds env \<Rightarrow> 'ds state \<Rightarrow> frame_id \<Rightarrow> int \<Rightarrow> ('ds state \<times> effect list) option" where
  "reduceFrameCommandExited env s frameID exitCode =
     (case findFrame s frameID of
        None \<Rightarrow> Some (s, [])
      | Some (sessID, sess, idx) \<Rightarrow>
          if isIntentionalExit exitCode then
            Some (case evictFrame s frameID True of None \<Rightarrow> (s, []) | Some r \<Rightarrow> r)
          else
            let frame = se_Frames sess ! idx;
                exited = (case stepDriver env s frameID (DEvCommandExited exitCode (st_Now s)) of
                            None \<Rightarrow> (s, [EffReleaseFrameSandbox frameID])
                          | Some (next, rawEffs) \<Rightarrow> (next, rawEffs @ [EffReleaseFrameSandbox frameID]))
            in (case (get_driver env (fr_Command frame), fr_Driver frame) of
                  (Some drv, Some ds) \<Rightarrow>
                    (case drv_Status drv ds of
                       None \<Rightarrow> None
                     | Some st \<Rightarrow> if st = StatusStopped then Some (s, []) else Some exited)
                | _ \<Rightarrow> Some exited))"

definition reduceJobResult ::
  "'ds env \<Rightarrow> 'ds state \<Rightarrow> job_id \<Rightarrow> job_result \<Rightarrow> string option \<Rightarrow> 'ds state \<times> effect list" where
  "reduceJobResult env s jobID result err =
     (case fmlookup (st_Jobs s) jobID of
        None \<Rightarrow> (s, [])
      | Some meta \<Rightarrow>
          let s = s\<lparr> st_Jobs := fmdrop jobID (st_Jobs s) \<rparr> in
          (case stepDriver env s (jm_FrameID meta) (DEvJobResult result err (st_Now s)) of
             None \<Rightarrow> (s, [])
           | Some (s, effs) \<Rightarrow> (s, effs @ [EffPersistSnapshot, EffBroadcastSessionsChanged])))"

definition reduceFileChanged ::
  "'ds env \<Rightarrow> 'ds state \<Rightarrow> frame_id \<Rightarrow> string \<Rightarrow> 'ds state \<times> effect list" where
  "reduceFileChanged env s frameID path =
     (if findFrame s frameID = None then (s, [])
      else
        (case stepDriver env s frameID (DEvFileChanged path) of
           None \<Rightarrow> (s, [])
         | Some (s, effs) \<Rightarrow>
             (s, if effs \<noteq> [] then effs @ [EffPersistSnapshot, EffBroadcastSessionsChanged] else effs)))"

section \<open>reduce_osc.go\<close>

fun promptPhaseName :: "prompt_phase \<Rightarrow> string" where
  "promptPhaseName PromptPhaseStart = ''start''"
| "promptPhaseName PromptPhaseInput = ''input''"
| "promptPhaseName PromptPhaseCommand = ''command''"
| "promptPhaseName PromptPhaseComplete = ''complete''"
| "promptPhaseName PromptPhaseNone = ''none''"

definition promptEventLogLine :: "prompt_phase \<Rightarrow> int option \<Rightarrow> string" where
  "promptEventLogLine phase exitCode =
     (let line = ''[osc133] phase='' @ promptPhaseName phase in
      case exitCode of
        Some code \<Rightarrow> if phase = PromptPhaseComplete then line @ '' exit='' @ Itoa code else line
      | None \<Rightarrow> line)"

definition appendMissingSessionRefreshEffects :: "effect list \<Rightarrow> effect list" where
  "appendMissingSessionRefreshEffects effs =
     (let hasPersist = EffPersistSnapshot \<in> set effs;
          hasBroadcast = EffBroadcastSessionsChanged \<in> set effs
      in effs @ (if hasPersist then [] else [EffPersistSnapshot]) @
                (if hasBroadcast then [] else [EffBroadcastSessionsChanged]))"

definition step_or_same ::
  "'ds env \<Rightarrow> 'ds state \<Rightarrow> frame_id \<Rightarrow> driver_event \<Rightarrow> 'ds state \<times> effect list" where
  "step_or_same env s frameID ev = (case stepDriver env s frameID ev of None \<Rightarrow> (s, []) | Some r \<Rightarrow> r)"

definition reduceFrameOsc ::
  "'ds env \<Rightarrow> 'ds state \<Rightarrow> frame_id \<Rightarrow> int \<Rightarrow> string \<Rightarrow> string \<Rightarrow> go_time \<Rightarrow> 'ds state \<times> effect list" where
  "reduceFrameOsc env s frameID cmd title body now =
     (if cmd = 0 \<or> cmd = 2 then
        if title = [] then (s, [])
        else if findFrame s frameID = None then (s, [])
        else
          let (next, dEffs) = step_or_same env s frameID (DEvFrameOsc cmd title [] now) in
          (next, appendMissingSessionRefreshEffects
                   ([EffEventLogAppend frameID (''[osc'' @ Itoa cmd @ ''] '' @ title)] @ dEffs))
      else if title = [] \<and> body = [] then (s, [])
      else
        (case findFrame s frameID of
           None \<Rightarrow> (s, [])
         | Some (sessID, _, _) \<Rightarrow> (s, [EffRecordNotification sessID frameID cmd title body])))"

definition reduceFramePrompt ::
  "'ds env \<Rightarrow> 'ds state \<Rightarrow> frame_id \<Rightarrow> prompt_phase \<Rightarrow> int option \<Rightarrow> go_time \<Rightarrow> 'ds state \<times> effect list" where
  "reduceFramePrompt env s frameID phase exitCode now =
     (let s = s\<lparr> st_Now := now \<rparr> in
      if findFrame s frameID = None then (s, [])
      else
        let (next, dEffs) = step_or_same env s frameID (DEvFramePrompt phase exitCode now) in
        (next, appendMissingSessionRefreshEffects
                 ([EffEventLogAppend frameID (promptEventLogLine phase exitCode)] @ dEffs)))"

section \<open>reduce_conn.go\<close>

definition reduceConnOpened :: "'ds state \<Rightarrow> conn_id \<Rightarrow> 'ds state \<times> effect list" where
  "reduceConnOpened s connID =
     ((if connID > st_NextConnID s then s\<lparr> st_NextConnID := connID \<rparr> else s), [])"

definition reduceConnClosed :: "'ds state \<Rightarrow> conn_id \<Rightarrow> 'ds state \<times> effect list" where
  "reduceConnClosed s connID =
     (let hasSub = fmlookup (st_Subscribers s) connID \<noteq> None;
          surface = fmlookup (st_SurfaceSubs s) connID
      in if \<not> hasSub \<and> surface = None then (s, [])
         else
           let s = (if hasSub then s\<lparr> st_Subscribers := fmdrop connID (st_Subscribers s) \<rparr> else s) in
           (case surface of
              None \<Rightarrow> (s, [])
            | Some inner \<Rightarrow>
                (s\<lparr> st_SurfaceSubs := fmdrop connID (st_SurfaceSubs s) \<rparr>,
                 map (EffSurfaceSubscribeStop connID) (sorted_list_of_fset inner))))"

definition reduceSubscribe :: "'ds state \<Rightarrow> conn_id \<Rightarrow> string \<Rightarrow> string list \<Rightarrow> 'ds state \<times> effect list" where
  "reduceSubscribe s connID reqID filters =
     (s\<lparr> st_Subscribers := fmupd connID \<lparr> sub_ConnID = connID, sub_Filters = filters \<rparr> (st_Subscribers s) \<rparr>,
      [okResp connID reqID NoBody, EffBroadcastSessionsChanged])"

definition reduceUnsubscribe :: "'ds state \<Rightarrow> conn_id \<Rightarrow> string \<Rightarrow> 'ds state \<times> effect list" where
  "reduceUnsubscribe s connID reqID =
     ((if fmlookup (st_Subscribers s) connID \<noteq> None
       then s\<lparr> st_Subscribers := fmdrop connID (st_Subscribers s) \<rparr> else s),
      [okResp connID reqID NoBody])"

section \<open>reduce_surface.go\<close>

definition session_missing :: "conn_id \<Rightarrow> string \<Rightarrow> session_id \<Rightarrow> effect" where
  "session_missing connID reqID sid =
     EffSendError connID reqID ErrCodeNotFound (''session not found: '' @ sid)"

definition reduceSurfaceReadText ::
  "'ds state \<Rightarrow> conn_id \<Rightarrow> string \<Rightarrow> session_id \<Rightarrow> int \<Rightarrow> 'ds state \<times> effect list" where
  "reduceSurfaceReadText s connID reqID sid lines =
     (if fmlookup (st_Sessions s) sid = None then (s, [session_missing connID reqID sid])
      else (s, [EffSendResponseSync connID reqID
                  (SurfaceReadTextReply sid (if lines \<le> 0 then 30 else lines))]))"

definition reduceSurfaceSendText ::
  "'ds state \<Rightarrow> conn_id \<Rightarrow> string \<Rightarrow> session_id \<Rightarrow> string \<Rightarrow> 'ds state \<times> effect list" where
  "reduceSurfaceSendText s connID reqID sid text =
     (if fmlookup (st_Sessions s) sid = None then (s, [session_missing connID reqID sid])
      else (s, [EffSendFrameKeys connID reqID sid text [] True]))"

definition reduceSurfaceSendKey ::
  "'ds state \<Rightarrow> conn_id \<Rightarrow> string \<Rightarrow> session_id \<Rightarrow> string \<Rightarrow> 'ds state \<times> effect list" where
  "reduceSurfaceSendKey s connID reqID sid key =
     (if fmlookup (st_Sessions s) sid = None then (s, [session_missing connID reqID sid])
      else (s, [EffSendFrameKeys connID reqID sid [] key False]))"

definition reduceDriverList :: "'ds state \<Rightarrow> conn_id \<Rightarrow> string \<Rightarrow> 'ds state \<times> effect list" where
  "reduceDriverList s connID reqID = (s, [EffSendResponseSync connID reqID DriverListReply])"

definition surface_subs :: "'ds state \<Rightarrow> conn_id \<Rightarrow> session_id fset" where
  "surface_subs s connID = (case fmlookup (st_SurfaceSubs s) connID of None \<Rightarrow> {||} | Some x \<Rightarrow> x)"

definition reduceSurfaceSubscribe ::
  "'ds state \<Rightarrow> conn_id \<Rightarrow> string \<Rightarrow> session_id \<Rightarrow> 'ds state \<times> effect list" where
  "reduceSurfaceSubscribe s connID reqID sid =
     (case fmlookup (st_Sessions s) sid of
        None \<Rightarrow> (s, [session_missing connID reqID sid])
      | Some sess \<Rightarrow>
          if headFrame sess = None then
            (s, [errResp connID reqID ErrCodeFrameNotReady (''frame-not-ready: '' @ sid)])
          else
            let existing = surface_subs s connID in
            if sid |\<notin>| existing \<and> fcard existing \<ge> 8 then
              (s, [errResp connID reqID ErrCodeResourceExhausted
                     ''per-conn surface subscribe cap (8) exceeded''])
            else if sid |\<in>| existing then (s, [okResp connID reqID NoBody])
            else (s\<lparr> st_SurfaceSubs := fmupd connID (finsert sid existing) (st_SurfaceSubs s) \<rparr>,
                  [EffSurfaceSubscribeStart connID sid, okResp connID reqID NoBody]))"

definition reduceSurfaceUnsubscribe ::
  "'ds state \<Rightarrow> conn_id \<Rightarrow> string \<Rightarrow> session_id \<Rightarrow> 'ds state \<times> effect list" where
  "reduceSurfaceUnsubscribe s connID reqID sid =
     (let existing = surface_subs s connID in
      if sid |\<notin>| existing then (s, [okResp connID reqID NoBody])
      else
        let rest = existing |-| {|sid|} in
        (s\<lparr> st_SurfaceSubs := (if rest = {||} then fmdrop connID (st_SurfaceSubs s)
                               else fmupd connID rest (st_SurfaceSubs s)) \<rparr>,
         [EffSurfaceSubscribeStop connID sid, okResp connID reqID NoBody]))"

definition reduceSurfaceResize ::
  "'ds state \<Rightarrow> conn_id \<Rightarrow> string \<Rightarrow> session_id \<Rightarrow> 16 word \<Rightarrow> 16 word \<Rightarrow> 'ds state \<times> effect list" where
  "reduceSurfaceResize s connID reqID sid cols rows =
     (if fmlookup (st_Sessions s) sid = None then (s, [session_missing connID reqID sid])
      else (s, [EffSurfaceResize sid cols rows, okResp connID reqID NoBody]))"

definition reduceSurfaceWriteRaw ::
  "'ds state \<Rightarrow> conn_id \<Rightarrow> string \<Rightarrow> session_id \<Rightarrow> bytes \<Rightarrow> 'ds state \<times> effect list" where
  "reduceSurfaceWriteRaw s connID reqID sid data =
     (if fmlookup (st_Sessions s) sid = None then (s, [session_missing connID reqID sid])
      else (s, [EffSurfaceWriteRaw sid data, okResp connID reqID NoBody]))"

section \<open>reduce.go\<close>

fun Reduce :: "'ds env \<Rightarrow> 'ds state \<Rightarrow> event \<Rightarrow> ('ds state \<times> effect list) option" where
  "Reduce env s (EvEvent c r event payload) = reduceEvent env s c r event payload"
| "Reduce env s (EvDriverEvent c r event ts sender payload) =
     Some (reduceDriverHook env s c r event ts sender payload)"
| "Reduce env s (EvSubsystem c r f source kind ts payload) =
     Some (reduceSubsystem env s c r f source kind ts payload)"
| "Reduce env s (EvFrameSpawned e) = Some (reduceFrameSpawned env s e)"
| "Reduce env s (EvSpawnFailed sid f err c r) = Some (reduceSpawnFailed s f err c r)"
| "Reduce env s (EvFrameVanished f) = Some (reduceFrameVanished s f)"
| "Reduce env s (EvFrameCommandExited f code) = reduceFrameCommandExited env s f code"
| "Reduce env s (EvTick now n) = Some (reduceTick env s now n)"
| "Reduce env s (EvJobResult j result err) = Some (reduceJobResult env s j result err)"
| "Reduce env s (EvFileChanged f path) = Some (reduceFileChanged env s f path)"
| "Reduce env s (EvFrameOsc f cmd title body now) = Some (reduceFrameOsc env s f cmd title body now)"
| "Reduce env s (EvFramePrompt f phase code now) = Some (reduceFramePrompt env s f phase code now)"
| "Reduce env s (EvConnOpened c) = Some (reduceConnOpened s c)"
| "Reduce env s (EvConnClosed c) = Some (reduceConnClosed s c)"
| "Reduce env s (EvCmdSubscribe c r filters) = Some (reduceSubscribe s c r filters)"
| "Reduce env s (EvCmdUnsubscribe c r) = Some (reduceUnsubscribe s c r)"
| "Reduce env s (EvCmdSurfaceReadText c r sid lines) = Some (reduceSurfaceReadText s c r sid lines)"
| "Reduce env s (EvCmdSurfaceSendText c r sid text) = Some (reduceSurfaceSendText s c r sid text)"
| "Reduce env s (EvCmdSurfaceSendKey c r sid key) = Some (reduceSurfaceSendKey s c r sid key)"
| "Reduce env s (EvCmdDriverList c r) = Some (reduceDriverList s c r)"
| "Reduce env s (EvCmdSurfaceSubscribe c r sid) = Some (reduceSurfaceSubscribe s c r sid)"
| "Reduce env s (EvCmdSurfaceUnsubscribe c r sid) = Some (reduceSurfaceUnsubscribe s c r sid)"
| "Reduce env s (EvCmdSurfaceResize c r sid cols rows) = Some (reduceSurfaceResize s c r sid cols rows)"
| "Reduce env s (EvCmdSurfaceWriteRaw c r sid data) = Some (reduceSurfaceWriteRaw s c r sid data)"

end
