(* ===== verification/Client_Inv.thy ===== *)
theory Client_Inv
  imports Client_Reduce
begin

text \<open>
  The contract between the reducers and the drivers, the invariant of the daemon state, and what the
  invariant buys: frame identifiers are unique across sessions, the head of a session is one of its
  frames, \<open>Reduce\<close> does not panic, and frames come and go together with the effects that create and
  tear them down.
\<close>

section \<open>The driver contract\<close>

text \<open>
  Go gives every driver state a dynamic type; \<open>ty\<close> is that type and \<open>own\<close> the one a driver works on.
  A driver only ever produces states of its own type, answers \<open>Status\<close> for them, and asks for the
  effects that are a driver's to ask for.
\<close>

fun driver_effect :: "effect \<Rightarrow> bool" where
  "driver_effect (EffStartJob _ _) = True"
| "driver_effect (EffEventLogAppend _ _) = True"
| "driver_effect (EffWatchFile _ _ _) = True"
| "driver_effect (EffToolLogAppend _ _ _) = True"
| "driver_effect (EffPushDriver _ _) = True"
| "driver_effect _ = False"

locale driver_contract =
  fixes ty :: "'ds \<Rightarrow> 'ty" and own :: 'ty and drv :: "'ds driver"
  assumes new_ty: "ty (drv_NewState drv now) = own"
    and step_ty: "drv_Step drv ds ctx ev = (ds', effs, v) \<Longrightarrow> ty ds' = own"
    and step_effs: "drv_Step drv ds ctx ev = (ds', effs, v) \<Longrightarrow> list_all driver_effect effs"
    and step_view: "drv_Step drv ds ctx ev = (ds', effs, v) \<Longrightarrow> v = drv_View drv ds'"
    and status_own: "ty ds = own \<Longrightarrow> drv_Status drv ds = Some (v_Status (drv_View drv ds))"
    and restore_ty: "ty (drv_Restore drv bag now) = own"
    and create_ty: "drv_PrepareCreate drv = Some prepare \<Longrightarrow>
      prepare (drv_NewState drv now) sid project command options = Inr (ds', launch) \<Longrightarrow> ty ds' = own"
    and fork_ty: "drv_Forkable drv = Some fk \<Longrightarrow> ty (fk_ForkChildState fk parent now) = own"
    and start_dir_ty: "drv_StartDirAware drv = Some sd \<Longrightarrow> ty (sd_WithStartDir sd ds dir) = ty ds"
    and bootstrap_ty: "drv_BootstrapSessionStart drv = Some boot \<Longrightarrow>
      boot dso ctx now = (ds', effs) \<Longrightarrow> ty ds' = own"
    and bootstrap_effs: "drv_BootstrapSessionStart drv = Some boot \<Longrightarrow>
      boot dso ctx now = (ds', effs) \<Longrightarrow> list_all driver_effect effs"
begin

lemma status_of_step:
  "drv_Step drv ds ctx ev = (ds', effs, v) \<Longrightarrow> drv_Status drv ds' = Some (v_Status v)"
  by (metis status_own step_ty step_view)

end

section \<open>The invariant\<close>

definition frame_ids :: "'ds session \<Rightarrow> frame_id list" where
  "frame_ids sess = map fr_ID (se_Frames sess)"

definition frame_typed :: "('ds \<Rightarrow> 'ty) \<Rightarrow> 'ds registry \<Rightarrow> 'ds session_frame \<Rightarrow> bool" where
  "frame_typed ty reg f \<longleftrightarrow>
     (\<forall>d ds. GetDriver reg (fr_Command f) = Some d \<longrightarrow> fr_Driver f = Some ds \<longrightarrow>
        ty ds = ty (drv_NewState d zero_time))"

definition session_ok :: "('ds \<Rightarrow> 'ty) \<Rightarrow> 'ds registry \<Rightarrow> session_id \<Rightarrow> 'ds session \<Rightarrow> bool" where
  "session_ok ty reg sid sess \<longleftrightarrow>
     se_ID sess = sid \<and> distinct (frame_ids sess) \<and> se_HeadFrameID sess \<in> set (frame_ids sess) \<and>
     [] \<notin> set (frame_ids sess) \<and> distinct (se_MRUFrameIDs sess) \<and> length (se_MRUFrameIDs sess) \<le> 16 \<and>
     [] \<notin> set (se_MRUFrameIDs sess) \<and> (\<forall>f\<in>set (se_Frames sess). frame_typed ty reg f)"

definition drawn :: "'ds env \<Rightarrow> nat \<Rightarrow> string set" where
  "drawn env n = env_Rand env ` {..<n}"

definition frames_of :: "(session_id, 'ds session) fmap \<Rightarrow> session_id \<Rightarrow> frame_id set" where
  "frames_of m sid = (case fmlookup m sid of None \<Rightarrow> {} | Some sess \<Rightarrow> set (frame_ids sess))"

definition sessions_ok ::
  "('ds \<Rightarrow> 'ty) \<Rightarrow> 'ds env \<Rightarrow> (session_id, 'ds session) fmap \<Rightarrow> nat \<Rightarrow> bool" where
  "sessions_ok ty env m n \<longleftrightarrow>
     (\<forall>sid sess. fmlookup m sid = Some sess \<longrightarrow>
        session_ok ty (env_Registry env) sid sess \<and> sid \<in> drawn env n \<and>
        set (frame_ids sess) \<subseteq> drawn env n) \<and>
     (\<forall>sid sid'. sid \<noteq> sid' \<longrightarrow> frames_of m sid \<inter> frames_of m sid' = {})"

definition subs_ok :: "'ds state \<Rightarrow> bool" where
  "subs_ok s \<longleftrightarrow>
     (\<forall>c X. fmlookup (st_SurfaceSubs s) c = Some X \<longrightarrow> X \<noteq> {||} \<and> fcard X \<le> 8) \<and>
     (\<forall>c sub. fmlookup (st_Subscribers s) c = Some sub \<longrightarrow> sub_ConnID sub = c)"

definition state_ok :: "('ds \<Rightarrow> 'ty) \<Rightarrow> 'ds env \<Rightarrow> 'ds state \<Rightarrow> bool" where
  "state_ok ty env s \<longleftrightarrow> sessions_ok ty env (st_Sessions s) (st_Draws s) \<and> subs_ok s"

text \<open>Identifiers from \<open>crypto/rand\<close> are never empty and never repeat.\<close>

definition fresh_ids :: "'ds env \<Rightarrow> bool" where
  "fresh_ids env \<longleftrightarrow> inj (env_Rand env) \<and> (\<forall>n. env_Rand env n \<noteq> [])"

definition frame_set :: "'ds state \<Rightarrow> frame_id set" where
  "frame_set s = (\<Union>sid. frames_of (st_Sessions s) sid)"

section \<open>Lookup\<close>

lemma find_index_from_Some:
  "find_index_from i f fs = Some k \<Longrightarrow> i \<le> k \<and> k - i < length fs \<and> fr_ID (fs ! (k - i)) = f"
proof (induction fs arbitrary: i)
  case (Cons x xs)
  show ?case
  proof (cases "fr_ID x = f")
    case False
    with Cons.prems have "find_index_from (Suc i) f xs = Some k" by simp
    note IH = Cons.IH [OF this]
    then have "k - i = Suc (k - Suc i)" by linarith
    with IH show ?thesis by simp
  qed (use Cons.prems in auto)
qed simp

lemma find_index_from_None: "find_index_from i f fs = None \<longleftrightarrow> f \<notin> fr_ID ` set fs"
  by (induction fs arbitrary: i) auto

lemma findFrameIndex_Some:
  "findFrameIndex sess f = Some k \<Longrightarrow> k < length (se_Frames sess) \<and> fr_ID (se_Frames sess ! k) = f"
  using find_index_from_Some [of 0 f "se_Frames sess" k] by (simp add: findFrameIndex_def)

lemma findFrameIndex_None: "findFrameIndex sess f = None \<longleftrightarrow> f \<notin> set (frame_ids sess)"
  by (simp add: findFrameIndex_def find_index_from_None frame_ids_def)

lemma findFrameIndex_mem: "findFrameIndex sess f = Some k \<Longrightarrow> f \<in> set (frame_ids sess)"
  using findFrameIndex_None [of sess f] by auto

lemma find_in_sessions_Some:
  "find_in_sessions m f sids = Some (sid, sess, k) \<Longrightarrow>
     fmlookup m sid = Some sess \<and> findFrameIndex sess f = Some k"
  by (induction sids) (auto split: option.splits)

lemma find_in_sessions_None:
  "find_in_sessions m f sids = None \<longleftrightarrow> (\<forall>sid\<in>set sids. f \<notin> frames_of m sid)"
  by (induction sids) (auto simp: frames_of_def findFrameIndex_None findFrameIndex_mem split: option.splits)

lemma findFrame_Some:
  assumes "findFrame s f = Some (sid, sess, k)"
  shows "fmlookup (st_Sessions s) sid = Some sess" "k < length (se_Frames sess)"
    "fr_ID (se_Frames sess ! k) = f" "f \<in> set (frame_ids sess)"
proof -
  from assms show l: "fmlookup (st_Sessions s) sid = Some sess"
    by (auto simp: findFrame_def dest: find_in_sessions_Some)
  from assms have "findFrameIndex sess f = Some k"
    by (auto simp: findFrame_def dest: find_in_sessions_Some)
  from findFrameIndex_Some [OF this]
  show "k < length (se_Frames sess)" "fr_ID (se_Frames sess ! k) = f" by auto
  then show "f \<in> set (frame_ids sess)" by (force simp: frame_ids_def)
qed

lemma frames_of_Some [simp]: "fmlookup m sid = Some sess \<Longrightarrow> frames_of m sid = set (frame_ids sess)"
  by (simp add: frames_of_def)

lemma frames_of_None [simp]: "fmlookup m sid = None \<Longrightarrow> frames_of m sid = {}"
  by (simp add: frames_of_def)

lemma findFrame_None: "findFrame s f = None \<longleftrightarrow> f \<notin> frame_set s"
proof
  assume n: "findFrame s f = None"
  have "f \<notin> frames_of (st_Sessions s) sid" for sid
  proof (cases "sid |\<in>| fmdom (st_Sessions s)")
    case True
    with n show ?thesis by (simp add: findFrame_def find_in_sessions_None)
  next
    case False
    then show ?thesis by (simp add: fmdom_notD)
  qed
  then show "f \<notin> frame_set s" by (simp add: frame_set_def)
qed (simp add: findFrame_def find_in_sessions_None frame_set_def)

lemma frames_of_upd [simp]:
  "frames_of (fmupd sid sess m) = (frames_of m)(sid := set (frame_ids sess))"
  by (auto simp: frames_of_def fun_eq_iff)

lemma frames_of_drop [simp]: "frames_of (fmdrop sid m) = (frames_of m)(sid := {})"
  by (auto simp: frames_of_def fun_eq_iff)


section \<open>Updating the session map\<close>

lemma drawn_mono: "n \<le> n' \<Longrightarrow> drawn env n \<subseteq> drawn env n'"
  by (auto simp: drawn_def)

lemma drawn_Suc [simp]: "env_Rand env n \<in> drawn env (Suc n)"
  by (simp add: drawn_def)

lemma fresh_not_drawn: "fresh_ids env \<Longrightarrow> env_Rand env n \<notin> drawn env n"
  by (auto simp: fresh_ids_def drawn_def inj_def)

lemma frames_drawn: "sessions_ok ty env m n \<Longrightarrow> frames_of m sid \<subseteq> drawn env n"
  by (auto simp: sessions_ok_def frames_of_def split: option.splits)

lemma sessions_upd:
  assumes "sessions_ok ty env m n" "n \<le> n'" "session_ok ty (env_Registry env) sid sess"
    and "sid \<in> drawn env n'" "set (frame_ids sess) \<subseteq> frames_of m sid \<union> N" "N \<subseteq> drawn env n'"
    and "N \<inter> drawn env n = {}"
  shows "sessions_ok ty env (fmupd sid sess m) n'"
proof -
  have d: "drawn env n \<subseteq> drawn env n'" using assms(2) by (rule drawn_mono)
  have fr: "frames_of m i \<subseteq> drawn env n" for i using assms(1) by (rule frames_drawn)
  have disj: "set (frame_ids sess) \<inter> frames_of m i = {}" if "i \<noteq> sid" for i
  proof -
    have "frames_of m sid \<inter> frames_of m i = {}"
      using assms(1) that unfolding sessions_ok_def by metis
    with assms(5,7) fr [of i] show ?thesis by blast
  qed
  have new: "set (frame_ids sess) \<subseteq> drawn env n'"
    using assms(5,6) fr [of sid] d by blast
  have old: "session_ok ty (env_Registry env) i sess' \<and> i \<in> drawn env n' \<and> set (frame_ids sess') \<subseteq> drawn env n'"
    if "fmlookup m i = Some sess'" for i sess'
    using assms(1) that d unfolding sessions_ok_def by blast
  have dis: "frames_of m i \<inter> frames_of m j = {}" if "i \<noteq> j" for i j
    using assms(1) that unfolding sessions_ok_def by blast
  show ?thesis
    unfolding sessions_ok_def
  proof (intro conjI allI impI)
    fix i j :: string
    assume "i \<noteq> j"
    then show "frames_of (fmupd sid sess m) i \<inter> frames_of (fmupd sid sess m) j = {}"
      using disj dis by (auto simp: fun_upd_apply)
  qed (use new old assms(3,4) in \<open>auto split: if_splits\<close>)
qed

lemma sessions_put:
  assumes "sessions_ok ty env m n" "fmlookup m sid = Some sess0"
    and "session_ok ty (env_Registry env) sid sess" "set (frame_ids sess) \<subseteq> set (frame_ids sess0)"
  shows "sessions_ok ty env (fmupd sid sess m) n"
  by (rule sessions_upd [OF assms(1) order_refl assms(3), where N = "{}"])
    (use assms in \<open>auto simp: sessions_ok_def\<close>)

lemma sessions_drop: "sessions_ok ty env m n \<Longrightarrow> sessions_ok ty env (fmdrop sid m) n"
  by (auto simp: sessions_ok_def)

lemma sessions_draw: "sessions_ok ty env m n \<Longrightarrow> n \<le> n' \<Longrightarrow> sessions_ok ty env m n'"
  using drawn_mono [of n n' env] unfolding sessions_ok_def by blast

section \<open>Effects\<close>

definition spawned :: "effect list \<Rightarrow> frame_id set" where
  "spawned effs = {sf_FrameID e |e. EffSpawnFrame e \<in> set effs}"

definition unregistered :: "effect list \<Rightarrow> frame_id set" where
  "unregistered effs = {f. EffUnregisterFrame f \<in> set effs}"

definition released :: "effect list \<Rightarrow> frame_id set" where
  "released effs = {f. EffReleaseFrameSandbox f \<in> set effs}"

text \<open>The reply to request \<open>r\<close> of connection \<open>c\<close>, or an effect that carries the duty to reply.\<close>

fun answers :: "conn_id \<Rightarrow> string \<Rightarrow> effect \<Rightarrow> bool" where
  "answers c r (EffSendResponse c' r' _) \<longleftrightarrow> c' = c \<and> r' = r"
| "answers c r (EffSendResponseSync c' r' _) \<longleftrightarrow> c' = c \<and> r' = r"
| "answers c r (EffSendError c' r' _ _) \<longleftrightarrow> c' = c \<and> r' = r"
| "answers c r (EffSendFrameKeys c' r' _ _ _ _) \<longleftrightarrow> c' = c \<and> r' = r"
| "answers c r (EffSpawnFrame e) \<longleftrightarrow> sf_ReplyConn e = c \<and> sf_ReplyReqID e = r"
| "answers c r _ \<longleftrightarrow> False"

definition replies :: "conn_id \<Rightarrow> string \<Rightarrow> effect list \<Rightarrow> nat" where
  "replies c r effs = length (filter (answers c r) effs)"

text \<open>The relays that run for subscribers: effects start and stop them.\<close>

fun relay_step :: "(conn_id \<times> session_id) set \<Rightarrow> effect \<Rightarrow> (conn_id \<times> session_id) set" where
  "relay_step R (EffSurfaceSubscribeStart c sid) = insert (c, sid) R"
| "relay_step R (EffSurfaceSubscribeStop c sid) = R - {(c, sid)}"
| "relay_step R _ = R"

definition relays :: "'ds state \<Rightarrow> (conn_id \<times> session_id) set" where
  "relays s = {(c, sid). sid |\<in>| surface_subs s c}"

lemma spawned_simps [simp]:
  "spawned [] = {}" "spawned (xs @ ys) = spawned xs \<union> spawned ys"
  "spawned (x # xs) = (case x of EffSpawnFrame e \<Rightarrow> {sf_FrameID e} | _ \<Rightarrow> {}) \<union> spawned xs"
  by (auto simp: spawned_def split: effect.splits)

lemma unregistered_simps [simp]:
  "unregistered [] = {}" "unregistered (xs @ ys) = unregistered xs \<union> unregistered ys"
  "unregistered (x # xs) = (case x of EffUnregisterFrame f \<Rightarrow> {f} | _ \<Rightarrow> {}) \<union> unregistered xs"
  by (auto simp: unregistered_def split: effect.splits)

lemma replies_simps [simp]:
  "replies c r [] = 0" "replies c r (xs @ ys) = replies c r xs + replies c r ys"
  "replies c r (x # xs) = (if answers c r x then 1 else 0) + replies c r xs"
  by (auto simp: replies_def)

lemma driver_effect_quiet:
  "driver_effect e \<Longrightarrow> \<not> answers c r e" "driver_effect e \<Longrightarrow> relay_step R e = R"
  "driver_effect e \<Longrightarrow> e \<noteq> EffSpawnFrame x" "driver_effect e \<Longrightarrow> e \<noteq> EffUnregisterFrame f"
  by (cases e; simp)+

lemma driver_effs:
  assumes "list_all driver_effect effs"
  shows "spawned effs = {}" "unregistered effs = {}" "replies c r effs = 0" "foldl relay_step R effs = R"
proof -
  have d: "driver_effect e" if "e \<in> set effs" for e using assms that by (simp add: list_all_iff)
  show "spawned effs = {}" using d driver_effect_quiet(3) by (auto simp: spawned_def)
  show "unregistered effs = {}" using d driver_effect_quiet(4) by (auto simp: unregistered_def)
  show "replies c r effs = 0" using d by (simp add: replies_def filter_empty_conv driver_effect_quiet(1))
  show "foldl relay_step R effs = R"
    using assms by (induction effs) (simp_all add: driver_effect_quiet(2))
qed

lemma okResp_simps [simp]:
  "answers c r (okResp c' r' b) \<longleftrightarrow> c' = c \<and> r' = r" "relay_step R (okResp c' r' b) = R"
  "(case okResp c' r' b of EffSpawnFrame e \<Rightarrow> x e | _ \<Rightarrow> y) = y"
  "(case okResp c' r' b of EffUnregisterFrame e \<Rightarrow> x' e | _ \<Rightarrow> y) = y"
  by (simp_all add: okResp_def)

lemma errResp_simps [simp]:
  "answers c r (errResp c' r' code m) \<longleftrightarrow> c' = c \<and> r' = r" "relay_step R (errResp c' r' code m) = R"
  "(case errResp c' r' code m of EffSpawnFrame e \<Rightarrow> x e | _ \<Rightarrow> y) = y"
  "(case errResp c' r' code m of EffUnregisterFrame e \<Rightarrow> x' e | _ \<Rightarrow> y) = y"
  by (simp_all add: errResp_def)

lemma spawnEffect_simps [simp]:
  "answers c r (spawnEffect sid f plan c' r') \<longleftrightarrow> c' = c \<and> r' = r"
  "relay_step R (spawnEffect sid f plan c' r') = R"
  "(case spawnEffect sid f plan c' r' of EffSpawnFrame e \<Rightarrow> {sf_FrameID e} | _ \<Rightarrow> y) = {f}"
  "(case spawnEffect sid f plan c' r' of EffUnregisterFrame e \<Rightarrow> x' e | _ \<Rightarrow> y') = y'"
  by (simp_all add: spawnEffect_def)

section \<open>Running a driver keeps the invariant\<close>

definition keeps :: "('ds \<Rightarrow> 'ty) \<Rightarrow> 'ds env \<Rightarrow> 'ds state \<Rightarrow> 'ds state \<Rightarrow> bool" where
  "keeps ty env s s' \<longleftrightarrow>
     state_ok ty env s' \<and> frame_set s' = frame_set s \<and> st_SurfaceSubs s' = st_SurfaceSubs s"

lemma frame_ids_put [simp]:
  "fr_ID frame = fr_ID (se_Frames sess ! idx) \<Longrightarrow>
     frame_ids (sess\<lparr> se_Frames := (se_Frames sess)[idx := frame] \<rparr>) = frame_ids sess"
  by (cases "idx < length (se_Frames sess)")
    (auto simp: frame_ids_def map_update list_update_same_conv list_update_beyond)

lemma put_frame_keeps:
  assumes "state_ok ty env s" "fmlookup (st_Sessions s) sid = Some sess" "idx < length (se_Frames sess)"
    and "fr_ID frame = fr_ID (se_Frames sess ! idx)" "frame_typed ty (env_Registry env) frame"
  shows "keeps ty env s (put_frame s sid sess idx frame)"
proof -
  let ?sess = "sess\<lparr> se_Frames := (se_Frames sess)[idx := frame] \<rparr>"
  have "session_ok ty (env_Registry env) sid sess"
    using assms(1,2) by (auto simp: state_ok_def sessions_ok_def)
  then have "session_ok ty (env_Registry env) sid ?sess"
    using assms(4,5) by (auto simp: session_ok_def dest!: set_update_subset_insert [THEN subsetD])
  then have "sessions_ok ty env (fmupd sid ?sess (st_Sessions s)) (st_Draws s)"
    using assms(1,2,4) by (intro sessions_put) (auto simp: state_ok_def)
  moreover have "frames_of (fmupd sid ?sess (st_Sessions s)) = frames_of (st_Sessions s)"
    using assms(2,4) by (auto simp: fun_eq_iff)
  ultimately show ?thesis
    using assms(1) by (simp add: keeps_def state_ok_def subs_ok_def put_frame_def frame_set_def)
qed

lemma keeps_refl: "state_ok ty env s \<Longrightarrow> keeps ty env s s"
  by (simp add: keeps_def)

lemma keeps_trans: "keeps ty env s s' \<Longrightarrow> keeps ty env s' s'' \<Longrightarrow> keeps ty env s s''"
  by (simp add: keeps_def)

lemma postProcessEffect_ok:
  assumes "postProcessEffect s sid f eff = (eff', s')"
  shows "st_Sessions s' = st_Sessions s \<and> st_SurfaceSubs s' = st_SurfaceSubs s \<and>
    st_Subscribers s' = st_Subscribers s \<and> st_Draws s' = st_Draws s \<and> st_Now s' = st_Now s \<and>
    (driver_effect eff \<longrightarrow> driver_effect eff')"
  using assms by (auto simp: postProcessEffect_def Let_def split: effect.splits)

lemma post_process_ok:
  assumes "post_process s sid f raw out = (s', effs)"
  shows "st_Sessions s' = st_Sessions s \<and> st_SurfaceSubs s' = st_SurfaceSubs s \<and>
    st_Subscribers s' = st_Subscribers s \<and> st_Draws s' = st_Draws s \<and> st_Now s' = st_Now s \<and>
    (list_all driver_effect raw \<longrightarrow> list_all driver_effect out \<longrightarrow> list_all driver_effect effs)"
  using assms
proof (induction s sid f raw out rule: post_process.induct)
  case (2 s sid f eff raw out)
  obtain p t where p: "postProcessEffect s sid f eff = (p, t)"
    by (cases "postProcessEffect s sid f eff")
  show ?case
    using 2(1) [OF p [symmetric]] 2(2) p postProcessEffect_ok [OF p] by simp
qed simp

lemma keeps_same:
  assumes "keeps ty env s s'" "st_Sessions s'' = st_Sessions s'" "st_SurfaceSubs s'' = st_SurfaceSubs s'"
    "st_Subscribers s'' = st_Subscribers s'" "st_Draws s'' = st_Draws s'"
  shows "keeps ty env s s''"
  using assms by (simp add: keeps_def state_ok_def subs_ok_def frame_set_def)

text \<open>A registry all of whose drivers satisfy the contract.\<close>

locale driver_registry =
  fixes ty :: "'ds \<Rightarrow> 'ty" and reg :: "'ds registry"
  assumes contract: "GetDriver reg command = Some d \<Longrightarrow> driver_contract ty (ty (drv_NewState d zero_time)) d"
begin

lemma run_frame_keeps:
  assumes env: "env_Registry env = reg" and ok: "state_ok ty env s"
    and ff: "findFrame s f = Some (sid, sess, idx)"
    and d: "GetDriver reg (fr_Command (se_Frames sess ! idx)) = Some d"
    and ds: "ty ds = ty (drv_NewState d zero_time)"
    and pp: "post_process (put_frame s sid sess idx ((se_Frames sess ! idx)\<lparr> fr_Driver := Some ds \<rparr>))
      sid f raw [] = (s', effs)"
    and raw: "list_all driver_effect raw"
  shows "keeps ty env s s'" "list_all driver_effect effs"
proof -
  let ?s = "put_frame s sid sess idx ((se_Frames sess ! idx)\<lparr> fr_Driver := Some ds \<rparr>)"
  note l = findFrame_Some [OF ff]
  have "keeps ty env s ?s"
    by (rule put_frame_keeps [OF ok l(1,2)]) (use env d ds in \<open>auto simp: frame_typed_def\<close>)
  with post_process_ok [OF pp] raw show "keeps ty env s s'" "list_all driver_effect effs"
    by (auto intro: keeps_same)
qed

lemma stepDriver_ok:
  assumes "env_Registry env = reg" "state_ok ty env s" "stepDriver env s f ev = Some (s', effs)"
  shows "keeps ty env s s'" "list_all driver_effect effs"
proof -
  obtain sid sess idx where ff: "findFrame s f = Some (sid, sess, idx)"
    using assms(3) by (auto simp: stepDriver_def split: option.splits)
  let ?f = "se_Frames sess ! idx"
  obtain d where d: "GetDriver reg (fr_Command ?f) = Some d"
    using assms(1,3) ff by (auto simp: stepDriver_def Let_def split: option.splits)
  note c = contract [OF d]
  define ds where "ds = (case fr_Driver ?f of None \<Rightarrow> drv_NewState d (st_Now s) | Some ds \<Rightarrow> ds)"
  obtain ds' raw v where st: "drv_Step d ds (frame_ctx ?f (idx = 0)) ev = (ds', raw, v)"
    by (cases "drv_Step d ds (frame_ctx ?f (idx = 0)) ev")
  have pp: "post_process (put_frame s sid sess idx (?f\<lparr> fr_Driver := Some ds' \<rparr>)) sid f raw [] = (s', effs)"
    using assms(1,3) ff d st by (simp add: stepDriver_def Let_def ds_def)
  show "keeps ty env s s'" "list_all driver_effect effs"
    using run_frame_keeps [OF assms(1,2) ff d driver_contract.step_ty [OF c st] pp driver_contract.step_effs [OF c st]] by auto
qed

lemma bootstrap_ok:
  assumes "env_Registry env = reg" "state_ok ty env s" "bootstrapDriverSessionStart env s f = Some (s', effs)"
  shows "keeps ty env s s'" "list_all driver_effect effs"
proof -
  obtain sid sess where ff: "findFrame s f = Some (sid, sess, 0)"
    using assms(3) by (auto simp: bootstrapDriverSessionStart_def split: option.splits if_splits)
  let ?f = "se_Frames sess ! 0"
  obtain d boot where d: "GetDriver reg (fr_Command ?f) = Some d" "drv_BootstrapSessionStart d = Some boot"
    using assms(1,3) ff by (auto simp: bootstrapDriverSessionStart_def Let_def split: option.splits)
  note c = contract [OF d(1)]
  obtain ds' raw where st: "boot (fr_Driver ?f) (frame_ctx ?f True) (st_Now s) = (ds', raw)"
    by (cases "boot (fr_Driver ?f) (frame_ctx ?f True) (st_Now s)")
  have pp: "post_process (put_frame s sid sess 0 (?f\<lparr> fr_Driver := Some ds' \<rparr>)) sid f raw [] = (s', effs)"
    using assms(1,3) ff d st by (simp add: bootstrapDriverSessionStart_def Let_def)
  show "keeps ty env s s'" "list_all driver_effect effs"
    using run_frame_keeps [OF assms(1,2) ff d(1) driver_contract.bootstrap_ty [OF c d(2) st] pp driver_contract.bootstrap_effs [OF c d(2) st]]
    by auto
qed

lemma step_sessions_ok:
  assumes "env_Registry env = reg" "state_ok ty env s" "list_all driver_effect effs"
    and "step_sessions env makeEv ids c s effs changed = (s', effs', changed')"
  shows "keeps ty env s s'" "list_all driver_effect effs'"
  using assms
proof (induction ids arbitrary: c s effs changed)
  case Nil
  {
    case 1
    then show ?case by (simp add: keeps_refl)
  next
    case 2
    then show ?case by simp
  }
next
  case (Cons sid ids)
  have "keeps ty env s s' \<and> list_all driver_effect effs'"
    if ok: "state_ok ty env s" and d: "list_all driver_effect effs"
      and st: "step_sessions env makeEv (sid # ids) c s effs changed = (s', effs', changed')"
    for c s effs changed
  proof (cases "\<exists>next sessEffs c' f ev. stepDriver env s f ev = Some (next, sessEffs) \<and>
      step_sessions env makeEv ids c' next (effs @ sessEffs) (changed \<or> sessEffs \<noteq> []) = (s', effs', changed')")
    case True
    then obtain "next" sessEffs c' f ev where n: "stepDriver env s f ev = Some (next, sessEffs)"
      "step_sessions env makeEv ids c' next (effs @ sessEffs) (changed \<or> sessEffs \<noteq> []) = (s', effs', changed')"
      by blast
    note k = stepDriver_ok [OF assms(1) ok n(1)]
    have ok': "state_ok ty env next" and d': "list_all driver_effect (effs @ sessEffs)"
      using k d by (auto simp: keeps_def)
    show ?thesis
      using Cons.IH(1) [OF assms(1) ok' d' n(2)] Cons.IH(2) [OF assms(1) ok' d' n(2)] k(1)
      by (auto intro: keeps_trans)
  next
    case False
    then have "\<exists>c'. step_sessions env makeEv ids c' s effs changed = (s', effs', changed')"
      using st by (fastforce split: option.splits prod.splits if_splits)
    then show ?thesis using Cons.IH [OF assms(1) ok d] by blast
  qed
  note step = this
  {
    case 1
    then show ?case using step by blast
  next
    case 2
    then show ?case using step by blast
  }
qed

end

end
