(* ===== verification/Client_Trans.thy ===== *)
theory Client_Trans
  imports Client_Inv
begin

text \<open>
  Each handler of the client's \<open>Reduce\<close> against the invariant: handlers either let the set of frames
  grow, by exactly the frames they spawn, or shrink, by exactly the frames they tear down.
\<close>

section \<open>Growing and shrinking\<close>

definition grows :: "('ds \<Rightarrow> 'ty) \<Rightarrow> 'ds env \<Rightarrow> 'ds state \<Rightarrow> 'ds state \<Rightarrow> effect list \<Rightarrow> bool" where
  "grows ty env s s' effs \<longleftrightarrow>
     state_ok ty env s' \<and> frame_set s \<subseteq> frame_set s' \<and> spawned effs = frame_set s' - frame_set s \<and>
     unregistered effs = {} \<and> st_SurfaceSubs s' = st_SurfaceSubs s \<and> (\<forall>R. foldl relay_step R effs = R)"

definition shrinks :: "('ds \<Rightarrow> 'ty) \<Rightarrow> 'ds env \<Rightarrow> 'ds state \<Rightarrow> 'ds state \<Rightarrow> effect list \<Rightarrow> bool" where
  "shrinks ty env s s' effs \<longleftrightarrow>
     state_ok ty env s' \<and> frame_set s' \<subseteq> frame_set s \<and> unregistered effs = frame_set s - frame_set s' \<and>
     spawned effs = {} \<and> st_SurfaceSubs s' = st_SurfaceSubs s \<and> (\<forall>R. foldl relay_step R effs = R) \<and>
     unregistered effs \<subseteq> released effs"

lemma keeps_grows: "keeps ty env s s' \<Longrightarrow> list_all driver_effect effs \<Longrightarrow> grows ty env s s' effs"
  by (simp add: keeps_def grows_def driver_effs)

lemma grows_trans:
  "grows ty env s s' effs \<Longrightarrow> grows ty env s' s'' effs' \<Longrightarrow> grows ty env s s'' (effs @ effs')"
  by (auto simp: grows_def)

lemma grows_refl: "state_ok ty env s \<Longrightarrow> grows ty env s s []"
  by (simp add: grows_def)

definition inert :: "effect list \<Rightarrow> bool" where
  "inert effs \<longleftrightarrow> spawned effs = {} \<and> unregistered effs = {} \<and> (\<forall>R. foldl relay_step R effs = R)"

lemma grows_inert: "grows ty env s s' effs \<Longrightarrow> inert qs \<Longrightarrow> grows ty env s s' (effs @ qs)"
  by (simp add: grows_def inert_def)

lemma grows_prefix: "grows ty env s s' effs \<Longrightarrow> inert qs \<Longrightarrow> grows ty env s s' (qs @ effs)"
  by (simp add: grows_def inert_def)

lemma inert_grows: "state_ok ty env s \<Longrightarrow> inert qs \<Longrightarrow> grows ty env s s qs"
  using grows_inert [OF grows_refl] by fastforce

lemma inert_simps [simp]:
  "inert []"
  "inert (okResp c r b # qs) = inert qs" "inert (errResp c r code m # qs) = inert qs"
  "inert (EffPersistSnapshot # qs) = inert qs" "inert (EffBroadcastSessionsChanged # qs) = inert qs"
  "inert (EffRegisterFrame f t # qs) = inert qs" "inert (EffReconcileWindows # qs) = inert qs"
  "inert (EffSendResponseSync c r b # qs) = inert qs" "inert (EffReleaseFrameSandboxes # qs) = inert qs"
  "inert (EffReleaseFrameSandbox f # qs) = inert qs" "inert (EffEventLogAppend f l # qs) = inert qs"
  "inert (EffRecordNotification sid f i l b2 # qs) = inert qs"
  "inert (EffSendError c r code m # qs) = inert qs"
  "inert (EffSendFrameKeys c r sid k k2 w # qs) = inert qs"
  "inert (EffSurfaceResize sid x y # qs) = inert qs" "inert (EffSurfaceWriteRaw sid l # qs) = inert qs"
  by (simp_all add: inert_def)

lemma state_ok_same:
  assumes "state_ok ty env s" "st_Sessions s' = st_Sessions s" "st_SurfaceSubs s' = st_SurfaceSubs s"
    "st_Subscribers s' = st_Subscribers s" "st_Draws s \<le> st_Draws s'"
  shows "state_ok ty env s'"
  using assms sessions_draw [of ty env "st_Sessions s" "st_Draws s" "st_Draws s'"]
  by (simp add: state_ok_def subs_ok_def)

lemma grows_same:
  assumes "state_ok ty env s" "st_Sessions s' = st_Sessions s" "st_SurfaceSubs s' = st_SurfaceSubs s"
    "st_Subscribers s' = st_Subscribers s" "st_Draws s \<le> st_Draws s'" "inert qs"
  shows "grows ty env s s' qs"
  using state_ok_same [OF assms(1-5)] assms by (simp add: grows_def inert_def frame_set_def)

lemma grows_from_same:
  assumes "grows ty env s' s'' effs" "st_Sessions s' = st_Sessions s" "st_SurfaceSubs s' = st_SurfaceSubs s"
  shows "grows ty env s s'' effs"
  using assms by (simp add: grows_def frame_set_def)

section \<open>The frames of the other sessions\<close>

definition other_frames :: "(session_id, 'ds session) fmap \<Rightarrow> session_id \<Rightarrow> frame_id set" where
  "other_frames m sid = (\<Union>i\<in>- {sid}. frames_of m i)"

lemma frame_set_split: "frame_set s = other_frames (st_Sessions s) sid \<union> frames_of (st_Sessions s) sid"
  by (auto simp: frame_set_def other_frames_def)

lemma other_frames_upd [simp]: "other_frames (fmupd sid sess m) sid = other_frames m sid"
  by (auto simp: other_frames_def)

lemma other_frames_drop [simp]: "other_frames (fmdrop sid m) sid = other_frames m sid"
  by (auto simp: other_frames_def)

lemma other_frames_disjoint:
  "sessions_ok ty env m n \<Longrightarrow> other_frames m sid \<inter> frames_of m sid = {}"
  unfolding sessions_ok_def other_frames_def by blast

lemma frame_set_upd:
  "st_Sessions s' = fmupd sid sess (st_Sessions s) \<Longrightarrow>
     frame_set s' = other_frames (st_Sessions s) sid \<union> set (frame_ids sess)"
  by (simp add: frame_set_split [of s' sid])

lemma frame_set_drop:
  "st_Sessions s' = fmdrop sid (st_Sessions s) \<Longrightarrow> frame_set s' = other_frames (st_Sessions s) sid"
  by (simp add: frame_set_split [of s' sid])

lemma frame_set_drawn: "state_ok ty env s \<Longrightarrow> frame_set s \<subseteq> drawn env (st_Draws s)"
  using frames_drawn [of ty env "st_Sessions s" "st_Draws s"] by (auto simp: state_ok_def frame_set_def)

section \<open>Sessions that change\<close>

lemma pushMRU_simps [simp]:
  "se_Frames (pushMRU sess f) = se_Frames sess" "se_ID (pushMRU sess f) = se_ID sess"
  "se_HeadFrameID (pushMRU sess f) = se_HeadFrameID sess" "frame_ids (pushMRU sess f) = frame_ids sess"
  "se_Sandbox (pushMRU sess f) = se_Sandbox sess"
  by (simp_all add: pushMRU_def frame_ids_def)

lemma pushMRU_mru:
  assumes "distinct (se_MRUFrameIDs sess)" "[] \<notin> set (se_MRUFrameIDs sess)" "length (se_MRUFrameIDs sess) \<le> 16"
  shows "distinct (se_MRUFrameIDs (pushMRU sess f)) \<and> length (se_MRUFrameIDs (pushMRU sess f)) \<le> 16 \<and>
    [] \<notin> set (se_MRUFrameIDs (pushMRU sess f))"
  using assms by (auto simp: pushMRU_def distinct_take dest!: in_set_takeD)

lemma session_ok_push:
  assumes "session_ok ty reg sid sess" "f \<notin> set (frame_ids sess)" "f \<noteq> []" "fr_ID frame = f"
    "frame_typed ty reg frame"
  shows "session_ok ty reg sid ((pushMRU sess h)\<lparr> se_HeadFrameID := f, se_Frames := se_Frames sess @ [frame] \<rparr>)"
  using assms pushMRU_mru [of sess h] by (auto simp: session_ok_def frame_ids_def)

lemma session_ok_head:
  assumes "session_ok ty reg sid sess" "f \<in> set (frame_ids sess)"
  shows "session_ok ty reg sid ((pushMRU sess h)\<lparr> se_HeadFrameID := f \<rparr>)"
  using assms pushMRU_mru [of sess h] by (auto simp: session_ok_def frame_ids_def)

lemma pop_mru_spec:
  "pop_mru E ids = (i, rest) \<Longrightarrow>
     (i \<in> E \<or> i = []) \<and> set rest \<subseteq> set ids \<and> length rest \<le> length ids \<and> (distinct ids \<longrightarrow> distinct rest)"
  by (induction E ids arbitrary: i rest rule: pop_mru.induct) (fastforce split: if_splits)+

lemma set_remove_nth:
  assumes "distinct xs" "i < length xs"
  shows "set (take i xs @ drop (Suc i) xs) = set xs - {xs ! i}" "distinct (take i xs @ drop (Suc i) xs)"
proof -
  have xs: "xs = take i xs @ xs ! i # drop (Suc i) xs" using assms(2) by (rule id_take_nth_drop)
  have "distinct (take i xs @ xs ! i # drop (Suc i) xs)" using assms(1) xs by simp
  then show "distinct (take i xs @ drop (Suc i) xs)" by simp
  have "set xs = set (take i xs @ xs ! i # drop (Suc i) xs)" using xs by simp
  with \<open>distinct (take i xs @ xs ! i # drop (Suc i) xs)\<close>
  show "set (take i xs @ drop (Suc i) xs) = set xs - {xs ! i}" by auto
qed

lemma session_ok_remove:
  assumes ok: "session_ok ty reg sid sess" and k: "0 < k" "k < length (se_Frames sess)"
    and f: "fr_ID (se_Frames sess ! k) = f"
    and ev: "evictChildFrame s sid sess k f kill = (s', effs)"
  obtains sess' where "s' = s\<lparr> st_Sessions := fmupd sid sess' (st_Sessions s) \<rparr>"
    "session_ok ty reg sid sess'" "set (frame_ids sess') = set (frame_ids sess) - {f}"
proof -
  define fs where "fs = take k (se_Frames sess) @ drop (Suc k) (se_Frames sess)"
  have ids: "map fr_ID fs = take k (frame_ids sess) @ drop (Suc k) (frame_ids sess)"
    by (simp add: fs_def frame_ids_def take_map drop_map)
  have d: "distinct (frame_ids sess)" "k < length (frame_ids sess)" "frame_ids sess ! k = f"
    using ok k f by (auto simp: session_ok_def frame_ids_def)
  have set_fs: "set (map fr_ID fs) = set (frame_ids sess) - {f}" and dist: "distinct (map fr_ID fs)"
    using set_remove_nth [OF d(1,2)] d(3) ids by auto
  have ne: "fs \<noteq> []" using k by (auto simp: fs_def)
  then have hd_fs: "fr_ID (fs ! 0) \<in> set (map fr_ID fs)" by (cases fs) auto
  have typed: "\<forall>x\<in>set fs. frame_typed ty reg x"
    using ok by (auto simp: session_ok_def fs_def dest: in_set_takeD in_set_dropD)
  let ?r = "sess\<lparr> se_Frames := fs \<rparr>"
  obtain i rest where p: "pop_mru (set (map fr_ID fs)) (se_MRUFrameIDs sess) = (i, rest)" by fastforce
  note ps = pop_mru_spec [OF p]
  define head where "head = (if se_HeadFrameID sess = f then (if i = [] then fr_ID (fs ! 0) else i)
    else se_HeadFrameID sess)"
  define mru where "mru = (if se_HeadFrameID sess = f then rest else se_MRUFrameIDs sess)"
  let ?sess = "?r\<lparr> se_MRUFrameIDs := mru, se_HeadFrameID := head \<rparr>"
  have s': "s' = s\<lparr> st_Sessions := fmupd sid ?sess (st_Sessions s) \<rparr>"
    using ev p by (auto simp: evictChildFrame_def removeFrameByIndex_def popMRU_def Let_def fs_def [symmetric]
        head_def mru_def)
  have "head \<in> set (map fr_ID fs)"
    using ps hd_fs set_fs ok by (auto simp: head_def session_ok_def)
  moreover have "distinct mru \<and> length mru \<le> 16 \<and> [] \<notin> set mru"
    using ps ok by (auto simp: mru_def session_ok_def)
  ultimately have "session_ok ty reg sid ?sess"
    using ok typed dist set_fs by (auto simp: session_ok_def frame_ids_def)
  moreover have "set (frame_ids ?sess) = set (frame_ids sess) - {f}"
    using set_fs by (simp add: frame_ids_def)
  ultimately show thesis using that s' by blast
qed

section \<open>Tearing frames down\<close>

lemma teardown_simps [simp]:
  "unregistered (frameTeardownEffects f kill) = {f}" "spawned (frameTeardownEffects f kill) = {}"
  "released (frameTeardownEffects f kill) = {f}" "foldl relay_step R (frameTeardownEffects f kill) = R"
  "replies c r (frameTeardownEffects f kill) = 0"
  by (auto simp: frameTeardownEffects_def released_def)

lemma released_append [simp]: "released (xs @ ys) = released xs \<union> released ys"
  by (auto simp: released_def)

lemma released_inert [simp]:
  "released [EffPersistSnapshot, EffBroadcastSessionsChanged] = {}"
  "released (EffBroadcastSessionsChanged # qs) = released qs"
  "released [okResp c r b, EffPersistSnapshot] = {}" "released [] = {}"
  by (auto simp: released_def okResp_def)

lemma teardown_all:
  "unregistered (concat (map (\<lambda>frame. frameTeardownEffects (fr_ID frame) kill) fs)) = fr_ID ` set fs"
  "spawned (concat (map (\<lambda>frame. frameTeardownEffects (fr_ID frame) kill) fs)) = {}"
  "released (concat (map (\<lambda>frame. frameTeardownEffects (fr_ID frame) kill) fs)) = fr_ID ` set fs"
  "foldl relay_step R (concat (map (\<lambda>frame. frameTeardownEffects (fr_ID frame) kill) fs)) = R"
  "replies c r (concat (map (\<lambda>frame. frameTeardownEffects (fr_ID frame) kill) fs)) = 0"
  by (induction fs) auto

lemma drop_session_shrinks:
  assumes ok: "state_ok ty env s" and l: "fmlookup (st_Sessions s) sid = Some sess"
    and effs: "unregistered effs = set (frame_ids sess)" "spawned effs = {}"
      "\<And>R. foldl relay_step R effs = R" "unregistered effs \<subseteq> released effs"
  shows "shrinks ty env s (s\<lparr> st_Sessions := fmdrop sid (st_Sessions s) \<rparr>) effs"
proof -
  let ?s = "s\<lparr> st_Sessions := fmdrop sid (st_Sessions s) \<rparr>"
  have "state_ok ty env ?s"
    using ok by (simp add: state_ok_def subs_ok_def sessions_drop)
  moreover have "frame_set ?s = other_frames (st_Sessions s) sid" by (rule frame_set_drop) simp
  moreover have "frame_set s = other_frames (st_Sessions s) sid \<union> set (frame_ids sess)"
    using frame_set_split [of s sid] l by simp
  moreover have "other_frames (st_Sessions s) sid \<inter> set (frame_ids sess) = {}"
    using other_frames_disjoint [of ty env "st_Sessions s" "st_Draws s" sid] ok l by (simp add: state_ok_def)
  ultimately show ?thesis using effs by (auto simp: shrinks_def)
qed

lemma evictFrame_shrinks:
  assumes ok: "state_ok ty env s" and ev: "evictFrame s f kill = Some (s', effs)"
  shows "shrinks ty env s s' effs"
proof -
  obtain sid sess k where ff: "findFrame s f = Some (sid, sess, k)"
    using ev by (auto simp: evictFrame_def split: option.splits)
  note l = findFrame_Some [OF ff]
  show ?thesis
  proof (cases "k = 0")
    case True
    then have "s' = s\<lparr> st_Sessions := fmdrop sid (st_Sessions s) \<rparr>"
      "effs = concat (map (\<lambda>frame. frameTeardownEffects (fr_ID frame) kill) (se_Frames sess)) @
        [EffPersistSnapshot, EffBroadcastSessionsChanged]"
      using ev ff by (auto simp: evictFrame_def evictRootFrame_def truncateFrames_def)
    with drop_session_shrinks [OF ok l(1)] show ?thesis
      by (auto simp: teardown_all frame_ids_def)
  next
    case False
    then have e: "evictChildFrame s sid sess k f kill = (s', effs)"
      using ev ff by (simp add: evictFrame_def)
    have so: "session_ok ty (env_Registry env) sid sess"
      using ok l(1) by (auto simp: state_ok_def sessions_ok_def)
    obtain sess' where s': "s' = s\<lparr> st_Sessions := fmupd sid sess' (st_Sessions s) \<rparr>"
      and so': "session_ok ty (env_Registry env) sid sess'"
      and ids: "set (frame_ids sess') = set (frame_ids sess) - {f}"
      using session_ok_remove [OF so _ l(2,3) e] False by blast
    have effs: "effs = frameTeardownEffects f kill @ [EffPersistSnapshot, EffBroadcastSessionsChanged]"
      using e l(3) by (auto simp: evictChildFrame_def removeFrameByIndex_def Let_def split: prod.splits if_splits)
    have "sessions_ok ty env (fmupd sid sess' (st_Sessions s)) (st_Draws s)"
      by (rule sessions_put [OF _ l(1) so']) (use ok ids in \<open>auto simp: state_ok_def\<close>)
    then have "state_ok ty env s'"
      using ok s' by (simp add: state_ok_def subs_ok_def)
    moreover have "frame_set s' = other_frames (st_Sessions s) sid \<union> (set (frame_ids sess) - {f})"
      using frame_set_upd [of s' sid sess' s] s' ids by simp
    moreover have "frame_set s = other_frames (st_Sessions s) sid \<union> set (frame_ids sess)"
      using frame_set_split [of s sid] l by simp
    moreover have "other_frames (st_Sessions s) sid \<inter> set (frame_ids sess) = {}"
      using other_frames_disjoint [of ty env "st_Sessions s" "st_Draws s" sid] ok l by (simp add: state_ok_def)
    ultimately show ?thesis using effs s' l(4) by (auto simp: shrinks_def)
  qed
qed

section \<open>New sessions and frames\<close>

lemma alloc_simps [simp]:
  "allocSessionID env s = (env_Rand env (st_Draws s), s\<lparr> st_Draws := Suc (st_Draws s) \<rparr>)"
  "allocFrameID env s = (env_Rand env (st_Draws s), s\<lparr> st_Draws := Suc (st_Draws s) \<rparr>)"
  by (simp_all add: allocSessionID_def allocFrameID_def)

lemma fresh_not_Nil: "fresh_ids env \<Longrightarrow> env_Rand env n \<noteq> [] \<and> [] \<noteq> env_Rand env n"
  by (metis fresh_ids_def)

lemma new_session_grows:
  assumes ok: "state_ok ty env s" and fr: "fresh_ids env" and n: "st_Draws s = n"
    and frame: "fr_ID frame = env_Rand env (Suc n)" "frame_typed ty (env_Registry env) frame"
    and sess: "se_ID sess = env_Rand env n" "se_Frames sess = [frame]"
      "se_HeadFrameID sess = env_Rand env (Suc n)" "se_MRUFrameIDs sess = []"
    and s': "s' = s\<lparr> st_Draws := Suc (Suc n), st_Sessions := fmupd (env_Rand env n) sess (st_Sessions s) \<rparr>"
  shows "grows ty env s s' [spawnEffect (env_Rand env n) (env_Rand env (Suc n)) plan c r]"
proof -
  let ?f = "env_Rand env (Suc n)"
  have ids: "frame_ids sess = [?f]" using sess frame by (simp add: frame_ids_def)
  have new: "?f \<notin> drawn env n"
    using fresh_not_drawn [OF fr, of "Suc n"] drawn_mono [of n "Suc n" env] by auto
  have so: "session_ok ty (env_Registry env) (env_Rand env n) sess"
    using sess frame ids fresh_not_Nil [OF fr] by (simp add: session_ok_def)
  have "sessions_ok ty env (fmupd (env_Rand env n) sess (st_Sessions s)) (Suc (Suc n))"
    by (rule sessions_upd [OF _ _ so, where N = "{?f}" and n = n])
      (use ok n new ids in \<open>auto simp: state_ok_def drawn_def\<close>)
  then have ok': "state_ok ty env s'"
    using ok s' by (simp add: state_ok_def subs_ok_def)
  have none: "fmlookup (st_Sessions s) (env_Rand env n) = None"
  proof (rule ccontr)
    assume "fmlookup (st_Sessions s) (env_Rand env n) \<noteq> None"
    then have "env_Rand env n \<in> drawn env n" using ok n by (auto simp: state_ok_def sessions_ok_def)
    then show False using fresh_not_drawn [OF fr] by blast
  qed
  have "frame_set s' = frame_set s \<union> {?f}"
    using frame_set_upd [of s' "env_Rand env n" sess s] frame_set_split [of s "env_Rand env n"] s' ids none
    by simp
  moreover have "?f \<notin> frame_set s"
    using frame_set_drawn [OF ok] new n by blast
  ultimately show ?thesis using ok' s' by (auto simp: grows_def)
qed

lemma new_frame_grows:
  assumes ok: "state_ok ty env s" and fr: "fresh_ids env" and n: "st_Draws s = n"
    and l: "fmlookup (st_Sessions s) sid = Some sess"
    and frame: "fr_ID frame = env_Rand env n" "frame_typed ty (env_Registry env) frame"
    and s': "s' = s\<lparr> st_Draws := Suc n, st_Sessions := fmupd sid
      ((pushMRU sess h)\<lparr> se_HeadFrameID := env_Rand env n, se_Frames := se_Frames sess @ [frame] \<rparr>)
      (st_Sessions s) \<rparr>"
  shows "grows ty env s s' [spawnEffect sid (env_Rand env n) plan c r]"
proof -
  let ?f = "env_Rand env n"
  let ?sess = "(pushMRU sess h)\<lparr> se_HeadFrameID := ?f, se_Frames := se_Frames sess @ [frame] \<rparr>"
  have so: "session_ok ty (env_Registry env) sid sess" and dr: "sid \<in> drawn env n"
    using ok l n by (auto simp: state_ok_def sessions_ok_def)
  have new: "?f \<notin> drawn env n" by (rule fresh_not_drawn [OF fr])
  have nf: "?f \<notin> frame_set s" using frame_set_drawn [OF ok] new n by blast
  then have "?f \<notin> set (frame_ids sess)" using frame_set_split [of s sid] l by simp
  then have so': "session_ok ty (env_Registry env) sid ?sess"
    using session_ok_push [OF so _ _ frame] fresh_not_Nil [OF fr] by simp
  have ids: "set (frame_ids ?sess) = set (frame_ids sess) \<union> {?f}"
    using frame by (auto simp: frame_ids_def)
  have "sessions_ok ty env (fmupd sid ?sess (st_Sessions s)) (Suc n)"
    by (rule sessions_upd [OF _ _ so', where N = "{?f}" and n = n])
      (use ok n new ids l dr drawn_mono [of n "Suc n" env] in \<open>auto simp: state_ok_def drawn_def\<close>)
  then have ok': "state_ok ty env s'"
    using ok s' by (simp add: state_ok_def subs_ok_def)
  have "frame_set s' = frame_set s \<union> {?f}"
    using frame_set_upd [of s' sid ?sess s] frame_set_split [of s sid] s' ids l by auto
  with nf ok' s' show ?thesis by (auto simp: grows_def)
qed

section \<open>The handlers that launch frames\<close>

lemma frame_typedI:
  "GetDriver reg (fr_Command f) = Some d \<Longrightarrow> fr_Driver f = Some ds \<Longrightarrow>
     ty ds = ty (drv_NewState d zero_time) \<Longrightarrow> frame_typed ty reg f"
  by (simp add: frame_typed_def)

context driver_registry
begin

lemma prepare_typed:
  assumes "GetDriver reg command = Some d" "prepareSessionDriver s d sid project command' options = Inr (ds, l)"
  shows "ty ds = ty (drv_NewState d zero_time)"
proof (cases "drv_PrepareCreate d")
  case None
  with assms driver_contract.new_ty [OF contract [OF assms(1)]] show ?thesis
    by (auto simp: prepareSessionDriver_def Let_def)
next
  case (Some prepare)
  with assms(2) have "prepare (drv_NewState d (st_Now s)) sid project command' options = Inr (ds, l)"
    by (simp add: prepareSessionDriver_def)
  with Some driver_contract.create_ty [OF contract [OF assms(1)]] show ?thesis by blast
qed

lemma inherit_typed:
  assumes "GetDriver reg command = Some d"
  shows "ty (inherit_start_dir rd rs d ds) = ty ds"
  using driver_contract.start_dir_ty [OF contract [OF assms]]
  by (auto simp: inherit_start_dir_def Let_def split: option.splits)

lemma create_grows:
  assumes env: "env_Registry env = reg" and ok: "state_ok ty env s" and fr: "fresh_ids env"
    and red: "reduceCreateSession env s c r p = (s', effs)"
  shows "grows ty env s s' effs" "replies c r effs = 1"
proof -
  let ?command = "resolveCreateCommand s (csp_Command p)"
  let ?s = "s\<lparr> st_Draws := Suc (st_Draws s) \<rparr>"
  have "grows ty env s s' effs \<and> replies c r effs = 1"
  proof (cases "csp_Project p = [] \<or> GetDriver reg ?command = None")
    case True
    then show ?thesis
      using red env ok
      by (auto simp: reduceCreateSession_def Let_def intro!: grows_same split: if_splits)
  next
    case False
    then obtain d where d: "csp_Project p \<noteq> []" "GetDriver reg ?command = Some d" by auto
    let ?sid = "env_Rand env (st_Draws s)"
    show ?thesis
    proof (cases "prepareSessionDriver ?s d ?sid (csp_Project p) ?command (csp_Options p)")
      case (Inl err)
      then show ?thesis
        using red env ok d
        by (auto simp: reduceCreateSession_def Let_def intro!: grows_same split: if_splits)
    next
      case (Inr dl)
      obtain ds l where dl: "dl = (ds, l)" by (cases dl)
      have t: "ty ds = ty (drv_NewState d zero_time)" using prepare_typed d(2) Inr dl by blast
      let ?launch = "drv_PrepareLaunch d ds LaunchModeCreate (csp_Project p) (cl_Command l) (cl_Options l)
        (isSandboxed (?s\<lparr> st_Draws := Suc (Suc (st_Draws s)) \<rparr>) (csp_Project p) (csp_Sandbox p))"
      show ?thesis
      proof (cases ?launch)
        case (Inl err)
        then show ?thesis
          using red env ok d Inr dl
          by (auto simp: reduceCreateSession_def Let_def intro!: grows_same split: if_splits)
      next
        case (Inr plan)
        note eqs = red [unfolded reduceCreateSession_def] d env \<open>prepareSessionDriver _ _ _ _ _ _ = Inr dl\<close> dl Inr
        have ft: "frame_typed ty (env_Registry env) f"
          if "fr_Command f = ?command" "fr_Driver f = Some ds" for f
          using that d t env by (simp add: frame_typed_def)
        have "grows ty env s s' effs"
          using eqs by (auto simp: Let_def intro!: new_session_grows [OF ok fr refl] ft)
        moreover have "replies c r effs = 1"
          using eqs by (auto simp: Let_def)
        ultimately show ?thesis by simp
      qed
    qed
  qed
  then show "grows ty env s s' effs" "replies c r effs = 1" by auto
qed

lemma push_result:
  assumes env: "env_Registry env = reg" and ok: "state_ok ty env s" and fr: "fresh_ids env"
    and red: "pushDriverInternal env s sid project raw options input c r = (s', res)"
  shows "case res of Inl _ \<Rightarrow> st_Draws s \<le> st_Draws s'
    | Inr effs \<Rightarrow> grows ty env s s' effs \<and> (\<exists>f plan. effs = [spawnEffect sid f plan c r])"
proof (cases "fmlookup (st_Sessions s) sid")
  case None
  then show ?thesis using red by (auto simp: pushDriverInternal_def)
next
  case (Some sess)
  note l = Some
  let ?command = "resolveCreateCommand s raw"
  let ?project = "if project = [] then se_Project sess else project"
  let ?prep = "\<lambda>d. prepareSessionDriver s d sid ?project ?command (options\<lparr> lo_InitialInput := input \<rparr>)"
  consider (err) "GetDriver reg ?command = None \<or> (\<exists>d e. GetDriver reg ?command = Some d \<and> ?prep d = Inl e)"
    | (ok) d ds cl where "GetDriver reg ?command = Some d" "?prep d = Inr (ds, cl)"
    by (metis old.sum.exhaust option.exhaust surj_pair)
  then show ?thesis
  proof cases
    case err
    then show ?thesis
      using red l env by (auto simp: pushDriverInternal_def Let_def)
  next
    case (ok d ds cl)
    define ds' where "ds' = (case rootFrame sess of None \<Rightarrow> ds | Some rootF \<Rightarrow>
      inherit_start_dir (get_driver env (fr_Command rootF)) (fr_Driver rootF) d ds)"
    have t: "ty ds' = ty (drv_NewState d zero_time)"
      using prepare_typed [OF ok] inherit_typed [OF ok(1)] by (simp add: ds'_def split: option.split)
    have ft: "frame_typed ty (env_Registry env) f"
      if "fr_Command f = ?command" "fr_Driver f = Some ds'" for f
      using that ok(1) t env by (simp add: frame_typed_def)
    let ?f = "env_Rand env (st_Draws s)"
    let ?frame = "\<lparr> fr_ID = ?f, fr_SubsystemID = [], fr_TargetID = ?f, fr_Project = ?project,
      fr_Command = ?command, fr_LaunchOptions = zero_options, fr_CreatedAt = st_Now s, fr_Driver = Some ds' \<rparr>"
    let ?sess = "(pushMRU sess (se_HeadFrameID sess))\<lparr> se_HeadFrameID := ?f, se_Frames := se_Frames sess @ [?frame] \<rparr>"
    let ?s = "s\<lparr> st_Draws := Suc (st_Draws s), st_Sessions := fmupd sid ?sess (st_Sessions s) \<rparr>"
    have red': "(s', res) =
      (case drv_PrepareLaunch d ds' LaunchModeCreate ?project (cl_Command cl) (cl_Options cl)
              (isSandboxed ?s ?project (se_Sandbox sess)) of
         Inl err \<Rightarrow> (?s, Inl err)
       | Inr plan \<Rightarrow>
           (s\<lparr> st_Draws := Suc (st_Draws s), st_Sessions := fmupd sid
              ((pushMRU sess (se_HeadFrameID sess))\<lparr> se_HeadFrameID := ?f,
                 se_Frames := se_Frames sess @ [?frame\<lparr> fr_LaunchOptions := lp_Options plan \<rparr>] \<rparr>)
              (st_Sessions s) \<rparr>,
            Inr [spawnEffect sid ?f (plan\<lparr> lp_Project := ?project, lp_Sandbox := se_Sandbox sess \<rparr>) c r]))"
      using red l env ok ds'_def [symmetric]
      by (simp add: pushDriverInternal_def Let_def cong: sum.case_cong)
    show ?thesis
    proof (cases "drv_PrepareLaunch d ds' LaunchModeCreate ?project (cl_Command cl) (cl_Options cl)
              (isSandboxed ?s ?project (se_Sandbox sess))")
      case (Inl err)
      with red' show ?thesis by simp
    next
      case (Inr plan)
      with red' show ?thesis
        by (auto intro!: new_frame_grows [OF \<open>state_ok ty env s\<close> fr refl l] ft)
    qed
  qed
qed

end

end
