(* ===== verification/Client_Props.thy ===== *)
theory Client_Props
  imports Client_Trans
begin

text \<open>
  The properties of the client's \<open>Reduce\<close> that hold for every set of drivers that keeps the driver
  contract: it never panics on an event the daemon can receive, it keeps the invariant, frames are
  spawned and torn down exactly as they enter and leave the state, every request is answered exactly
  once, and the surface relays follow the subscriptions.
\<close>

section \<open>The remaining handlers\<close>

lemma resolveForkDrv_Inl:
  "resolveForkDrv env s c r rootF = Inl errs \<Longrightarrow> \<exists>code m. errs = [errResp c r code m]"
  by (auto simp: resolveForkDrv_def Let_def split: option.splits)

context driver_registry
begin

lemma push_ok:
  assumes env: "env_Registry env = reg" and ok: "state_ok ty env s" and fr: "fresh_ids env"
    and red: "reducePushDriver env s c r p = (s', effs)"
  shows "grows ty env s s' effs" "replies c r effs = 1"
proof -
  obtain t res where t: "pushDriverInternal env s (pdp_SessionID p) (pdp_Project p) (pdp_Command p)
      (pdp_Options p) (pdp_Input p) c r = (t, res)" by fastforce
  note pr = push_result [OF env ok fr t]
  have "grows ty env s s' effs \<and> replies c r effs = 1"
  proof (cases "pdp_SessionID p = [] \<or> fmlookup (st_Sessions s) (pdp_SessionID p) = None")
    case True
    with red ok show ?thesis by (auto simp: reducePushDriver_def Let_def inert_grows split: if_splits)
  next
    case False
    with red t pr ok show ?thesis
      by (auto simp: reducePushDriver_def Let_def keep_draws_def intro!: grows_same split: sum.splits)
  qed
  then show "grows ty env s s' effs" "replies c r effs = 1" by auto
qed

lemma resolve_push_ok:
  assumes env: "env_Registry env = reg" and fr: "fresh_ids env"
  shows "state_ok ty env s \<Longrightarrow> list_all driver_effect raw \<Longrightarrow> resolve_push env s raw effs = (s', effs') \<Longrightarrow>
    \<exists>new. effs' = effs @ new \<and> grows ty env s s' new \<and> (\<forall>c r. (c, r) \<noteq> (0, []) \<longrightarrow> replies c r new = 0)"
proof (induction raw arbitrary: s effs)
  case Nil
  then show ?case by (auto simp: grows_refl)
next
  case (Cons e raw)
  show ?case
  proof (cases "\<exists>sid command. e = EffPushDriver sid command")
    case True
    then obtain sid command where e: "e = EffPushDriver sid command" by blast
    obtain t res where t: "pushDriverInternal env s sid [] command zero_options [] 0 [] = (t, res)" by fastforce
    note pr = push_result [OF env Cons.prems(1) fr t]
    show ?thesis
    proof (cases res)
      case (Inl err)
      have k: "grows ty env s (keep_draws s t) []"
        using pr Inl Cons.prems(1) by (auto simp: keep_draws_def intro: grows_same)
      then have "state_ok ty env (keep_draws s t)" by (simp add: grows_def)
      moreover have "resolve_push env (keep_draws s t) raw effs = (s', effs')"
        using Cons.prems(3) e t Inl by simp
      ultimately show ?thesis
        using Cons.IH [of "keep_draws s t" effs] Cons.prems(2) grows_trans [OF k] by fastforce
    next
      case (Inr new)
      then have g: "grows ty env s t new" and n: "\<exists>f plan. new = [spawnEffect sid f plan 0 []]"
        using pr by auto
      from g have "state_ok ty env t" by (simp add: grows_def)
      moreover have "resolve_push env t raw (effs @ new) = (s', effs')"
        using Cons.prems(3) e t Inr by simp
      ultimately obtain new' where "effs' = (effs @ new) @ new'" "grows ty env t s' new'"
        "\<forall>c r. (c, r) \<noteq> (0, []) \<longrightarrow> replies c r new' = 0"
        using Cons.IH [of t "effs @ new"] Cons.prems(2) by auto
      with grows_trans [OF g] n show ?thesis by (intro exI [of _ "new @ new'"]) auto
    qed
  next
    case False
    then have "resolve_push env s raw (effs @ [e]) = (s', effs')"
      using Cons.prems(3) by (cases e) auto
    then obtain new where n: "effs' = (effs @ [e]) @ new" "grows ty env s s' new"
      "\<forall>c r. (c, r) \<noteq> (0, []) \<longrightarrow> replies c r new = 0"
      using Cons.IH [of s "effs @ [e]"] Cons.prems(1,2) by auto
    have q: "list_all driver_effect [e]" using Cons.prems(2) by simp
    have "inert [e]" using driver_effs [OF q] by (simp add: inert_def)
    from grows_prefix [OF n(2) this] have "grows ty env s s' (e # new)" by simp
    with n driver_effs(3) [OF q] show ?thesis by (intro exI [of _ "e # new"]) auto
  qed
qed

lemma step_resolve:
  assumes env: "env_Registry env = reg" and ok: "state_ok ty env s" and fr: "fresh_ids env"
    and st: "stepDriver env s f ev = Some (t, raw)" "resolvePushDriverEffects env t raw = (s', effs)"
  shows "grows ty env s s' effs" "(c, r) \<noteq> (0, []) \<Longrightarrow> replies c r effs = 0"
proof -
  note k = stepDriver_ok [OF env ok st(1)]
  from k(1) have "state_ok ty env t" by (simp add: keeps_def)
  with resolve_push_ok [OF env fr this k(2), of "[]" s' effs] st(2)
  have g: "grows ty env t s' effs" and r: "\<forall>c r. (c, r) \<noteq> (0, []) \<longrightarrow> replies c r effs = 0"
    by (auto simp: resolvePushDriverEffects_def)
  have "grows ty env s t []" using k(1) by (simp add: keeps_grows)
  from grows_trans [OF this g] show "grows ty env s s' effs" by simp
  show "(c, r) \<noteq> (0, []) \<Longrightarrow> replies c r effs = 0" using r by blast
qed

lemma fork_ok:
  assumes env: "env_Registry env = reg" and ok: "state_ok ty env s" and fr: "fresh_ids env"
    and red: "reduceForkSession env s c r sid = (s', effs)"
  shows "grows ty env s s' effs" "replies c r effs = 1"
proof -
  have "grows ty env s s' effs \<and> replies c r effs = 1"
  proof (cases "\<exists>sess rootF d fk fd cmd. sid \<noteq> [] \<and> fmlookup (st_Sessions s) sid = Some sess \<and>
      rootFrame sess = Some rootF \<and> resolveForkDrv env s c r rootF = Inr (d, fk, fd, cmd)")
    case False
    then have "\<exists>code m. s' = s \<and> effs = [errResp c r code m]"
      using red resolveForkDrv_Inl [of env s c r]
      by (auto simp: reduceForkSession_def split: if_splits option.splits sum.splits)
    with ok show ?thesis by (auto intro!: inert_grows)
  next
    case True
    then obtain sess rootF d fk fd cmd where x: "sid \<noteq> []" "fmlookup (st_Sessions s) sid = Some sess"
      "rootFrame sess = Some rootF" "resolveForkDrv env s c r rootF = Inr (d, fk, fd, cmd)" by blast
    have d: "GetDriver reg (fr_Command rootF) = Some d" "drv_Forkable d = Some fk" "GetDriver reg cmd = Some fd"
      using x(4) env by (auto simp: resolveForkDrv_def Let_def split: option.splits)
    define ds where "ds = inherit_start_dir (Some d) (fr_Driver rootF) fd
      (fk_ForkChildState fk (fr_Driver rootF) (st_Now s))"
    have t: "ty ds = ty (drv_NewState d zero_time)"
      using inherit_typed [OF d(3)] driver_contract.fork_ty [OF contract [OF d(1)] d(2)] by (simp add: ds_def)
    have ft: "frame_typed ty (env_Registry env) f"
      if "fr_Command f = fr_Command rootF" "fr_Driver f = Some ds" for f
      using that d(1) t env by (simp add: frame_typed_def)
    have red': "spawnForkSession env s c r sess fd ds (fr_Command rootF) cmd zero_options = (s', effs)"
      using red x by (simp add: reduceForkSession_def buildForkSession_def ds_def)
    show ?thesis
    proof (cases "drv_PrepareLaunch fd ds LaunchModeCreate (se_Project sess) cmd zero_options
        (isSandboxed (s\<lparr> st_Draws := Suc (Suc (st_Draws s)) \<rparr>) (se_Project sess) (se_Sandbox sess))")
      case (Inl err)
      with red' ok show ?thesis by (auto simp: spawnForkSession_def Let_def intro!: grows_same)
    next
      case (Inr plan)
      let ?frame = "\<lparr> fr_ID = env_Rand env (Suc (st_Draws s)), fr_SubsystemID = [], fr_TargetID = [],
        fr_Project = se_Project sess, fr_Command = fr_Command rootF, fr_LaunchOptions = lp_Options plan,
        fr_CreatedAt = st_Now s, fr_Driver = Some ds \<rparr>"
      have "frame_typed ty (env_Registry env) ?frame" by (rule ft) simp_all
      with Inr red' show ?thesis
        by (auto simp: spawnForkSession_def makeForkSession_def Let_def
            intro!: new_session_grows [OF ok fr refl, where frame = ?frame])
    qed
  qed
  then show "grows ty env s s' effs" "replies c r effs = 1" by auto
qed

lemma spawned_ok:
  assumes env: "env_Registry env = reg" and ok: "state_ok ty env s"
    and red: "reduceFrameSpawned env s e = (s', effs)"
  shows "grows ty env s s' effs"
proof (cases "\<exists>sess k. fmlookup (st_Sessions s) (fs_SessionID e) = Some sess \<and>
    findFrameIndex sess (fs_FrameID e) = Some k")
  case False
  with red have "s' = s" "effs = []" by (auto simp: reduceFrameSpawned_def split: option.splits)
  with ok show ?thesis by (simp add: grows_refl)
next
  case True
  then obtain sess k where x: "fmlookup (st_Sessions s) (fs_SessionID e) = Some sess"
    "findFrameIndex sess (fs_FrameID e) = Some k" by blast
  let ?f = "se_Frames sess ! k"
  let ?rename = "fs_SubsystemID e \<noteq> [] \<and> fr_SubsystemID ?f \<noteq> fs_SubsystemID e"
  define frame where "frame = (if ?rename then ?f\<lparr> fr_SubsystemID := fs_SubsystemID e \<rparr> else ?f)"
  define t where "t = (if ?rename then put_frame s (fs_SessionID e) sess k frame else s)"
  define u where "u = (if fs_WorktreeStartDir e \<noteq> [] then
      (case stepDriver env t (fs_FrameID e) (DEvWorktreeResolved (fs_WorktreeStartDir e) (fs_WorktreeName e)) of
         None \<Rightarrow> t | Some (next, _) \<Rightarrow> next) else t)"
  obtain v boot where vb: "(if k = 0 then (case bootstrapDriverSessionStart env u (fs_FrameID e) of
      None \<Rightarrow> (u, []) | Some r \<Rightarrow> r) else (u, [])) = (v, boot)" by fastforce
  note kf = findFrameIndex_Some [OF x(2)]
  have typed: "frame_typed ty (env_Registry env) ?f"
    using ok x(1) kf by (auto simp: state_ok_def sessions_ok_def session_ok_def)
  have t: "keeps ty env s t"
  proof (cases ?rename)
    case True
    have "keeps ty env s (put_frame s (fs_SessionID e) sess k frame)"
      by (rule put_frame_keeps [OF ok x(1)]) (use kf typed in \<open>simp_all add: frame_def frame_typed_def\<close>)
    with True show ?thesis by (simp add: t_def)
  next
    case False
    then have "t = s" by (simp only: t_def if_False)
    then show ?thesis by (simp add: keeps_refl [OF ok])
  qed
  then have "state_ok ty env t" by (simp add: keeps_def)
  then have "keeps ty env t u"
    using stepDriver_ok(1) [OF env, of t] keeps_refl [of ty env t] by (simp add: u_def split: option.split)
  with t have u: "keeps ty env s u" by (rule keeps_trans)
  then have "state_ok ty env u" by (simp add: keeps_def)
  then have "keeps ty env u v \<and> list_all driver_effect boot"
    using vb bootstrap_ok [OF env, of u] keeps_refl [of ty env u] by (simp split: option.splits if_splits)
  with u have g: "grows ty env s v boot" by (blast intro: keeps_grows keeps_trans)
  let ?qs = "[EffRegisterFrame (fs_FrameID e) (k = 0 \<or> fr_SubsystemID frame \<noteq> []),
      EffPersistSnapshot, EffBroadcastSessionsChanged] @
    (if fs_ReplyConn e \<noteq> 0 then
       [okResp (fs_ReplyConn e) (fs_ReplyReqID e) (CreateSessionReply (fs_SessionID e))] else [])"
  have "reduceFrameSpawned env s e = (v, boot @ ?qs)"
    by (simp only: reduceFrameSpawned_def Let_def x option.case frame_def [symmetric] t_def [symmetric]
        u_def [symmetric] vb prod.case)
  with red have "s' = v" "effs = boot @ ?qs" by simp_all
  with grows_inert [OF g, of ?qs] show ?thesis by simp
qed

lemma hook_ok:
  assumes env: "env_Registry env = reg" and ok: "state_ok ty env s" and fr: "fresh_ids env"
    and red: "reduceDriverHook env s c r event t f payload = (s', effs)"
  shows "grows ty env s s' effs" "c \<noteq> 0 \<Longrightarrow> replies c r effs = 1"
proof -
  let ?step = "stepDriver env s f (DEvHook event t f payload)"
  have "grows ty env s s' effs \<and> (c \<noteq> 0 \<longrightarrow> replies c r effs = 1)"
  proof (cases "f = [] \<or> findFrame s f = None \<or> ?step = None")
    case True
    with red have "\<exists>code m. s' = s \<and> effs = [errResp c r code m]"
      by (auto simp: reduceDriverHook_def split: if_splits)
    with ok show ?thesis by (auto intro!: inert_grows)
  next
    case False
    then obtain u raw where u: "f \<noteq> []" "findFrame s f \<noteq> None" "?step = Some (u, raw)" by auto
    obtain v new where v: "resolvePushDriverEffects env u raw = (v, new)" by fastforce
    note sr = step_resolve [OF env ok fr u(3) v]
    have "s' = v" "effs = new @ [EffPersistSnapshot, EffBroadcastSessionsChanged] @
        (if c \<noteq> 0 then [okResp c r NoBody] else [])"
      using red u v by (auto simp: reduceDriverHook_def)
    with sr grows_inert [OF sr(1)] show ?thesis by auto
  qed
  then show "grows ty env s s' effs" "c \<noteq> 0 \<Longrightarrow> replies c r effs = 1" by auto
qed

lemma subsystem_ok:
  assumes env: "env_Registry env = reg" and ok: "state_ok ty env s" and fr: "fresh_ids env"
    and red: "reduceSubsystem env s c r f source kind t payload = (s', effs)"
  shows "grows ty env s s' effs" "c \<noteq> 0 \<Longrightarrow> replies c r effs = 1"
proof -
  have "grows ty env s s' effs \<and> (c \<noteq> 0 \<longrightarrow> replies c r effs = 1)"
  proof (cases "f = [] \<or> findFrame s f = None")
    case True
    with red have "\<exists>code m. s' = s \<and> effs = [errResp c r code m]"
      by (auto simp: reduceSubsystem_def split: if_splits)
    with ok show ?thesis by (auto intro!: inert_grows)
  next
    case False
    then obtain sid sess k where ff: "f \<noteq> []" "findFrame s f = Some (sid, sess, k)" by auto
    note l = findFrame_Some [OF ff(2)]
    let ?frame = "se_Frames sess ! k"
    define u where "u = (if pl_TargetID payload \<noteq> [] \<and> pl_TargetID payload \<noteq> fr_TargetID ?frame then
      put_frame s sid sess k (?frame\<lparr> fr_TargetID := pl_TargetID payload \<rparr>) else s)"
    have typed: "frame_typed ty (env_Registry env) ?frame"
      using ok l(1,2) by (auto simp: state_ok_def sessions_ok_def session_ok_def)
    have k: "keeps ty env s u"
      using typed ok l by (auto simp: u_def frame_typed_def intro!: put_frame_keeps [OF ok l(1)] keeps_refl)
    then have ok': "state_ok ty env u" by (simp add: keeps_def)
    have g0: "grows ty env s u []" using k by (simp add: keeps_grows)
    have red': "(case stepDriver env u f (DEvSubsystem source kind t payload) of
        None \<Rightarrow> (u, [errResp c r ErrCodeInternal ''no driver for session''])
      | Some (v, raw) \<Rightarrow> (case resolvePushDriverEffects env v raw of (w, new) \<Rightarrow>
          (w, new @ [EffPersistSnapshot, EffBroadcastSessionsChanged] @
              (if c \<noteq> 0 then [okResp c r NoBody] else [])))) = (s', effs)"
      using red by (simp only: reduceSubsystem_def ff if_False option.case prod.case Let_def u_def [symmetric])
    show ?thesis
    proof (cases "stepDriver env u f (DEvSubsystem source kind t payload)")
      case None
      then show ?thesis using red' grows_inert [OF g0] by auto
    next
      case (Some vr)
      obtain v raw where vr: "vr = (v, raw)" by (cases vr)
      obtain w new where w: "resolvePushDriverEffects env v raw = (w, new)" by fastforce
      note sr = step_resolve [OF env ok' fr Some [unfolded vr] w]
      have "s' = w" "effs = new @ [EffPersistSnapshot, EffBroadcastSessionsChanged] @
          (if c \<noteq> 0 then [okResp c r NoBody] else [])"
        using red' Some vr w by auto
      with sr grows_inert [OF grows_trans [OF g0 sr(1)]] show ?thesis by auto
    qed
  qed
  then show "grows ty env s s' effs" "c \<noteq> 0 \<Longrightarrow> replies c r effs = 1" by auto
qed

lemma tick_grows:
  assumes env: "env_Registry env = reg" and ok: "state_ok ty env s"
    and red: "reduceTick env s now n = (s', effs)"
  shows "grows ty env s s' effs"
proof -
  let ?s = "s\<lparr> st_Now := now \<rparr>"
  let ?mk = "\<lambda>seq sessID sess watched.
    (DEvTick now watched (case rootFrame sess of None \<Rightarrow> [] | Some f \<Rightarrow> fr_Project f) n seq, seq + 1 :: 64 word)"
  obtain t es ch where t: "step_sessions env ?mk (sorted_keys (st_Sessions s)) 0 ?s [] False = (t, es, ch)"
    by (cases "step_sessions env ?mk (sorted_keys (st_Sessions s)) 0 ?s [] False")
  have ok': "state_ok ty env ?s" using ok by (auto intro: state_ok_same)
  have d: "list_all driver_effect []" by simp
  note k = step_sessions_ok [OF env ok' d t]
  have g: "grows ty env s t es"
    by (rule grows_from_same [OF keeps_grows [OF k]]) simp_all
  have "s' = t" "\<exists>qs. effs = es @ qs \<and> inert qs"
    using red t by (auto simp: reduceTick_def stepActiveSessions_def)
  with grows_inert [OF g] show ?thesis by auto
qed

lemma step_grows:
  assumes env: "env_Registry env = reg" and ok: "state_ok ty env s"
    and st: "stepDriver env s f ev = Some (s', raw)" and "inert pre" "inert post"
  shows "grows ty env s s' (pre @ raw @ post)"
  using keeps_grows [OF stepDriver_ok [OF env ok st]] assms(4,5) by (simp add: grows_inert grows_prefix)

lemma exited_ok:
  assumes env: "env_Registry env = reg" and ok: "state_ok ty env s"
  shows "\<exists>s' effs. reduceFrameCommandExited env s f code = Some (s', effs) \<and>
    (grows ty env s s' effs \<or> shrinks ty env s s' effs)"
proof (cases "findFrame s f")
  case None
  then show ?thesis using ok by (auto simp: reduceFrameCommandExited_def grows_refl)
next
  case (Some x)
  obtain sid sess k where ff: "findFrame s f = Some (sid, sess, k)" using Some by (cases x) auto
  note l = findFrame_Some [OF ff]
  let ?frame = "se_Frames sess ! k"
  show ?thesis
  proof (cases "isIntentionalExit code")
    case True
    obtain t es where t: "evictFrame s f True = Some (t, es)" using ff by (fastforce simp: evictFrame_def)
    with True ff evictFrame_shrinks [OF ok t] show ?thesis by (auto simp: reduceFrameCommandExited_def)
  next
    case False
    let ?exited = "case stepDriver env s f (DEvCommandExited code (st_Now s)) of
        None \<Rightarrow> (s, [EffReleaseFrameSandbox f])
      | Some (next, raw) \<Rightarrow> (next, raw @ [EffReleaseFrameSandbox f])"
    obtain t es where t: "?exited = (t, es)" by fastforce
    have g: "grows ty env s t es"
      using t ok step_grows [OF env ok, of f _ _ _ "[]" "[EffReleaseFrameSandbox f]"]
      by (auto simp: inert_grows split: option.splits)
    have typed: "frame_typed ty reg ?frame"
      using ok l(1,2) env by (auto simp: state_ok_def sessions_ok_def session_ok_def)
    have st: "drv_Status d ds \<noteq> None" if d: "get_driver env (fr_Command ?frame) = Some d" "fr_Driver ?frame = Some ds" for d ds
      using driver_contract.status_own [OF contract, of _ d ds] d typed env by (auto simp: frame_typed_def)
    show ?thesis
      using False ff t g ok
      by (auto simp: reduceFrameCommandExited_def Let_def intro: grows_refl dest: st split: option.split)
  qed
qed

lemma job_grows:
  assumes env: "env_Registry env = reg" and ok: "state_ok ty env s"
    and red: "reduceJobResult env s j res err = (s', effs)"
  shows "grows ty env s s' effs"
proof (cases "fmlookup (st_Jobs s) j")
  case None
  then show ?thesis using red ok by (simp add: reduceJobResult_def grows_refl)
next
  case (Some m)
  let ?s = "s\<lparr> st_Jobs := fmdrop j (st_Jobs s) \<rparr>"
  have ok': "state_ok ty env ?s" using ok by (auto intro: state_ok_same)
  have "grows ty env ?s s' effs"
    using red Some step_grows [OF env ok', of "jm_FrameID m" _ _ _ "[]" "[EffPersistSnapshot, EffBroadcastSessionsChanged]"]
    by (auto simp: reduceJobResult_def Let_def grows_refl [OF ok'] split: option.splits)
  then show ?thesis by (rule grows_from_same) simp_all
qed

lemma file_grows:
  assumes env: "env_Registry env = reg" and ok: "state_ok ty env s"
    and red: "reduceFileChanged env s f path = (s', effs)"
  shows "grows ty env s s' effs"
  using red ok step_grows [OF env ok, of f _ _ _ "[]" "[EffPersistSnapshot, EffBroadcastSessionsChanged]"]
    step_grows [OF env ok, of f _ _ _ "[]" "[]"]
  by (auto simp: reduceFileChanged_def intro: grows_refl split: option.splits if_splits)

lemma refresh_suffix:
  "\<exists>qs. appendMissingSessionRefreshEffects effs = effs @ qs \<and> inert qs"
  by (auto simp: appendMissingSessionRefreshEffects_def Let_def)

lemma step_or_same_grows:
  assumes env: "env_Registry env = reg" and ok: "state_ok ty env s"
    and "step_or_same env s f ev = (s', raw)"
  shows "grows ty env s s' (appendMissingSessionRefreshEffects ([EffEventLogAppend f line] @ raw))"
proof -
  obtain qs where qs: "appendMissingSessionRefreshEffects ([EffEventLogAppend f line] @ raw) =
      ([EffEventLogAppend f line] @ raw) @ qs" "inert qs" using refresh_suffix by metis
  show ?thesis
  proof (cases "stepDriver env s f ev")
    case None
    with assms(3) have "s' = s" "raw = []" by (auto simp: step_or_same_def)
    with qs ok show ?thesis by (auto intro!: inert_grows)
  next
    case (Some x)
    with assms(3) have "stepDriver env s f ev = Some (s', raw)" by (simp add: step_or_same_def)
    from step_grows [OF env ok this, of "[EffEventLogAppend f line]" qs] qs show ?thesis by simp
  qed
qed

lemma osc_grows:
  assumes env: "env_Registry env = reg" and ok: "state_ok ty env s"
    and red: "reduceFrameOsc env s f cmd title body now = (s', effs)"
  shows "grows ty env s s' effs"
  using red ok step_or_same_grows [OF env ok, of f "DEvFrameOsc cmd title [] now"]
  by (auto simp: reduceFrameOsc_def intro: grows_refl inert_grows split: if_splits prod.splits option.splits)

lemma prompt_grows:
  assumes env: "env_Registry env = reg" and ok: "state_ok ty env s"
    and red: "reduceFramePrompt env s f phase code now = (s', effs)"
  shows "grows ty env s s' effs"
proof -
  let ?s = "s\<lparr> st_Now := now \<rparr>"
  have ok': "state_ok ty env ?s" using ok by (auto intro: state_ok_same)
  have "grows ty env ?s s' effs"
    using red ok' step_or_same_grows [OF env ok', of f "DEvFramePrompt phase code now"]
    by (auto simp: reduceFramePrompt_def Let_def intro: grows_refl split: if_splits prod.splits)
  then show ?thesis by (rule grows_from_same) simp_all
qed

end

lemma stop_ok:
  assumes ok: "state_ok ty env s" and red: "reduceStopSession s c r sid = (s', effs)"
  shows "grows ty env s s' effs \<or> shrinks ty env s s' effs" "replies c r effs = 1"
proof -
  have "(grows ty env s s' effs \<or> shrinks ty env s s' effs) \<and> replies c r effs = 1"
  proof (cases "fmlookup (st_Sessions s) sid")
    case None
    with red ok show ?thesis by (auto simp: reduceStopSession_def intro!: inert_grows)
  next
    case (Some sess)
    let ?effs = "[EffBroadcastSessionsChanged] @
      concat (map (\<lambda>frame. frameTeardownEffects (fr_ID frame) True) (se_Frames sess)) @
      [okResp c r NoBody, EffPersistSnapshot]"
    have "shrinks ty env s (s\<lparr> st_Sessions := fmdrop sid (st_Sessions s) \<rparr>) ?effs"
      by (rule drop_session_shrinks [OF ok Some]) (simp_all add: teardown_all frame_ids_def)
    moreover have "replies c r ?effs = 1" by (simp add: teardown_all)
    ultimately show ?thesis
      using red Some by (auto simp: reduceStopSession_def truncateFrames_def)
  qed
  then show "grows ty env s s' effs \<or> shrinks ty env s s' effs" "replies c r effs = 1" by auto
qed

lemma head_ok:
  assumes ok: "state_ok ty env s" and red: "reduceSetHeadFrame s c r p = (s', effs)"
  shows "grows ty env s s' effs" "replies c r effs = 1"
proof -
  have "grows ty env s s' effs \<and> replies c r effs = 1"
  proof (cases "\<exists>sess. fmlookup (st_Sessions s) (shp_SessionID p) = Some sess \<and>
      findFrameIndex sess (shp_FrameID p) \<noteq> None \<and> se_HeadFrameID sess \<noteq> shp_FrameID p")
    case False
    with red have "s' = s \<and> inert effs \<and> replies c r effs = 1"
      by (auto simp: reduceSetHeadFrame_def Let_def split: option.splits if_splits)
    with ok show ?thesis by (auto intro: inert_grows)
  next
    case True
    let ?sid = "shp_SessionID p"
    obtain sess where l: "fmlookup (st_Sessions s) ?sid = Some sess"
      "findFrameIndex sess (shp_FrameID p) \<noteq> None" "se_HeadFrameID sess \<noteq> shp_FrameID p"
      using True by blast
    let ?sess = "(pushMRU sess (se_HeadFrameID sess))\<lparr> se_HeadFrameID := shp_FrameID p \<rparr>"
    have so: "session_ok ty (env_Registry env) ?sid ?sess"
      by (rule session_ok_head) (use ok l in \<open>auto simp: state_ok_def sessions_ok_def findFrameIndex_mem\<close>)
    have ids: "frame_ids ?sess = frame_ids sess" by (simp add: frame_ids_def)
    have s': "s' = s\<lparr> st_Sessions := fmupd ?sid ?sess (st_Sessions s) \<rparr>"
      and effs: "effs = [okResp c r NoBody, EffPersistSnapshot, EffBroadcastSessionsChanged]"
      using red l by (auto simp: reduceSetHeadFrame_def Let_def)
    have "sessions_ok ty env (fmupd ?sid ?sess (st_Sessions s)) (st_Draws s)"
      by (rule sessions_put [OF _ l(1) so]) (use ok ids in \<open>auto simp: state_ok_def\<close>)
    moreover have "frame_set s' = frame_set s"
      using frame_set_upd [of s' ?sid ?sess s] frame_set_split [of s ?sid] s' ids l(1) by simp
    ultimately have "keeps ty env s s'"
      using ok s' by (simp add: keeps_def state_ok_def subs_ok_def)
    from grows_inert [OF keeps_grows [OF this], of "[]" effs] effs show ?thesis by simp
  qed
  then show "grows ty env s s' effs" "replies c r effs = 1" by auto
qed

section \<open>Subscriptions\<close>

definition good :: "('ds \<Rightarrow> 'ty) \<Rightarrow> 'ds env \<Rightarrow> 'ds state \<Rightarrow> 'ds state \<Rightarrow> effect list \<Rightarrow> bool" where
  "good ty env s s' effs \<longleftrightarrow>
     state_ok ty env s' \<and> spawned effs = frame_set s' - frame_set s \<and>
     unregistered effs = frame_set s - frame_set s' \<and> unregistered effs \<subseteq> released effs \<and>
     foldl relay_step (relays s) effs = relays s'"

lemma relays_same: "st_SurfaceSubs s' = st_SurfaceSubs s \<Longrightarrow> relays s' = relays s"
  by (simp add: relays_def surface_subs_def)

lemma grows_good: "grows ty env s s' effs \<Longrightarrow> good ty env s s' effs"
  using relays_same [of s' s] by (auto simp: grows_def good_def)

lemma shrinks_good: "shrinks ty env s s' effs \<Longrightarrow> good ty env s s' effs"
  using relays_same [of s' s] by (auto simp: shrinks_def good_def)

lemma foldl_stops: "foldl relay_step R (map (EffSurfaceSubscribeStop c) xs) = R - {c} \<times> set xs"
  by (induction xs arbitrary: R) auto

lemma stops_quiet:
  "spawned (map (EffSurfaceSubscribeStop c) xs) = {}" "unregistered (map (EffSurfaceSubscribeStop c) xs) = {}"
  by (induction xs) auto

lemma surface_good:
  assumes "state_ok ty env s" "s' = s\<lparr> st_SurfaceSubs := m \<rparr>"
    and "\<And>c X. fmlookup m c = Some X \<Longrightarrow> X \<noteq> {||} \<and> fcard X \<le> 8"
    and "spawned effs = {}" "unregistered effs = {}" "foldl relay_step (relays s) effs = relays s'"
  shows "good ty env s s' effs"
  using assms by (auto simp: good_def state_ok_def subs_ok_def frame_set_def)

lemma surface_subs_upd [simp]:
  "surface_subs (s\<lparr> st_SurfaceSubs := fmupd c X m \<rparr>) = (surface_subs (s\<lparr> st_SurfaceSubs := m \<rparr>))(c := X)"
  "surface_subs (s\<lparr> st_SurfaceSubs := fmdrop c m \<rparr>) = (surface_subs (s\<lparr> st_SurfaceSubs := m \<rparr>))(c := {||})"
  by (auto simp: surface_subs_def fun_eq_iff)

lemma subscribe_ok:
  assumes ok: "state_ok ty env s" and red: "reduceSurfaceSubscribe s c r sid = (s', effs)"
  shows "good ty env s s' effs" "replies c r effs = 1"
proof -
  have cap: "fcard (surface_subs s c) \<le> 8 \<and> (\<forall>c X. fmlookup (st_SurfaceSubs s) c = Some X \<longrightarrow> X \<noteq> {||} \<and> fcard X \<le> 8)"
    using ok by (auto simp: state_ok_def subs_ok_def surface_subs_def fcard.rep_eq split: option.split)
  have "good ty env s s' effs \<and> replies c r effs = 1"
  proof (cases "\<exists>sess. fmlookup (st_Sessions s) sid = Some sess \<and> headFrame sess \<noteq> None \<and>
      sid |\<notin>| surface_subs s c \<and> fcard (surface_subs s c) < 8")
    case False
    with red have "s' = s \<and> inert effs \<and> replies c r effs = 1"
      by (auto simp: reduceSurfaceSubscribe_def session_missing_def Let_def split: option.splits if_splits)
    with ok show ?thesis by (auto intro: grows_good inert_grows)
  next
    case True
    then have s': "s' = s\<lparr> st_SurfaceSubs := fmupd c (finsert sid (surface_subs s c)) (st_SurfaceSubs s) \<rparr>"
      and effs: "effs = [EffSurfaceSubscribeStart c sid, okResp c r NoBody]"
      using red by (auto simp: reduceSurfaceSubscribe_def Let_def)
    have "fcard (finsert sid (surface_subs s c)) \<le> 8"
      using True fcard_finsert_le_Suc [of sid "surface_subs s c"] by auto
    then have "good ty env s s' effs"
      by (intro surface_good [OF ok s'])
        (use cap effs s' in \<open>auto simp: relays_def split: if_splits\<close>)
    then show ?thesis using effs by simp
  qed
  then show "good ty env s s' effs" "replies c r effs = 1" by auto
qed

lemma fminus_subset: "A |-| B |\<subseteq>| A"
  by auto

lemma unsubscribe_ok:
  assumes ok: "state_ok ty env s" and red: "reduceSurfaceUnsubscribe s c r sid = (s', effs)"
  shows "good ty env s s' effs" "replies c r effs = 1"
proof -
  have cap: "fcard (surface_subs s c) \<le> 8" "\<And>c X. fmlookup (st_SurfaceSubs s) c = Some X \<Longrightarrow> X \<noteq> {||} \<and> fcard X \<le> 8"
    using ok by (auto simp: state_ok_def subs_ok_def surface_subs_def fcard.rep_eq split: option.split)
  have "good ty env s s' effs \<and> replies c r effs = 1"
  proof (cases "sid |\<in>| surface_subs s c")
    case False
    with red have "s' = s" "effs = [okResp c r NoBody]" by (auto simp: reduceSurfaceUnsubscribe_def)
    with ok show ?thesis by (auto intro!: grows_good inert_grows)
  next
    case True
    let ?rest = "surface_subs s c |-| {|sid|}"
    have s': "s' = s\<lparr> st_SurfaceSubs := (if ?rest = {||} then fmdrop c (st_SurfaceSubs s)
        else fmupd c ?rest (st_SurfaceSubs s)) \<rparr>"
      and effs: "effs = [EffSurfaceSubscribeStop c sid, okResp c r NoBody]"
      using red True by (auto simp: reduceSurfaceUnsubscribe_def Let_def)
    have "fcard ?rest \<le> 8"
      using cap(1) fcard_mono [of ?rest "surface_subs s c", OF fminus_subset] by linarith
    moreover have "relays s - {(c, sid)} = relays s'"
      using s' by (auto simp: relays_def split: if_splits)
    ultimately have "good ty env s s' effs"
      by (intro surface_good [OF ok s']) (use cap(2) effs in \<open>auto split: if_splits\<close>)
    then show ?thesis using effs by simp
  qed
  then show "good ty env s s' effs" "replies c r effs = 1" by auto
qed

lemma conn_closed_ok:
  assumes ok: "state_ok ty env s" and red: "reduceConnClosed s c = (s', effs)"
  shows "good ty env s s' effs"
proof -
  define t where "t = (if fmlookup (st_Subscribers s) c \<noteq> None
    then s\<lparr> st_Subscribers := fmdrop c (st_Subscribers s) \<rparr> else s)"
  have t: "state_ok ty env t" using ok by (auto simp: t_def state_ok_def subs_ok_def)
  have same: "st_Sessions t = st_Sessions s" "st_SurfaceSubs t = st_SurfaceSubs s" by (simp_all add: t_def)
  show ?thesis
  proof (cases "fmlookup (st_SurfaceSubs s) c")
    case None
    with red have "s' = t" "effs = []" by (auto simp: reduceConnClosed_def t_def Let_def split: if_splits)
    with t same relays_same [of t s] show ?thesis by (simp add: good_def frame_set_def)
  next
    case (Some X)
    then have s': "s' = t\<lparr> st_SurfaceSubs := fmdrop c (st_SurfaceSubs s) \<rparr>"
      and effs: "effs = map (EffSurfaceSubscribeStop c) (sorted_list_of_fset X)"
      using red by (auto simp: reduceConnClosed_def t_def Let_def)
    have "relays s - {c} \<times> fset X = relays s'"
      using Some s' by (auto simp: relays_def surface_subs_def simp del: surface_subs_upd split: if_splits)
    moreover have "state_ok ty env s'"
      using t s' same by (auto simp: state_ok_def subs_ok_def)
    moreover have "frame_set s' = frame_set s" using same s' by (simp add: frame_set_def)
    ultimately show ?thesis using effs by (simp add: good_def foldl_stops stops_quiet)
  qed
qed

section \<open>Every event\<close>

text \<open>The request an event carries, if its sender waits for an answer.\<close>

fun request :: "event \<Rightarrow> (conn_id \<times> string) option" where
  "request (EvEvent c r _ _) = Some (c, r)"
| "request (EvDriverEvent c r _ _ _ _) = (if c = 0 then None else Some (c, r))"
| "request (EvSubsystem c r _ _ _ _ _) = (if c = 0 then None else Some (c, r))"
| "request (EvCmdSubscribe c r _) = Some (c, r)"
| "request (EvCmdUnsubscribe c r) = Some (c, r)"
| "request (EvCmdSurfaceReadText c r _ _) = Some (c, r)"
| "request (EvCmdSurfaceSendText c r _ _) = Some (c, r)"
| "request (EvCmdSurfaceSendKey c r _ _) = Some (c, r)"
| "request (EvCmdDriverList c r) = Some (c, r)"
| "request (EvCmdSurfaceSubscribe c r _) = Some (c, r)"
| "request (EvCmdSurfaceUnsubscribe c r _) = Some (c, r)"
| "request (EvCmdSurfaceResize c r _ _ _) = Some (c, r)"
| "request (EvCmdSurfaceWriteRaw c r _ _) = Some (c, r)"
| "request _ = None"

text \<open>The daemon turns a command into \<open>EvEvent\<close> only after it has checked that a handler exists.\<close>

fun receivable :: "'ds env \<Rightarrow> event \<Rightarrow> bool" where
  "receivable env (EvEvent _ _ event _) \<longleftrightarrow> IsRegisteredEvent env event"
| "receivable env _ \<longleftrightarrow> True"

definition answered :: "event \<Rightarrow> effect list \<Rightarrow> bool" where
  "answered ev effs \<longleftrightarrow> (case request ev of None \<Rightarrow> True | Some (c, r) \<Rightarrow> replies c r effs = 1)"

lemma RegisterEvent_cases:
  assumes "RegisterEvent dec zero handler s c r payload = (s', effs)"
  obtains (bad) m where "s' = s" "effs = [errResp c r ErrCodeInvalidArgument m]"
    | (handled) p where "handler s c r p = (s', effs)"
  using assms by (auto simp: RegisterEvent_def split: if_splits sum.splits)

context driver_registry
begin

lemma event_ok:
  assumes env: "env_Registry env = reg" and ok: "state_ok ty env s" and fr: "fresh_ids env"
    and red: "reduceEvent env s c r event payload = Some (s', effs)"
  shows "good ty env s s' effs \<and> replies c r effs = 1"
proof -
  have bad: "good ty env s s [errResp c r code m]" for code m
    using ok by (auto intro!: grows_good inert_grows)
  have list: "good ty env s s [okResp c r SessionsReply]"
    and down: "good ty env s s [EffPersistSnapshot, EffSendResponseSync c r NoBody, EffReleaseFrameSandboxes]"
    using ok by (auto intro!: grows_good inert_grows)
  have create: "reduceCreateSession env s c r p = (s', effs) \<Longrightarrow> good ty env s s' effs \<and> replies c r effs = 1" for p
    using create_grows [OF env ok fr] grows_good by blast
  have push: "reducePushDriver env s c r p = (s', effs) \<Longrightarrow> good ty env s s' effs \<and> replies c r effs = 1" for p
    using push_ok [OF env ok fr] grows_good by blast
  have fork: "reduceForkSession env s c r p = (s', effs) \<Longrightarrow> good ty env s s' effs \<and> replies c r effs = 1" for p
    using fork_ok [OF env ok fr] grows_good by blast
  have stop: "reduceStopSession s c r p = (s', effs) \<Longrightarrow> good ty env s s' effs \<and> replies c r effs = 1" for p
    using stop_ok [OF ok] grows_good shrinks_good by blast
  have head: "reduceSetHeadFrame s c r p = (s', effs) \<Longrightarrow> good ty env s s' effs \<and> replies c r effs = 1" for p
    using head_ok [OF ok] grows_good by blast
  show ?thesis
    using red list down unfolding reduceEvent_def eventHandlers_def
    by (auto split: if_splits elim!: RegisterEvent_cases simp: reduceListSessions_def reduceShutdown_def bad
        dest: create push fork stop head)
qed

lemma good_same:
  assumes "state_ok ty env s" "st_Sessions s' = st_Sessions s" "st_SurfaceSubs s' = st_SurfaceSubs s"
    "st_Draws s' = st_Draws s" "\<And>c sub. fmlookup (st_Subscribers s') c = Some sub \<Longrightarrow> sub_ConnID sub = c"
    "inert effs"
  shows "good ty env s s' effs"
  using assms relays_same [of s' s] by (simp add: good_def state_ok_def subs_ok_def frame_set_def inert_def)

lemma subscribers_ok:
  assumes ok: "state_ok ty env s"
  shows "reduceSubscribe s c r filters = (s', effs) \<Longrightarrow> good ty env s s' effs \<and> replies c r effs = 1"
    and "reduceUnsubscribe s c r = (s', effs) \<Longrightarrow> good ty env s s' effs \<and> replies c r effs = 1"
    and "reduceConnOpened s c = (s', effs) \<Longrightarrow> good ty env s s' effs"
proof -
  have sub: "fmlookup (st_Subscribers s) c = Some sub \<Longrightarrow> sub_ConnID sub = c" for c sub
    using ok by (simp add: state_ok_def subs_ok_def)
  show "reduceSubscribe s c r filters = (s', effs) \<Longrightarrow> good ty env s s' effs \<and> replies c r effs = 1"
    using sub ok by (auto simp: reduceSubscribe_def intro!: good_same split: if_splits)
  show "reduceUnsubscribe s c r = (s', effs) \<Longrightarrow> good ty env s s' effs \<and> replies c r effs = 1"
    using sub ok by (auto simp: reduceUnsubscribe_def intro!: good_same split: if_splits)
  show "reduceConnOpened s c = (s', effs) \<Longrightarrow> good ty env s s' effs"
    using sub ok by (auto simp: reduceConnOpened_def intro!: good_same split: if_splits)
qed

lemma surface_cmds_ok:
  assumes ok: "state_ok ty env s"
  shows "reduceSurfaceReadText s c r sid n = (s', effs) \<Longrightarrow> good ty env s s' effs \<and> replies c r effs = 1"
    and "reduceSurfaceSendText s c r sid text = (s', effs) \<Longrightarrow> good ty env s s' effs \<and> replies c r effs = 1"
    and "reduceSurfaceSendKey s c r sid text = (s', effs) \<Longrightarrow> good ty env s s' effs \<and> replies c r effs = 1"
    and "reduceDriverList s c r = (s', effs) \<Longrightarrow> good ty env s s' effs \<and> replies c r effs = 1"
    and "reduceSurfaceResize s c r sid w h = (s', effs) \<Longrightarrow> good ty env s s' effs \<and> replies c r effs = 1"
    and "reduceSurfaceWriteRaw s c r sid text = (s', effs) \<Longrightarrow> good ty env s s' effs \<and> replies c r effs = 1"
  using ok
  by (auto simp: reduceSurfaceReadText_def reduceSurfaceSendText_def reduceSurfaceSendKey_def reduceDriverList_def
      reduceSurfaceResize_def reduceSurfaceWriteRaw_def session_missing_def
      intro!: grows_good inert_grows split: if_splits)

lemma evicting_ok:
  assumes ok: "state_ok ty env s"
  shows "reduceFrameVanished s f = (s', effs) \<Longrightarrow> good ty env s s' effs"
    and "reduceSpawnFailed s f err c r = (s', effs) \<Longrightarrow> good ty env s s' effs"
proof -
  have evict: "good ty env s t es" if "(case evictFrame s f False of None \<Rightarrow> (s, []) | Some r \<Rightarrow> r) = (t, es)" for t es
    using that ok evictFrame_shrinks [OF ok, of f False]
    by (auto intro: shrinks_good grows_good grows_refl split: option.splits)
  then show "reduceFrameVanished s f = (s', effs) \<Longrightarrow> good ty env s s' effs"
    by (simp add: reduceFrameVanished_def)
  obtain t es where t: "(case evictFrame s f False of None \<Rightarrow> (s, []) | Some r \<Rightarrow> r) = (t, es)" by fastforce
  from evict [OF t] have "good ty env s t (es @ [errResp c r ErrCodeInternal (''frame spawn failed: '' @ err)])"
    by (auto simp: good_def)
  with evict [OF t] t show "reduceSpawnFailed s f err c r = (s', effs) \<Longrightarrow> good ty env s s' effs"
    by (auto simp: reduceSpawnFailed_def split: if_splits)
qed

theorem Reduce_good:
  assumes env: "env_Registry env = reg" and ok: "state_ok ty env s" and fr: "fresh_ids env"
    and ev: "receivable env ev"
  shows "\<exists>s' effs. Reduce env s ev = Some (s', effs) \<and> good ty env s s' effs \<and> answered ev effs"
proof -
  have exited: "\<exists>s' effs. reduceFrameCommandExited env s f code = Some (s', effs)" for f code
    using exited_ok [OF env ok] by blast
  have total: "\<exists>s' effs. Reduce env s ev = Some (s', effs)"
    using ev by (cases ev) (auto simp: reduceEvent_def IsRegisteredEvent_def prod_eq_iff exited)
  then obtain s' effs where red: "Reduce env s ev = Some (s', effs)" by blast
  have "good ty env s s' effs \<and> answered ev effs"
  proof (cases ev)
    case (EvEvent c r event payload)
    with red have h: "reduceEvent env s c r event payload = Some (s', effs)" by simp
    show ?thesis using event_ok [OF env ok fr h] EvEvent by (simp add: answered_def)
  next
    case (EvFrameCommandExited f code)
    with red have h: "reduceFrameCommandExited env s f code = Some (s', effs)" by simp
    have "grows ty env s s' effs \<or> shrinks ty env s s' effs"
      using exited_ok [OF env ok, of f code] h by simp
    then have "good ty env s s' effs" using grows_good shrinks_good by blast
    then show ?thesis using EvFrameCommandExited by (simp add: answered_def)
  next
    case (EvDriverEvent c r event t f payload)
    with red have h: "reduceDriverHook env s c r event t f payload = (s', effs)" by simp
    show ?thesis using grows_good [OF hook_ok(1) [OF env ok fr h]] hook_ok(2) [OF env ok fr h] EvDriverEvent by (simp add: answered_def)
  next
    case (EvSubsystem c r f source kind t payload)
    with red have h: "reduceSubsystem env s c r f source kind t payload = (s', effs)" by simp
    show ?thesis using grows_good [OF subsystem_ok(1) [OF env ok fr h]] subsystem_ok(2) [OF env ok fr h] EvSubsystem by (simp add: answered_def)
  next
    case (EvFrameSpawned e)
    with red have h: "reduceFrameSpawned env s e = (s', effs)" by simp
    show ?thesis using grows_good [OF spawned_ok [OF env ok h]] EvFrameSpawned by (simp add: answered_def)
  next
    case (EvSpawnFailed sid f err c r)
    with red have h: "reduceSpawnFailed s f err c r = (s', effs)" by simp
    show ?thesis using evicting_ok(2) [OF ok h] EvSpawnFailed by (simp add: answered_def)
  next
    case (EvFrameVanished f)
    with red have h: "reduceFrameVanished s f = (s', effs)" by simp
    show ?thesis using evicting_ok(1) [OF ok h] EvFrameVanished by (simp add: answered_def)
  next
    case (EvTick now n)
    with red have h: "reduceTick env s now n = (s', effs)" by simp
    show ?thesis using grows_good [OF tick_grows [OF env ok h]] EvTick by (simp add: answered_def)
  next
    case (EvJobResult j res err)
    with red have h: "reduceJobResult env s j res err = (s', effs)" by simp
    show ?thesis using grows_good [OF job_grows [OF env ok h]] EvJobResult by (simp add: answered_def)
  next
    case (EvFileChanged f path)
    with red have h: "reduceFileChanged env s f path = (s', effs)" by simp
    show ?thesis using grows_good [OF file_grows [OF env ok h]] EvFileChanged by (simp add: answered_def)
  next
    case (EvFrameOsc f cmd title body now)
    with red have h: "reduceFrameOsc env s f cmd title body now = (s', effs)" by simp
    show ?thesis using grows_good [OF osc_grows [OF env ok h]] EvFrameOsc by (simp add: answered_def)
  next
    case (EvFramePrompt f phase code now)
    with red have h: "reduceFramePrompt env s f phase code now = (s', effs)" by simp
    show ?thesis using grows_good [OF prompt_grows [OF env ok h]] EvFramePrompt by (simp add: answered_def)
  next
    case (EvConnOpened c)
    with red have h: "reduceConnOpened s c = (s', effs)" by simp
    show ?thesis using subscribers_ok(3) [OF ok h] EvConnOpened by (simp add: answered_def)
  next
    case (EvConnClosed c)
    with red have h: "reduceConnClosed s c = (s', effs)" by simp
    show ?thesis using conn_closed_ok [OF ok h] EvConnClosed by (simp add: answered_def)
  next
    case (EvCmdSubscribe c r filters)
    with red have h: "reduceSubscribe s c r filters = (s', effs)" by simp
    show ?thesis using subscribers_ok(1) [OF ok h] EvCmdSubscribe by (simp add: answered_def)
  next
    case (EvCmdUnsubscribe c r)
    with red have h: "reduceUnsubscribe s c r = (s', effs)" by simp
    show ?thesis using subscribers_ok(2) [OF ok h] EvCmdUnsubscribe by (simp add: answered_def)
  next
    case (EvCmdSurfaceReadText c r sid n)
    with red have h: "reduceSurfaceReadText s c r sid n = (s', effs)" by simp
    show ?thesis using surface_cmds_ok(1) [OF ok h] EvCmdSurfaceReadText by (simp add: answered_def)
  next
    case (EvCmdSurfaceSendText c r sid x)
    with red have h: "reduceSurfaceSendText s c r sid x = (s', effs)" by simp
    show ?thesis using surface_cmds_ok(2) [OF ok h] EvCmdSurfaceSendText by (simp add: answered_def)
  next
    case (EvCmdSurfaceSendKey c r sid key)
    with red have h: "reduceSurfaceSendKey s c r sid key = (s', effs)" by simp
    show ?thesis using surface_cmds_ok(3) [OF ok h] EvCmdSurfaceSendKey by (simp add: answered_def)
  next
    case (EvCmdDriverList c r)
    with red have h: "reduceDriverList s c r = (s', effs)" by simp
    show ?thesis using surface_cmds_ok(4) [OF ok h] EvCmdDriverList by (simp add: answered_def)
  next
    case (EvCmdSurfaceSubscribe c r sid)
    with red have h: "reduceSurfaceSubscribe s c r sid = (s', effs)" by simp
    show ?thesis using subscribe_ok [OF ok h] EvCmdSurfaceSubscribe by (simp add: answered_def)
  next
    case (EvCmdSurfaceUnsubscribe c r sid)
    with red have h: "reduceSurfaceUnsubscribe s c r sid = (s', effs)" by simp
    show ?thesis using unsubscribe_ok [OF ok h] EvCmdSurfaceUnsubscribe by (simp add: answered_def)
  next
    case (EvCmdSurfaceResize c r sid cols rows)
    with red have h: "reduceSurfaceResize s c r sid cols rows = (s', effs)" by simp
    show ?thesis using surface_cmds_ok(5) [OF ok h] EvCmdSurfaceResize by (simp add: answered_def)
  next
    case (EvCmdSurfaceWriteRaw c r sid x)
    with red have h: "reduceSurfaceWriteRaw s c r sid x = (s', effs)" by simp
    show ?thesis using surface_cmds_ok(6) [OF ok h] EvCmdSurfaceWriteRaw by (simp add: answered_def)
  qed
  with red show ?thesis by blast
qed

end

end
