(* ===== verification/Driver_Common.thy ===== *)
theory Driver_Common
  imports Client_Inv
begin

text \<open>
  What the drivers of \<open>client/driver\<close> share: the embedded \<open>CommonState\<close> with its persistence bag
  (\<open>common_state.go\<close>), launch flags (\<open>flags.go\<close>, \<open>worktree.go\<close>), the summary prompt and its job
  (\<open>summary_prompt.go\<close>, \<open>summary_job.go\<close>), tags and titles (\<open>tags.go\<close>, \<open>view_builder.go\<close>).

  \<open>CommonState\<close> is a record that the state of every driver extends, as the Go structs embed it; its
  methods work on every extension. A driver implementation is a record of methods over its own state;
  the type assertion at the start of a method is the \<open>option\<close> argument. \<open>time.Format\<close> and \<open>time.Parse\<close>
  with the layout RFC 3339, which the persistence bag uses, are a parameter.
\<close>

section \<open>Runes\<close>

text \<open>\<open>[]rune(s)\<close>, each rune as the bytes \<open>string\<close> gives it back; an invalid byte becomes U+FFFD.\<close>

function runes :: "string \<Rightarrow> string list" where
  "runes [] = []"
| "runes (c # s) =
     (let w = rune_width c s in
      (if w = 1 \<and> (of_char c :: nat) \<ge> 128 then [CHR 0xEF, CHR 0xBF, CHR 0xBD] else take w (c # s))
      # runes (drop (w - 1) s))"
  by pat_completeness auto

termination by (relation "measure length") auto

definition ellipsis :: string where
  "ellipsis = [CHR 0xE2, CHR 0x80, CHR 0xA6]"

section \<open>flags.go, worktree.go\<close>

definition hasFlagToken :: "string \<Rightarrow> string \<Rightarrow> bool" where
  "hasFlagToken command flag \<longleftrightarrow>
     list_ex (\<lambda>p. p = flag \<or> HasPrefix p (flag @ ''='')) (Fields command)"

definition stripFlagToken :: "string \<Rightarrow> string \<Rightarrow> string" where
  "stripFlagToken command flag = join_with '' '' (filter (\<lambda>p. p \<noteq> flag) (Fields command))"

record worktree_request =
  wr_Enabled :: bool
  wr_Name :: string

text \<open>The flag of the list that a token matches, and the value after the equals sign if it has one.\<close>

fun match_flag :: "string list \<Rightarrow> string \<Rightarrow> string option option" where
  "match_flag [] p = None"
| "match_flag (flag # flags) p =
     (if p = flag then Some None
      else if HasPrefix p (flag @ ''='') then Some (Some (drop (length flag + 1) p))
      else match_flag flags p)"

fun worktree_scan ::
  "string list \<Rightarrow> string list \<Rightarrow> worktree_request \<Rightarrow> string list \<Rightarrow> worktree_request \<times> string list" where
  "worktree_scan flags [] req out = (req, out)"
| "worktree_scan flags (p # parts) req out =
     (case match_flag flags p of
        None \<Rightarrow> worktree_scan flags parts req (out @ [p])
      | Some (Some v) \<Rightarrow> worktree_scan flags parts (req\<lparr> wr_Enabled := True, wr_Name := v \<rparr>) out
      | Some None \<Rightarrow>
          (case parts of
             q # rest \<Rightarrow>
               if HasPrefix q ''-'' then worktree_scan flags parts (req\<lparr> wr_Enabled := True \<rparr>) out
               else worktree_scan flags rest (req\<lparr> wr_Enabled := True, wr_Name := q \<rparr>) out
           | [] \<Rightarrow> (req\<lparr> wr_Enabled := True \<rparr>, out)))"

definition parseWorktreeFlags :: "string \<Rightarrow> string list \<Rightarrow> worktree_request \<times> string" where
  "parseWorktreeFlags command flags =
     (case worktree_scan flags (Fields command) \<lparr> wr_Enabled = False, wr_Name = [] \<rparr> [] of
        (req, out) \<Rightarrow> (req, join_with '' '' out))"

definition resolveWorktreeRequest ::
  "string \<Rightarrow> launch_options \<Rightarrow> string list \<Rightarrow> worktree_request \<times> string" where
  "resolveWorktreeRequest command options flags =
     (case parseWorktreeFlags command flags of
        (req, stripped) \<Rightarrow>
          ((if wt_Enabled (lo_Worktree options) then req\<lparr> wr_Enabled := True \<rparr> else req),
           TrimSpace stripped))"

definition appendFlag :: "string \<Rightarrow> string \<Rightarrow> bool \<Rightarrow> string" where
  "appendFlag command flag enabled =
     (let command = TrimSpace command in
      if \<not> enabled \<or> command = [] then command else TrimSpace (command @ '' '' @ flag))"

definition worktree_only :: "bool \<Rightarrow> launch_options" where
  "worktree_only enabled = zero_options\<lparr> lo_Worktree := \<lparr> wt_Enabled = enabled \<rparr> \<rparr>"

definition CommonPrepareCreate :: "string \<Rightarrow> string \<Rightarrow> launch_options \<Rightarrow> string list \<Rightarrow> create_launch" where
  "CommonPrepareCreate project command options flags =
     (case resolveWorktreeRequest command options flags of
        (req, stripped) \<Rightarrow>
          \<lparr> cl_Command = TrimSpace stripped, cl_StartDir = project,
            cl_Options = worktree_only (wr_Enabled req) \<rparr>)"

section \<open>common_state.go\<close>

record common_state =
  cs_RoostSessionID :: string
  cs_Project :: string
  cs_StartDir :: string
  cs_TranscriptPath :: string
  cs_WorktreeName :: string
  cs_Status :: status
  cs_StatusChangedAt :: go_time
  cs_BranchTag :: string
  cs_BranchBG :: string
  cs_BranchFG :: string
  cs_BranchTarget :: string
  cs_BranchAt :: go_time
  cs_BranchIsWorktree :: bool
  cs_BranchParentBranch :: string
  cs_BranchInFlight :: bool
  cs_LastPrompt :: string
  cs_LastAssistantMessage :: string
  cs_LastHookEvent :: string
  cs_LastHookAt :: go_time
  cs_Summary :: string
  cs_SummaryInFlight :: bool
  cs_Title :: string

definition common_new :: "status \<Rightarrow> go_time \<Rightarrow> common_state" where
  "common_new status now =
     \<lparr> cs_RoostSessionID = [], cs_Project = [], cs_StartDir = [], cs_TranscriptPath = [],
       cs_WorktreeName = [], cs_Status = status, cs_StatusChangedAt = now, cs_BranchTag = [],
       cs_BranchBG = [], cs_BranchFG = [], cs_BranchTarget = [], cs_BranchAt = zero_time,
       cs_BranchIsWorktree = False, cs_BranchParentBranch = [], cs_BranchInFlight = False,
       cs_LastPrompt = [], cs_LastAssistantMessage = [], cs_LastHookEvent = [],
       cs_LastHookAt = zero_time, cs_Summary = [], cs_SummaryInFlight = False, cs_Title = [] \<rparr>"

definition commonBranchRefreshInterval :: duration where
  "commonBranchRefreshInterval = 30000000000"

definition ApplyWorktreeResolved :: "'a common_state_scheme \<Rightarrow> string \<Rightarrow> string \<Rightarrow> 'a common_state_scheme" where
  "ApplyWorktreeResolved c startDir name =
     (let c = c\<lparr> cs_StartDir := startDir \<rparr> in
      if name \<noteq> [] then c\<lparr> cs_WorktreeName := name \<rparr> else c)"

definition ApplyCommandExited :: "'a common_state_scheme \<Rightarrow> int \<Rightarrow> go_time \<Rightarrow> 'a common_state_scheme" where
  "ApplyCommandExited c exitCode timestamp =
     (let c = (if exitCode \<noteq> 0 then c\<lparr> cs_Status := StatusStopped \<rparr> else c) in
      if \<not> IsZero timestamp then c\<lparr> cs_StatusChangedAt := timestamp \<rparr> else c)"

definition HandleTick ::
  "'a common_state_scheme \<Rightarrow> go_time \<Rightarrow> bool \<Rightarrow> string \<Rightarrow> 'a common_state_scheme \<times> effect list" where
  "HandleTick c now watched project =
     (let c = c\<lparr> cs_Project := project \<rparr>;
          c = (if cs_StartDir c = [] then c\<lparr> cs_StartDir := project \<rparr> else c)
      in if cs_Status c = StatusIdle \<or> cs_Status c = StatusStopped then (c, [])
         else if watched then
           let target = (if cs_StartDir c = [] then project else cs_StartDir c) in
           if target \<noteq> [] \<and> \<not> cs_BranchInFlight c \<and>
              (target \<noteq> cs_BranchTarget c \<or>
               time_sub now (cs_BranchAt c) \<ge> commonBranchRefreshInterval) then
             (c\<lparr> cs_BranchInFlight := True, cs_BranchTarget := target \<rparr>,
              [EffStartJob 0 (BranchDetectInput target)])
           else (c, [])
         else (c, []))"

definition ApplyBranchResult ::
  "'a common_state_scheme \<Rightarrow> branch_detect_result \<Rightarrow> string option \<Rightarrow> go_time \<Rightarrow> 'a common_state_scheme" where
  "ApplyBranchResult c r err now =
     (let c = c\<lparr> cs_BranchInFlight := False \<rparr> in
      if err \<noteq> None \<or> br_Branch r = [] then c
      else c\<lparr> cs_BranchTag := br_Branch r, cs_BranchBG := br_Background r,
              cs_BranchFG := br_Foreground r, cs_BranchAt := now,
              cs_BranchIsWorktree := br_IsWorktree r,
              cs_BranchParentBranch := br_ParentBranch r \<rparr>)"

record hook_preamble =
  hp_SessionID :: string
  hp_HookEventName :: string
  hp_TranscriptPath :: string

text \<open>\<open>None\<close> when the hook is to be dropped; the receiver is unchanged in that case.\<close>

definition applyHookPreamble ::
  "'a common_state_scheme \<Rightarrow> hook_preamble \<Rightarrow> go_time \<Rightarrow> string \<Rightarrow> 'a common_state_scheme option" where
  "applyHookPreamble c p timestamp roostSessionID =
     (if hp_SessionID p = [] then None
      else if \<not> IsZero timestamp \<and> \<not> timestamp > cs_LastHookAt c then None
      else
        let c = c\<lparr> cs_LastHookEvent := hp_HookEventName p \<rparr>;
            c = (if \<not> IsZero timestamp then c\<lparr> cs_LastHookAt := timestamp \<rparr> else c);
            c = (if roostSessionID \<noteq> [] then c\<lparr> cs_RoostSessionID := roostSessionID \<rparr> else c);
            c = (if hp_TranscriptPath p \<noteq> [] then c\<lparr> cs_TranscriptPath := hp_TranscriptPath p \<rparr> else c)
        in Some c)"

text \<open>\<open>Format\<close> and \<open>Parse\<close> for the layout \<open>time.RFC3339\<close>.\<close>

record time_codec =
  tc_Format :: "go_time \<Rightarrow> string"
  tc_Parse :: "string \<Rightarrow> go_time option"

definition put_str :: "string \<Rightarrow> string \<Rightarrow> bag \<Rightarrow> bag" where
  "put_str key v out = (if v \<noteq> [] then fmupd key v out else out)"

definition put_time :: "time_codec \<Rightarrow> string \<Rightarrow> go_time \<Rightarrow> bag \<Rightarrow> bag" where
  "put_time tc key t out = (if \<not> IsZero t then fmupd key (tc_Format tc t) out else out)"

definition PersistCommon :: "time_codec \<Rightarrow> 'a common_state_scheme \<Rightarrow> bag \<Rightarrow> bag" where
  "PersistCommon tc c out =
     (let out = put_str ''roost_session_id'' (cs_RoostSessionID c) out;
          out = put_str ''start_dir'' (cs_StartDir c) out;
          out = put_str ''transcript_path'' (cs_TranscriptPath c) out;
          out = put_str ''worktree_name'' (cs_WorktreeName c) out;
          out = fmupd ''status'' (Status_String (cs_Status c)) out;
          out = put_time tc ''status_changed_at'' (cs_StatusChangedAt c) out;
          out = put_str ''branch_tag'' (cs_BranchTag c) out;
          out = put_str ''branch_bg'' (cs_BranchBG c) out;
          out = put_str ''branch_fg'' (cs_BranchFG c) out;
          out = put_str ''branch_target'' (cs_BranchTarget c) out;
          out = put_time tc ''branch_at'' (cs_BranchAt c) out;
          out = (if cs_BranchIsWorktree c then fmupd ''branch_is_worktree'' ''1'' out else out);
          out = put_str ''branch_parent_branch'' (cs_BranchParentBranch c) out;
          out = put_str ''summary'' (cs_Summary c) out;
          out = put_str ''title'' (cs_Title c) out;
          out = put_str ''last_prompt'' (cs_LastPrompt c) out;
          out = put_str ''last_assistant_message'' (cs_LastAssistantMessage c) out;
          out = put_str ''last_hook_event'' (cs_LastHookEvent c) out;
          out = put_time tc ''last_hook_at'' (cs_LastHookAt c) out
      in out)"

definition bag_get :: "bag \<Rightarrow> string \<Rightarrow> string" where
  "bag_get bag key = (case fmlookup bag key of None \<Rightarrow> [] | Some v \<Rightarrow> v)"

definition get_time :: "time_codec \<Rightarrow> bag \<Rightarrow> string \<Rightarrow> go_time \<Rightarrow> go_time" where
  "get_time tc bag key old =
     (let v = bag_get bag key in
      if v = [] then old else case tc_Parse tc v of None \<Rightarrow> old | Some t \<Rightarrow> t)"

definition RestoreCommon :: "time_codec \<Rightarrow> bag \<Rightarrow> 'a common_state_scheme \<Rightarrow> 'a common_state_scheme" where
  "RestoreCommon tc bag c =
     (if fmdom bag = {||} then c
      else c\<lparr> cs_RoostSessionID := bag_get bag ''roost_session_id'',
             cs_StartDir := bag_get bag ''start_dir'',
             cs_TranscriptPath := bag_get bag ''transcript_path'',
             cs_WorktreeName := bag_get bag ''worktree_name'',
             cs_Status := (case ParseStatus (bag_get bag ''status'') of None \<Rightarrow> cs_Status c | Some st \<Rightarrow> st),
             cs_StatusChangedAt := get_time tc bag ''status_changed_at'' (cs_StatusChangedAt c),
             cs_BranchTag := bag_get bag ''branch_tag'',
             cs_BranchBG := bag_get bag ''branch_bg'',
             cs_BranchFG := bag_get bag ''branch_fg'',
             cs_BranchTarget := bag_get bag ''branch_target'',
             cs_BranchAt := get_time tc bag ''branch_at'' (cs_BranchAt c),
             cs_BranchIsWorktree := (bag_get bag ''branch_is_worktree'' = ''1''),
             cs_BranchParentBranch := bag_get bag ''branch_parent_branch'',
             cs_Summary := bag_get bag ''summary'',
             cs_Title := bag_get bag ''title'',
             cs_LastPrompt := bag_get bag ''last_prompt'',
             cs_LastAssistantMessage := bag_get bag ''last_assistant_message'',
             cs_LastHookEvent := bag_get bag ''last_hook_event'',
             cs_LastHookAt := get_time tc bag ''last_hook_at'' (cs_LastHookAt c) \<rparr>)"

definition eventLogLine :: "string \<Rightarrow> string \<Rightarrow> string" where
  "eventLogLine name detail =
     (if detail = [] then ''[event:'' @ name @ '']'' else ''[event:'' @ name @ ''] '' @ detail)"

section \<open>tags.go, view_builder.go\<close>

definition CommandTag :: "string \<Rightarrow> tag" where
  "CommandTag name = \<lparr> tag_Text = name, tag_Foreground = ''#FFFFFF'', tag_Background = ''#D97757'' \<rparr>"

text \<open>\<open>filepath.Base\<close>: the last element, after trailing slashes are removed.\<close>

definition Base :: "string \<Rightarrow> string" where
  "Base path =
     (if path = [] then ''.''
      else let p = rev (dropWhile (\<lambda>c. c = CHR ''/'') (rev path)) in
           if p = [] then ''/''
           else rev (takeWhile (\<lambda>c. c \<noteq> CHR ''/'') (rev p)))"

definition ShellCommandTag :: "string \<Rightarrow> tag" where
  "ShellCommandTag name =
     (let key = ToLower (Base name);
          (bg, fg) =
            (if key = ''bash'' then (''#4EAA25'', ''#FFFFFF'')
             else if key = ''zsh'' then (''#2D6DB5'', ''#FFFFFF'')
             else if key = ''fish'' then (''#F57900'', ''#FFFFFF'')
             else if key = ''powershell'' \<or> key = ''pwsh'' then (''#012456'', ''#EEEDF0'')
             else if key = ''nu'' \<or> key = ''nushell'' then (''#3AA675'', ''#FFFFFF'')
             else (''#D97757'', ''#FFFFFF''))
      in \<lparr> tag_Text = name, tag_Foreground = fg, tag_Background = bg \<rparr>)"

definition CodexCommandTag :: tag where
  "CodexCommandTag = \<lparr> tag_Text = ''codex'', tag_Foreground = ''#FFFFFF'', tag_Background = ''#10A37F'' \<rparr>"

definition GeminiCommandTag :: tag where
  "GeminiCommandTag = \<lparr> tag_Text = ''gemini'', tag_Foreground = ''#FFFFFF'', tag_Background = ''#1A73E8'' \<rparr>"

definition BranchTag :: "string \<Rightarrow> string \<Rightarrow> string \<Rightarrow> string \<Rightarrow> tag" where
  "BranchTag branch bg fg parentBranch =
     (if branch = [] then no_tag
      else \<lparr> tag_Text = (if parentBranch \<noteq> []
                         then branch @ [CHR '' '', CHR 0xE2, CHR 0x86, CHR 0x92, CHR '' ''] @ parentBranch
                         else branch),
             tag_Foreground = fg, tag_Background = bg \<rparr>)"

definition CommonTags :: "'a common_state_scheme \<Rightarrow> tag list" where
  "CommonTags c =
     (let t = BranchTag (cs_BranchTag c) (cs_BranchBG c) (cs_BranchFG c) (cs_BranchParentBranch c) in
      if tag_Text t \<noteq> [] then [t] else [])"

definition EventLogTab :: "'a common_state_scheme \<Rightarrow> string \<Rightarrow> log_tab list" where
  "EventLogTab c eventLogDir =
     (if cs_RoostSessionID c \<noteq> [] \<and> eventLogDir \<noteq> [] then
        [\<lparr> tab_Label = ''EVENTS'', tab_Path = Join [eventLogDir, cs_RoostSessionID c @ ''.log''],
           tab_Kind = ''text'', tab_RendererCfg = [] \<rparr>]
      else [])"

fun firstNonEmpty :: "string list \<Rightarrow> string" where
  "firstNonEmpty [] = []"
| "firstNonEmpty (s # ss) = (if s \<noteq> [] then s else firstNonEmpty ss)"

definition is_newline :: "char \<Rightarrow> bool" where
  "is_newline c \<longleftrightarrow> c = CHR 0x0D \<or> c = CHR 0x0A"

fun split_lines :: "string \<Rightarrow> string list" where
  "split_lines [] = [[]]"
| "split_lines (x # xs) =
     (if is_newline x then [] # split_lines xs
      else case split_lines xs of [] \<Rightarrow> [[x]] | p # ps \<Rightarrow> (x # p) # ps)"

definition collapseToSingleLine :: "string \<Rightarrow> string" where
  "collapseToSingleLine s =
     (if \<not> list_ex is_newline s then TrimSpace s
      else join_with '' '' (filter (\<lambda>f. f \<noteq> []) (map TrimSpace (filter (\<lambda>f. f \<noteq> []) (split_lines s)))))"

definition resolveCardTitle :: "string \<Rightarrow> string \<Rightarrow> string" where
  "resolveCardTitle aiTitle summary = firstNonEmpty [aiTitle, collapseToSingleLine summary]"

definition previewText :: "string \<Rightarrow> string" where
  "previewText s = (if length s > 80 then take 80 s @ ''...'' else s)"

section \<open>summary_prompt.go, summary_job.go\<close>

definition appendHookPromptTurn :: "summary_turn list \<Rightarrow> string \<Rightarrow> summary_turn list" where
  "appendHookPromptTurn turns hookPrompt =
     (if hookPrompt = [] then turns
      else if turns \<noteq> [] \<and> tn_Role (last turns) = ''user'' \<and> tn_Text (last turns) = hookPrompt then turns
      else turns @ [\<lparr> tn_Role = ''user'', tn_Text = hookPrompt \<rparr>])"

text \<open>The loop walks backwards and collects at most \<open>n\<close> user turns; the result is reversed in place.\<close>

fun collect_user :: "summary_turn list \<Rightarrow> nat \<Rightarrow> summary_turn list \<Rightarrow> summary_turn list" where
  "collect_user [] n out = out"
| "collect_user (t # ts) n out =
     (if length out < n then
        if tn_Role t = ''user'' then collect_user ts n (out @ [t]) else collect_user ts n out
      else out)"

definition userOnlyTurns :: "summary_turn list \<Rightarrow> nat \<Rightarrow> summary_turn list" where
  "userOnlyTurns turns n = (if n = 0 \<or> turns = [] then [] else rev (collect_user (rev turns) n []))"

definition clampGraphemes :: "string \<Rightarrow> nat \<Rightarrow> string" where
  "clampGraphemes s n =
     (if n = 0 then []
      else let r = runes s in if length r \<le> n then s else concat (take n r) @ ellipsis)"

definition tailClip :: "string \<Rightarrow> nat \<Rightarrow> string" where
  "tailClip s mx = (let r = runes s in if length r \<le> mx then s else ellipsis @ concat (drop (length r - mx) r))"

text \<open>The blocks of \<open>renderRecentTurns\<close>: consecutive turns of one role share a heading.\<close>

fun turn_blocks :: "summary_turn list \<Rightarrow> string \<Rightarrow> string \<Rightarrow> string list \<Rightarrow> string list" where
  "turn_blocks [] prevRole cur blocks = (if cur = [] then blocks else blocks @ [cur])"
| "turn_blocks (t # ts) prevRole cur blocks =
     (if tn_Role t \<noteq> prevRole then
        turn_blocks ts (tn_Role t) (''['' @ tn_Role t @ '']'' @ [CHR 0x0A] @ tn_Text t @ [CHR 0x0A])
          (if cur = [] then blocks else blocks @ [cur])
      else turn_blocks ts prevRole (cur @ [CHR 0x0A] @ tn_Text t @ [CHR 0x0A]) blocks)"

fun drop_blocks :: "string list \<Rightarrow> string" where
  "drop_blocks [] = []"
| "drop_blocks (b # bs) =
     (let body = join_with [CHR 0x0A] (b # bs) in
      if length body > 12000 \<and> bs \<noteq> [] then drop_blocks bs else body)"

definition renderRecentTurns :: "summary_turn list \<Rightarrow> string" where
  "renderRecentTurns turns =
     drop_blocks (turn_blocks (map (\<lambda>t. t\<lparr> tn_Text := tailClip (tn_Text t) 1500 \<rparr>) turns) [] [] [])"

definition summary_intro :: string where
  "summary_intro =
     ''You are a session summarizer. From the user inputs and previous summary below, '' @
     ''summarize the work or goal the user is driving in this AI coding session '' @
     ''into a single concise line (about 25 characters). '' @
     ''Use ONLY the user inputs below; never summarize assistant outputs, tool results, '' @
     ''or any non-user content. '' @
     ''Return only the body text, no headings, decoration, preamble, or quotes.'' @ [CHR 0x0A, CHR 0x0A]"

definition formatSummaryPrompt :: "string \<Rightarrow> summary_turn list \<Rightarrow> string" where
  "formatSummaryPrompt prev turns =
     summary_intro @
     (if prev \<noteq> [] then ''<previous_summary>'' @ [CHR 0x0A] @ prev @ [CHR 0x0A] @ ''</previous_summary>'' @
                        [CHR 0x0A, CHR 0x0A]
      else []) @
     ''<user_inputs>'' @ [CHR 0x0A] @ renderRecentTurns turns @ ''</user_inputs>'' @ [CHR 0x0A]"

definition enqueueSummaryJob :: "effect list \<Rightarrow> bool \<Rightarrow> string \<Rightarrow> effect list \<times> bool" where
  "enqueueSummaryJob effs inFlight prompt =
     (if inFlight \<or> TrimSpace prompt = [] then (effs, inFlight)
      else (effs @ [EffStartJob 0 (SummaryCommandInput prompt)], True))"

text \<open>\<open>None\<close> when the result is not a summary.\<close>

definition applySummaryJobResult ::
  "string \<Rightarrow> job_result \<Rightarrow> string option \<Rightarrow> (string \<times> bool) option" where
  "applySummaryJobResult summary result err =
     (case result of
        SummaryCommandResult r \<Rightarrow>
          if err \<noteq> None then Some (summary, False)
          else Some (if r \<noteq> [] then clampGraphemes r 30 else summary, False)
      | _ \<Rightarrow> None)"

definition statusTime :: "go_time \<Rightarrow> go_time \<Rightarrow> go_time" where
  "statusTime ts fallback = (if \<not> IsZero ts then ts else fallback)"

fun alphanum_hyphen :: "char \<Rightarrow> bool" where
  "alphanum_hyphen c =
     (let n = (of_char c :: nat) in
      97 \<le> n \<and> n \<le> 122 \<or> 65 \<le> n \<and> n \<le> 90 \<or> 48 \<le> n \<and> n \<le> 57 \<or> n = 45 \<or> n = 95)"

definition isAlphanumHyphen :: "string \<Rightarrow> bool" where
  "isAlphanumHyphen s \<longleftrightarrow> list_all alphanum_hyphen s \<and> s \<noteq> []"

section \<open>Driver implementations\<close>

text \<open>
  The methods of a driver over its own state type. A method that starts with a type assertion takes an
  \<open>option\<close>: \<open>None\<close> is the assertion that failed.
\<close>

record 'st driver_impl =
  im_Name :: string
  im_DisplayName :: string
  im_NewState :: "go_time \<Rightarrow> 'st"
  im_Step :: "'st option \<Rightarrow> frame_context \<Rightarrow> driver_event \<Rightarrow> 'st \<times> effect list \<times> view"
  im_Status :: "'st \<Rightarrow> status"
  im_View :: "'st option \<Rightarrow> view"
  im_Persist :: "'st option \<Rightarrow> bag"
  im_Restore :: "bag \<Rightarrow> go_time \<Rightarrow> 'st"
  im_PrepareLaunch ::
    "'st option \<Rightarrow> launch_mode \<Rightarrow> string \<Rightarrow> string \<Rightarrow> launch_options \<Rightarrow> bool \<Rightarrow> string + launch_plan"
  im_PrepareCreate :: "'st option \<Rightarrow> string \<Rightarrow> string \<Rightarrow> launch_options \<Rightarrow> 'st \<times> create_launch"
  im_StartDir :: "'st option \<Rightarrow> string"
  im_WithStartDir :: "'st \<Rightarrow> string \<Rightarrow> 'st"
  im_Fork :: "(('st option \<Rightarrow> string \<Rightarrow> string option) \<times> ('st option \<Rightarrow> go_time \<Rightarrow> 'st)) option"
  im_Bootstrap :: "('st option \<Rightarrow> frame_context \<Rightarrow> go_time \<Rightarrow> 'st \<times> effect list) option"
  im_WarmStart :: "('st option \<Rightarrow> go_time \<Rightarrow> 'st \<times> effect list) option"
  im_ColdStart :: "('st option \<Rightarrow> bool) option"

text \<open>The same driver behind the interface: \<open>box\<close> boxes a state and \<open>unbox\<close> is the type assertion.\<close>

definition as_driver :: "('st \<Rightarrow> 'ds) \<Rightarrow> ('ds \<Rightarrow> 'st option) \<Rightarrow> 'st driver_impl \<Rightarrow> 'ds driver" where
  "as_driver box unbox im =
     \<lparr> drv_Name = im_Name im, drv_DisplayName = im_DisplayName im,
       drv_NewState = (\<lambda>now. box (im_NewState im now)),
       drv_Step = (\<lambda>ds ctx ev. case im_Step im (unbox ds) ctx ev of (st, effs, v) \<Rightarrow> (box st, effs, v)),
       drv_Status = (\<lambda>ds. map_option (im_Status im) (unbox ds)),
       drv_View = (\<lambda>ds. im_View im (unbox ds)),
       drv_Persist = (\<lambda>ds. im_Persist im (unbox ds)),
       drv_Restore = (\<lambda>bag now. box (im_Restore im bag now)),
       drv_PrepareLaunch = (\<lambda>ds. im_PrepareLaunch im (unbox ds)),
       drv_PrepareCreate = Some (\<lambda>ds sid project command options.
         case im_PrepareCreate im (unbox ds) project command options of (st, launch) \<Rightarrow> Inr (box st, launch)),
       drv_Forkable = map_option (\<lambda>(cmd, child).
         \<lparr> fk_ForkCommand = (\<lambda>ds. cmd (Option.bind ds unbox)),
           fk_ForkChildState = (\<lambda>ds now. box (child (Option.bind ds unbox) now)) \<rparr>) (im_Fork im),
       drv_StartDirAware = Some
         \<lparr> sd_StartDir = (\<lambda>ds. im_StartDir im (Option.bind ds unbox)),
           sd_WithStartDir = (\<lambda>ds dir. case unbox ds of None \<Rightarrow> ds | Some st \<Rightarrow> box (im_WithStartDir im st dir)) \<rparr>,
       drv_BootstrapSessionStart = map_option (\<lambda>boot ds ctx now.
         case boot (Option.bind ds unbox) ctx now of (st, effs) \<Rightarrow> (box st, effs)) (im_Bootstrap im),
       drv_WarmStartRecover = map_option (\<lambda>warm ds now.
         case warm (Option.bind ds unbox) now of (st, effs) \<Rightarrow> (box st, effs)) (im_WarmStart im),
       drv_RecoverableOnColdStart = map_option (\<lambda>cold ds. cold (Option.bind ds unbox)) (im_ColdStart im) \<rparr>"

text \<open>What every driver implementation promises, and the boxing of its states.\<close>

locale driver_law =
  fixes im :: "'st driver_impl"
  assumes effs: "im_Step im sto ctx ev = (st', effs, v) \<Longrightarrow> list_all driver_effect effs"
    and view: "im_Step im sto ctx ev = (st', effs, v) \<Longrightarrow> v = im_View im (Some st')"
    and status: "v_Status (im_View im (Some st)) = im_Status im st"
    and boot: "im_Bootstrap im = Some b \<Longrightarrow> b sto ctx now = (st', effs) \<Longrightarrow> list_all driver_effect effs"

locale boxing =
  fixes box :: "'st \<Rightarrow> 'ds" and unbox :: "'ds \<Rightarrow> 'st option" and kind :: "'ds \<Rightarrow> 'ty" and own :: 'ty
  assumes unbox_box: "unbox (box st) = Some st"
    and kind_box: "kind (box st) = own"
    and unbox_kind: "unbox ds = Some st \<Longrightarrow> ds = box st"
    and own_kind: "kind ds = own \<Longrightarrow> unbox ds \<noteq> None"

locale boxed_driver = driver_law im + boxing box unbox kind own
  for im :: "'st driver_impl" and box :: "'st \<Rightarrow> 'ds" and unbox and kind :: "'ds \<Rightarrow> 'ty" and own

sublocale boxed_driver \<subseteq> driver_contract kind own "as_driver box unbox im"
proof
  show "list_all driver_effect effs" if "drv_Step (as_driver box unbox im) ds ctx ev = (ds', effs, v)"
    for ds ctx ev ds' effs v
    using that effs [of "unbox ds" ctx ev] by (auto simp: as_driver_def split: prod.splits)
  show "v = drv_View (as_driver box unbox im) ds'" if "drv_Step (as_driver box unbox im) ds ctx ev = (ds', effs, v)"
    for ds ctx ev ds' effs v
    using that view [of "unbox ds" ctx ev] by (auto simp: as_driver_def unbox_box split: prod.splits)
  show "drv_Status (as_driver box unbox im) ds = Some (v_Status (drv_View (as_driver box unbox im) ds))"
    if "kind ds = own" for ds
    using own_kind [OF that] status by (auto simp: as_driver_def)
  show "list_all driver_effect effs"
    if "drv_BootstrapSessionStart (as_driver box unbox im) = Some b" "b dso ctx now = (ds', effs)"
    for b dso ctx now ds' effs
    using that boot [of _ "Option.bind dso unbox" ctx now] by (auto simp: as_driver_def split: prod.splits)
  show "kind (sd_WithStartDir sd ds dir) = kind ds" if "drv_StartDirAware (as_driver box unbox im) = Some sd"
    for sd ds dir
    using that kind_box unbox_kind [of ds] by (auto simp: as_driver_def split: option.splits)
qed (auto simp: as_driver_def kind_box split: prod.splits)

end
