(* ===== verification/Driver_Generic.thy ===== *)
theory Driver_Generic
  imports Driver_Common
begin

text \<open>
  The generic driver (\<open>generic.go\<close>, \<open>generic_view.go\<close>): the fallback for arbitrary terminal programs.
\<close>

record generic_state = common_state +
  gn_Name :: string

record generic_driver =
  gd_name :: string
  gd_displayName :: string
  gd_threshold :: duration

definition NewGenericDriver :: "string \<Rightarrow> string \<Rightarrow> duration \<Rightarrow> generic_driver" where
  "NewGenericDriver name displayName threshold =
     \<lparr> gd_name = name, gd_displayName = displayName, gd_threshold = threshold \<rparr>"

definition generic_of :: "common_state \<Rightarrow> string \<Rightarrow> generic_state" where
  "generic_of c name = common_state.extend c (generic_state.fields name)"

definition generic_or_zero :: "generic_state option \<Rightarrow> generic_state" where
  "generic_or_zero s = (case s of None \<Rightarrow> generic_of (common_new StatusRunning zero_time) [] | Some gs \<Rightarrow> gs)"

definition generic_StartDir :: "generic_state option \<Rightarrow> string" where
  "generic_StartDir s = (case s of None \<Rightarrow> [] | Some gs \<Rightarrow> cs_StartDir gs)"

definition generic_WithStartDir :: "generic_state \<Rightarrow> string \<Rightarrow> generic_state" where
  "generic_WithStartDir gs dir = gs\<lparr> cs_StartDir := dir \<rparr>"

definition generic_view :: "generic_driver \<Rightarrow> generic_state \<Rightarrow> view" where
  "generic_view d gs =
     \<lparr> v_Card =
         \<lparr> card_Title = resolveCardTitle (cs_Title gs) (cs_Summary gs), card_Tags = CommonTags gs,
           card_BorderTitle = (if gd_displayName d \<noteq> [] then CommandTag (gd_displayName d) else no_tag),
           card_BorderTitleSecondary = no_tag, card_BorderBadge = [] \<rparr>,
       v_DisplayName = gd_displayName d, v_LogTabs = [], v_InfoExtras = [], v_SuppressInfo = False,
       v_StatusLine = [], v_Status = cs_Status gs, v_StatusChangedAt = cs_StatusChangedAt gs \<rparr>"

definition generic_View :: "generic_driver \<Rightarrow> generic_state option \<Rightarrow> view" where
  "generic_View d s = generic_view d (generic_or_zero s)"

definition generic_NewState :: "generic_driver \<Rightarrow> go_time \<Rightarrow> generic_state" where
  "generic_NewState d now = generic_of (common_new StatusWaiting now) (gd_name d)"

definition generic_PrepareLaunch ::
  "generic_state option \<Rightarrow> launch_mode \<Rightarrow> string \<Rightarrow> string \<Rightarrow> launch_options \<Rightarrow> bool \<Rightarrow> string + launch_plan" where
  "generic_PrepareLaunch s mode project baseCommand options sandboxed =
     (let gs = generic_or_zero s;
          (req, command) = resolveWorktreeRequest baseCommand options [''--worktree''];
          startDir = (if cs_StartDir gs \<noteq> [] then cs_StartDir gs else project)
      in Inr (zero_plan\<lparr> lp_Command := TrimSpace command, lp_StartDir := startDir,
                lp_Options := worktree_only (wr_Enabled req), lp_Stdin := lo_InitialInput options \<rparr>))"

definition generic_Persist :: "time_codec \<Rightarrow> generic_state option \<Rightarrow> bag" where
  "generic_Persist tc s = (case s of None \<Rightarrow> fmempty | Some gs \<Rightarrow> PersistCommon tc gs fmempty)"

definition generic_Restore :: "time_codec \<Rightarrow> generic_driver \<Rightarrow> bag \<Rightarrow> go_time \<Rightarrow> generic_state" where
  "generic_Restore tc d bag now =
     (let gs = generic_of (common_new StatusWaiting now) (gd_name d) in
      if fmdom bag = {||} then gs else RestoreCommon tc bag gs)"

definition generic_job_result :: "generic_state \<Rightarrow> job_result \<Rightarrow> string option \<Rightarrow> go_time \<Rightarrow> generic_state" where
  "generic_job_result gs result err now =
     (case applySummaryJobResult (cs_Summary gs) result err of
        Some (summary, inFlight) \<Rightarrow> gs\<lparr> cs_Summary := summary, cs_SummaryInFlight := inFlight \<rparr>
      | None \<Rightarrow>
          (case result of
             BranchDetectResult r \<Rightarrow>
               let gs = gs\<lparr> cs_BranchInFlight := False \<rparr> in
               if err \<noteq> None \<or> br_Branch r = [] then gs
               else gs\<lparr> cs_BranchTag := br_Branch r, cs_BranchBG := br_Background r,
                        cs_BranchFG := br_Foreground r, cs_BranchAt := now,
                        cs_BranchIsWorktree := br_IsWorktree r,
                        cs_BranchParentBranch := br_ParentBranch r \<rparr>
           | _ \<Rightarrow> gs))"

definition is_hook :: "driver_event \<Rightarrow> bool" where
  "is_hook ev = (case ev of DEvHook _ _ _ _ \<Rightarrow> True | _ \<Rightarrow> False)"

definition generic_Step ::
  "generic_driver \<Rightarrow> generic_state option \<Rightarrow> frame_context \<Rightarrow> driver_event \<Rightarrow>
   generic_state \<times> effect list \<times> view" where
  "generic_Step d prev ctx ev =
     (let gs = (case prev of None \<Rightarrow> generic_NewState d zero_time | Some gs \<Rightarrow> gs) in
      if \<not> fc_IsRoot ctx \<and> \<not> is_hook ev then (gs, [], generic_view d gs)
      else case ev of
        DEvTick now watched project n sq \<Rightarrow>
          if \<not> watched \<and> cs_Status gs \<noteq> StatusRunning then (gs, [], generic_view d gs)
          else (case HandleTick gs now watched project of (gs, effs) \<Rightarrow> (gs, effs, generic_view d gs))
      | DEvJobResult result err now \<Rightarrow>
          let gs = generic_job_result gs result err now in (gs, [], generic_view d gs)
      | DEvWorktreeResolved startDir name \<Rightarrow>
          let gs = ApplyWorktreeResolved gs startDir name in (gs, [], generic_view d gs)
      | DEvCommandExited exitCode timestamp \<Rightarrow>
          let gs = ApplyCommandExited gs exitCode timestamp in (gs, [], generic_view d gs)
      | _ \<Rightarrow> (gs, [], generic_view d gs))"

definition generic_PrepareCreate ::
  "generic_state option \<Rightarrow> string \<Rightarrow> string \<Rightarrow> launch_options \<Rightarrow> generic_state \<times> create_launch" where
  "generic_PrepareCreate s project command options =
     (generic_or_zero s, CommonPrepareCreate project command options [''--worktree''])"

definition GenericDriver :: "time_codec \<Rightarrow> generic_driver \<Rightarrow> generic_state driver_impl" where
  "GenericDriver tc d =
     \<lparr> im_Name = gd_name d, im_DisplayName = gd_displayName d, im_NewState = generic_NewState d,
       im_Step = generic_Step d, im_Status = cs_Status, im_View = generic_View d,
       im_Persist = generic_Persist tc, im_Restore = generic_Restore tc d,
       im_PrepareLaunch = generic_PrepareLaunch, im_PrepareCreate = generic_PrepareCreate,
       im_StartDir = generic_StartDir, im_WithStartDir = generic_WithStartDir, im_Fork = None,
       im_Bootstrap = None, im_WarmStart = None, im_ColdStart = None \<rparr>"

lemma HandleTick_effs: "HandleTick c now watched project = (c', effs) \<Longrightarrow> list_all driver_effect effs"
  by (auto simp: HandleTick_def Let_def split: if_splits)

lemma generic_view_status [simp]: "v_Status (generic_view d gs) = cs_Status gs"
  by (simp add: generic_view_def)

lemma generic_views:
  "generic_Step d prev ctx ev = (gs, effs, v) \<Longrightarrow> v = generic_view d gs"
  by (auto simp: generic_Step_def Let_def split: if_splits prod.splits driver_event.splits)

lemma generic_effs:
  "generic_Step d prev ctx ev = (gs, effs, v) \<Longrightarrow> list_all driver_effect effs"
  by (auto simp: generic_Step_def Let_def dest!: HandleTick_effs split: if_splits prod.splits driver_event.splits)

interpretation generic: driver_law "GenericDriver tc d" for tc d
  by unfold_locales
    (auto simp: GenericDriver_def generic_View_def generic_or_zero_def generic_views generic_effs)

end
