(* ===== verification/Driver_Tools.thy ===== *)
theory Driver_Tools
  imports Driver_Generic
begin

text \<open>
  Tool calls and their log (\<open>claude_tool_log.go\<close>), shared by the agent drivers: a tool call is pending
  between its start and its completion; the completion writes one line with the kind of approval and
  the duration. A JSON value is opaque except where the code looks at it: strings and null.
  \<open>json.Marshal\<close> of a log entry is the parameter \<open>marshal\<close>.
\<close>

datatype any_value = VNull | VString string | VOther string

text \<open>What \<open>os.Stat\<close> says of a path: its size, that it does not exist, another error.\<close>

datatype stat_result = StatOk nat | StatNotExist | StatError string

type_synonym tool_input = "(string, any_value) fmap"

record tool_log_entry =
  tl_TS :: go_time
  tl_RoostSessionID :: string
  tl_ClaudeSessionID :: string
  tl_ToolUseID :: string
  tl_ToolName :: string
  tl_Kind :: string
  tl_PermissionMode :: string
  tl_DurationMs :: int
  tl_ToolInput :: tool_input
  tl_Error :: string

definition toolInputString :: "tool_input \<Rightarrow> string \<Rightarrow> string" where
  "toolInputString input key = (case fmlookup input key of Some (VString v) \<Rightarrow> v | _ \<Rightarrow> [])"

definition buildToolLogLine :: "(tool_log_entry \<Rightarrow> string option) \<Rightarrow> tool_log_entry \<Rightarrow> string" where
  "buildToolLogLine marshal entry =
     (case marshal entry of
        Some b \<Rightarrow> b
      | None \<Rightarrow> ''{\"kind\":\"'' @ tl_Kind entry @ ''\",\"tool_name\":\"'' @ tl_ToolName entry @ ''\"}'')"

definition truncValue :: "any_value \<Rightarrow> any_value" where
  "truncValue v =
     (case v of
        VString s \<Rightarrow> let r = runes s in if length r > 200 then VString (concat (take 200 r) @ ellipsis) else v
      | _ \<Rightarrow> v)"

fun pick_keys :: "tool_input \<Rightarrow> string list \<Rightarrow> tool_input \<Rightarrow> tool_input" where
  "pick_keys input [] out = out"
| "pick_keys input (k # ks) out =
     (case fmlookup input k of
        None \<Rightarrow> pick_keys input ks out
      | Some v \<Rightarrow> if v = VNull then pick_keys input ks out
                  else pick_keys input ks (fmupd k (truncValue v) out))"

definition pickAndTrunc :: "tool_input \<Rightarrow> string list \<Rightarrow> tool_input" where
  "pickAndTrunc input keys = pick_keys input keys fmempty"

definition truncStrings :: "tool_input \<Rightarrow> tool_input" where
  "truncStrings input = fmmap truncValue input"

definition summariseToolInput :: "string \<Rightarrow> tool_input \<Rightarrow> tool_input" where
  "summariseToolInput name input =
     (if fmdom input = {||} then fmempty
      else if name = ''Bash'' then pickAndTrunc input [''command'', ''description'']
      else if name \<in> {''Read'', ''Write'', ''Edit'', ''Glob''} then pickAndTrunc input [''file_path'', ''pattern'']
      else if name = ''Grep'' then pickAndTrunc input [''pattern'', ''path'', ''glob'']
      else if name = ''Agent'' then pickAndTrunc input [''description'', ''subagent_type'']
      else truncStrings input)"

definition projectDir :: "string \<Rightarrow> string" where
  "projectDir p = map (\<lambda>c. if c = CHR ''/'' \<or> c = CHR ''.'' then CHR ''-'' else c) p"

definition resolveProjectSlug :: "string \<Rightarrow> string" where
  "resolveProjectSlug project = (if project = [] then [] else projectDir project)"

text \<open>\<open>Duration.Milliseconds\<close> truncates towards zero.\<close>

definition Milliseconds :: "duration \<Rightarrow> int" where
  "Milliseconds d = (if d \<ge> 0 then d div 1000000 else - ((- d) div 1000000))"

record pending_tool =
  pt_Name :: string
  pt_Input :: tool_input
  pt_StartedAt :: go_time
  pt_SawPrompt :: bool
  pt_PermMode :: string

definition tool_duration :: "go_time \<Rightarrow> go_time \<Rightarrow> int" where
  "tool_duration startedAt now =
     (if \<not> IsZero startedAt \<and> \<not> IsZero now then Milliseconds (time_sub now startedAt) else 0)"

text \<open>
  The oldest pending tool whose permission prompt has not been seen. The loop ranges over a map; among
  tools with the same start time the model takes the first identifier.
\<close>

fun oldest_unseen :: "(string, pending_tool) fmap \<Rightarrow> string list \<Rightarrow> (string \<times> go_time) option \<Rightarrow> string option" where
  "oldest_unseen m [] best = map_option fst best"
| "oldest_unseen m (i # ids) best =
     (case fmlookup m i of
        None \<Rightarrow> oldest_unseen m ids best
      | Some p \<Rightarrow>
          if pt_SawPrompt p then oldest_unseen m ids best
          else if (case best of None \<Rightarrow> True | Some (_, ts) \<Rightarrow> pt_StartedAt p < ts)
               then oldest_unseen m ids (Some (i, pt_StartedAt p))
               else oldest_unseen m ids best)"

definition mark_oldest :: "(string, pending_tool) fmap \<Rightarrow> (string, pending_tool) fmap" where
  "mark_oldest m =
     (case oldest_unseen m (sorted_keys m) None of
        None \<Rightarrow> m
      | Some i \<Rightarrow> (case fmlookup m i of None \<Rightarrow> m | Some p \<Rightarrow> fmupd i (p\<lparr> pt_SawPrompt := True \<rparr>) m))"

text \<open>The lines of the info panel: only labels with a value.\<close>

definition info_lines :: "(string \<times> string) list \<Rightarrow> info_line list" where
  "info_lines xs = map (\<lambda>(l, v). \<lparr> il_Label = l, il_Value = v \<rparr>) (filter (\<lambda>(l, v). v \<noteq> []) xs)"

lemma summary_effs:
  "enqueueSummaryJob effs inFlight prompt = (effs', b) \<Longrightarrow> list_all driver_effect effs \<Longrightarrow> list_all driver_effect effs'"
  by (auto simp: enqueueSummaryJob_def split: if_splits)

text \<open>A project slug is one path component: it has no separator and no dot.\<close>

lemma projectDir_flat: "CHR ''/'' \<notin> set (projectDir p)" "CHR ''.'' \<notin> set (projectDir p)"
  by (auto simp: projectDir_def split: if_splits)

end
