(* ===== verification/Driver_Claude.thy ===== *)
theory Driver_Claude
  imports Driver_Tools
begin

text \<open>
  The Claude driver (\<open>claude.go\<close>, \<open>claude_event.go\<close>, \<open>claude_fork.go\<close>, \<open>claude_persist.go\<close>,
  \<open>claude_statusline.go\<close>, \<open>claude_tick.go\<close>, \<open>claude_tool_log.go\<close>, \<open>claude_view.go\<close>) and the command lines
  of \<open>platform/lib/claude/cli\<close>. Parameters: the JSON decoder of the hook payload, the marshallers of log
  entries and of the renderer configuration, the path shortener of the view, and \<open>os.Stat\<close>.
\<close>

section \<open>platform/lib/claude/cli\<close>

definition hasToken :: "string \<Rightarrow> string \<Rightarrow> bool" where
  "hasToken command flag \<longleftrightarrow> list_ex (\<lambda>f. f = flag) (Fields command)"

definition stripToken :: "string \<Rightarrow> string \<Rightarrow> string" where
  "stripToken command flag = join_with '' '' (filter (\<lambda>p. p \<noteq> flag) (Fields command))"

definition SandboxFlags :: "string \<Rightarrow> bool \<Rightarrow> string" where
  "SandboxFlags command sandboxed =
     (if \<not> sandboxed then command
      else
        let command = stripToken command ''--enable-auto-mode'' in
        if hasToken command ''--allow-dangerously-skip-permissions'' then command
        else TrimSpace command @ '' '' @ ''--allow-dangerously-skip-permissions'')"

fun strip_worktree :: "string list \<Rightarrow> string list" where
  "strip_worktree [] = []"
| "strip_worktree (p # parts) =
     (if p = ''--worktree'' then
        (case parts of
           [] \<Rightarrow> []
         | q # rest \<Rightarrow> if HasPrefix q ''-'' then strip_worktree parts else strip_worktree rest)
      else if HasPrefix p ''--worktree='' then strip_worktree parts
      else p # strip_worktree parts)"

definition StripWorktreeFlag :: "string \<Rightarrow> string" where
  "StripWorktreeFlag command = join_with '' '' (strip_worktree (Fields command))"

definition ResumeCommand :: "string \<Rightarrow> string \<Rightarrow> string" where
  "ResumeCommand baseCommand sessionID =
     (if sessionID = [] then baseCommand else StripWorktreeFlag baseCommand @ '' --resume '' @ sessionID)"

definition ForkCommand :: "string \<Rightarrow> string \<Rightarrow> string" where
  "ForkCommand baseCommand parentID =
     (if parentID = [] then baseCommand else ResumeCommand baseCommand parentID @ '' --fork-session'')"

section \<open>claude.go: the state\<close>

record claude_state = common_state +
  cc_ClaudeSessionID :: string
  cc_ForkParentID :: string
  cc_LastBridgeTS :: go_time
  cc_StatusLine :: string
  cc_CurrentTool :: string
  cc_SubagentCounts :: "(string, int) fmap"
  cc_RecentTurns :: "summary_turn list"
  cc_PlanFile :: string
  cc_TranscriptInFlight :: bool
  cc_WatchedFile :: string
  cc_PendingTools :: "(string, pending_tool) fmap"
  cc_LastWindowTitle :: string

record claude_hook_payload =
  kh_SessionID :: string
  kh_HookEventName :: string
  kh_Prompt :: string
  kh_TranscriptPath :: string
  kh_NotificationType :: string
  kh_ToolName :: string
  kh_ToolInput :: tool_input
  kh_Source :: string
  kh_ToolUseID :: string
  kh_PermissionMode :: string
  kh_Error :: string
  kh_IsInterrupt :: bool

record claude_driver =
  kd_home :: string
  kd_eventLogDir :: string
  kd_showThinking :: bool
  kd_pager :: string
  kd_time :: time_codec
  kd_shorten :: "string \<Rightarrow> string \<Rightarrow> string"
  kd_marshal :: "tool_log_entry \<Rightarrow> string option"
  kd_renderer :: "string \<Rightarrow> bool \<Rightarrow> string"
  kd_parse :: "bytes \<Rightarrow> claude_hook_payload"
  kd_stat :: "string \<Rightarrow> stat_result"

definition claude_of :: "common_state \<Rightarrow> claude_state" where
  "claude_of c = common_state.extend c
     (claude_state.fields [] [] zero_time [] [] fmempty [] [] False [] fmempty [])"

definition claude_or_zero :: "claude_state option \<Rightarrow> claude_state" where
  "claude_or_zero s = (case s of None \<Rightarrow> claude_of (common_new StatusRunning zero_time) | Some cs \<Rightarrow> cs)"

definition claude_StartDir :: "claude_state option \<Rightarrow> string" where
  "claude_StartDir s = (case s of None \<Rightarrow> [] | Some cs \<Rightarrow> cs_StartDir cs)"

definition claude_WithStartDir :: "claude_state \<Rightarrow> string \<Rightarrow> claude_state" where
  "claude_WithStartDir cs dir = cs\<lparr> cs_StartDir := dir \<rparr>"

definition claude_NewState :: "go_time \<Rightarrow> claude_state" where
  "claude_NewState now = claude_of (common_new StatusIdle now)"

definition resolveTranscriptPath :: "claude_driver \<Rightarrow> claude_state \<Rightarrow> string" where
  "resolveTranscriptPath d cs =
     (if cs_TranscriptPath cs \<noteq> [] then cs_TranscriptPath cs
      else if kd_home d = [] \<or> cc_ClaudeSessionID cs = [] \<or> cs_StartDir cs = [] then []
      else Join [kd_home d, ''.claude'', ''projects'', projectDir (cs_StartDir cs),
                 cc_ClaudeSessionID cs @ ''.jsonl''])"

definition claude_PrepareLaunch ::
  "claude_driver \<Rightarrow> claude_state option \<Rightarrow> launch_mode \<Rightarrow> string \<Rightarrow> string \<Rightarrow> launch_options \<Rightarrow> bool \<Rightarrow>
   string + launch_plan" where
  "claude_PrepareLaunch d s mode project baseCommand options sandboxed =
     (let cs = claude_or_zero s;
          startDir = (if cs_StartDir cs \<noteq> [] then cs_StartDir cs else project);
          (req, command) = resolveWorktreeRequest baseCommand options [''--worktree''];
          command = SandboxFlags (TrimSpace command) sandboxed;
          sid = cc_ClaudeSessionID cs;
          plan = (\<lambda>cmd. zero_plan\<lparr> lp_Command := cmd, lp_StartDir := startDir, lp_Stdin := lo_InitialInput options \<rparr>)
      in if mode \<noteq> LaunchModeColdStart \<or> sid = [] then
           if mode = LaunchModeColdStart \<and> cc_ForkParentID cs \<noteq> [] \<and> isAlphanumHyphen (cc_ForkParentID cs) then
             Inr (plan (ForkCommand command (cc_ForkParentID cs)))
           else Inr ((plan command)\<lparr> lp_Options := worktree_only (wr_Enabled req) \<rparr>)
         else if Contains command ''--resume'' then Inr (plan command)
         else if \<not> isAlphanumHyphen sid then Inr (plan command)
         else if sandboxed then Inr (plan (command @ '' --resume '' @ sid))
         else
           let path = resolveTranscriptPath d cs in
           if path = [] then Inr (plan command)
           else case kd_stat d path of
                  StatNotExist \<Rightarrow> Inr (plan command)
                | StatError err \<Rightarrow> Inl err
                | StatOk _ \<Rightarrow> Inr (plan (command @ '' --resume '' @ sid)))"

section \<open>claude_view.go, claude_statusline.go, claude_fork.go\<close>

definition HasSuffix :: "string \<Rightarrow> string \<Rightarrow> bool" where
  "HasSuffix s suffix \<longleftrightarrow> length suffix \<le> length s \<and> drop (length s - length suffix) s = suffix"

definition subagentDir :: "string \<Rightarrow> string" where
  "subagentDir path =
     (if path = [] \<or> \<not> HasSuffix path ''.jsonl'' then []
      else take (length path - length ''.jsonl'') path @ ''/'' @ ''subagents'')"

definition planStatusLine :: "claude_state \<Rightarrow> string" where
  "planStatusLine cs = (if cc_PlanFile cs \<noteq> [] then ''#[range=user|plan]PLAN#[norange]'' else [])"

definition claudeInfoExtras :: "claude_state \<Rightarrow> info_line list" where
  "claudeInfoExtras cs = info_lines
     ([(''Title'', cs_Title cs), (''Summary'', cs_Summary cs), (''Last Prompt'', cs_LastPrompt cs),
       (''Working Dir'', cs_StartDir cs)] @
      (if cs_BranchIsWorktree cs then [(''Parent Branch'', cs_BranchParentBranch cs)] else []) @
      [(''Transcript'', cs_TranscriptPath cs)])"

definition claude_view :: "claude_driver \<Rightarrow> claude_state \<Rightarrow> view" where
  "claude_view d cs =
     (let transcriptPath = resolveTranscriptPath d cs in
      \<lparr> v_Card =
          \<lparr> card_Title = resolveCardTitle (cs_Title cs) (cs_Summary cs), card_Tags = CommonTags cs,
            card_BorderTitle = CommandTag ''claude'', card_BorderTitleSecondary = no_tag,
            card_BorderBadge = kd_shorten d (cs_StartDir cs) (kd_home d) \<rparr>,
        v_DisplayName = ''claude'',
        v_LogTabs =
          (if transcriptPath \<noteq> [] then
             [\<lparr> tab_Label = ''TRANSCRIPT'', tab_Path = transcriptPath, tab_Kind = ''transcript'',
                tab_RendererCfg = kd_renderer d (subagentDir transcriptPath) (kd_showThinking d) \<rparr>]
           else []) @ EventLogTab cs (kd_eventLogDir d),
        v_InfoExtras = claudeInfoExtras cs, v_SuppressInfo = False, v_StatusLine = planStatusLine cs,
        v_Status = cs_Status cs, v_StatusChangedAt = cs_StatusChangedAt cs \<rparr>)"

definition claude_View :: "claude_driver \<Rightarrow> claude_state option \<Rightarrow> view" where
  "claude_View d s = claude_view d (claude_or_zero s)"

definition shellQuote :: "string \<Rightarrow> string" where
  "shellQuote s = [CHR 0x27] @
     concat (map (\<lambda>c. if c = CHR 0x27 then [CHR 0x27, CHR 0x22, CHR 0x27, CHR 0x22, CHR 0x27] else [c]) s) @
     [CHR 0x27]"

definition handleStatusLineClick :: "claude_driver \<Rightarrow> claude_state \<Rightarrow> string \<Rightarrow> claude_state \<times> effect list" where
  "handleStatusLineClick d cs rng =
     (if rng \<noteq> ''plan'' \<or> cc_PlanFile cs = [] then (cs, [])
      else (cs, [EffPushDriver [] (kd_pager d @ '' '' @ shellQuote (cc_PlanFile cs))]))"

definition claude_ForkCommand :: "claude_state option \<Rightarrow> string \<Rightarrow> string option" where
  "claude_ForkCommand s baseCommand =
     (case s of
        None \<Rightarrow> None
      | Some cs \<Rightarrow>
          if cc_ClaudeSessionID cs = [] \<or> \<not> isAlphanumHyphen (cc_ClaudeSessionID cs) then None
          else Some (ForkCommand baseCommand (cc_ClaudeSessionID cs)))"

definition claude_ForkChildState :: "claude_state option \<Rightarrow> go_time \<Rightarrow> claude_state" where
  "claude_ForkChildState parent now =
     (let cs = claude_NewState now in
      case parent of
        None \<Rightarrow> cs
      | Some p \<Rightarrow> if cc_ClaudeSessionID p \<noteq> [] then cs\<lparr> cc_ForkParentID := cc_ClaudeSessionID p \<rparr> else cs)"

section \<open>claude_tool_log.go\<close>

definition claude_emitToolLog ::
  "claude_driver \<Rightarrow> claude_state \<Rightarrow> claude_hook_payload \<Rightarrow> go_time \<Rightarrow> string \<Rightarrow> claude_state \<times> effect list" where
  "claude_emitToolLog d cs hp now kindOverride =
     (let override = (\<lambda>k. if kindOverride = [] then k else kindOverride);
          (cs, kind, durationMs, toolInput) =
            (if kh_ToolUseID hp = [] then (cs, override ''auto'', 0, kh_ToolInput hp)
             else case fmlookup (cc_PendingTools cs) (kh_ToolUseID hp) of
               Some entry \<Rightarrow>
                 (cs\<lparr> cc_PendingTools := fmdrop (kh_ToolUseID hp) (cc_PendingTools cs) \<rparr>,
                  override (if pt_SawPrompt entry then ''approved'' else ''auto''),
                  tool_duration (pt_StartedAt entry) now, pt_Input entry)
             | None \<Rightarrow> (cs, override ''orphan'', 0, kh_ToolInput hp));
          slug = resolveProjectSlug (cs_Project cs)
      in if slug = [] then (cs, [])
         else (cs, [EffToolLogAppend ''claude'' slug
                (buildToolLogLine (kd_marshal d)
                  \<lparr> tl_TS = now, tl_RoostSessionID = cs_RoostSessionID cs,
                    tl_ClaudeSessionID = cc_ClaudeSessionID cs, tl_ToolUseID = kh_ToolUseID hp,
                    tl_ToolName = kh_ToolName hp, tl_Kind = kind, tl_PermissionMode = kh_PermissionMode hp,
                    tl_DurationMs = durationMs, tl_ToolInput = summariseToolInput (kh_ToolName hp) toolInput,
                    tl_Error = kh_Error hp \<rparr>)]))"

definition handleToolLog ::
  "claude_driver \<Rightarrow> claude_state \<Rightarrow> claude_hook_payload \<Rightarrow> go_time \<Rightarrow> claude_state \<times> effect list" where
  "handleToolLog d cs hp now =
     (let name = kh_HookEventName hp in
      if name = ''PreToolUse'' then
        (if kh_ToolUseID hp = [] \<or> kh_ToolName hp = [] then (cs, [])
         else (cs\<lparr> cc_PendingTools := fmupd (kh_ToolUseID hp)
                    \<lparr> pt_Name = kh_ToolName hp, pt_Input = kh_ToolInput hp, pt_StartedAt = now,
                      pt_SawPrompt = False, pt_PermMode = kh_PermissionMode hp \<rparr> (cc_PendingTools cs) \<rparr>, []))
      else if name = ''Notification'' then
        (if kh_NotificationType hp \<noteq> ''permission_prompt'' then (cs, [])
         else (cs\<lparr> cc_PendingTools := mark_oldest (cc_PendingTools cs) \<rparr>, []))
      else if name = ''PostToolUse'' then claude_emitToolLog d cs hp now []
      else if name = ''PostToolUseFailure'' then
        claude_emitToolLog d cs hp now (if kh_IsInterrupt hp then ''denied'' else ''failed'')
      else (cs, []))"

section \<open>claude_event.go\<close>

definition deriveState :: "claude_hook_payload \<Rightarrow> string" where
  "deriveState hp =
     (let name = kh_HookEventName hp in
      if name \<in> {''UserPromptSubmit'', ''PreToolUse'', ''PostToolUse''} then ''running''
      else if name = ''Stop'' then ''waiting''
      else if name = ''StopFailure'' \<or> name = ''SessionEnd'' then ''stopped''
      else if name = ''SessionStart'' then ''idle''
      else if name = ''Notification'' then
        (if kh_NotificationType hp = ''permission_prompt'' then ''pending''
         else if kh_NotificationType hp \<in> {''idle_prompt'', ''elicitation_dialog''} then ''waiting''
         else [])
      else [])"

definition claude_formatLog :: "claude_hook_payload \<Rightarrow> string" where
  "claude_formatLog hp =
     (let name = kh_HookEventName hp in
      if name = [] then []
      else
        let detail =
          (if name \<in> {''PreToolUse'', ''PostToolUse'', ''PostToolUseFailure''} then
             (let tool = kh_ToolName hp;
                  cmd = toolInputString (kh_ToolInput hp) ''command'';
                  fp = toolInputString (kh_ToolInput hp) ''file_path'';
                  p = toolInputString (kh_ToolInput hp) ''pattern''
              in if tool = [] then []
                 else if tool = ''Bash'' then (if cmd \<noteq> [] then tool @ '' '' @ previewText cmd else tool)
                 else if tool \<in> {''Read'', ''Write'', ''Edit'', ''Glob''} then
                   (if fp \<noteq> [] then tool @ '' '' @ fp else if p \<noteq> [] then tool @ '' '' @ p else tool)
                 else tool)
           else if name = ''Notification'' then kh_NotificationType hp
           else if name = ''SessionStart'' then kh_Source hp
           else [])
        in eventLogLine name detail)"

definition logEffects :: "claude_hook_payload \<Rightarrow> effect list" where
  "logEffects hp = (let line = claude_formatLog hp in if line \<noteq> [] then [EffEventLogAppend [] line] else [])"

definition absorbIdentityFromHP :: "claude_state \<Rightarrow> claude_hook_payload \<Rightarrow> claude_state" where
  "absorbIdentityFromHP cs hp =
     (let cs = (if kh_SessionID hp \<noteq> [] then
                  if cc_ForkParentID cs \<noteq> [] \<and> kh_SessionID hp = cc_ForkParentID cs then cs
                  else cs\<lparr> cc_ClaudeSessionID := kh_SessionID hp, cc_ForkParentID := [] \<rparr>
                else cs)
      in if kh_TranscriptPath hp \<noteq> [] then cs\<lparr> cs_TranscriptPath := kh_TranscriptPath hp \<rparr> else cs)"

text \<open>The job that parses the transcript, unless one is in flight.\<close>

definition claude_parse :: "claude_state \<Rightarrow> string \<Rightarrow> claude_state \<times> effect list" where
  "claude_parse cs path =
     (if cc_TranscriptInFlight cs then (cs, [])
      else (cs\<lparr> cc_TranscriptInFlight := True \<rparr>,
            [EffStartJob 0 (TranscriptParseInput (cc_ClaudeSessionID cs) path)]))"

definition claude_parse_known :: "claude_driver \<Rightarrow> claude_state \<Rightarrow> claude_state \<times> effect list" where
  "claude_parse_known d cs =
     (let path = resolveTranscriptPath d cs in if path = [] then (cs, []) else claude_parse cs path)"

definition handleSessionStart ::
  "claude_driver \<Rightarrow> claude_state \<Rightarrow> frame_context \<Rightarrow> claude_hook_payload \<Rightarrow> go_time \<Rightarrow> claude_state \<times> effect list" where
  "handleSessionStart d cs ctx hp now =
     (let cs = absorbIdentityFromHP cs hp;
          now = (if IsZero now then cs_StatusChangedAt cs else now);
          cs = cs\<lparr> cs_Status := StatusIdle, cs_StatusChangedAt := now \<rparr>;
          path = resolveTranscriptPath d cs;
          (cs, effs) =
            (if path \<noteq> [] \<and> cc_WatchedFile cs \<noteq> path then
               case claude_parse (cs\<lparr> cc_WatchedFile := path \<rparr>) path of
                 (cs, parse) \<Rightarrow> (cs, EffWatchFile [] path ''transcript'' # parse)
             else (cs, []));
          effs = effs @ logEffects hp
      in if fc_IsRoot ctx then
           let target = cs_StartDir cs in
           if target \<noteq> [] \<and> \<not> cs_BranchInFlight cs then
             (cs\<lparr> cs_BranchInFlight := True, cs_BranchTarget := target \<rparr>,
              effs @ [EffStartJob 0 (BranchDetectInput target)])
           else (cs, effs)
         else (cs, effs))"

definition handleStateChange ::
  "claude_driver \<Rightarrow> claude_state \<Rightarrow> claude_hook_payload \<Rightarrow> string \<Rightarrow> go_time \<Rightarrow> claude_state \<times> effect list" where
  "handleStateChange d cs hp statusStr now =
     (let cs = absorbIdentityFromHP cs hp;
          now = (if IsZero now then cs_StatusChangedAt cs else now);
          cs = (case ParseStatus statusStr of
                  Some status \<Rightarrow> cs\<lparr> cs_Status := status, cs_StatusChangedAt := now \<rparr>
                | None \<Rightarrow> cs);
          (cs, parse) = claude_parse_known d cs
      in (cs, logEffects hp @ parse))"

definition handleUserPromptSubmit ::
  "claude_driver \<Rightarrow> claude_state \<Rightarrow> claude_hook_payload \<Rightarrow> go_time \<Rightarrow> claude_state \<times> effect list" where
  "handleUserPromptSubmit d cs hp now =
     (let cs = absorbIdentityFromHP cs hp;
          cs = (if \<not> IsZero now then cs\<lparr> cs_StatusChangedAt := now \<rparr> else cs);
          cs = cs\<lparr> cs_Status := StatusRunning, cs_StatusChangedAt := now \<rparr>;
          cs = (if kh_Prompt hp \<noteq> [] then cs\<lparr> cs_LastPrompt := kh_Prompt hp \<rparr> else cs);
          effs = logEffects hp;
          turns = userOnlyTurns (appendHookPromptTurn (cc_RecentTurns cs) (kh_Prompt hp)) 2;
          (effs, inFlight) = enqueueSummaryJob effs (cs_SummaryInFlight cs) (formatSummaryPrompt (cs_Summary cs) turns);
          (cs, parse) = claude_parse_known d (cs\<lparr> cs_SummaryInFlight := inFlight \<rparr>)
      in (cs, effs @ parse))"

definition claude_handleHook ::
  "claude_driver \<Rightarrow> claude_state \<Rightarrow> frame_context \<Rightarrow> go_time \<Rightarrow> string \<Rightarrow> bytes \<Rightarrow> claude_state \<times> effect list" where
  "claude_handleHook d cs ctx ts roost payload =
     (let hp = kd_parse d payload in
      if kh_SessionID hp = [] then (cs, [])
      else
        let cs = (if roost \<noteq> [] then cs\<lparr> cs_RoostSessionID := roost \<rparr> else cs);
            stale = (\<not> IsZero ts \<and> \<not> cc_LastBridgeTS cs < ts);
            stamp = (\<lambda>cs. if \<not> IsZero ts then cs\<lparr> cc_LastBridgeTS := ts \<rparr> else cs)
        in if \<not> fc_IsRoot ctx then
             if stale then (cs, []) else (stamp (cs\<lparr> cc_ClaudeSessionID := kh_SessionID hp \<rparr>), [])
           else if kh_HookEventName hp = ''SessionStart'' then
             handleSessionStart d (cs\<lparr> cc_LastBridgeTS := ts, cc_PendingTools := fmempty \<rparr>) ctx hp ts
           else if stale then (cs, [])
           else
             let cs = stamp cs in
             if kh_HookEventName hp = ''UserPromptSubmit'' then handleUserPromptSubmit d cs hp ts
             else if kh_ToolName hp = ''Agent'' then (cs, logEffects hp)
             else if kh_HookEventName hp \<in> {''SubagentStart'', ''SubagentStop''} then (cs, logEffects hp)
             else
               let (cs, toolLogEffs) = handleToolLog d cs hp ts;
                   cs = (if kh_HookEventName hp = ''SessionEnd'' then cs\<lparr> cc_PendingTools := fmempty \<rparr> else cs);
                   status = deriveState hp
               in if status = [] then (cs, logEffects hp @ toolLogEffs)
                  else case handleStateChange d cs hp status ts of
                         (next, effs) \<Rightarrow> (next, effs @ toolLogEffs))"

text \<open>The first rune of a title: \<open>U+2733\<close>, or one of the block Braille (\<open>U+2800\<close> to \<open>U+28FF\<close>).\<close>

definition firstRune :: "string \<Rightarrow> string" where
  "firstRune s = (case runes s of [] \<Rightarrow> [] | r # _ \<Rightarrow> r)"

definition is_braille :: "string \<Rightarrow> bool" where
  "is_braille r \<longleftrightarrow> length r = 3 \<and> r ! 0 = CHR 0xE2 \<and> 0xA0 \<le> (of_char (r ! 1) :: nat) \<and>
     (of_char (r ! 1) :: nat) \<le> 0xA3"

definition claude_handleWindowTitle :: "claude_state \<Rightarrow> string \<Rightarrow> go_time \<Rightarrow> claude_state" where
  "claude_handleWindowTitle cs title now =
     (if title = cc_LastWindowTitle cs then cs
      else
        let cs = cs\<lparr> cc_LastWindowTitle := title \<rparr>;
            r = firstRune title
        in if r = [CHR 0xE2, CHR 0x9C, CHR 0xB3] then
             (if cs_Status cs \<noteq> StatusWaiting
              then cs\<lparr> cs_Status := StatusWaiting, cs_StatusChangedAt := now \<rparr> else cs)
           else if is_braille r then
             (if cs_Status cs \<noteq> StatusRunning
              then cs\<lparr> cs_Status := StatusRunning, cs_StatusChangedAt := now \<rparr> else cs)
           else cs)"

section \<open>claude_tick.go\<close>

definition claude_handleTranscriptChanged :: "claude_state \<Rightarrow> string \<Rightarrow> claude_state \<times> effect list" where
  "claude_handleTranscriptChanged cs evPath =
     (let path = (if cs_TranscriptPath cs = [] then evPath else cs_TranscriptPath cs) in
      if path = [] then (cs, [])
      else
        let (cs, effs) = (if cc_WatchedFile cs \<noteq> path
                          then (cs\<lparr> cc_WatchedFile := path \<rparr>, [EffWatchFile [] path ''transcript''])
                          else (cs, []));
            (cs, parse) = claude_parse cs path
        in (cs, effs @ parse))"

definition claude_handleJobResult :: "claude_state \<Rightarrow> job_result \<Rightarrow> string option \<Rightarrow> go_time \<Rightarrow> claude_state" where
  "claude_handleJobResult cs result err now =
     (case applySummaryJobResult (cs_Summary cs) result err of
        Some (summary, inFlight) \<Rightarrow> cs\<lparr> cs_Summary := summary, cs_SummaryInFlight := inFlight \<rparr>
      | None \<Rightarrow>
          (case result of
             TranscriptParseResult r \<Rightarrow>
               let cs = cs\<lparr> cc_TranscriptInFlight := False \<rparr> in
               if err \<noteq> None then cs
               else
                 let cs = (if tp_Title r \<noteq> [] then cs\<lparr> cs_Title := tp_Title r \<rparr> else cs);
                     cs = (if tp_LastPrompt r \<noteq> [] then cs\<lparr> cs_LastPrompt := tp_LastPrompt r \<rparr> else cs)
                 in cs\<lparr> cc_StatusLine := tp_StatusLine r, cc_CurrentTool := tp_CurrentTool r,
                        cc_SubagentCounts := tp_Subagents r, cc_RecentTurns := tp_RecentTurns r,
                        cc_PlanFile := tp_PlanFile r \<rparr>
           | BranchDetectResult r \<Rightarrow> ApplyBranchResult cs r err now
           | _ \<Rightarrow> cs))"

definition claude_Step ::
  "claude_driver \<Rightarrow> claude_state option \<Rightarrow> frame_context \<Rightarrow> driver_event \<Rightarrow> claude_state \<times> effect list \<times> view" where
  "claude_Step d prev ctx ev =
     (let cs = (case prev of None \<Rightarrow> claude_NewState zero_time | Some cs \<Rightarrow> cs);
          ret = (\<lambda>(next, effs). (next, effs, claude_view d next))
      in if \<not> fc_IsRoot ctx \<and> \<not> is_hook ev then ret (cs, [])
         else case ev of
           DEvHook event ts roost payload \<Rightarrow> ret (claude_handleHook d cs ctx ts roost payload)
         | DEvTick now watched project n sq \<Rightarrow> ret (HandleTick cs now watched project)
         | DEvFileChanged path \<Rightarrow> ret (claude_handleTranscriptChanged cs path)
         | DEvJobResult result err now \<Rightarrow> ret (claude_handleJobResult cs result err now, [])
         | DEvFrameOsc cmd title body now \<Rightarrow> ret (claude_handleWindowTitle cs title now, [])
         | DEvStatusLineClick rng now \<Rightarrow> ret (handleStatusLineClick d cs rng)
         | DEvWorktreeResolved startDir name \<Rightarrow> ret (ApplyWorktreeResolved cs startDir name, [])
         | DEvCommandExited exitCode timestamp \<Rightarrow> ret (ApplyCommandExited cs exitCode timestamp, [])
         | _ \<Rightarrow> ret (cs, []))"

definition claude_WarmStartRecover :: "claude_driver \<Rightarrow> claude_state option \<Rightarrow> go_time \<Rightarrow> claude_state \<times> effect list" where
  "claude_WarmStartRecover d s now =
     (let cs = (case s of None \<Rightarrow> claude_NewState now | Some cs \<Rightarrow> cs);
          path = resolveTranscriptPath d cs
      in if path = [] then (cs, [])
         else
           let cs = (if cs_TranscriptPath cs = [] then cs\<lparr> cs_TranscriptPath := path \<rparr> else cs);
               (cs, effs) = (if cc_WatchedFile cs \<noteq> path
                             then (cs\<lparr> cc_WatchedFile := path \<rparr>, [EffWatchFile [] path ''transcript''])
                             else (cs, []));
               (cs, parse) = claude_parse cs path
           in (cs, effs @ parse))"

section \<open>claude_persist.go\<close>

definition claude_Persist :: "time_codec \<Rightarrow> claude_state option \<Rightarrow> bag" where
  "claude_Persist tc s =
     (case s of
        None \<Rightarrow> fmempty
      | Some cs \<Rightarrow>
          put_str ''fork_parent_id'' (cc_ForkParentID cs)
            (put_str ''claude_session_id'' (cc_ClaudeSessionID cs) (PersistCommon tc cs fmempty)))"

definition claude_Restore :: "time_codec \<Rightarrow> bag \<Rightarrow> go_time \<Rightarrow> claude_state" where
  "claude_Restore tc bag now =
     (let cs = claude_of (common_new StatusIdle now) in
      if fmdom bag = {||} then cs
      else (RestoreCommon tc bag cs)
             \<lparr> cc_ClaudeSessionID := bag_get bag ''claude_session_id'',
               cc_ForkParentID := bag_get bag ''fork_parent_id'' \<rparr>)"

definition claude_PrepareCreate ::
  "claude_state option \<Rightarrow> string \<Rightarrow> string \<Rightarrow> launch_options \<Rightarrow> claude_state \<times> create_launch" where
  "claude_PrepareCreate s project command options =
     (claude_or_zero s, CommonPrepareCreate project command options [''--worktree''])"

definition ClaudeDriver :: "claude_driver \<Rightarrow> claude_state driver_impl" where
  "ClaudeDriver d =
     \<lparr> im_Name = ''claude'', im_DisplayName = ''claude'', im_NewState = claude_NewState,
       im_Step = claude_Step d, im_Status = cs_Status, im_View = claude_View d,
       im_Persist = claude_Persist (kd_time d), im_Restore = claude_Restore (kd_time d),
       im_PrepareLaunch = claude_PrepareLaunch d, im_PrepareCreate = claude_PrepareCreate,
       im_StartDir = claude_StartDir, im_WithStartDir = claude_WithStartDir,
       im_Fork = Some (claude_ForkCommand, claude_ForkChildState),
       im_Bootstrap = None, im_WarmStart = Some (claude_WarmStartRecover d), im_ColdStart = None \<rparr>"

section \<open>The driver law\<close>

lemma claude_view_status [simp]: "v_Status (claude_view d cs) = cs_Status cs"
  by (simp add: claude_view_def Let_def)

lemma claude_views: "claude_Step d prev ctx ev = (cs, effs, v) \<Longrightarrow> v = claude_view d cs"
  by (auto simp: claude_Step_def Let_def split: if_splits prod.splits driver_event.splits)

lemma log_effs [simp]: "list_all driver_effect (logEffects hp)"
  by (simp add: logEffects_def Let_def)

lemma parse_claude_effs: "claude_parse cs path = (cs', effs) \<Longrightarrow> list_all driver_effect effs"
  by (auto simp: claude_parse_def split: if_splits)

lemma parse_known_effs: "claude_parse_known d cs = (cs', effs) \<Longrightarrow> list_all driver_effect effs"
  by (auto simp: claude_parse_known_def Let_def dest: parse_claude_effs split: if_splits)

lemma claude_log_effs: "claude_emitToolLog d cs hp now kind = (cs', effs) \<Longrightarrow> list_all driver_effect effs"
  by (auto simp: claude_emitToolLog_def Let_def split: if_splits option.splits)

lemma tool_log_effs: "handleToolLog d cs hp now = (cs', effs) \<Longrightarrow> list_all driver_effect effs"
  by (auto simp: handleToolLog_def Let_def dest: claude_log_effs split: if_splits)

lemma session_start_claude: "handleSessionStart d cs ctx hp now = (cs', effs) \<Longrightarrow> list_all driver_effect effs"
  by (auto simp: handleSessionStart_def Let_def dest!: parse_claude_effs split: if_splits prod.splits)

lemma state_change_effs: "handleStateChange d cs hp st now = (cs', effs) \<Longrightarrow> list_all driver_effect effs"
  by (auto simp: handleStateChange_def Let_def dest!: parse_known_effs split: prod.splits)

lemma submit_effs: "handleUserPromptSubmit d cs hp now = (cs', effs) \<Longrightarrow> list_all driver_effect effs"
  by (auto simp: handleUserPromptSubmit_def Let_def dest!: parse_known_effs summary_effs split: prod.splits)

lemma claude_hook_effs: "claude_handleHook d cs ctx ts roost payload = (cs', effs) \<Longrightarrow> list_all driver_effect effs"
  by (auto simp: claude_handleHook_def Let_def
      dest!: session_start_claude state_change_effs submit_effs tool_log_effs split: if_splits prod.splits)

lemma claude_changed_effs: "claude_handleTranscriptChanged cs path = (cs', effs) \<Longrightarrow> list_all driver_effect effs"
  by (auto simp: claude_handleTranscriptChanged_def Let_def dest!: parse_claude_effs split: if_splits prod.splits)

lemma click_effs: "handleStatusLineClick d cs rng = (cs', effs) \<Longrightarrow> list_all driver_effect effs"
  by (auto simp: handleStatusLineClick_def split: if_splits)

lemma claude_effs: "claude_Step d prev ctx ev = (cs, effs, v) \<Longrightarrow> list_all driver_effect effs"
  by (auto simp: claude_Step_def Let_def dest!: HandleTick_effs claude_hook_effs claude_changed_effs click_effs
      split: if_splits prod.splits driver_event.splits)

interpretation claude: driver_law "ClaudeDriver d" for d
  by unfold_locales (auto simp: ClaudeDriver_def claude_View_def claude_or_zero_def claude_views claude_effs)

end
