(* ===== verification/Driver_Codex.thy ===== *)
theory Driver_Codex
  imports Driver_Tools
begin

text \<open>
  The Codex driver (\<open>codex.go\<close>, \<open>codex_event.go\<close>, \<open>codex_persist.go\<close>, \<open>codex_resume.go\<close>,
  \<open>codex_tool_log.go\<close>, \<open>codex_view.go\<close>): status from the events of the app-server stream, and the plan of
  a cold start that resumes a thread. What the plan reads outside the process is the record
  \<open>codex_host\<close>: the variable \<open>CODEX_HOME\<close>, the home directory, \<open>os.Stat\<close>, and the rows of the query on the
  session database. Debug logging is left out.
\<close>

section \<open>Quoting\<close>

text \<open>
  The verb \<open>%q\<close> of \<open>fmt\<close>, as the error messages use it. An invalid byte is written in hexadecimal. A rune
  beyond ASCII is taken as printable.
\<close>

definition hex_digit :: "nat \<Rightarrow> char" where
  "hex_digit n = ''0123456789abcdef'' ! (n mod 16)"

definition quote_ascii :: "char \<Rightarrow> string" where
  "quote_ascii c =
     (let n = (of_char c :: nat) in
      if c = CHR 0x22 \<or> c = CHR 0x5C then [CHR 0x5C, c]
      else if n = 7 then [CHR 0x5C, CHR ''a''] else if n = 8 then [CHR 0x5C, CHR ''b'']
      else if n = 9 then [CHR 0x5C, CHR ''t''] else if n = 10 then [CHR 0x5C, CHR ''n'']
      else if n = 11 then [CHR 0x5C, CHR ''v''] else if n = 12 then [CHR 0x5C, CHR ''f'']
      else if n = 13 then [CHR 0x5C, CHR ''r'']
      else if n < 32 \<or> n \<ge> 127 then [CHR 0x5C, CHR ''x'', hex_digit (n div 16), hex_digit n]
      else [c])"

function quote_runes :: "string \<Rightarrow> string" where
  "quote_runes [] = []"
| "quote_runes (c # s) =
     (let w = rune_width c s in
      (if w = 1 then quote_ascii c else take w (c # s)) @ quote_runes (drop (w - 1) s))"
  by pat_completeness auto

termination by (relation "measure length") auto

definition Quote :: "string \<Rightarrow> string" where
  "Quote s = [CHR 0x22] @ quote_runes s @ [CHR 0x22]"

section \<open>codex.go: the state\<close>

record codex_state = common_state +
  cx_ThreadID :: string
  cx_SessionID :: string
  cx_RolloutPath :: string
  cx_RequestedThreadID :: string
  cx_ObservedThreadID :: string
  cx_ResumePhase :: string
  cx_FailureReason :: string
  cx_CurrentTool :: string
  cx_PendingApproval :: bool
  cx_TranscriptInFlight :: bool
  cx_WatchedFile :: string
  cx_StatusLine :: string
  cx_LastWindowTitle :: string
  cx_PlanSummary :: string
  cx_DiffSummary :: string
  cx_DiffPaths :: "string list"
  cx_RecentTurns :: "summary_turn list"
  cx_PendingTools :: "(string, pending_tool) fmap"

record codex_host =
  ch_Getenv :: "string \<Rightarrow> string"
  ch_UserHomeDir :: "string option"
  ch_Stat :: "string \<Rightarrow> stat_result"
  ch_Query :: "string \<Rightarrow> string \<Rightarrow> string \<Rightarrow> string \<Rightarrow> string list option"

record codex_driver =
  cd_eventLogDir :: string
  cd_time :: time_codec
  cd_shorten :: "string \<Rightarrow> string"
  cd_marshal :: "tool_log_entry \<Rightarrow> string option"
  cd_host :: codex_host

record codex_tool_event =
  ce_Kind :: string
  ce_ToolName :: string
  ce_ToolInput :: tool_input
  ce_ToolUseID :: string
  ce_Error :: string
  ce_IsInterrupt :: bool

definition codex_of :: "common_state \<Rightarrow> codex_state" where
  "codex_of c = common_state.extend c
     (codex_state.fields [] [] [] [] [] [] [] [] False False [] [] [] [] [] [] [] fmempty)"

definition codex_or_zero :: "codex_state option \<Rightarrow> codex_state" where
  "codex_or_zero s = (case s of None \<Rightarrow> codex_of (common_new StatusRunning zero_time) | Some cs \<Rightarrow> cs)"

definition codex_StartDir :: "codex_state option \<Rightarrow> string" where
  "codex_StartDir s = (case s of None \<Rightarrow> [] | Some cs \<Rightarrow> cs_StartDir cs)"

definition codex_WithStartDir :: "codex_state \<Rightarrow> string \<Rightarrow> codex_state" where
  "codex_WithStartDir cs dir = cs\<lparr> cs_StartDir := dir \<rparr>"

definition codex_NewState :: "go_time \<Rightarrow> codex_state" where
  "codex_NewState now = codex_of (common_new StatusIdle now)"

section \<open>codex_view.go\<close>

definition codexInfoExtras :: "codex_state \<Rightarrow> info_line list" where
  "codexInfoExtras cs = info_lines
     ([(''Title'', cs_Title cs), (''Thread'', cx_ThreadID cs), (''Requested Thread'', cx_RequestedThreadID cs),
       (''Observed Thread'', cx_ObservedThreadID cs), (''Resume Phase'', cx_ResumePhase cs),
       (''Working Dir'', cs_StartDir cs), (''Worktree Name'', cs_WorktreeName cs),
       (''Current Tool'', cx_CurrentTool cs)] @
      (if cs_BranchIsWorktree cs then [(''Parent Branch'', cs_BranchParentBranch cs)] else []) @
      [(''Transcript'', cs_TranscriptPath cs), (''Summary'', cs_Summary cs), (''Plan'', cx_PlanSummary cs),
       (''Diff'', cx_DiffSummary cs), (''Status Line'', cx_StatusLine cs), (''Last Prompt'', cs_LastPrompt cs),
       (''Last Assistant'', cs_LastAssistantMessage cs)])"

definition codex_view :: "codex_driver \<Rightarrow> codex_state \<Rightarrow> view" where
  "codex_view d cs =
     \<lparr> v_Card =
         \<lparr> card_Title = resolveCardTitle (cs_Title cs) (cs_Summary cs), card_Tags = CommonTags cs,
           card_BorderTitle = CodexCommandTag, card_BorderTitleSecondary = no_tag,
           card_BorderBadge = cd_shorten d (cs_StartDir cs) \<rparr>,
       v_DisplayName = ''codex'',
       v_LogTabs =
         (if cs_TranscriptPath cs \<noteq> [] then
            [\<lparr> tab_Label = ''TRANSCRIPT'', tab_Path = cs_TranscriptPath cs, tab_Kind = ''codex_transcript'',
               tab_RendererCfg = ''{}'' \<rparr>]
          else []) @ EventLogTab cs (cd_eventLogDir d),
       v_InfoExtras = codexInfoExtras cs, v_SuppressInfo = False, v_StatusLine = cx_StatusLine cs,
       v_Status = cs_Status cs, v_StatusChangedAt = cs_StatusChangedAt cs \<rparr>"

definition codex_View :: "codex_driver \<Rightarrow> codex_state option \<Rightarrow> view" where
  "codex_View d s = codex_view d (codex_or_zero s)"

section \<open>codex_resume.go\<close>

definition setRolloutPath :: "codex_state \<Rightarrow> string \<Rightarrow> codex_state" where
  "setRolloutPath cs path =
     (let path = TrimSpace path in cs\<lparr> cs_TranscriptPath := path, cx_RolloutPath := path \<rparr>)"

definition resolvedRolloutPath :: "codex_state \<Rightarrow> string" where
  "resolvedRolloutPath cs =
     (let rolloutPath = TrimSpace (cx_RolloutPath cs) in
      if rolloutPath \<noteq> [] then rolloutPath else TrimSpace (cs_TranscriptPath cs))"

definition usableRolloutPath :: "codex_host \<Rightarrow> string \<Rightarrow> string" where
  "usableRolloutPath h path =
     (let path = TrimSpace path in
      if path = [] then []
      else case ch_Stat h path of StatOk n \<Rightarrow> if n = 0 then [] else path | _ \<Rightarrow> [])"

definition codexHomeDir :: "codex_host \<Rightarrow> string option" where
  "codexHomeDir h =
     (let home = TrimSpace (ch_Getenv h ''CODEX_HOME'') in
      if home \<noteq> [] then Some home else map_option (\<lambda>home. Join [home, ''.codex'']) (ch_UserHomeDir h))"

definition lookupCodexThreadValue ::
  "codex_host \<Rightarrow> string \<Rightarrow> string \<Rightarrow> string \<Rightarrow> string \<Rightarrow> string option" where
  "lookupCodexThreadValue h codexHome selectColumn whereColumn v =
     (let dbPath = Join [codexHome, ''state_5.sqlite''] in
      case ch_Stat h dbPath of
        StatOk _ \<Rightarrow>
          (case ch_Query h dbPath selectColumn whereColumn v of
             None \<Rightarrow> None
           | Some rows \<Rightarrow>
               (case map TrimSpace rows of
                  [m] \<Rightarrow> if m = [] then None else Some m
                | _ \<Rightarrow> None))
      | _ \<Rightarrow> None)"

definition lookupCodexThreadByRollout :: "codex_host \<Rightarrow> string \<Rightarrow> string \<Rightarrow> string option" where
  "lookupCodexThreadByRollout h codexHome rolloutPath =
     lookupCodexThreadValue h codexHome ''id'' ''rollout_path'' rolloutPath"

definition lookupCodexRolloutByThread :: "codex_host \<Rightarrow> string \<Rightarrow> string \<Rightarrow> string option" where
  "lookupCodexRolloutByThread h codexHome threadID =
     lookupCodexThreadValue h codexHome ''rollout_path'' ''id'' threadID"

definition resolveCodexRolloutPath :: "codex_host \<Rightarrow> string \<Rightarrow> string" where
  "resolveCodexRolloutPath h threadID =
     (case codexHomeDir h of
        None \<Rightarrow> []
      | Some codexHome \<Rightarrow>
          (case lookupCodexRolloutByThread h codexHome threadID of
             None \<Rightarrow> []
           | Some rolloutPath \<Rightarrow> usableRolloutPath h rolloutPath))"

definition resolveCodexSessionID :: "codex_host \<Rightarrow> string \<Rightarrow> string \<Rightarrow> string" where
  "resolveCodexSessionID h rolloutPath persistedSessionID =
     (if rolloutPath = [] \<or> persistedSessionID \<noteq> [] then persistedSessionID
      else case codexHomeDir h of
             None \<Rightarrow> []
           | Some codexHome \<Rightarrow>
               (case lookupCodexThreadByRollout h codexHome rolloutPath of None \<Rightarrow> [] | Some sid \<Rightarrow> sid))"

text \<open>The plan: an error, nothing to resume (\<open>None\<close>), or the target and the session identifier.\<close>

definition coldStartResumePlan :: "codex_host \<Rightarrow> codex_state \<Rightarrow> string + (resume_target \<times> string) option" where
  "coldStartResumePlan h cs =
     (let rawThreadID = TrimSpace (cx_ThreadID cs);
          sessionID = TrimSpace (cx_SessionID cs);
          rawRolloutPath = TrimSpace (resolvedRolloutPath cs);
          threadID = (if isAlphanumHyphen rawThreadID then rawThreadID
                      else if isAlphanumHyphen sessionID then sessionID else []);
          rolloutPath = usableRolloutPath h rawRolloutPath;
          rolloutPath = (if rolloutPath = [] \<and> threadID \<noteq> [] then resolveCodexRolloutPath h threadID
                         else rolloutPath)
      in if threadID = [] \<and> rawRolloutPath = [] then Inr None
         else if rawThreadID \<noteq> [] \<and> threadID = [] \<and> rolloutPath = [] then
           Inl (''codex cold-start resume requires a valid thread_id, got '' @ Quote rawThreadID)
         else if rolloutPath = [] then
           Inl (''codex cold-start resume requires a usable rollout_path for thread_id '' @ Quote threadID)
         else Inr (Some (\<lparr> rt_ThreadID = threadID, rt_RolloutPath = rolloutPath \<rparr>,
                         resolveCodexSessionID h rolloutPath sessionID)))"

definition hasResumeToken :: "string \<Rightarrow> bool" where
  "hasResumeToken command \<longleftrightarrow> list_ex (\<lambda>p. p = ''resume'') (Fields command)"

definition codex_PrepareLaunch ::
  "codex_host \<Rightarrow> codex_state option \<Rightarrow> launch_mode \<Rightarrow> string \<Rightarrow> string \<Rightarrow> launch_options \<Rightarrow> bool \<Rightarrow>
   string + launch_plan" where
  "codex_PrepareLaunch h s mode project baseCommand options sandboxed =
     (let cs = codex_or_zero s;
          startDir = (if cs_StartDir cs \<noteq> [] then cs_StartDir cs else project);
          (req, stripped) = resolveWorktreeRequest baseCommand options [''--worktree''];
          fields = Fields stripped
      in if fields = [] \<or> hd fields \<noteq> ''codex'' then
           Inr (zero_plan\<lparr> lp_Command := TrimSpace baseCommand, lp_StartDir := startDir,
                  lp_Options := options, lp_Stdin := lo_InitialInput options \<rparr>)
         else
           let base = TrimSpace stripped;
               stream = (if sandboxed then
                           zero_stream\<lparr> sl_SandboxPolicy := StreamSandboxPolicyExternal,
                             sl_ApprovalPolicy := StreamApprovalPolicyAutoApprove \<rparr>
                         else zero_stream);
               plan = (\<lambda>stream. zero_plan\<lparr> lp_Command := base, lp_StartDir := startDir,
                         lp_Options := worktree_only (wr_Enabled req), lp_Subsystem := LaunchSubsystemStream,
                         lp_Stream := stream, lp_Stdin := lo_InitialInput options \<rparr>)
           in if mode \<noteq> LaunchModeColdStart \<or> hasResumeToken base then Inr (plan stream)
              else case coldStartResumePlan h cs of
                     Inl err \<Rightarrow> Inl err
                   | Inr None \<Rightarrow> Inr (plan stream)
                   | Inr (Some (resume, sessionID)) \<Rightarrow>
                       Inr (plan (stream\<lparr> sl_ResumeTarget := resume, sl_ColdStartSessionID := sessionID \<rparr>)))"

definition RecoverableOnColdStart :: "codex_state option \<Rightarrow> bool" where
  "RecoverableOnColdStart s =
     (case s of
        None \<Rightarrow> False
      | Some cs \<Rightarrow>
          TrimSpace (resolvedRolloutPath cs) \<noteq> [] \<or> isAlphanumHyphen (cx_ThreadID cs) \<or>
          isAlphanumHyphen (cx_SessionID cs))"

section \<open>codex_tool_log.go\<close>

definition codex_emitToolLog ::
  "codex_driver \<Rightarrow> codex_state \<Rightarrow> codex_tool_event \<Rightarrow> go_time \<Rightarrow> string \<Rightarrow> effect list \<Rightarrow>
   codex_state \<times> effect list" where
  "codex_emitToolLog d cs ev now kind effs =
     (let (cs, kind, durationMs, toolInput) =
            (if ce_ToolUseID ev = [] then (cs, kind, 0, ce_ToolInput ev)
             else case fmlookup (cx_PendingTools cs) (ce_ToolUseID ev) of
               Some entry \<Rightarrow>
                 (cs\<lparr> cx_PendingTools := fmdrop (ce_ToolUseID ev) (cx_PendingTools cs) \<rparr>, kind,
                  tool_duration (pt_StartedAt entry) now, pt_Input entry)
             | None \<Rightarrow> (cs, if kind = ''auto'' then ''orphan'' else kind, 0, ce_ToolInput ev));
          project = (if cs_Project cs = [] then cs_StartDir cs else cs_Project cs);
          slug = resolveProjectSlug project
      in if slug = [] \<or> ce_ToolName ev = [] then (cs, effs)
         else (cs, effs @ [EffToolLogAppend ''codex'' slug
                (buildToolLogLine (cd_marshal d)
                  \<lparr> tl_TS = now, tl_RoostSessionID = cs_RoostSessionID cs, tl_ClaudeSessionID = [],
                    tl_ToolUseID = ce_ToolUseID ev, tl_ToolName = ce_ToolName ev, tl_Kind = kind,
                    tl_PermissionMode = [], tl_DurationMs = durationMs,
                    tl_ToolInput = summariseToolInput (ce_ToolName ev) toolInput, tl_Error = ce_Error ev \<rparr>)]))"

section \<open>codex_event.go\<close>

definition applyHookStatus :: "codex_state \<Rightarrow> status \<Rightarrow> go_time \<Rightarrow> codex_state" where
  "applyHookStatus cs status ts =
     cs\<lparr> cs_Status := status, cs_StatusChangedAt := statusTime ts (cs_StatusChangedAt cs) \<rparr>"

definition codexTitleNeedsUserAction :: "string \<Rightarrow> bool" where
  "codexTitleNeedsUserAction title = Contains title ''Action Required''"

definition codex_handleWindowTitle :: "codex_state \<Rightarrow> string \<Rightarrow> go_time \<Rightarrow> codex_state" where
  "codex_handleWindowTitle cs title now =
     (if title = cx_LastWindowTitle cs then cs
      else
        let cs = cs\<lparr> cx_LastWindowTitle := title \<rparr> in
        if codexTitleNeedsUserAction title \<and> cs_Status cs \<noteq> StatusPending then
          cs\<lparr> cs_Status := StatusPending, cs_StatusChangedAt := statusTime now (cs_StatusChangedAt cs) \<rparr>
        else cs)"

definition watchCodexTranscript :: "codex_state \<Rightarrow> codex_state \<times> effect list" where
  "watchCodexTranscript cs =
     (if cs_TranscriptPath cs = [] \<or> cx_WatchedFile cs = cs_TranscriptPath cs then (cs, [])
      else (cs\<lparr> cx_WatchedFile := cs_TranscriptPath cs \<rparr>,
            [EffWatchFile [] (cs_TranscriptPath cs) ''transcript'']))"

definition startCodexTranscriptParse :: "codex_state \<Rightarrow> codex_state \<times> effect list" where
  "startCodexTranscriptParse cs =
     (if cx_TranscriptInFlight cs \<or> cs_TranscriptPath cs = [] then (cs, [])
      else (cs\<lparr> cx_TranscriptInFlight := True \<rparr>,
            [EffStartJob 0 (CodexTranscriptParseInput (cs_TranscriptPath cs))]))"

definition applySessionStart ::
  "codex_state \<Rightarrow> frame_context \<Rightarrow> go_time \<Rightarrow> effect list \<Rightarrow> codex_state \<times> effect list" where
  "applySessionStart cs ctx now effs =
     (let cs = cs\<lparr> cx_FailureReason := [], cx_CurrentTool := [], cx_PendingApproval := False,
                   cx_PendingTools := fmempty \<rparr>;
          cs = applyHookStatus cs StatusIdle now;
          (cs, parse) = startCodexTranscriptParse cs;
          effs = effs @ parse
      in if fc_IsRoot ctx then
           let target = cs_StartDir cs in
           if target \<noteq> [] \<and> \<not> cs_BranchInFlight cs then
             (cs\<lparr> cs_BranchInFlight := True, cs_BranchTarget := target \<rparr>,
              effs @ [EffStartJob 0 (BranchDetectInput target)])
           else (cs, effs)
         else (cs, effs))"

definition BootstrapSessionStart ::
  "codex_state option \<Rightarrow> frame_context \<Rightarrow> go_time \<Rightarrow> codex_state \<times> effect list" where
  "BootstrapSessionStart s ctx now =
     (let cs = (case s of None \<Rightarrow> codex_NewState now | Some cs \<Rightarrow> cs);
          (cs, effs) = watchCodexTranscript cs
      in applySessionStart cs ctx now effs)"

definition subsystemToolName :: "subsystem_tool option \<Rightarrow> string" where
  "subsystemToolName tool = (case tool of None \<Rightarrow> [] | Some t \<Rightarrow> TrimSpace (to_Name t))"

definition subsystemTurnsToSummaryTurns :: "subsystem_turn list \<Rightarrow> summary_turn list" where
  "subsystemTurnsToSummaryTurns turns =
     filter (\<lambda>t. tn_Text t \<noteq> [] \<and> tn_Role t \<noteq> [])
       (map (\<lambda>t. \<lparr> tn_Role = TrimSpace (su_Role t), tn_Text = TrimSpace (su_Text t) \<rparr>) turns)"

definition subsystemToolInput :: "subsystem_tool \<Rightarrow> tool_input" where
  "subsystemToolInput tool =
     (let input = (if to_Command tool \<noteq> [] then fmupd ''command'' (VString (to_Command tool)) fmempty else fmempty)
      in if to_Path tool \<noteq> [] then fmupd ''file_path'' (VString (to_Path tool)) input else input)"

definition handleSubsystemToolStarted :: "codex_state \<Rightarrow> subsystem_payload \<Rightarrow> go_time \<Rightarrow> codex_state" where
  "handleSubsystemToolStarted cs p now =
     (case pl_Tool p of
        None \<Rightarrow> cs
      | Some tool \<Rightarrow>
          if to_ID tool = [] \<or> to_Name tool = [] then cs
          else cs\<lparr> cx_PendingTools := fmupd (to_ID tool)
                    \<lparr> pt_Name = to_Name tool, pt_Input = subsystemToolInput tool, pt_StartedAt = now,
                      pt_SawPrompt = False, pt_PermMode = [] \<rparr> (cx_PendingTools cs) \<rparr>)"

definition handleSubsystemToolCompleted ::
  "codex_driver \<Rightarrow> codex_state \<Rightarrow> subsystem_payload \<Rightarrow> go_time \<Rightarrow> effect list \<Rightarrow> codex_state \<times> effect list" where
  "handleSubsystemToolCompleted d cs p now effs =
     (case pl_Tool p of
        None \<Rightarrow> (cs, effs)
      | Some tool \<Rightarrow>
          if to_Name tool = [] then (cs, effs)
          else
            let failed = (to_Error tool \<noteq> []);
                ev = \<lparr> ce_Kind = (if failed then ''PostToolUseFailure'' else ''PostToolUse''),
                       ce_ToolName = to_Name tool, ce_ToolInput = subsystemToolInput tool,
                       ce_ToolUseID = to_ID tool, ce_Error = to_Error tool,
                       ce_IsInterrupt = to_IsInterrupt tool \<rparr>;
                kind = (if failed then if to_IsInterrupt tool then ''denied'' else ''failed'' else ''auto'')
            in codex_emitToolLog d cs ev now kind effs)"

definition applySubsystemKind ::
  "codex_driver \<Rightarrow> codex_state \<Rightarrow> frame_context \<Rightarrow> subsystem_event_kind \<Rightarrow> go_time \<Rightarrow> subsystem_payload \<Rightarrow>
   effect list \<Rightarrow> codex_state \<times> effect list" where
  "applySubsystemKind d cs ctx kind ts p effs =
     (case kind of
        SubsystemSessionReady \<Rightarrow> applySessionStart cs ctx ts effs
      | SubsystemFailed \<Rightarrow>
          (applyHookStatus (cs\<lparr> cx_FailureReason := TrimSpace (pl_Error p), cx_CurrentTool := [],
             cx_PendingApproval := False, cx_PendingTools := fmempty \<rparr>) StatusStopped ts, effs)
      | SubsystemPromptSubmitted \<Rightarrow>
          let cs = applyHookStatus (cs\<lparr> cs_LastPrompt := TrimSpace (pl_Prompt p) \<rparr>) StatusRunning ts;
              turns = userOnlyTurns (appendHookPromptTurn (cx_RecentTurns cs) (pl_Prompt p)) 2;
              (effs, inFlight) = enqueueSummaryJob effs (cs_SummaryInFlight cs) (formatSummaryPrompt (cs_Summary cs) turns);
              (cs, parse) = startCodexTranscriptParse (cs\<lparr> cs_SummaryInFlight := inFlight \<rparr>)
          in (cs, effs @ parse)
      | SubsystemTurnStarted \<Rightarrow> (applyHookStatus cs StatusRunning ts, effs)
      | SubsystemTurnCompleted \<Rightarrow>
          let cs = cs\<lparr> cx_CurrentTool := [], cx_PendingApproval := False, cx_PendingTools := fmempty \<rparr>;
              msg = TrimSpace (pl_LastAssistantMessage p);
              cs = (if msg \<noteq> [] then cs\<lparr> cs_LastAssistantMessage := msg \<rparr> else cs)
          in (applyHookStatus cs StatusWaiting ts, effs)
      | SubsystemToolStarted \<Rightarrow>
          let cs = cs\<lparr> cx_CurrentTool := subsystemToolName (pl_Tool p), cx_PendingApproval := False \<rparr>
          in (handleSubsystemToolStarted (applyHookStatus cs StatusRunning ts) p ts, effs)
      | SubsystemToolCompleted \<Rightarrow>
          handleSubsystemToolCompleted d (applyHookStatus (cs\<lparr> cx_CurrentTool := [] \<rparr>) StatusRunning ts) p ts effs
      | SubsystemApprovalRequested \<Rightarrow>
          (applyHookStatus (cs\<lparr> cx_PendingApproval := True \<rparr>) StatusPending ts, effs)
      | SubsystemApprovalResolved \<Rightarrow>
          (applyHookStatus (cs\<lparr> cx_PendingApproval := False \<rparr>)
             (case pl_Approval p of
                Some a \<Rightarrow> if ap_Denied a then StatusWaiting else StatusRunning
              | None \<Rightarrow> StatusRunning) ts, effs)
      | SubsystemPlanUpdated \<Rightarrow>
          (case pl_Plan p of None \<Rightarrow> cs | Some summary \<Rightarrow> cs\<lparr> cx_PlanSummary := TrimSpace summary \<rparr>, effs)
      | SubsystemDiffUpdated \<Rightarrow>
          (case pl_Diff p of
             None \<Rightarrow> cs
           | Some diff \<Rightarrow> cs\<lparr> cx_DiffSummary := TrimSpace (df_Summary diff), cx_DiffPaths := df_Paths diff \<rparr>, effs)
      | SubsystemMessageUpdated \<Rightarrow>
          let msg = TrimSpace (pl_LastAssistantMessage p);
              cs = (if msg \<noteq> [] then cs\<lparr> cs_LastAssistantMessage := msg \<rparr> else cs)
          in (case pl_Message p of
                None \<Rightarrow> cs
              | Some turns \<Rightarrow> cs\<lparr> cx_RecentTurns := subsystemTurnsToSummaryTurns turns \<rparr>, effs))"

definition codex_handleSubsystem ::
  "codex_driver \<Rightarrow> codex_state \<Rightarrow> frame_context \<Rightarrow> subsystem_event_kind \<Rightarrow> go_time \<Rightarrow> subsystem_payload \<Rightarrow>
   codex_state \<times> effect list" where
  "codex_handleSubsystem d cs ctx kind ts p =
     (let keep = (\<lambda>v old. if v \<noteq> [] then v else old);
          cs = cs\<lparr> cx_ThreadID := keep (pl_TargetID p) (cx_ThreadID cs),
                   cx_SessionID := keep (pl_ColdStartSessionID p) (cx_SessionID cs),
                   cx_RequestedThreadID := keep (pl_RequestedTargetID p) (cx_RequestedThreadID cs),
                   cx_ObservedThreadID := keep (pl_ObservedTargetID p) (cx_ObservedThreadID cs),
                   cx_ResumePhase := keep (pl_ResumePhase p) (cx_ResumePhase cs) \<rparr>
      in if \<not> fc_IsRoot ctx then (cs, [])
         else
           let cs = (if pl_TranscriptPath p \<noteq> [] then setRolloutPath cs (pl_TranscriptPath p) else cs);
               cs = cs\<lparr> cx_StatusLine := keep (pl_StatusLine p) (cx_StatusLine cs) \<rparr>;
               (cs, effs) = watchCodexTranscript cs
           in applySubsystemKind d cs ctx kind ts p effs)"

definition codex_handleJobResult :: "codex_state \<Rightarrow> job_result \<Rightarrow> string option \<Rightarrow> go_time \<Rightarrow> codex_state" where
  "codex_handleJobResult cs result err now =
     (case applySummaryJobResult (cs_Summary cs) result err of
        Some (summary, inFlight) \<Rightarrow> cs\<lparr> cs_Summary := summary, cs_SummaryInFlight := inFlight \<rparr>
      | None \<Rightarrow>
          (case result of
             CodexTranscriptParseResult r \<Rightarrow>
               let cs = cs\<lparr> cx_TranscriptInFlight := False \<rparr> in
               if err \<noteq> None then cs
               else
                 let cs = (if cp_Title r \<noteq> [] then cs\<lparr> cs_Title := cp_Title r \<rparr> else cs);
                     cs = (if cp_LastPrompt r \<noteq> [] then cs\<lparr> cs_LastPrompt := cp_LastPrompt r \<rparr> else cs);
                     cs = (if cp_LastAssistantMessage r \<noteq> []
                           then cs\<lparr> cs_LastAssistantMessage := cp_LastAssistantMessage r \<rparr> else cs);
                     cs = cs\<lparr> cx_StatusLine := cp_StatusLine r, cx_RecentTurns := cp_RecentTurns r \<rparr>
                 in if cs_Status cs \<noteq> StatusRunning then cs\<lparr> cx_CurrentTool := [] \<rparr> else cs
           | BranchDetectResult r \<Rightarrow> ApplyBranchResult cs r err now
           | _ \<Rightarrow> cs))"

definition codex_handleTranscriptChanged :: "codex_state \<Rightarrow> string \<Rightarrow> codex_state \<times> effect list" where
  "codex_handleTranscriptChanged cs path =
     (if cs_TranscriptPath cs \<noteq> [] \<and> path \<noteq> [] \<and> cs_TranscriptPath cs \<noteq> path then (cs, [])
      else
        let (cs, effs) = watchCodexTranscript cs;
            (cs, parse) = startCodexTranscriptParse cs
        in (cs, effs @ parse))"

definition is_subsystem :: "driver_event \<Rightarrow> bool" where
  "is_subsystem ev = (case ev of DEvSubsystem _ _ _ _ \<Rightarrow> True | _ \<Rightarrow> False)"

definition codex_Step ::
  "codex_driver \<Rightarrow> codex_state option \<Rightarrow> frame_context \<Rightarrow> driver_event \<Rightarrow> codex_state \<times> effect list \<times> view" where
  "codex_Step d prev ctx ev =
     (let cs = (case prev of None \<Rightarrow> codex_NewState zero_time | Some cs \<Rightarrow> cs);
          ret = (\<lambda>(next, effs). (next, effs, codex_view d next))
      in if \<not> fc_IsRoot ctx \<and> \<not> is_subsystem ev then ret (cs, [])
         else case ev of
           DEvSubsystem source kind ts p \<Rightarrow> ret (codex_handleSubsystem d cs ctx kind ts p)
         | DEvTick now watched project n sq \<Rightarrow> ret (HandleTick cs now watched project)
         | DEvFrameOsc cmd title body now \<Rightarrow> ret (codex_handleWindowTitle cs title now, [])
         | DEvFileChanged path \<Rightarrow> ret (codex_handleTranscriptChanged cs path)
         | DEvJobResult result err now \<Rightarrow> ret (codex_handleJobResult cs result err now, [])
         | DEvWorktreeResolved startDir name \<Rightarrow> ret (ApplyWorktreeResolved cs startDir name, [])
         | DEvCommandExited exitCode timestamp \<Rightarrow> ret (ApplyCommandExited cs exitCode timestamp, [])
         | _ \<Rightarrow> ret (cs, []))"

definition codex_WarmStartRecover :: "codex_state option \<Rightarrow> go_time \<Rightarrow> codex_state \<times> effect list" where
  "codex_WarmStartRecover s now =
     (let cs = (case s of None \<Rightarrow> codex_NewState now | Some cs \<Rightarrow> cs);
          (cs, effs) = watchCodexTranscript cs;
          (cs, parse) = startCodexTranscriptParse cs
      in (cs, effs @ parse))"

section \<open>codex_persist.go\<close>

definition codex_Persist :: "time_codec \<Rightarrow> codex_state option \<Rightarrow> bag" where
  "codex_Persist tc s =
     (case s of
        None \<Rightarrow> fmempty
      | Some cs \<Rightarrow>
          put_str ''resume_phase'' (cx_ResumePhase cs)
            (put_str ''observed_thread_id'' (cx_ObservedThreadID cs)
              (put_str ''requested_thread_id'' (cx_RequestedThreadID cs)
                (put_str ''rollout_path'' (cx_RolloutPath cs)
                  (put_str ''session_id'' (cx_SessionID cs)
                    (put_str ''thread_id'' (cx_ThreadID cs) (PersistCommon tc cs fmempty)))))))"

definition codex_Restore :: "time_codec \<Rightarrow> bag \<Rightarrow> go_time \<Rightarrow> codex_state" where
  "codex_Restore tc bag now =
     (let cs = codex_of (common_new StatusIdle now) in
      if fmdom bag = {||} then cs
      else
        let cs = RestoreCommon tc bag cs;
            rollout = bag_get bag ''rollout_path'';
            rollout = (if rollout = [] \<and> cs_TranscriptPath cs \<noteq> [] then cs_TranscriptPath cs else rollout);
            cs = cs\<lparr> cx_ThreadID := bag_get bag ''thread_id'', cx_SessionID := bag_get bag ''session_id'',
                     cx_RolloutPath := rollout,
                     cx_RequestedThreadID := bag_get bag ''requested_thread_id'',
                     cx_ObservedThreadID := bag_get bag ''observed_thread_id'',
                     cx_ResumePhase := bag_get bag ''resume_phase'' \<rparr>
        in if cs_TranscriptPath cs = [] \<and> cx_RolloutPath cs \<noteq> []
           then cs\<lparr> cs_TranscriptPath := cx_RolloutPath cs \<rparr> else cs)"

definition codex_PrepareCreate ::
  "codex_state option \<Rightarrow> string \<Rightarrow> string \<Rightarrow> launch_options \<Rightarrow> codex_state \<times> create_launch" where
  "codex_PrepareCreate s project command options =
     (codex_or_zero s, CommonPrepareCreate project command options [''--worktree''])"

definition CodexDriver :: "codex_driver \<Rightarrow> codex_state driver_impl" where
  "CodexDriver d =
     \<lparr> im_Name = ''codex'', im_DisplayName = ''codex'', im_NewState = codex_NewState,
       im_Step = codex_Step d, im_Status = cs_Status, im_View = codex_View d,
       im_Persist = codex_Persist (cd_time d), im_Restore = codex_Restore (cd_time d),
       im_PrepareLaunch = codex_PrepareLaunch (cd_host d), im_PrepareCreate = codex_PrepareCreate,
       im_StartDir = codex_StartDir, im_WithStartDir = codex_WithStartDir, im_Fork = None,
       im_Bootstrap = Some BootstrapSessionStart, im_WarmStart = Some codex_WarmStartRecover,
       im_ColdStart = Some RecoverableOnColdStart \<rparr>"

section \<open>The driver law\<close>

lemma codex_view_status [simp]: "v_Status (codex_view d cs) = cs_Status cs"
  by (simp add: codex_view_def)

lemma codex_views: "codex_Step d prev ctx ev = (cs, effs, v) \<Longrightarrow> v = codex_view d cs"
  by (auto simp: codex_Step_def Let_def split: if_splits prod.splits driver_event.splits)

lemma watch_codex_effs: "watchCodexTranscript cs = (cs', effs) \<Longrightarrow> list_all driver_effect effs"
  by (auto simp: watchCodexTranscript_def split: if_splits)

lemma parse_codex_effs: "startCodexTranscriptParse cs = (cs', effs) \<Longrightarrow> list_all driver_effect effs"
  by (auto simp: startCodexTranscriptParse_def split: if_splits)

lemma codex_log_effs:
  "codex_emitToolLog d cs ev now kind effs = (cs', effs') \<Longrightarrow> list_all driver_effect effs \<Longrightarrow> list_all driver_effect effs'"
  by (auto simp: codex_emitToolLog_def Let_def split: if_splits option.splits)

lemma session_start_effs:
  "applySessionStart cs ctx now effs = (cs', effs') \<Longrightarrow> list_all driver_effect effs \<Longrightarrow> list_all driver_effect effs'"
  by (auto simp: applySessionStart_def Let_def dest: parse_codex_effs split: if_splits prod.splits)

lemma completed_effs:
  "handleSubsystemToolCompleted d cs p now effs = (cs', effs') \<Longrightarrow> list_all driver_effect effs \<Longrightarrow>
   list_all driver_effect effs'"
  by (auto simp: handleSubsystemToolCompleted_def Let_def dest: codex_log_effs split: if_splits option.splits)

lemma codex_kind_effs:
  "applySubsystemKind d cs ctx kind ts p effs = (cs', effs') \<Longrightarrow> list_all driver_effect effs \<Longrightarrow>
   list_all driver_effect effs'"
  by (cases kind)
    (auto simp: applySubsystemKind_def Let_def dest: session_start_effs completed_effs parse_codex_effs summary_effs
      split: prod.splits)

lemma codex_subsystem_effs: "codex_handleSubsystem d cs ctx kind ts p = (cs', effs) \<Longrightarrow> list_all driver_effect effs"
  by (auto simp: codex_handleSubsystem_def Let_def dest!: watch_codex_effs codex_kind_effs
      split: if_splits prod.splits)

lemma codex_changed_effs: "codex_handleTranscriptChanged cs path = (cs', effs) \<Longrightarrow> list_all driver_effect effs"
  by (auto simp: codex_handleTranscriptChanged_def Let_def dest!: watch_codex_effs parse_codex_effs
      split: if_splits prod.splits)

lemma codex_effs: "codex_Step d prev ctx ev = (cs, effs, v) \<Longrightarrow> list_all driver_effect effs"
  by (auto simp: codex_Step_def Let_def dest!: HandleTick_effs codex_subsystem_effs codex_changed_effs
      split: if_splits prod.splits driver_event.splits)

lemma codex_boot_effs: "BootstrapSessionStart s ctx now = (cs, effs) \<Longrightarrow> list_all driver_effect effs"
  by (auto simp: BootstrapSessionStart_def Let_def dest!: watch_codex_effs session_start_effs split: prod.splits)

interpretation codex: driver_law "CodexDriver d" for d
  by unfold_locales
    (auto simp: CodexDriver_def codex_View_def codex_or_zero_def codex_views codex_effs codex_boot_effs)

end
