(* ===== verification/Driver_Gemini.thy ===== *)
theory Driver_Gemini
  imports Driver_Tools
begin

text \<open>
  The Gemini driver (\<open>gemini.go\<close>, \<open>gemini_event.go\<close>, \<open>gemini_persist.go\<close>, \<open>gemini_view.go\<close>): status from
  hooks and window titles, transcript watching, tool log. The JSON decoder of the hook payload, the
  marshaller of log entries and the path shortener of the view (a third-party package) are parameters.
\<close>

record gemini_hook_payload =
  gh_SessionID :: string
  gh_HookEventName :: string
  gh_NotificationType :: string
  gh_TranscriptPath :: string
  gh_Source :: string
  gh_Prompt :: string
  gh_ToolName :: string
  gh_ToolInput :: tool_input
  gh_ToolUseID :: string
  gh_PermissionMode :: string
  gh_PromptResponse :: string
  gh_StopReason :: string

record gemini_state = common_state +
  gm_GeminiSessionID :: string
  gm_CurrentTool :: string
  gm_TranscriptInFlight :: bool
  gm_WatchedFile :: string
  gm_StatusLine :: string
  gm_RecentTurns :: "summary_turn list"
  gm_PendingTools :: "(string, pending_tool) fmap"
  gm_LastWindowTitle :: string

record gemini_driver =
  ge_eventLogDir :: string
  ge_time :: time_codec
  ge_shorten :: "string \<Rightarrow> string"
  ge_marshal :: "tool_log_entry \<Rightarrow> string option"
  ge_parse :: "bytes \<Rightarrow> gemini_hook_payload"

definition gemini_of :: "common_state \<Rightarrow> gemini_state" where
  "gemini_of c = common_state.extend c (gemini_state.fields [] [] False [] [] [] fmempty [])"

definition gemini_or_zero :: "gemini_state option \<Rightarrow> gemini_state" where
  "gemini_or_zero s = (case s of None \<Rightarrow> gemini_of (common_new StatusRunning zero_time) | Some gs \<Rightarrow> gs)"

definition gemini_StartDir :: "gemini_state option \<Rightarrow> string" where
  "gemini_StartDir s = (case s of None \<Rightarrow> [] | Some gs \<Rightarrow> cs_StartDir gs)"

definition gemini_WithStartDir :: "gemini_state \<Rightarrow> string \<Rightarrow> gemini_state" where
  "gemini_WithStartDir gs dir = gs\<lparr> cs_StartDir := dir \<rparr>"

definition gemini_NewState :: "go_time \<Rightarrow> gemini_state" where
  "gemini_NewState now = gemini_of (common_new StatusIdle now)"

definition geminiInfoExtras :: "gemini_state \<Rightarrow> info_line list" where
  "geminiInfoExtras gs = info_lines
     ([(''Gemini Session'', gm_GeminiSessionID gs), (''Working Dir'', cs_StartDir gs),
       (''Worktree Name'', cs_WorktreeName gs), (''Current Tool'', gm_CurrentTool gs)] @
      (if cs_BranchIsWorktree gs then [(''Parent Branch'', cs_BranchParentBranch gs)] else []) @
      [(''Transcript'', cs_TranscriptPath gs), (''Summary'', cs_Summary gs),
       (''Status Line'', gm_StatusLine gs), (''Last Prompt'', previewText (cs_LastPrompt gs)),
       (''Last Assistant'', previewText (cs_LastAssistantMessage gs)), (''Last Hook'', cs_LastHookEvent gs)])"

definition gemini_view :: "gemini_driver \<Rightarrow> gemini_state \<Rightarrow> view" where
  "gemini_view d gs =
     \<lparr> v_Card =
         \<lparr> card_Title = resolveCardTitle (cs_Title gs) (cs_Summary gs), card_Tags = CommonTags gs,
           card_BorderTitle = GeminiCommandTag, card_BorderTitleSecondary = no_tag,
           card_BorderBadge = ge_shorten d (cs_StartDir gs) \<rparr>,
       v_DisplayName = ''gemini'',
       v_LogTabs =
         (if cs_TranscriptPath gs \<noteq> [] then
            [\<lparr> tab_Label = ''TRANSCRIPT'', tab_Path = cs_TranscriptPath gs, tab_Kind = ''text'',
               tab_RendererCfg = [] \<rparr>]
          else []) @ EventLogTab gs (ge_eventLogDir d),
       v_InfoExtras = geminiInfoExtras gs, v_SuppressInfo = False, v_StatusLine = gm_StatusLine gs,
       v_Status = cs_Status gs, v_StatusChangedAt = cs_StatusChangedAt gs \<rparr>"

definition gemini_View :: "gemini_driver \<Rightarrow> gemini_state option \<Rightarrow> view" where
  "gemini_View d s = gemini_view d (gemini_or_zero s)"

definition gemini_PrepareLaunch ::
  "gemini_state option \<Rightarrow> launch_mode \<Rightarrow> string \<Rightarrow> string \<Rightarrow> launch_options \<Rightarrow> bool \<Rightarrow> string + launch_plan" where
  "gemini_PrepareLaunch s mode project baseCommand options sandboxed =
     (let gs = gemini_or_zero s;
          startDir = (if cs_StartDir gs \<noteq> [] then cs_StartDir gs else project);
          (req, command) = resolveWorktreeRequest baseCommand options [''--worktree'', ''--workspace''];
          command = TrimSpace command;
          command = (if sandboxed \<and> \<not> hasFlagToken command ''--yolo''
                     then appendFlag command ''--yolo'' True else command);
          plan = zero_plan\<lparr> lp_Command := command, lp_StartDir := startDir, lp_Stdin := lo_InitialInput options \<rparr>
      in if mode \<noteq> LaunchModeColdStart \<or> gm_GeminiSessionID gs = [] \<or>
            \<not> isAlphanumHyphen (gm_GeminiSessionID gs) then
           Inr (plan\<lparr> lp_Options := worktree_only (wr_Enabled req) \<rparr>)
         else if Contains command ''--resume'' \<or> Contains command '' -r'' then Inr plan
         else Inr (plan\<lparr> lp_Command := command @ '' --resume '' @ gm_GeminiSessionID gs \<rparr>))"

section \<open>gemini_event.go\<close>

definition gemini_formatLog :: "gemini_hook_payload \<Rightarrow> string" where
  "gemini_formatLog hp =
     (let name = gh_HookEventName hp;
          detail =
            (if name = ''SessionStart'' then gh_Source hp
             else if name = ''BeforeAgent'' then
               (if gh_Prompt hp \<noteq> [] then ''prompt=\"'' @ previewText (gh_Prompt hp) @ ''\"'' else [])
             else if name = ''BeforeTool'' \<or> name = ''AfterTool'' then
               (let detail = TrimSpace (gh_ToolName hp);
                    cmd = toolInputString (gh_ToolInput hp) ''command'';
                    path = toolInputString (gh_ToolInput hp) ''file_path''
                in if cmd \<noteq> [] then TrimSpace (detail @ '' cmd=\"'' @ previewText cmd @ ''\"'')
                   else if path \<noteq> [] then TrimSpace (detail @ '' path=\"'' @ previewText path @ ''\"'')
                   else detail)
             else if name = ''Notification'' then gh_NotificationType hp
             else if name = ''AfterAgent'' then
               join_with '' ''
                 ((if gh_StopReason hp \<noteq> [] then [''reason='' @ previewText (gh_StopReason hp)] else []) @
                  (if gh_PromptResponse hp \<noteq> [] then [''resp=\"'' @ previewText (gh_PromptResponse hp) @ ''\"''] else []))
             else [])
      in eventLogLine name detail)"

definition raised_hand :: string where "raised_hand = [CHR 0xE2, CHR 0x9C, CHR 0x8B]"
definition black_star :: string where "black_star = [CHR 0xE2, CHR 0x9C, CHR 0xA6]"
definition white_diamond :: string where "white_diamond = [CHR 0xE2, CHR 0x97, CHR 0x87]"

definition gemini_status :: "gemini_state \<Rightarrow> status \<Rightarrow> go_time \<Rightarrow> gemini_state" where
  "gemini_status gs st ts =
     gs\<lparr> cs_Status := st, cs_StatusChangedAt := statusTime ts (cs_StatusChangedAt gs) \<rparr>"

definition gemini_handleWindowTitle :: "gemini_state \<Rightarrow> string \<Rightarrow> go_time \<Rightarrow> gemini_state" where
  "gemini_handleWindowTitle gs title now =
     (if title = gm_LastWindowTitle gs then gs
      else
        let gs = gs\<lparr> gm_LastWindowTitle := title \<rparr> in
        if cs_Status gs = StatusIdle \<or> cs_Status gs = StatusStopped then gs
        else if Contains title raised_hand \<or> Contains title ''Action Required''
          then gemini_status gs StatusPending now
        else if Contains title black_star then gemini_status gs StatusRunning now
        else if Contains title white_diamond then gemini_status gs StatusWaiting now
        else gs)"

definition watchGeminiTranscript :: "gemini_state \<Rightarrow> gemini_state \<times> effect list" where
  "watchGeminiTranscript gs =
     (if cs_TranscriptPath gs = [] \<or> gm_WatchedFile gs = cs_TranscriptPath gs then (gs, [])
      else (gs\<lparr> gm_WatchedFile := cs_TranscriptPath gs \<rparr>,
            [EffWatchFile [] (cs_TranscriptPath gs) ''transcript'']))"

definition startGeminiTranscriptParse :: "gemini_state \<Rightarrow> gemini_state \<times> effect list" where
  "startGeminiTranscriptParse gs =
     (if gm_TranscriptInFlight gs \<or> cs_TranscriptPath gs = [] then (gs, [])
      else (gs\<lparr> gm_TranscriptInFlight := True \<rparr>,
            [EffStartJob 0 (GeminiTranscriptParseInput (cs_TranscriptPath gs))]))"

definition handleGeminiPendingTool :: "gemini_state \<Rightarrow> gemini_hook_payload \<Rightarrow> go_time \<Rightarrow> gemini_state" where
  "handleGeminiPendingTool gs hp now =
     (if gh_ToolUseID hp = [] \<or> gh_ToolName hp = [] then gs
      else gs\<lparr> gm_PendingTools := fmupd (gh_ToolUseID hp)
                \<lparr> pt_Name = gh_ToolName hp, pt_Input = gh_ToolInput hp, pt_StartedAt = now,
                  pt_SawPrompt = False, pt_PermMode = [] \<rparr> (gm_PendingTools gs) \<rparr>)"

definition markGeminiPermissionPrompt :: "gemini_state \<Rightarrow> gemini_state" where
  "markGeminiPermissionPrompt gs = gs\<lparr> gm_PendingTools := mark_oldest (gm_PendingTools gs) \<rparr>"

definition emitGeminiToolLog ::
  "gemini_driver \<Rightarrow> gemini_state \<Rightarrow> gemini_hook_payload \<Rightarrow> go_time \<Rightarrow> effect list \<Rightarrow> gemini_state \<times> effect list" where
  "emitGeminiToolLog d gs hp now effs =
     (let (gs, kind, durationMs, toolInput) =
            (if gh_ToolUseID hp = [] then (gs, ''auto'', 0, gh_ToolInput hp)
             else case fmlookup (gm_PendingTools gs) (gh_ToolUseID hp) of
               Some entry \<Rightarrow>
                 (gs\<lparr> gm_PendingTools := fmdrop (gh_ToolUseID hp) (gm_PendingTools gs) \<rparr>,
                  if pt_SawPrompt entry then ''approved'' else ''auto'',
                  tool_duration (pt_StartedAt entry) now, pt_Input entry)
             | None \<Rightarrow> (gs, ''orphan'', 0, gh_ToolInput hp));
          project = (if cs_Project gs = [] then cs_StartDir gs else cs_Project gs);
          slug = resolveProjectSlug project
      in if slug = [] \<or> gh_ToolName hp = [] then (gs, effs)
         else (gs, effs @ [EffToolLogAppend ''gemini'' slug
                (buildToolLogLine (ge_marshal d)
                  \<lparr> tl_TS = now, tl_RoostSessionID = cs_RoostSessionID gs, tl_ClaudeSessionID = [],
                    tl_ToolUseID = gh_ToolUseID hp, tl_ToolName = gh_ToolName hp, tl_Kind = kind,
                    tl_PermissionMode = gh_PermissionMode hp, tl_DurationMs = durationMs,
                    tl_ToolInput = summariseToolInput (gh_ToolName hp) toolInput, tl_Error = [] \<rparr>)]))"

definition handleGeminiHookEvent ::
  "gemini_driver \<Rightarrow> gemini_state \<Rightarrow> gemini_hook_payload \<Rightarrow> go_time \<Rightarrow> effect list \<Rightarrow> gemini_state \<times> effect list" where
  "handleGeminiHookEvent d gs hp ts effs =
     (let name = gh_HookEventName hp in
      if name = ''SessionStart'' then
        let gs = gemini_status (gs\<lparr> gm_PendingTools := fmempty, gm_CurrentTool := [] \<rparr>) StatusIdle ts;
            (gs, parse) = startGeminiTranscriptParse gs;
            target = cs_StartDir gs
        in if target \<noteq> [] \<and> \<not> cs_BranchInFlight gs then
             (gs\<lparr> cs_BranchInFlight := True, cs_BranchTarget := target \<rparr>,
              effs @ parse @ [EffStartJob 0 (BranchDetectInput target)])
           else (gs, effs @ parse)
      else if name = ''BeforeAgent'' then
        let gs = gemini_status (gs\<lparr> cs_LastPrompt := TrimSpace (gh_Prompt hp) \<rparr>) StatusRunning ts;
            turns = userOnlyTurns (appendHookPromptTurn (gm_RecentTurns gs) (gh_Prompt hp)) 2;
            (effs, inFlight) = enqueueSummaryJob effs (cs_SummaryInFlight gs) (formatSummaryPrompt (cs_Summary gs) turns)
        in (gs\<lparr> cs_SummaryInFlight := inFlight \<rparr>, effs)
      else if name = ''BeforeTool'' then
        let gs = gemini_status (gs\<lparr> gm_CurrentTool := TrimSpace (gh_ToolName hp) \<rparr>) StatusRunning ts
        in (handleGeminiPendingTool gs hp ts, effs)
      else if name = ''AfterTool'' then emitGeminiToolLog d (gemini_status gs StatusRunning ts) hp ts effs
      else if name = ''AfterAgent'' then
        let msg = TrimSpace (gh_PromptResponse hp);
            gs = (if msg \<noteq> [] then gs\<lparr> cs_LastAssistantMessage := msg \<rparr> else gs);
            gs = gemini_status (gs\<lparr> gm_CurrentTool := [], gm_PendingTools := fmempty \<rparr>) StatusWaiting ts;
            (gs, parse) = startGeminiTranscriptParse gs
        in (gs, effs @ parse)
      else if name = ''Notification'' then
        (if gh_NotificationType hp = ''ToolPermission''
         then (gemini_status (markGeminiPermissionPrompt gs) StatusPending ts, effs) else (gs, effs))
      else if name = ''SessionEnd'' then
        (gemini_status (gs\<lparr> gm_CurrentTool := [], gm_PendingTools := fmempty \<rparr>) StatusStopped ts, effs)
      else (gs, effs))"

definition gemini_handleHook ::
  "gemini_driver \<Rightarrow> gemini_state \<Rightarrow> frame_context \<Rightarrow> go_time \<Rightarrow> string \<Rightarrow> bytes \<Rightarrow> gemini_state \<times> effect list" where
  "gemini_handleHook d gs ctx ts roost payload =
     (let hp = ge_parse d payload;
          preamble = \<lparr> hp_SessionID = gh_SessionID hp, hp_HookEventName = gh_HookEventName hp,
                       hp_TranscriptPath = (if fc_IsRoot ctx then gh_TranscriptPath hp else []) \<rparr>
      in case applyHookPreamble gs preamble ts roost of
           None \<Rightarrow> (gs, [])
         | Some gs \<Rightarrow>
             let gs = gs\<lparr> gm_GeminiSessionID := gh_SessionID hp \<rparr> in
             if \<not> fc_IsRoot ctx then (gs, [])
             else
               let (gs, effs) = watchGeminiTranscript gs;
                   (gs, effs) = handleGeminiHookEvent d gs hp ts effs;
                   line = TrimSpace (gemini_formatLog hp)
               in (gs, effs @ (if line \<noteq> [] then [EffEventLogAppend [] line] else [])))"

definition gemini_handleTranscriptChanged :: "gemini_state \<Rightarrow> string \<Rightarrow> gemini_state \<times> effect list" where
  "gemini_handleTranscriptChanged gs path =
     (if cs_TranscriptPath gs \<noteq> [] \<and> path \<noteq> [] \<and> cs_TranscriptPath gs \<noteq> path then (gs, [])
      else
        let (gs, effs) = watchGeminiTranscript gs;
            (gs, parse) = startGeminiTranscriptParse gs
        in (gs, effs @ parse))"

definition gemini_handleJobResult :: "gemini_state \<Rightarrow> job_result \<Rightarrow> string option \<Rightarrow> go_time \<Rightarrow> gemini_state" where
  "gemini_handleJobResult gs result err now =
     (case applySummaryJobResult (cs_Summary gs) result err of
        Some (summary, inFlight) \<Rightarrow> gs\<lparr> cs_Summary := summary, cs_SummaryInFlight := inFlight \<rparr>
      | None \<Rightarrow>
          (case result of
             GeminiTranscriptParseResult r \<Rightarrow>
               let gs = gs\<lparr> gm_TranscriptInFlight := False \<rparr> in
               if err \<noteq> None then gs
               else
                 let gs = (if gp_Title r \<noteq> [] then gs\<lparr> cs_Title := gp_Title r \<rparr> else gs);
                     gs = (if gp_LastPrompt r \<noteq> [] then gs\<lparr> cs_LastPrompt := gp_LastPrompt r \<rparr> else gs);
                     gs = (if gp_LastAssistantMessage r \<noteq> []
                           then gs\<lparr> cs_LastAssistantMessage := gp_LastAssistantMessage r \<rparr> else gs)
                 in gs\<lparr> gm_StatusLine := gp_StatusLine r, gm_RecentTurns := gp_RecentTurns r,
                        gm_CurrentTool := gp_CurrentTool r \<rparr>
           | BranchDetectResult r \<Rightarrow> ApplyBranchResult gs r err now
           | _ \<Rightarrow> gs))"

definition gemini_Step ::
  "gemini_driver \<Rightarrow> gemini_state option \<Rightarrow> frame_context \<Rightarrow> driver_event \<Rightarrow> gemini_state \<times> effect list \<times> view" where
  "gemini_Step d prev ctx ev =
     (let gs = (case prev of None \<Rightarrow> gemini_NewState zero_time | Some gs \<Rightarrow> gs);
          ret = (\<lambda>(next, effs). (next, effs, gemini_view d next))
      in if \<not> fc_IsRoot ctx \<and> \<not> is_hook ev then ret (gs, [])
         else case ev of
           DEvHook event ts roost payload \<Rightarrow> ret (gemini_handleHook d gs ctx ts roost payload)
         | DEvTick now watched project n sq \<Rightarrow> ret (HandleTick gs now watched project)
         | DEvFrameOsc cmd title body now \<Rightarrow> ret (gemini_handleWindowTitle gs title now, [])
         | DEvFileChanged path \<Rightarrow> ret (gemini_handleTranscriptChanged gs path)
         | DEvJobResult result err now \<Rightarrow> ret (gemini_handleJobResult gs result err now, [])
         | DEvWorktreeResolved startDir name \<Rightarrow> ret (ApplyWorktreeResolved gs startDir name, [])
         | DEvCommandExited exitCode timestamp \<Rightarrow> ret (ApplyCommandExited gs exitCode timestamp, [])
         | _ \<Rightarrow> ret (gs, []))"

definition gemini_WarmStartRecover :: "gemini_state option \<Rightarrow> go_time \<Rightarrow> gemini_state \<times> effect list" where
  "gemini_WarmStartRecover s now =
     (let gs = (case s of None \<Rightarrow> gemini_NewState now | Some gs \<Rightarrow> gs);
          (gs, effs) = watchGeminiTranscript gs;
          (gs, parse) = startGeminiTranscriptParse gs
      in (gs, effs @ parse))"

definition gemini_Persist :: "time_codec \<Rightarrow> gemini_state option \<Rightarrow> bag" where
  "gemini_Persist tc s =
     (case s of
        None \<Rightarrow> fmempty
      | Some gs \<Rightarrow> put_str ''gemini_session_id'' (gm_GeminiSessionID gs) (PersistCommon tc gs fmempty))"

definition gemini_Restore :: "time_codec \<Rightarrow> bag \<Rightarrow> go_time \<Rightarrow> gemini_state" where
  "gemini_Restore tc bag now =
     (let gs = gemini_of (common_new StatusIdle now) in
      if fmdom bag = {||} then gs
      else (RestoreCommon tc bag gs)\<lparr> gm_GeminiSessionID := bag_get bag ''gemini_session_id'' \<rparr>)"

definition gemini_PrepareCreate ::
  "gemini_state option \<Rightarrow> string \<Rightarrow> string \<Rightarrow> launch_options \<Rightarrow> gemini_state \<times> create_launch" where
  "gemini_PrepareCreate s project command options =
     (gemini_or_zero s, CommonPrepareCreate project command options [''--worktree'', ''--workspace''])"

definition GeminiDriver :: "gemini_driver \<Rightarrow> gemini_state driver_impl" where
  "GeminiDriver d =
     \<lparr> im_Name = ''gemini'', im_DisplayName = ''gemini'', im_NewState = gemini_NewState,
       im_Step = gemini_Step d, im_Status = cs_Status, im_View = gemini_View d,
       im_Persist = gemini_Persist (ge_time d), im_Restore = gemini_Restore (ge_time d),
       im_PrepareLaunch = gemini_PrepareLaunch, im_PrepareCreate = gemini_PrepareCreate,
       im_StartDir = gemini_StartDir, im_WithStartDir = gemini_WithStartDir, im_Fork = None,
       im_Bootstrap = None, im_WarmStart = Some gemini_WarmStartRecover, im_ColdStart = None \<rparr>"

section \<open>The driver law\<close>

lemma gemini_view_status [simp]: "v_Status (gemini_view d gs) = cs_Status gs"
  by (simp add: gemini_view_def)

lemma gemini_views: "gemini_Step d prev ctx ev = (gs, effs, v) \<Longrightarrow> v = gemini_view d gs"
  by (auto simp: gemini_Step_def Let_def split: if_splits prod.splits driver_event.splits)

lemma watch_gemini_effs: "watchGeminiTranscript gs = (gs', effs) \<Longrightarrow> list_all driver_effect effs"
  by (auto simp: watchGeminiTranscript_def split: if_splits)

lemma parse_gemini_effs: "startGeminiTranscriptParse gs = (gs', effs) \<Longrightarrow> list_all driver_effect effs"
  by (auto simp: startGeminiTranscriptParse_def split: if_splits)

lemma gemini_log_effs:
  "emitGeminiToolLog d gs hp now effs = (gs', effs') \<Longrightarrow> list_all driver_effect effs \<Longrightarrow> list_all driver_effect effs'"
  by (auto simp: emitGeminiToolLog_def Let_def split: if_splits option.splits)

lemma gemini_hook_event_effs:
  assumes "handleGeminiHookEvent d gs hp ts effs = (gs', effs')" "list_all driver_effect effs"
  shows "list_all driver_effect effs'"
  using assms unfolding handleGeminiHookEvent_def Let_def
  by (auto dest: parse_gemini_effs summary_effs gemini_log_effs split: if_splits prod.splits)

lemma gemini_hook_effs: "gemini_handleHook d gs ctx ts roost payload = (gs', effs) \<Longrightarrow> list_all driver_effect effs"
  unfolding gemini_handleHook_def Let_def
  by (auto dest!: watch_gemini_effs gemini_hook_event_effs split: if_splits prod.splits option.splits)

lemma gemini_changed_effs: "gemini_handleTranscriptChanged gs path = (gs', effs) \<Longrightarrow> list_all driver_effect effs"
  unfolding gemini_handleTranscriptChanged_def Let_def
  by (auto dest!: watch_gemini_effs parse_gemini_effs split: if_splits prod.splits)

lemma gemini_effs: "gemini_Step d prev ctx ev = (gs, effs, v) \<Longrightarrow> list_all driver_effect effs"
  by (auto simp: gemini_Step_def Let_def dest!: HandleTick_effs gemini_hook_effs gemini_changed_effs
      split: if_splits prod.splits driver_event.splits)

interpretation gemini: driver_law "GeminiDriver d" for d
  by unfold_locales (auto simp: GeminiDriver_def gemini_View_def gemini_or_zero_def gemini_views gemini_effs)

end
