(* ===== verification/Driver_Shell.thy ===== *)
theory Driver_Shell
  imports Driver_Generic GoFmt
begin

text \<open>
  The shell driver (\<open>shell.go\<close>, \<open>shell_view.go\<close>): status from the OSC 133 prompt marks of the shell.
\<close>

record shell_state = common_state +
  sh_SawPromptEvent :: bool
  sh_LastExitCode :: "int option"

record shell_driver =
  sd_name :: string
  sd_displayName :: string
  sd_threshold :: duration

definition NewShellDriver :: "string \<Rightarrow> string \<Rightarrow> duration \<Rightarrow> shell_driver" where
  "NewShellDriver name displayName threshold =
     \<lparr> sd_name = name, sd_displayName = displayName, sd_threshold = threshold \<rparr>"

definition shell_of :: "common_state \<Rightarrow> shell_state" where
  "shell_of c = common_state.extend c (shell_state.fields False None)"

definition shell_or_zero :: "shell_state option \<Rightarrow> shell_state" where
  "shell_or_zero s = (case s of None \<Rightarrow> shell_of (common_new StatusRunning zero_time) | Some ss \<Rightarrow> ss)"

definition shell_StartDir :: "shell_state option \<Rightarrow> string" where
  "shell_StartDir s = (case s of None \<Rightarrow> [] | Some ss \<Rightarrow> cs_StartDir ss)"

definition shell_WithStartDir :: "shell_state \<Rightarrow> string \<Rightarrow> shell_state" where
  "shell_WithStartDir ss dir = ss\<lparr> cs_StartDir := dir \<rparr>"

definition shellTags :: "shell_state \<Rightarrow> tag list" where
  "shellTags ss =
     CommonTags ss @
     (case sh_LastExitCode ss of
        None \<Rightarrow> []
      | Some code \<Rightarrow>
          if code \<noteq> 0 then
            [\<lparr> tag_Text = [CHR 0xE2, CHR 0x9C, CHR 0x98, CHR '' ''] @ Itoa code,
               tag_Foreground = ''#ffffff'', tag_Background = ''#cc3333'' \<rparr>]
          else [])"

definition shell_view :: "shell_driver \<Rightarrow> shell_state \<Rightarrow> view" where
  "shell_view d ss =
     \<lparr> v_Card =
         \<lparr> card_Title = resolveCardTitle (cs_Title ss) (cs_Summary ss), card_Tags = shellTags ss,
           card_BorderTitle = ShellCommandTag (sd_displayName d),
           card_BorderTitleSecondary = no_tag, card_BorderBadge = [] \<rparr>,
       v_DisplayName = sd_displayName d, v_LogTabs = [], v_InfoExtras = [], v_SuppressInfo = False,
       v_StatusLine = [], v_Status = cs_Status ss, v_StatusChangedAt = cs_StatusChangedAt ss \<rparr>"

definition shell_View :: "shell_driver \<Rightarrow> shell_state option \<Rightarrow> view" where
  "shell_View d s = shell_view d (shell_or_zero s)"

definition shell_NewState :: "go_time \<Rightarrow> shell_state" where
  "shell_NewState now = shell_of (common_new StatusWaiting now)"

definition shell_PrepareLaunch ::
  "shell_state option \<Rightarrow> launch_mode \<Rightarrow> string \<Rightarrow> string \<Rightarrow> launch_options \<Rightarrow> bool \<Rightarrow> string + launch_plan" where
  "shell_PrepareLaunch s mode project baseCommand options sandboxed =
     (let ss = shell_or_zero s;
          (req, command) = resolveWorktreeRequest baseCommand options [''--worktree''];
          startDir = (if cs_StartDir ss \<noteq> [] then cs_StartDir ss else project)
      in Inr (zero_plan\<lparr> lp_Command := TrimSpace command, lp_StartDir := startDir,
                lp_Options := worktree_only (wr_Enabled req), lp_Stdin := lo_InitialInput options \<rparr>))"

definition shell_Persist :: "time_codec \<Rightarrow> shell_state option \<Rightarrow> bag" where
  "shell_Persist tc s =
     (case s of
        None \<Rightarrow> fmempty
      | Some ss \<Rightarrow>
          let out = PersistCommon tc ss fmempty;
              out = (if sh_SawPromptEvent ss then fmupd ''shell_saw_prompt_event'' ''1'' out else out)
          in (case sh_LastExitCode ss of
                None \<Rightarrow> out
              | Some code \<Rightarrow> fmupd ''shell_last_exit_code'' (Itoa code) out))"

definition shell_Restore :: "time_codec \<Rightarrow> bag \<Rightarrow> go_time \<Rightarrow> shell_state" where
  "shell_Restore tc bag now =
     (let ss = shell_of (common_new StatusWaiting now) in
      if fmdom bag = {||} then ss
      else
        let ss = RestoreCommon tc bag ss;
            ss = ss\<lparr> sh_SawPromptEvent := (bag_get bag ''shell_saw_prompt_event'' = ''1'') \<rparr>;
            v = bag_get bag ''shell_last_exit_code''
        in if v \<noteq> [] then
             (case Atoi v of None \<Rightarrow> ss | Some n \<Rightarrow> ss\<lparr> sh_LastExitCode := Some n \<rparr>)
           else ss)"

definition setShellStatus :: "shell_state \<Rightarrow> status \<Rightarrow> go_time \<Rightarrow> shell_state" where
  "setShellStatus ss next now =
     (if cs_Status ss = next then ss else ss\<lparr> cs_Status := next, cs_StatusChangedAt := now \<rparr>)"

definition applyShellPromptEvent :: "shell_state \<Rightarrow> prompt_phase \<Rightarrow> int option \<Rightarrow> go_time \<Rightarrow> shell_state" where
  "applyShellPromptEvent ss phase exitCode now =
     (let ss = ss\<lparr> sh_SawPromptEvent := True \<rparr> in
      case phase of
        PromptPhaseInput \<Rightarrow> setShellStatus ss StatusWaiting now
      | PromptPhaseCommand \<Rightarrow> setShellStatus ss StatusRunning now
      | PromptPhaseComplete \<Rightarrow> setShellStatus (ss\<lparr> sh_LastExitCode := exitCode \<rparr>) StatusWaiting now
      | PromptPhaseNone \<Rightarrow> ss
      | PromptPhaseStart \<Rightarrow> ss)"

definition shell_applyJobResult :: "shell_state \<Rightarrow> job_result \<Rightarrow> string option \<Rightarrow> go_time \<Rightarrow> shell_state" where
  "shell_applyJobResult ss result err now =
     (case applySummaryJobResult (cs_Summary ss) result err of
        Some (summary, inFlight) \<Rightarrow> ss\<lparr> cs_Summary := summary, cs_SummaryInFlight := inFlight \<rparr>
      | None \<Rightarrow> (case result of BranchDetectResult r \<Rightarrow> ApplyBranchResult ss r err now | _ \<Rightarrow> ss))"

definition shell_Step ::
  "shell_driver \<Rightarrow> shell_state option \<Rightarrow> frame_context \<Rightarrow> driver_event \<Rightarrow> shell_state \<times> effect list \<times> view" where
  "shell_Step d prev ctx ev =
     (let ss = (case prev of None \<Rightarrow> shell_NewState zero_time | Some ss \<Rightarrow> ss) in
      if \<not> fc_IsRoot ctx \<and> \<not> is_hook ev then (ss, [], shell_view d ss)
      else case ev of
        DEvTick now watched project n sq \<Rightarrow>
          if \<not> watched \<and> cs_Status ss \<noteq> StatusRunning then (ss, [], shell_view d ss)
          else (case HandleTick ss now watched project of (ss, effs) \<Rightarrow> (ss, effs, shell_view d ss))
      | DEvJobResult result err now \<Rightarrow>
          let ss = shell_applyJobResult ss result err now in (ss, [], shell_view d ss)
      | DEvFramePrompt phase exitCode now \<Rightarrow>
          let ss = applyShellPromptEvent ss phase exitCode now in (ss, [], shell_view d ss)
      | DEvWorktreeResolved startDir name \<Rightarrow>
          let ss = ApplyWorktreeResolved ss startDir name in (ss, [], shell_view d ss)
      | DEvCommandExited exitCode timestamp \<Rightarrow>
          let ss = ApplyCommandExited ss exitCode timestamp in (ss, [], shell_view d ss)
      | _ \<Rightarrow> (ss, [], shell_view d ss))"

definition shell_PrepareCreate ::
  "shell_state option \<Rightarrow> string \<Rightarrow> string \<Rightarrow> launch_options \<Rightarrow> shell_state \<times> create_launch" where
  "shell_PrepareCreate s project command options =
     (shell_or_zero s, CommonPrepareCreate project command options [''--worktree''])"

definition ShellDriver :: "time_codec \<Rightarrow> shell_driver \<Rightarrow> shell_state driver_impl" where
  "ShellDriver tc d =
     \<lparr> im_Name = sd_name d, im_DisplayName = sd_displayName d, im_NewState = shell_NewState,
       im_Step = shell_Step d, im_Status = cs_Status, im_View = shell_View d,
       im_Persist = shell_Persist tc, im_Restore = shell_Restore tc,
       im_PrepareLaunch = shell_PrepareLaunch, im_PrepareCreate = shell_PrepareCreate,
       im_StartDir = shell_StartDir, im_WithStartDir = shell_WithStartDir, im_Fork = None,
       im_Bootstrap = None, im_WarmStart = None, im_ColdStart = None \<rparr>"

lemma shell_view_status [simp]: "v_Status (shell_view d ss) = cs_Status ss"
  by (simp add: shell_view_def)

lemma shell_views: "shell_Step d prev ctx ev = (ss, effs, v) \<Longrightarrow> v = shell_view d ss"
  by (auto simp: shell_Step_def Let_def split: if_splits prod.splits driver_event.splits)

lemma shell_effs: "shell_Step d prev ctx ev = (ss, effs, v) \<Longrightarrow> list_all driver_effect effs"
  by (auto simp: shell_Step_def Let_def dest!: HandleTick_effs split: if_splits prod.splits driver_event.splits)

interpretation shell: driver_law "ShellDriver tc d" for tc d
  by unfold_locales
    (auto simp: ShellDriver_def shell_View_def shell_or_zero_def shell_views shell_effs)

end
