(* ===== verification/Client_Drivers.thy ===== *)
theory Client_Drivers
  imports Client_Props Driver_Claude Driver_Codex Driver_Gemini Driver_Shell
begin

text \<open>
  The driver registry of the daemon: \<open>RegisterDefaults\<close> (\<open>register.go\<close>) and the shell driver that
  \<open>bootSession\<close> (\<open>cmd/server/coordinator.go\<close>) adds. \<open>state.DriverState\<close> is an interface; with this registry its
  dynamic types are the five states of the sum below, and a type assertion is a projection of the sum.
  The theory interprets the contract of the reducer for this registry.
\<close>

datatype driver_state =
    ClaudeS claude_state
  | CodexS codex_state
  | GeminiS gemini_state
  | GenericS generic_state
  | ShellS shell_state

datatype driver_kind = ClaudeK | CodexK | GeminiK | GenericK | ShellK

fun kind_of :: "driver_state \<Rightarrow> driver_kind" where
  "kind_of (ClaudeS _) = ClaudeK"
| "kind_of (CodexS _) = CodexK"
| "kind_of (GeminiS _) = GeminiK"
| "kind_of (GenericS _) = GenericK"
| "kind_of (ShellS _) = ShellK"

fun as_claude :: "driver_state \<Rightarrow> claude_state option" where
  "as_claude (ClaudeS st) = Some st"
| "as_claude _ = None"

fun as_codex :: "driver_state \<Rightarrow> codex_state option" where
  "as_codex (CodexS st) = Some st"
| "as_codex _ = None"

fun as_gemini :: "driver_state \<Rightarrow> gemini_state option" where
  "as_gemini (GeminiS st) = Some st"
| "as_gemini _ = None"

fun as_generic :: "driver_state \<Rightarrow> generic_state option" where
  "as_generic (GenericS st) = Some st"
| "as_generic _ = None"

fun as_shell :: "driver_state \<Rightarrow> shell_state option" where
  "as_shell (ShellS st) = Some st"
| "as_shell _ = None"

section \<open>register.go\<close>

text \<open>
  \<open>ro_ShowThinking\<close> is the field of \<open>ClaudeOptions\<close> that \<open>decodeConfig\<close> reads from the configuration. The
  functions outside the source that the drivers call are collected in \<open>driver_host\<close>.
\<close>

record register_options =
  ro_Home :: string
  ro_EventLogDir :: string
  ro_IdleThreshold :: duration
  ro_ShowThinking :: bool
  ro_Pager :: string

record driver_host =
  dh_time :: time_codec
  dh_shorten :: "string \<Rightarrow> string \<Rightarrow> string"
  dh_marshal :: "tool_log_entry \<Rightarrow> string option"
  dh_renderer :: "string \<Rightarrow> bool \<Rightarrow> string"
  dh_claude_hook :: "bytes \<Rightarrow> claude_hook_payload"
  dh_gemini_hook :: "bytes \<Rightarrow> gemini_hook_payload"
  dh_codex :: codex_host

definition NewClaudeDriver :: "driver_host \<Rightarrow> register_options \<Rightarrow> driver_state driver" where
  "NewClaudeDriver h opts = as_driver ClaudeS as_claude (ClaudeDriver
     \<lparr> kd_home = ro_Home opts, kd_eventLogDir = ro_EventLogDir opts, kd_showThinking = ro_ShowThinking opts,
       kd_pager = ro_Pager opts, kd_time = dh_time h, kd_shorten = dh_shorten h, kd_marshal = dh_marshal h,
       kd_renderer = dh_renderer h, kd_parse = dh_claude_hook h, kd_stat = ch_Stat (dh_codex h) \<rparr>)"

definition NewCodexDriver :: "driver_host \<Rightarrow> register_options \<Rightarrow> driver_state driver" where
  "NewCodexDriver h opts = as_driver CodexS as_codex (CodexDriver
     \<lparr> cd_eventLogDir = ro_EventLogDir opts, cd_time = dh_time h, cd_shorten = (\<lambda>dir. dh_shorten h dir []),
       cd_marshal = dh_marshal h, cd_host = dh_codex h \<rparr>)"

definition NewGeminiDriver :: "driver_host \<Rightarrow> register_options \<Rightarrow> driver_state driver" where
  "NewGeminiDriver h opts = as_driver GeminiS as_gemini (GeminiDriver
     \<lparr> ge_eventLogDir = ro_EventLogDir opts, ge_time = dh_time h, ge_shorten = (\<lambda>dir. dh_shorten h dir []),
       ge_marshal = dh_marshal h, ge_parse = dh_gemini_hook h \<rparr>)"

definition generic_driver_of :: "driver_host \<Rightarrow> register_options \<Rightarrow> string \<Rightarrow> driver_state driver" where
  "generic_driver_of h opts name =
     as_driver GenericS as_generic (GenericDriver (dh_time h) (NewGenericDriver name name (ro_IdleThreshold opts)))"

definition shell_driver_of :: "driver_host \<Rightarrow> shell_driver \<Rightarrow> driver_state driver" where
  "shell_driver_of h d = as_driver ShellS as_shell (ShellDriver (dh_time h) d)"

definition RegisterDefaults :: "driver_host \<Rightarrow> register_options \<Rightarrow> driver_state registry option" where
  "RegisterDefaults h opts =
     (case Register ClearRegistry (NewClaudeDriver h opts) of None \<Rightarrow> None | Some reg \<Rightarrow>
      case Register reg (NewCodexDriver h opts) of None \<Rightarrow> None | Some reg \<Rightarrow>
      case Register reg (NewGeminiDriver h opts) of None \<Rightarrow> None | Some reg \<Rightarrow>
      case Register reg (generic_driver_of h opts []) of None \<Rightarrow> None | Some reg \<Rightarrow>
      Some (RegisterDefaultFactory reg (\<lambda>command. generic_driver_of h opts (FirstToken command))))"

text \<open>The registration in \<open>bootSession\<close>; the name of the driver is \<open>shell\<close>.\<close>

definition boot_registry :: "driver_host \<Rightarrow> register_options \<Rightarrow> string \<Rightarrow> duration \<Rightarrow> driver_state registry option" where
  "boot_registry h opts shellName threshold =
     (case RegisterDefaults h opts of
        None \<Rightarrow> None
      | Some reg \<Rightarrow> Register reg (shell_driver_of h (NewShellDriver ''shell'' shellName threshold)))"

section \<open>The registry satisfies the contract of the reducer\<close>

interpretation claude_box: boxing ClaudeS as_claude kind_of ClaudeK
  by unfold_locales (auto elim: as_claude.elims kind_of.elims)

interpretation codex_box: boxing CodexS as_codex kind_of CodexK
  by unfold_locales (auto elim: as_codex.elims kind_of.elims)

interpretation gemini_box: boxing GeminiS as_gemini kind_of GeminiK
  by unfold_locales (auto elim: as_gemini.elims kind_of.elims)

interpretation generic_box: boxing GenericS as_generic kind_of GenericK
  by unfold_locales (auto elim: as_generic.elims kind_of.elims)

interpretation shell_box: boxing ShellS as_shell kind_of ShellK
  by unfold_locales (auto elim: as_shell.elims kind_of.elims)

interpretation claude_driver: boxed_driver "ClaudeDriver d" ClaudeS as_claude kind_of ClaudeK for d
  by unfold_locales

interpretation codex_driver: boxed_driver "CodexDriver d" CodexS as_codex kind_of CodexK for d
  by unfold_locales

interpretation gemini_driver: boxed_driver "GeminiDriver d" GeminiS as_gemini kind_of GeminiK for d
  by unfold_locales

interpretation generic_driver: boxed_driver "GenericDriver tc d" GenericS as_generic kind_of GenericK for tc d
  by unfold_locales

interpretation shell_driver: boxed_driver "ShellDriver tc d" ShellS as_shell kind_of ShellK for tc d
  by unfold_locales

definition builtin_registry :: "driver_host \<Rightarrow> register_options \<Rightarrow> string \<Rightarrow> duration \<Rightarrow> driver_state registry" where
  "builtin_registry h opts shellName threshold =
     \<lparr> reg_Drivers = fmap_of_list
         [(''shell'', shell_driver_of h (NewShellDriver ''shell'' shellName threshold)),
          ([], generic_driver_of h opts []), (''gemini'', NewGeminiDriver h opts),
          (''codex'', NewCodexDriver h opts), (''claude'', NewClaudeDriver h opts)],
       reg_Factory = Some (\<lambda>command. generic_driver_of h opts (FirstToken command)) \<rparr>"

lemma driver_names [simp]:
  "drv_Name (NewClaudeDriver h opts) = ''claude''" "drv_Name (NewCodexDriver h opts) = ''codex''"
  "drv_Name (NewGeminiDriver h opts) = ''gemini''" "drv_Name (generic_driver_of h opts name) = name"
  "drv_Name (shell_driver_of h (NewShellDriver name disp thr)) = name"
  by (simp_all add: NewClaudeDriver_def NewCodexDriver_def NewGeminiDriver_def generic_driver_of_def
      shell_driver_of_def as_driver_def ClaudeDriver_def CodexDriver_def GeminiDriver_def GenericDriver_def
      ShellDriver_def NewGenericDriver_def NewShellDriver_def)

text \<open>No name is registered twice: boot never panics in \<open>Register\<close>.\<close>

lemma boot_registry_Some: "boot_registry h opts shellName thr = Some (builtin_registry h opts shellName thr)"
  by (simp add: boot_registry_def RegisterDefaults_def Register_def ClearRegistry_def
      RegisterDefaultFactory_def builtin_registry_def)

text \<open>\<open>GetDriver\<close> on this registry: a registered name, or a generic driver for the first token.\<close>

lemma builtin_GetDriver:
  "GetDriver (builtin_registry h opts shellName thr) command =
     Some (let name = FirstToken command in
       if name = ''claude'' then NewClaudeDriver h opts
       else if name = ''codex'' then NewCodexDriver h opts
       else if name = ''gemini'' then NewGeminiDriver h opts
       else if name = ''shell'' then shell_driver_of h (NewShellDriver ''shell'' shellName thr)
       else generic_driver_of h opts name)"
  by (simp add: GetDriver_def builtin_registry_def fmlookup_of_list Let_def)

lemma driver_kinds [simp]:
  "kind_of (drv_NewState (NewClaudeDriver h opts) t) = ClaudeK"
  "kind_of (drv_NewState (NewCodexDriver h opts) t) = CodexK"
  "kind_of (drv_NewState (NewGeminiDriver h opts) t) = GeminiK"
  "kind_of (drv_NewState (generic_driver_of h opts name) t) = GenericK"
  "kind_of (drv_NewState (shell_driver_of h sd) t) = ShellK"
  by (simp_all add: NewClaudeDriver_def NewCodexDriver_def NewGeminiDriver_def generic_driver_of_def
      shell_driver_of_def as_driver_def)

lemma driver_contracts:
  "driver_contract kind_of ClaudeK (NewClaudeDriver h opts)"
  "driver_contract kind_of CodexK (NewCodexDriver h opts)"
  "driver_contract kind_of GeminiK (NewGeminiDriver h opts)"
  "driver_contract kind_of GenericK (generic_driver_of h opts name)"
  "driver_contract kind_of ShellK (shell_driver_of h sd)"
  unfolding NewClaudeDriver_def NewCodexDriver_def NewGeminiDriver_def generic_driver_of_def shell_driver_of_def
  by (rule claude_driver.driver_contract_axioms codex_driver.driver_contract_axioms
      gemini_driver.driver_contract_axioms generic_driver.driver_contract_axioms
      shell_driver.driver_contract_axioms)+

interpretation builtin: driver_registry kind_of "builtin_registry h opts shellName thr"
  for h opts shellName thr
  by (rule driver_registry.intro) (auto simp: builtin_GetDriver driver_contracts Let_def)

end
