(* ===== verification/Client_System.thy ===== *)
theory Client_System
  imports Client_Drivers
begin

text \<open>
  The client daemon as a whole: the reducer with the built-in drivers, run on any sequence of events.
  The theorems state what the rest of the daemon relies on: the reducer never panics and keeps its
  invariant, the effects it emits keep the runtime in step with the state, and every request is
  answered once.
\<close>

section \<open>Running the reducer\<close>

text \<open>\<open>Runtime.dispatch\<close> in a loop (\<open>client/runtime/runtime.go\<close>): the states and the effects in order.\<close>

fun run_events :: "'ds env \<Rightarrow> 'ds state \<Rightarrow> event list \<Rightarrow> ('ds state \<times> effect list) option" where
  "run_events env s [] = Some (s, [])"
| "run_events env s (ev # evs) =
     (case Reduce env s ev of
        None \<Rightarrow> None
      | Some (s', effs) \<Rightarrow>
          (case run_events env s' evs of
             None \<Rightarrow> None
           | Some (s'', effs') \<Rightarrow> Some (s'', effs @ effs')))"

text \<open>
  What the runtime does with the effects, as far as frames and relays go: a spawned frame lives until it
  is unregistered, a relay runs from its start to its stop.
\<close>

fun frame_step :: "frame_id set \<Rightarrow> effect \<Rightarrow> frame_id set" where
  "frame_step F (EffSpawnFrame e) = insert (sf_FrameID e) F"
| "frame_step F (EffUnregisterFrame f) = F - {f}"
| "frame_step F _ = F"

definition runtime_step ::
  "frame_id set \<times> (conn_id \<times> session_id) set \<Rightarrow> effect \<Rightarrow> frame_id set \<times> (conn_id \<times> session_id) set" where
  "runtime_step R eff = (frame_step (fst R) eff, relay_step (snd R) eff)"

definition runtime_view :: "'ds state \<Rightarrow> frame_id set \<times> (conn_id \<times> session_id) set" where
  "runtime_view s = (frame_set s, relays s)"

lemma frame_step_cases: "frame_step F e = (F \<union> spawned [e]) - unregistered [e]"
  by (cases e) auto

lemma foldl_frame_step:
  "spawned effs \<inter> unregistered effs = {} \<Longrightarrow> foldl frame_step F effs = (F \<union> spawned effs) - unregistered effs"
proof (induction effs arbitrary: F)
  case (Cons e effs)
  have split: "spawned (e # effs) = spawned [e] \<union> spawned effs"
    "unregistered (e # effs) = unregistered [e] \<union> unregistered effs" by auto
  with Cons.prems have "spawned effs \<inter> unregistered effs = {}" by blast
  from Cons.IH [OF this] have
    "foldl frame_step F (e # effs) = (((F \<union> spawned [e]) - unregistered [e]) \<union> spawned effs) - unregistered effs"
    by (simp only: foldl_Cons frame_step_cases [of F e])
  also have "\<dots> = (F \<union> spawned (e # effs)) - unregistered (e # effs)"
    using Cons.prems unfolding split by blast
  finally show ?case .
qed simp

lemma foldl_runtime_step:
  "foldl runtime_step R effs = (foldl frame_step (fst R) effs, foldl relay_step (snd R) effs)"
  by (induction effs arbitrary: R) (simp_all add: runtime_step_def)

lemma good_runtime:
  assumes "good ty env s s' effs"
  shows "foldl runtime_step (runtime_view s) effs = runtime_view s'"
proof -
  have e: "spawned effs = frame_set s' - frame_set s" "unregistered effs = frame_set s - frame_set s'"
    and r: "foldl relay_step (relays s) effs = relays s'"
    using assms by (auto simp: good_def)
  have "foldl frame_step (frame_set s) effs = frame_set s'"
    by (subst foldl_frame_step) (auto simp: e)
  with r show ?thesis by (simp add: foldl_runtime_step runtime_view_def)
qed

lemma New_state_ok: "state_ok ty env New"
  by (simp add: state_ok_def sessions_ok_def subs_ok_def New_def frames_of_def)

section \<open>The built-in registry\<close>

text \<open>The reducer's contract, for an environment whose registry is the one of the boot sequence.\<close>

lemma boot_reduce:
  assumes "boot_registry h opts shellName thr = Some (env_Registry env)"
    and "state_ok kind_of env s" "fresh_ids env" "receivable env ev"
  obtains s' effs where "Reduce env s ev = Some (s', effs)" "good kind_of env s s' effs" "answered ev effs"
proof -
  have "env_Registry env = builtin_registry h opts shellName thr"
    using assms(1) by (simp add: boot_registry_Some)
  from builtin.Reduce_good [OF this assms(2-4)] that show ?thesis by blast
qed

lemma run_events_good:
  assumes "boot_registry h opts shellName thr = Some (env_Registry env)" "fresh_ids env"
    and "state_ok kind_of env s" "list_all (receivable env) evs"
  shows "\<exists>s' effs. run_events env s evs = Some (s', effs) \<and> state_ok kind_of env s' \<and>
    foldl runtime_step (runtime_view s) effs = runtime_view s'"
  using assms(3,4)
proof (induction evs arbitrary: s)
  case (Cons ev evs)
  from Cons.prems have r: "receivable env ev" "list_all (receivable env) evs" by auto
  obtain s1 effs where step: "Reduce env s ev = Some (s1, effs)" "good kind_of env s s1 effs"
    using boot_reduce [OF assms(1) Cons.prems(1) assms(2) r(1)] by blast
  then have ok: "state_ok kind_of env s1" by (simp add: good_def)
  from Cons.IH [OF ok r(2)] obtain s2 effs' where
    "run_events env s1 evs = Some (s2, effs')" "state_ok kind_of env s2"
    "foldl runtime_step (runtime_view s1) effs' = runtime_view s2" by blast
  with step good_runtime [OF step(2)] show ?case by simp
qed simp

section \<open>Answers to deferred requests\<close>

context driver_registry
begin

lemma bootstrap_driver_effs:
  assumes "env_Registry env = reg" "bootstrapDriverSessionStart env s f = Some (s', effs)"
  shows "list_all driver_effect effs"
proof -
  obtain sid sess where ff: "findFrame s f = Some (sid, sess, 0)"
    using assms(2) by (auto simp: bootstrapDriverSessionStart_def split: option.splits if_splits)
  let ?f = "se_Frames sess ! 0"
  obtain d boot where d: "GetDriver reg (fr_Command ?f) = Some d" "drv_BootstrapSessionStart d = Some boot"
    using assms ff by (auto simp: bootstrapDriverSessionStart_def Let_def split: option.splits)
  obtain ds' raw where st: "boot (fr_Driver ?f) (frame_ctx ?f True) (st_Now s) = (ds', raw)"
    by (cases "boot (fr_Driver ?f) (frame_ctx ?f True) (st_Now s)")
  have "post_process (put_frame s sid sess 0 (?f\<lparr> fr_Driver := Some ds' \<rparr>)) sid f raw [] = (s', effs)"
    using assms ff d st by (simp add: bootstrapDriverSessionStart_def Let_def)
  from post_process_ok [OF this] driver_contract.bootstrap_effs [OF contract [OF d(1)] d(2) st]
  show ?thesis by simp
qed

lemma spawned_replies:
  assumes env: "env_Registry env = reg" and red: "reduceFrameSpawned env s e = (s', effs)"
    and c: "fs_ReplyConn e \<noteq> 0"
  shows "replies (fs_ReplyConn e) (fs_ReplyReqID e) effs =
    (if fs_FrameID e \<in> frames_of (st_Sessions s) (fs_SessionID e) then 1 else 0)"
proof -
  have boot: "replies c r bs = 0" if "bootstrapDriverSessionStart env s f = Some (s'', bs)" for s f s'' bs c r
    using driver_effs(3) [OF bootstrap_driver_effs [OF env that]] .
  show ?thesis
    using red c boot
    by (auto simp: reduceFrameSpawned_def Let_def frames_of_def findFrameIndex_None findFrameIndex_mem
        split: option.splits if_splits prod.splits)
qed

end

lemma spawn_failed_replies:
  assumes "reduceSpawnFailed s f err c r = (s', effs)" "c \<noteq> 0"
  shows "replies c r effs = 1"
proof -
  have "replies c r es = 0" if "evictFrame s f False = Some (t, es)" for t es
    using that by (auto simp: evictFrame_def evictRootFrame_def evictChildFrame_def Let_def teardown_all
        split: option.splits if_splits prod.splits)
  with assms show ?thesis
    by (auto simp: reduceSpawnFailed_def Let_def split: option.splits prod.splits)
qed

section \<open>A concrete daemon\<close>

text \<open>An environment for the witnesses: identifiers are unary numbers, payloads are not decoded.\<close>

definition demo_rand :: "nat \<Rightarrow> string" where
  "demo_rand n = replicate (Suc n) CHR ''x''"

definition demo_host :: driver_host where
  "demo_host =
     \<lparr> dh_time = \<lparr> tc_Format = (\<lambda>t. ''t''), tc_Parse = (\<lambda>_. None) \<rparr>, dh_shorten = (\<lambda>dir home. dir),
       dh_marshal = (\<lambda>_. None), dh_renderer = (\<lambda>_ _. ''{}''),
       dh_claude_hook = (\<lambda>_. \<lparr> kh_SessionID = [], kh_HookEventName = [], kh_Prompt = [],
         kh_TranscriptPath = [], kh_NotificationType = [], kh_ToolName = [], kh_ToolInput = fmempty,
         kh_Source = [], kh_ToolUseID = [], kh_PermissionMode = [], kh_Error = [], kh_IsInterrupt = False \<rparr>),
       dh_gemini_hook = (\<lambda>_. \<lparr> gh_SessionID = [], gh_HookEventName = [], gh_NotificationType = [],
         gh_TranscriptPath = [], gh_Source = [], gh_Prompt = [], gh_ToolName = [], gh_ToolInput = fmempty,
         gh_ToolUseID = [], gh_PermissionMode = [], gh_PromptResponse = [], gh_StopReason = [] \<rparr>),
       dh_codex = \<lparr> ch_Getenv = (\<lambda>_. []), ch_UserHomeDir = None, ch_Stat = (\<lambda>_. StatNotExist),
         ch_Query = (\<lambda>_ _ _ _. None) \<rparr> \<rparr>"

definition demo_options :: register_options where
  "demo_options = \<lparr> ro_Home = ''/home/u'', ro_EventLogDir = [], ro_IdleThreshold = 0,
     ro_ShowThinking = False, ro_Pager = ''less'' \<rparr>"

definition demo_env :: "driver_state env" where
  "demo_env =
     \<lparr> env_Registry = builtin_registry demo_host demo_options ''bash'' 0, env_Rand = demo_rand,
       env_CreateSession = (\<lambda>_. Inr \<lparr> csp_Project = ''/p'', csp_Command = ''claude'',
         csp_Sandbox = SandboxOverrideAuto, csp_Options = zero_options \<rparr>),
       env_PushDriver = (\<lambda>_. Inl ''bad''), env_SessionOnly = (\<lambda>_. Inl ''bad''),
       env_SetHeadFrame = (\<lambda>_. Inl ''bad''), env_Empty = (\<lambda>_. Inr ()) \<rparr>"

lemma demo_fresh: "fresh_ids demo_env"
  by (auto simp: fresh_ids_def demo_env_def demo_rand_def inj_def)

lemma demo_boot: "boot_registry demo_host demo_options ''bash'' 0 = Some (env_Registry demo_env)"
  by (simp add: boot_registry_Some demo_env_def)

definition demo_frame :: "driver_state session_frame" where
  "demo_frame = \<lparr> fr_ID = ''xx'', fr_SubsystemID = [], fr_TargetID = [], fr_Project = ''/p'',
     fr_Command = ''claude'', fr_LaunchOptions = zero_options, fr_CreatedAt = 1,
     fr_Driver = Some (ClaudeS (claude_NewState 1)) \<rparr>"

definition demo_session :: "driver_state session" where
  "demo_session = \<lparr> se_ID = ''x'', se_Project = ''/p'', se_CreatedAt = 1, se_Frames = [demo_frame],
     se_HeadFrameID = ''xx'', se_MRUFrameIDs = [], se_Command = ''claude'',
     se_Sandbox = SandboxOverrideAuto, se_LaunchOptions = zero_options, se_Driver = fr_Driver demo_frame \<rparr>"

definition demo_state :: "driver_state state" where
  "demo_state = New\<lparr> st_Sessions := fmupd ''x'' demo_session fmempty, st_Draws := 2 \<rparr>"

lemma demo_drawn: "drawn demo_env 2 = {''x'', ''xx''}"
  by (auto simp: drawn_def demo_env_def demo_rand_def lessThan_Suc numeral_2_eq_2)

lemma demo_typed: "frame_typed kind_of (env_Registry demo_env) demo_frame"
  by (simp add: frame_typed_def demo_frame_def demo_env_def builtin_GetDriver FirstToken_def Let_def)

lemma demo_ok: "state_ok kind_of demo_env demo_state"
  using demo_typed
  by (auto simp: state_ok_def sessions_ok_def subs_ok_def demo_state_def demo_session_def session_ok_def
      frame_ids_def demo_frame_def New_def demo_drawn frames_of_def split: if_splits)

section \<open>The theorems\<close>

text \<open>C1: From the empty state, with the drivers of the boot sequence, the client daemon handles every
  sequence of receivable events without a panic and ends in a state that satisfies the invariant: frame
  identifiers are unique across sessions, every session has a head frame among its frames, the MRU list has
  no duplicates and at most 16 entries, every frame holds a state of its own driver, and a connection
  watches at most 8 sessions.\<close>

theorem client_run_ok:
  assumes "boot_registry h opts shellName thr = Some (env_Registry env)" "fresh_ids env"
    and "list_all (receivable env) evs"
  shows "\<exists>s effs. run_events env New evs = Some (s, effs) \<and> state_ok kind_of env s"
  using run_events_good [OF assms(1,2) New_state_ok assms(3)] by blast

theorem client_run_ok_witness:
  "\<exists>s effs. run_events demo_env New [EvConnOpened 1, EvEvent 1 ''r'' ''create-session'' [], EvTick 5 1] = Some (s, effs) \<and>
     state_ok kind_of demo_env s"
  by (rule client_run_ok [OF demo_boot demo_fresh]) (simp add: IsRegisteredEvent_def eventHandlers_def)

text \<open>C2: The effects refine an abstract runtime: a runtime that only follows the effects (it starts a
  frame when told to spawn it, forgets it when told to unregister it, and starts and stops surface relays)
  has, after any sequence of events, exactly the frames and the relays of the reducer's state.\<close>

theorem client_refines_runtime:
  assumes "boot_registry h opts shellName thr = Some (env_Registry env)" "fresh_ids env"
    and "list_all (receivable env) evs"
  shows "case run_events env New evs of
      None \<Rightarrow> False
    | Some (s, effs) \<Rightarrow> foldl runtime_step ({}, {}) effs = runtime_view s"
proof -
  have "runtime_view (New :: driver_state state) = ({}, {})"
    by (simp add: runtime_view_def New_def frame_set_def relays_def surface_subs_def frames_of_def)
  with run_events_good [OF assms(1,2) New_state_ok assms(3)] show ?thesis by auto
qed

theorem client_refines_runtime_witness:
  "case run_events demo_env New [EvEvent 1 ''r'' ''create-session'' [], EvConnClosed 1] of
     None \<Rightarrow> False
   | Some (s, effs) \<Rightarrow> foldl runtime_step ({}, {}) effs = runtime_view s"
  by (rule client_refines_runtime [OF demo_boot demo_fresh]) (simp add: IsRegisteredEvent_def eventHandlers_def)




definition demo_spawned :: frame_spawned where
  "demo_spawned = \<lparr> fs_SessionID = ''x'', fs_FrameID = ''xx'', fs_SubsystemID = [], fs_WorktreeStartDir = [],
     fs_WorktreeName = [], fs_ReplyConn = 7, fs_ReplyReqID = ''req'' \<rparr>"

lemma demo_findIndex: "findFrameIndex demo_session ''xx'' = Some 0"
  by (simp add: demo_session_def demo_frame_def findFrameIndex_def)


text \<open>The lookup of frames (\<open>Client_Inv\<close>) at the concrete state.\<close>

lemma demo_find: "findFrame demo_state ''xx'' = Some (''x'', demo_session, 0)"
  by (simp add: findFrame_def demo_state_def New_def demo_findIndex sorted_keys_def sorted_list_of_fset.rep_eq)


end
