(* ===== verification/Driver_Persist.thy ===== *)
theory Driver_Persist
  imports Driver_Claude Driver_Codex Driver_Gemini Driver_Shell
begin

text \<open>
  The persistence bags of the drivers. A driver that is persisted and restored keeps exactly the fields
  below; times keep whole seconds, because the bag stores them in RFC 3339 without fractions. The laws about
  \<open>Format\<close> and \<open>Parse\<close> are hypotheses on the codec, one instant at a time.
\<close>

definition secs :: "go_time \<Rightarrow> go_time" where
  "secs t = (t div 1000000000) * 1000000000"

definition codec_ok :: "time_codec \<Rightarrow> go_time \<Rightarrow> bool" where
  "codec_ok tc t \<longleftrightarrow> IsZero t \<or> (tc_Format tc t \<noteq> [] \<and> tc_Parse tc (tc_Format tc t) = Some (secs t))"

definition times_ok :: "time_codec \<Rightarrow> 'a common_state_scheme \<Rightarrow> bool" where
  "times_ok tc c \<longleftrightarrow> codec_ok tc (cs_StatusChangedAt c) \<and> codec_ok tc (cs_BranchAt c) \<and> codec_ok tc (cs_LastHookAt c)"

definition kept_time :: "go_time \<Rightarrow> go_time \<Rightarrow> go_time" where
  "kept_time t old = (if IsZero t then old else secs t)"

definition keep_common :: "'a common_state_scheme \<Rightarrow> 'b common_state_scheme \<Rightarrow> 'b common_state_scheme" where
  "keep_common c fresh =
     fresh\<lparr> cs_RoostSessionID := cs_RoostSessionID c, cs_StartDir := cs_StartDir c,
       cs_TranscriptPath := cs_TranscriptPath c, cs_WorktreeName := cs_WorktreeName c,
       cs_Status := cs_Status c, cs_StatusChangedAt := kept_time (cs_StatusChangedAt c) (cs_StatusChangedAt fresh),
       cs_BranchTag := cs_BranchTag c, cs_BranchBG := cs_BranchBG c, cs_BranchFG := cs_BranchFG c,
       cs_BranchTarget := cs_BranchTarget c, cs_BranchAt := kept_time (cs_BranchAt c) (cs_BranchAt fresh),
       cs_BranchIsWorktree := cs_BranchIsWorktree c, cs_BranchParentBranch := cs_BranchParentBranch c,
       cs_Summary := cs_Summary c, cs_Title := cs_Title c, cs_LastPrompt := cs_LastPrompt c,
       cs_LastAssistantMessage := cs_LastAssistantMessage c, cs_LastHookEvent := cs_LastHookEvent c,
       cs_LastHookAt := kept_time (cs_LastHookAt c) (cs_LastHookAt fresh) \<rparr>"

section \<open>Reading and writing the bag\<close>

lemma bag_get_simps [simp]:
  "bag_get fmempty k = []"
  "bag_get (fmupd k v b) k' = (if k = k' then v else bag_get b k')"
  "bag_get (put_str k v b) k' = (if k = k' \<and> v \<noteq> [] then v else bag_get b k')"
  "bag_get (put_time tc k t b) k' = (if k = k' \<and> \<not> IsZero t then tc_Format tc t else bag_get b k')"
  by (auto simp: bag_get_def put_str_def put_time_def)

lemma get_time_other [simp]:
  "k \<noteq> k' \<Longrightarrow> get_time tc (put_str k v b) k' old = get_time tc b k' old"
  "k \<noteq> k' \<Longrightarrow> get_time tc (fmupd k v b) k' old = get_time tc b k' old"
  "k \<noteq> k' \<Longrightarrow> get_time tc (put_time tc k t b) k' old = get_time tc b k' old"
  "get_time tc fmempty k' old = old"
  by (simp_all add: get_time_def)

lemma get_time_same [simp]:
  "codec_ok tc t \<Longrightarrow> get_time tc (put_time tc k t b) k old = (if IsZero t then get_time tc b k old else secs t)"
  by (auto simp: get_time_def put_time_def codec_ok_def)

lemma bag_if [simp]: "bag_get (if P then a else b) k = (if P then bag_get a k else bag_get b k)"
  by simp

lemma get_time_if [simp]:
  "get_time tc (if P then a else b) k old = (if P then get_time tc a k old else get_time tc b k old)"
  by simp

definition common_keys :: "string set" where
  "common_keys = {''roost_session_id'', ''start_dir'', ''transcript_path'', ''worktree_name'', ''status'',
     ''status_changed_at'', ''branch_tag'', ''branch_bg'', ''branch_fg'', ''branch_target'', ''branch_at'',
     ''branch_is_worktree'', ''branch_parent_branch'', ''summary'', ''title'', ''last_prompt'',
     ''last_assistant_message'', ''last_hook_event'', ''last_hook_at''}"

lemma put_flag: "(if B then fmupd k ''1'' out else out) = put_str k (if B then ''1'' else []) out"
  by (simp add: put_str_def)

lemmas PersistCommon_chain = PersistCommon_def [unfolded Let_def put_flag]

lemma bag_PersistCommon [simp]:
  "bag_get (PersistCommon tc c fmempty) ''roost_session_id'' = cs_RoostSessionID c"
  "bag_get (PersistCommon tc c fmempty) ''start_dir'' = cs_StartDir c"
  "bag_get (PersistCommon tc c fmempty) ''transcript_path'' = cs_TranscriptPath c"
  "bag_get (PersistCommon tc c fmempty) ''worktree_name'' = cs_WorktreeName c"
  "bag_get (PersistCommon tc c fmempty) ''status'' = Status_String (cs_Status c)"
  "bag_get (PersistCommon tc c fmempty) ''branch_tag'' = cs_BranchTag c"
  "bag_get (PersistCommon tc c fmempty) ''branch_bg'' = cs_BranchBG c"
  "bag_get (PersistCommon tc c fmempty) ''branch_fg'' = cs_BranchFG c"
  "bag_get (PersistCommon tc c fmempty) ''branch_target'' = cs_BranchTarget c"
  "bag_get (PersistCommon tc c fmempty) ''branch_is_worktree'' = (if cs_BranchIsWorktree c then ''1'' else [])"
  "bag_get (PersistCommon tc c fmempty) ''branch_parent_branch'' = cs_BranchParentBranch c"
  "bag_get (PersistCommon tc c fmempty) ''summary'' = cs_Summary c"
  "bag_get (PersistCommon tc c fmempty) ''title'' = cs_Title c"
  "bag_get (PersistCommon tc c fmempty) ''last_prompt'' = cs_LastPrompt c"
  "bag_get (PersistCommon tc c fmempty) ''last_assistant_message'' = cs_LastAssistantMessage c"
  "bag_get (PersistCommon tc c fmempty) ''last_hook_event'' = cs_LastHookEvent c"
  by (simp_all add: PersistCommon_chain)

lemma bag_PersistCommon_other [simp]:
  "bag_get (PersistCommon tc c fmempty) ''claude_session_id'' = []"
  "bag_get (PersistCommon tc c fmempty) ''fork_parent_id'' = []"
  "bag_get (PersistCommon tc c fmempty) ''gemini_session_id'' = []"
  "bag_get (PersistCommon tc c fmempty) ''thread_id'' = []"
  "bag_get (PersistCommon tc c fmempty) ''session_id'' = []"
  "bag_get (PersistCommon tc c fmempty) ''rollout_path'' = []"
  "bag_get (PersistCommon tc c fmempty) ''requested_thread_id'' = []"
  "bag_get (PersistCommon tc c fmempty) ''observed_thread_id'' = []"
  "bag_get (PersistCommon tc c fmempty) ''resume_phase'' = []"
  "bag_get (PersistCommon tc c fmempty) ''shell_saw_prompt_event'' = []"
  "bag_get (PersistCommon tc c fmempty) ''shell_last_exit_code'' = []"
  by (simp_all add: PersistCommon_chain)

lemma time_PersistCommon [simp]:
  "codec_ok tc (cs_StatusChangedAt c) \<Longrightarrow>
     get_time tc (PersistCommon tc c fmempty) ''status_changed_at'' old = kept_time (cs_StatusChangedAt c) old"
  "codec_ok tc (cs_BranchAt c) \<Longrightarrow>
     get_time tc (PersistCommon tc c fmempty) ''branch_at'' old = kept_time (cs_BranchAt c) old"
  "codec_ok tc (cs_LastHookAt c) \<Longrightarrow>
     get_time tc (PersistCommon tc c fmempty) ''last_hook_at'' old = kept_time (cs_LastHookAt c) old"
  by (simp_all add: PersistCommon_chain kept_time_def)

lemma bag_nonempty: "bag_get b k \<noteq> [] \<Longrightarrow> fmdom b \<noteq> {||}"
  by (metis bag_get_def fempty_iff fmdom_notD option.simps(4))

lemma Status_String_nonempty [simp]: "Status_String st \<noteq> []"
  by (cases st) auto

lemma ParseStatus_Status [simp]: "ParseStatus (Status_String st) = Some st"
  by (cases st) (simp_all add: ParseStatus_def)

text \<open>A bag that agrees with the common bag on the common keys restores the common fields.\<close>

lemma RestoreCommon_keeps:
  assumes agree: "\<And>k. k \<in> common_keys \<Longrightarrow> fmlookup b k = fmlookup (PersistCommon tc c fmempty) k"
    and times: "times_ok tc c"
  shows "RestoreCommon tc b fresh = keep_common c fresh" "fmdom b \<noteq> {||}"
proof -
  have g: "bag_get b k = bag_get (PersistCommon tc c fmempty) k"
    and t: "get_time tc b k old = get_time tc (PersistCommon tc c fmempty) k old"
    if "k \<in> common_keys" for k old
    using agree [OF that] by (simp_all add: bag_get_def get_time_def)
  have "bag_get b ''status'' \<noteq> []"
    by (simp add: g common_keys_def)
  then show ne: "fmdom b \<noteq> {||}" by (rule bag_nonempty)
  show "RestoreCommon tc b fresh = keep_common c fresh"
    using ne times
    by (simp add: RestoreCommon_def keep_common_def g t common_keys_def times_ok_def)
qed

text \<open>The keys of the drivers' own fields are not common keys, so writing them keeps the common fields.\<close>

lemma own_keys [simp]:
  "''claude_session_id'' \<notin> common_keys"
  "''fork_parent_id'' \<notin> common_keys"
  "''gemini_session_id'' \<notin> common_keys"
  "''thread_id'' \<notin> common_keys"
  "''session_id'' \<notin> common_keys"
  "''rollout_path'' \<notin> common_keys"
  "''requested_thread_id'' \<notin> common_keys"
  "''observed_thread_id'' \<notin> common_keys"
  "''resume_phase'' \<notin> common_keys"
  "''shell_saw_prompt_event'' \<notin> common_keys"
  "''shell_last_exit_code'' \<notin> common_keys"
  by (simp_all add: common_keys_def)

lemma lookup_own [simp]:
  "k' \<in> common_keys \<Longrightarrow> k \<notin> common_keys \<Longrightarrow> fmlookup (put_str k v b) k' = fmlookup b k'"
  "k' \<in> common_keys \<Longrightarrow> k \<notin> common_keys \<Longrightarrow> fmlookup (fmupd k v b) k' = fmlookup b k'"
  by (auto simp: put_str_def)

section \<open>The round trips\<close>

lemma claude_roundtrip:
  assumes "times_ok tc st"
  shows "claude_Restore tc (claude_Persist tc (Some st)) now =
    (keep_common st (claude_NewState now))\<lparr> cc_ClaudeSessionID := cc_ClaudeSessionID st,
      cc_ForkParentID := cc_ForkParentID st \<rparr>"
proof -
  let ?b = "claude_Persist tc (Some st)"
  have "RestoreCommon tc ?b fresh = keep_common st fresh" "fmdom ?b \<noteq> {||}" for fresh :: claude_state
    by (rule RestoreCommon_keeps [OF _ assms];
        simp add: claude_Persist_def)+
  then show ?thesis
    by (simp add: claude_Restore_def Let_def claude_NewState_def claude_Persist_def)
qed

lemma gemini_roundtrip:
  assumes "times_ok tc st"
  shows "gemini_Restore tc (gemini_Persist tc (Some st)) now =
    (keep_common st (gemini_NewState now))\<lparr> gm_GeminiSessionID := gm_GeminiSessionID st \<rparr>"
proof -
  let ?b = "gemini_Persist tc (Some st)"
  have "RestoreCommon tc ?b fresh = keep_common st fresh" "fmdom ?b \<noteq> {||}" for fresh :: gemini_state
    by (rule RestoreCommon_keeps [OF _ assms];
        simp add: gemini_Persist_def)+
  then show ?thesis
    by (simp add: gemini_Restore_def Let_def gemini_NewState_def gemini_Persist_def)
qed

text \<open>
  Codex keeps the rollout path and the transcript path equal when one of them is missing.
\<close>

lemma codex_roundtrip:
  assumes "times_ok tc st"
  shows "codex_Restore tc (codex_Persist tc (Some st)) now =
    (keep_common st (codex_NewState now))
      \<lparr> cs_TranscriptPath := (if cs_TranscriptPath st = [] then cx_RolloutPath st else cs_TranscriptPath st),
        cx_ThreadID := cx_ThreadID st, cx_SessionID := cx_SessionID st,
        cx_RolloutPath := (if cx_RolloutPath st = [] then cs_TranscriptPath st else cx_RolloutPath st),
        cx_RequestedThreadID := cx_RequestedThreadID st, cx_ObservedThreadID := cx_ObservedThreadID st,
        cx_ResumePhase := cx_ResumePhase st \<rparr>"
proof -
  let ?b = "codex_Persist tc (Some st)"
  have r: "RestoreCommon tc ?b fresh = keep_common st fresh" "fmdom ?b \<noteq> {||}" for fresh :: codex_state
    by (rule RestoreCommon_keeps [OF _ assms]; simp add: codex_Persist_def)+
  have g: "bag_get ?b ''thread_id'' = cx_ThreadID st" "bag_get ?b ''session_id'' = cx_SessionID st"
    "bag_get ?b ''rollout_path'' = cx_RolloutPath st" "bag_get ?b ''requested_thread_id'' = cx_RequestedThreadID st"
    "bag_get ?b ''observed_thread_id'' = cx_ObservedThreadID st" "bag_get ?b ''resume_phase'' = cx_ResumePhase st"
    by (simp_all add: codex_Persist_def)
  have t: "cs_TranscriptPath (keep_common st fresh) = cs_TranscriptPath st" for fresh :: codex_state
    by (simp add: keep_common_def)
  show ?thesis
    by (simp add: codex_Restore_def Let_def codex_NewState_def r g t)
qed

lemma generic_roundtrip:
  assumes "times_ok tc st"
  shows "generic_Restore tc d (generic_Persist tc (Some st)) now = keep_common st (generic_NewState d now)"
proof -
  let ?b = "generic_Persist tc (Some st)"
  have "RestoreCommon tc ?b fresh = keep_common st fresh" "fmdom ?b \<noteq> {||}" for fresh :: generic_state
    by (rule RestoreCommon_keeps [OF _ assms]; simp add: generic_Persist_def)+
  then show ?thesis by (simp add: generic_Restore_def Let_def generic_NewState_def)
qed

lemma shell_roundtrip:
  assumes "times_ok tc st" "pred_option in_int64 (sh_LastExitCode st)"
  shows "shell_Restore tc (shell_Persist tc (Some st)) now =
    (keep_common st (shell_NewState now))\<lparr> sh_SawPromptEvent := sh_SawPromptEvent st,
      sh_LastExitCode := sh_LastExitCode st \<rparr>"
proof -
  let ?b = "shell_Persist tc (Some st)"
  have r: "RestoreCommon tc ?b fresh = keep_common st fresh" "fmdom ?b \<noteq> {||}" for fresh :: shell_state
    by (rule RestoreCommon_keeps [OF _ assms(1)]; auto simp: shell_Persist_def Let_def split: option.split)+
  have g: "bag_get ?b ''shell_saw_prompt_event'' = (if sh_SawPromptEvent st then ''1'' else [])"
    "bag_get ?b ''shell_last_exit_code'' = (case sh_LastExitCode st of None \<Rightarrow> [] | Some code \<Rightarrow> Itoa code)"
    by (simp_all add: shell_Persist_def Let_def split: option.split)
  have n: "sh_LastExitCode (keep_common st (shell_of c)) = None" for c
    by (simp add: keep_common_def shell_of_def common_state.defs shell_state.defs)
  show ?thesis
    using assms(2) Atoi_Itoa
    by (cases "sh_LastExitCode st") (simp_all add: shell_Restore_def Let_def shell_NewState_def r g n)
qed

section \<open>The status in the bag\<close>

text \<open>
  What the snapshot code relies on: a driver writes its status under the key \<open>status\<close>, and a bag with a valid
  status restores it.
\<close>

locale persist_law =
  fixes im :: "'st driver_impl"
  assumes persist_status: "fmlookup (im_Persist im (Some st)) ''status'' = Some (Status_String (im_Status im st))"
    and restore_status: "fmlookup bag ''status'' = Some v \<Longrightarrow> ParseStatus v = Some status \<Longrightarrow>
      im_Status im (im_Restore im bag now) = status"

lemma status_PersistCommon: "fmlookup (PersistCommon tc c fmempty) ''status'' = Some (Status_String (cs_Status c))"
  using bag_PersistCommon(5) [of tc c] Status_String_nonempty [of "cs_Status c"]
  by (cases "fmlookup (PersistCommon tc c fmempty) ''status''") (simp_all add: bag_get_def)

lemma status_RestoreCommon:
  "fmlookup bag ''status'' = Some v \<Longrightarrow> ParseStatus v = Some st \<Longrightarrow> cs_Status (RestoreCommon tc bag c) = st"
  "fmlookup bag ''status'' = Some v \<Longrightarrow> fmdom bag \<noteq> {||}"
  by (auto simp: RestoreCommon_def bag_get_def dest: fmdomI)

lemma status_put [simp]: "k \<noteq> ''status'' \<Longrightarrow> fmlookup (put_str k v b) ''status'' = fmlookup b ''status''"
  by (simp add: put_str_def)

interpretation claude_bag: persist_law "ClaudeDriver d" for d
  by unfold_locales (simp_all add: ClaudeDriver_def claude_Persist_def claude_Restore_def Let_def
      status_PersistCommon status_RestoreCommon)

interpretation codex_bag: persist_law "CodexDriver d" for d
  by unfold_locales (simp_all add: CodexDriver_def codex_Persist_def codex_Restore_def Let_def
      status_PersistCommon status_RestoreCommon)

interpretation gemini_bag: persist_law "GeminiDriver d" for d
  by unfold_locales (simp_all add: GeminiDriver_def gemini_Persist_def gemini_Restore_def Let_def
      status_PersistCommon status_RestoreCommon)

interpretation generic_bag: persist_law "GenericDriver tc d" for tc d
  by unfold_locales (simp_all add: GenericDriver_def generic_Persist_def generic_Restore_def Let_def
      status_PersistCommon status_RestoreCommon)

interpretation shell_bag: persist_law "ShellDriver tc d" for tc d
  by unfold_locales (auto simp: ShellDriver_def shell_Persist_def shell_Restore_def Let_def
      status_PersistCommon status_RestoreCommon split: option.splits if_splits)

section \<open>The theorem\<close>

text \<open>C26: Persistence round trips: restoring the bag that a driver persisted gives a fresh state with the
  common fields of the old one (times cut to whole seconds) and the identity that a resume needs: the
  conversation of Claude with its fork parent, the thread of Codex with its rollout path, the session of
  Gemini, the last exit code of the shell. Everything else starts afresh, in particular no job is in flight
  and no tool is pending.\<close>

theorem drivers_roundtrip:
  assumes "times_ok tc claude" "times_ok tc codex" "times_ok tc gemini" "times_ok tc generic" "times_ok tc shell"
    and "pred_option in_int64 (sh_LastExitCode shell)"
  shows "claude_Restore tc (claude_Persist tc (Some claude)) now =
      (keep_common claude (claude_NewState now))
        \<lparr> cc_ClaudeSessionID := cc_ClaudeSessionID claude, cc_ForkParentID := cc_ForkParentID claude \<rparr> \<and>
    codex_Restore tc (codex_Persist tc (Some codex)) now =
      (keep_common codex (codex_NewState now))
        \<lparr> cs_TranscriptPath := (if cs_TranscriptPath codex = [] then cx_RolloutPath codex else cs_TranscriptPath codex),
          cx_ThreadID := cx_ThreadID codex, cx_SessionID := cx_SessionID codex,
          cx_RolloutPath := (if cx_RolloutPath codex = [] then cs_TranscriptPath codex else cx_RolloutPath codex),
          cx_RequestedThreadID := cx_RequestedThreadID codex, cx_ObservedThreadID := cx_ObservedThreadID codex,
          cx_ResumePhase := cx_ResumePhase codex \<rparr> \<and>
    gemini_Restore tc (gemini_Persist tc (Some gemini)) now =
      (keep_common gemini (gemini_NewState now))\<lparr> gm_GeminiSessionID := gm_GeminiSessionID gemini \<rparr> \<and>
    generic_Restore tc d (generic_Persist tc (Some generic)) now = keep_common generic (generic_NewState d now) \<and>
    shell_Restore tc (shell_Persist tc (Some shell)) now =
      (keep_common shell (shell_NewState now))
        \<lparr> sh_SawPromptEvent := sh_SawPromptEvent shell, sh_LastExitCode := sh_LastExitCode shell \<rparr>"
  using claude_roundtrip codex_roundtrip gemini_roundtrip generic_roundtrip shell_roundtrip assms by blast

definition demo_codec :: time_codec where
  "demo_codec = \<lparr> tc_Format = (\<lambda>t. if t = 5000000007 then ''1970-01-01T00:00:05Z'' else ''?''),
     tc_Parse = (\<lambda>v. if v = ''1970-01-01T00:00:05Z'' then Some 5000000000 else None) \<rparr>"

lemma demo_times:
  "times_ok demo_codec (claude_NewState 5000000007)" "times_ok demo_codec (codex_NewState 5000000007)"
  "times_ok demo_codec (gemini_NewState 5000000007)" "times_ok demo_codec (shell_NewState 5000000007)"
  "times_ok demo_codec (generic_NewState d 5000000007)"
  by (simp_all add: times_ok_def codec_ok_def secs_def demo_codec_def claude_NewState_def claude_of_def
      codex_NewState_def codex_of_def gemini_NewState_def gemini_of_def shell_NewState_def shell_of_def
      generic_NewState_def generic_of_def common_new_def common_state.defs claude_state.defs codex_state.defs
      gemini_state.defs shell_state.defs generic_state.defs IsZero_def zero_time_def)

theorem drivers_roundtrip_witness:
  "cs_StatusChangedAt (claude_Restore demo_codec (claude_Persist demo_codec (Some (claude_NewState 5000000007))) 9) =
     5000000000"
  using drivers_roundtrip [OF demo_times(1-3) demo_times(5) demo_times(4), where now = 9]
  by (simp add: keep_common_def kept_time_def IsZero_def zero_time_def secs_def claude_NewState_def claude_of_def
      shell_NewState_def shell_of_def common_new_def common_state.defs claude_state.defs shell_state.defs)

end
