(* ===== verification/Client_Runtime.thy ===== *)
theory Client_Runtime
  imports Client_System Driver_Persist
begin

text \<open>
  The parts of \<open>client/runtime\<close> that connect the reducer with the disk: \<open>dispatch\<close> with \<open>reconcilePersist\<close>
  (\<open>runtime.go\<close>), \<open>snapshotSessions\<close> (\<open>interpret.go\<close>), \<open>FilePersist\<close> (\<open>persist.go\<close>), \<open>LoadSnapshot\<close>,
  \<open>restoreSession\<close> and \<open>RecoverWarmStartSessions\<close> (\<open>bootstrap.go\<close>), and the choice of the frames that a cold
  start respawns (\<open>bootstrap_coldstart.go\<close>).

  A disk is a finite map from file names to contents; the JSON encoding of snapshots is a parameter. Writing
  a file through a temporary name and a rename is one update. Failing writes are only logged by the code and
  are left out. Maps are visited in the order of their keys.
\<close>

section \<open>Snapshots\<close>

record frame_snapshot =
  fsn_ID :: string
  fsn_SubsystemID :: string
  fsn_TargetID :: string
  fsn_Project :: string
  fsn_Command :: string
  fsn_LaunchOptions :: launch_options
  fsn_CreatedAt :: string
  fsn_Driver :: string
  fsn_DriverState :: bag

record session_snapshot =
  sn_ID :: string
  sn_Project :: string
  sn_CreatedAt :: string
  sn_Frames :: "frame_snapshot list"
  sn_HeadFrameID :: string
  sn_MRUFrameIDs :: "string list"
  sn_Sandbox :: sandbox_override

definition snapshot_frame :: "'ds env \<Rightarrow> time_codec \<Rightarrow> 'ds session_frame \<Rightarrow> frame_snapshot" where
  "snapshot_frame env tc frame =
     (let (bag, driverName) =
            (case get_driver env (fr_Command frame) of
               None \<Rightarrow> (fmempty, [])
             | Some drv \<Rightarrow>
                 (case fr_Driver frame of None \<Rightarrow> fmempty | Some ds \<Rightarrow> drv_Persist drv ds, drv_Name drv))
      in \<lparr> fsn_ID = fr_ID frame, fsn_SubsystemID = fr_SubsystemID frame, fsn_TargetID = fr_TargetID frame,
           fsn_Project = fr_Project frame, fsn_Command = fr_Command frame,
           fsn_LaunchOptions = (fr_LaunchOptions frame)\<lparr> lo_InitialInput := [] \<rparr>,
           fsn_CreatedAt = tc_Format tc (fr_CreatedAt frame), fsn_Driver = driverName, fsn_DriverState = bag \<rparr>)"

definition snapshot_session :: "'ds env \<Rightarrow> time_codec \<Rightarrow> 'ds session \<Rightarrow> session_snapshot" where
  "snapshot_session env tc sess =
     \<lparr> sn_ID = se_ID sess, sn_Project = se_Project sess, sn_CreatedAt = tc_Format tc (se_CreatedAt sess),
       sn_Frames = map (snapshot_frame env tc) (se_Frames sess), sn_HeadFrameID = se_HeadFrameID sess,
       sn_MRUFrameIDs = se_MRUFrameIDs sess, sn_Sandbox = se_Sandbox sess \<rparr>"

definition snapshotSessions :: "'ds env \<Rightarrow> time_codec \<Rightarrow> 'ds state \<Rightarrow> session_snapshot list" where
  "snapshotSessions env tc s = map (snapshot_session env tc) (map_values (st_Sessions s))"

section \<open>persist.go\<close>

type_synonym disk = "(string, bytes) fmap"

record persist_codec =
  pc_Marshal :: "session_snapshot \<Rightarrow> bytes"
  pc_Unmarshal :: "bytes \<Rightarrow> session_snapshot option"
  pc_Legacy :: "bytes \<Rightarrow> string option"

definition file_name :: "string \<Rightarrow> string" where
  "file_name i = i @ ''.json''"

definition writeOne :: "persist_codec \<Rightarrow> disk \<Rightarrow> session_snapshot \<Rightarrow> disk" where
  "writeOne pc disk sess = fmupd (file_name (sn_ID sess)) (pc_Marshal pc sess) disk"

definition Save :: "persist_codec \<Rightarrow> disk \<Rightarrow> session_snapshot list \<Rightarrow> disk" where
  "Save pc disk sessions = foldl (writeOne pc) disk sessions"

definition Delete :: "disk \<Rightarrow> string \<Rightarrow> disk" where
  "Delete disk i = (if i = [] then disk else fmdrop (file_name i) disk)"

fun load_files :: "persist_codec \<Rightarrow> disk \<Rightarrow> string list \<Rightarrow> string + session_snapshot list" where
  "load_files pc disk [] = Inr []"
| "load_files pc disk (name # names) =
     (if \<not> HasSuffix name ''.json'' \<or> HasSuffix name ''.tmp'' then load_files pc disk names
      else case fmlookup disk name of
             None \<Rightarrow> Inl (''persist: read '' @ name)
           | Some data \<Rightarrow>
               (case pc_Unmarshal pc data of
                  None \<Rightarrow> Inl (''persist: unmarshal '' @ name)
                | Some snap \<Rightarrow>
                    let snap = (if sn_HeadFrameID snap = [] then
                                  (case pc_Legacy pc data of
                                     None \<Rightarrow> snap
                                   | Some h \<Rightarrow> snap\<lparr> sn_HeadFrameID := h \<rparr>)
                                else snap)
                    in (case load_files pc disk names of Inl e \<Rightarrow> Inl e | Inr snaps \<Rightarrow> Inr (snap # snaps))))"

definition Load :: "persist_codec \<Rightarrow> disk \<Rightarrow> string + session_snapshot list" where
  "Load pc disk = load_files pc disk (sorted_keys disk)"

section \<open>runtime.go: dispatch\<close>

text \<open>
  \<open>sameSessionMap\<close> compares the map headers. The reducers copy the session map before they change it, so equal
  headers mean equal maps; equal maps with different headers only write the same files again.
\<close>

definition reconcilePersist ::
  "'ds env \<Rightarrow> time_codec \<Rightarrow> persist_codec \<Rightarrow> 'ds state \<Rightarrow> 'ds state \<Rightarrow> disk \<Rightarrow> disk" where
  "reconcilePersist env tc pc prev next disk =
     (if st_Sessions prev = st_Sessions next then disk
      else
        let removed = filter (\<lambda>i. i |\<notin>| fmdom (st_Sessions next)) (sorted_keys (st_Sessions prev));
            disk = foldl Delete disk removed
        in if fmdom (st_Sessions next) = {||} then disk
           else Save pc disk (snapshotSessions env tc next))"

definition execute_persist :: "'ds env \<Rightarrow> time_codec \<Rightarrow> persist_codec \<Rightarrow> 'ds state \<Rightarrow> disk \<Rightarrow> effect \<Rightarrow> disk" where
  "execute_persist env tc pc s disk eff =
     (case eff of EffPersistSnapshot \<Rightarrow> Save pc disk (snapshotSessions env tc s) | _ \<Rightarrow> disk)"

definition dispatch ::
  "'ds env \<Rightarrow> time_codec \<Rightarrow> persist_codec \<Rightarrow> 'ds state \<Rightarrow> disk \<Rightarrow> event \<Rightarrow> ('ds state \<times> effect list \<times> disk) option" where
  "dispatch env tc pc s disk ev =
     (case Reduce env s ev of
        None \<Rightarrow> None
      | Some (next, effects) \<Rightarrow>
          let disk = foldl (execute_persist env tc pc next) disk effects
          in Some (next, effects, reconcilePersist env tc pc s next disk))"

definition finalPersistFlush :: "'ds env \<Rightarrow> time_codec \<Rightarrow> persist_codec \<Rightarrow> 'ds state \<Rightarrow> disk \<Rightarrow> disk" where
  "finalPersistFlush env tc pc s disk =
     (if fmdom (st_Sessions s) = {||} then disk else Save pc disk (snapshotSessions env tc s))"

section \<open>bootstrap.go, bootstrap_coldstart.go\<close>

definition coldStartRecoverable :: "'ds driver \<Rightarrow> 'ds option \<Rightarrow> bool" where
  "coldStartRecoverable drv s =
     (case drv_RecoverableOnColdStart drv of None \<Rightarrow> False | Some rec \<Rightarrow> s \<noteq> None \<and> rec s)"

text \<open>Parsing a time that is not valid gives the zero time.\<close>

definition parse_or :: "time_codec \<Rightarrow> string \<Rightarrow> go_time \<Rightarrow> go_time" where
  "parse_or tc v other =
     (case tc_Parse tc v of None \<Rightarrow> other | Some t \<Rightarrow> if IsZero t then other else t)"

text \<open>\<open>None\<close> is the panic of \<open>Status\<close> on a state of another driver.\<close>

fun restore_frames ::
  "'ds env \<Rightarrow> time_codec \<Rightarrow> bool \<Rightarrow> go_time \<Rightarrow> go_time \<Rightarrow> frame_snapshot list \<Rightarrow> 'ds session_frame list option" where
  "restore_frames env tc coldStart now createdAt [] = Some []"
| "restore_frames env tc coldStart now createdAt (fsnap # fsnaps) =
     (case get_driver env (fsn_Command fsnap) of
        None \<Rightarrow> Some []
      | Some drv \<Rightarrow>
          let bag = (if coldStart \<and> fmlookup (fsn_DriverState fsnap) ''status'' = Some ''running''
                     then fmupd ''status'' ''waiting'' (fsn_DriverState fsnap) else fsn_DriverState fsnap);
              driverState = drv_Restore drv bag now;
              frame = \<lparr> fr_ID = fsn_ID fsnap,
                fr_SubsystemID = (if fsn_SubsystemID fsnap = [] then fsn_ID fsnap else fsn_SubsystemID fsnap),
                fr_TargetID = (if fsn_TargetID fsnap = [] then fsn_ID fsnap else fsn_TargetID fsnap),
                fr_Project = fsn_Project fsnap, fr_Command = fsn_Command fsnap,
                fr_LaunchOptions = fsn_LaunchOptions fsnap,
                fr_CreatedAt = parse_or tc (fsn_CreatedAt fsnap) createdAt, fr_Driver = Some driverState \<rparr>;
              keep = map_option (\<lambda>frames. frame # frames) (restore_frames env tc coldStart now createdAt fsnaps)
          in if coldStart then
               (case drv_Status drv driverState of
                  None \<Rightarrow> None
                | Some status \<Rightarrow>
                    if status = StatusStopped \<and> \<not> coldStartRecoverable drv (Some driverState)
                    then restore_frames env tc coldStart now createdAt fsnaps else keep)
             else keep)"

definition restoreSession ::
  "'ds env \<Rightarrow> time_codec \<Rightarrow> bool \<Rightarrow> go_time \<Rightarrow> session_snapshot \<Rightarrow> 'ds session option option" where
  "restoreSession env tc coldStart now snap =
     (let createdAt = parse_or tc (sn_CreatedAt snap) now in
      case restore_frames env tc coldStart now createdAt (sn_Frames snap) of
        None \<Rightarrow> None
      | Some [] \<Rightarrow> Some None
      | Some (root # rest) \<Rightarrow>
          Some (Some
            \<lparr> se_ID = sn_ID snap, se_Project = sn_Project snap, se_CreatedAt = createdAt,
              se_Frames = root # rest,
              se_HeadFrameID = (if sn_HeadFrameID snap \<noteq> [] then sn_HeadFrameID snap else fr_ID (last (root # rest))),
              se_MRUFrameIDs = sn_MRUFrameIDs snap, se_Command = fr_Command root,
              se_Sandbox = sn_Sandbox snap, se_LaunchOptions = fr_LaunchOptions root,
              se_Driver = fr_Driver root \<rparr>))"

fun load_sessions ::
  "'ds env \<Rightarrow> time_codec \<Rightarrow> bool \<Rightarrow> go_time \<Rightarrow> session_snapshot list \<Rightarrow> 'ds state \<Rightarrow> disk \<Rightarrow> ('ds state \<times> disk) option" where
  "load_sessions env tc coldStart now [] s disk = Some (s, disk)"
| "load_sessions env tc coldStart now (snap # snaps) s disk =
     (case restoreSession env tc coldStart now snap of
        None \<Rightarrow> None
      | Some None \<Rightarrow>
          load_sessions env tc coldStart now snaps s (if coldStart then Delete disk (sn_ID snap) else disk)
      | Some (Some sess) \<Rightarrow>
          load_sessions env tc coldStart now snaps
            (s\<lparr> st_Sessions := fmupd (se_ID sess) sess (st_Sessions s) \<rparr>) disk)"

definition LoadSnapshot ::
  "'ds env \<Rightarrow> time_codec \<Rightarrow> persist_codec \<Rightarrow> bool \<Rightarrow> go_time \<Rightarrow> 'ds state \<Rightarrow> disk \<Rightarrow> (string + 'ds state \<times> disk) option" where
  "LoadSnapshot env tc pc coldStart now s disk =
     (case Load pc disk of
        Inl err \<Rightarrow> Some (Inl err)
      | Inr snaps \<Rightarrow> map_option Inr (load_sessions env tc coldStart now snaps s disk))"

definition skipColdStartSpawn :: "'ds env \<Rightarrow> 'ds session_frame \<Rightarrow> bool" where
  "skipColdStartSpawn env frame =
     (case get_driver env (fr_Command frame) of
        None \<Rightarrow> False
      | Some drv \<Rightarrow>
          (case fr_Driver frame of
             None \<Rightarrow> False
           | Some ds \<Rightarrow> drv_Status drv ds = Some StatusStopped \<and> \<not> coldStartRecoverable drv (Some ds)))"

definition recreateSessionFrames :: "'ds env \<Rightarrow> 'ds session \<Rightarrow> 'ds session_frame list" where
  "recreateSessionFrames env sess = filter (\<lambda>frame. \<not> skipColdStartSpawn env frame) (se_Frames sess)"

text \<open>\<open>RecreateAll\<close>: the frames it spawns, by session.\<close>

definition RecreateAll :: "'ds env \<Rightarrow> 'ds state \<Rightarrow> (session_id \<times> 'ds session_frame) list" where
  "RecreateAll env s =
     concat (map (\<lambda>i. case fmlookup (st_Sessions s) i of
       None \<Rightarrow> [] | Some sess \<Rightarrow> map (\<lambda>frame. (i, frame)) (recreateSessionFrames env sess)) (sorted_keys (st_Sessions s)))"

text \<open>\<open>RecoverWarmStartSessions\<close>: the driver of a frame may look again for the files that it watches.\<close>

definition bootstrapSessionEffect ::
  "'ds state \<Rightarrow> session_id \<Rightarrow> frame_id \<Rightarrow> go_time \<Rightarrow> effect \<Rightarrow> effect \<times> 'ds state" where
  "bootstrapSessionEffect s sessID frameID now eff =
     (case eff of
        EffStartJob _ input \<Rightarrow>
          let jobID = st_NextJobID s + 1;
              meta = \<lparr> jm_SessionID = sessID, jm_FrameID = frameID, jm_StartedAt = now \<rparr>
          in (EffStartJob jobID input, s\<lparr> st_NextJobID := jobID, st_Jobs := fmupd jobID meta (st_Jobs s) \<rparr>)
      | EffEventLogAppend i line \<Rightarrow> (EffEventLogAppend (if i = [] then frameID else i) line, s)
      | EffWatchFile i path kind \<Rightarrow> (EffWatchFile (if i = [] then frameID else i) path kind, s)
      | EffUnwatchFile i \<Rightarrow> (EffUnwatchFile (if i = [] then frameID else i), s)
      | _ \<Rightarrow> (eff, s))"

fun bootstrap_effects ::
  "'ds state \<Rightarrow> session_id \<Rightarrow> frame_id \<Rightarrow> go_time \<Rightarrow> effect list \<Rightarrow> 'ds state \<times> effect list" where
  "bootstrap_effects s sessID frameID now [] = (s, [])"
| "bootstrap_effects s sessID frameID now (eff # effs) =
     (case bootstrapSessionEffect s sessID frameID now eff of
        (eff, s) \<Rightarrow> (case bootstrap_effects s sessID frameID now effs of (s, out) \<Rightarrow> (s, eff # out)))"

definition warm_frame ::
  "'ds env \<Rightarrow> go_time \<Rightarrow> session_id \<Rightarrow> nat \<Rightarrow> 'ds state \<Rightarrow> 'ds state \<times> effect list \<times> bool" where
  "warm_frame env now sessID i s =
     (case fmlookup (st_Sessions s) sessID of
        None \<Rightarrow> (s, [], False)
      | Some sess \<Rightarrow>
          let frame = se_Frames sess ! i in
          (case Option.bind (get_driver env (fr_Command frame)) drv_WarmStartRecover of
             None \<Rightarrow> (s, [], False)
           | Some recover \<Rightarrow>
               let (next, effs) = recover (fr_Driver frame) now;
                   s = put_frame s sessID sess i (frame\<lparr> fr_Driver := Some next \<rparr>);
                   (s, out) = bootstrap_effects s sessID (fr_ID frame) now effs
               in (s, out, True)))"

fun warm_frames ::
  "'ds env \<Rightarrow> go_time \<Rightarrow> (session_id \<times> nat) list \<Rightarrow> 'ds state \<Rightarrow> 'ds state \<times> effect list \<times> bool" where
  "warm_frames env now [] s = (s, [], False)"
| "warm_frames env now ((sessID, i) # rest) s =
     (case warm_frame env now sessID i s of
        (s, out, changed) \<Rightarrow>
          (case warm_frames env now rest s of (s, out', changed') \<Rightarrow> (s, out @ out', changed \<or> changed')))"

definition all_frames :: "'ds state \<Rightarrow> (session_id \<times> nat) list" where
  "all_frames s = concat (map (\<lambda>i. case fmlookup (st_Sessions s) i of
     None \<Rightarrow> [] | Some sess \<Rightarrow> map (Pair i) [0..<length (se_Frames sess)]) (sorted_keys (st_Sessions s)))"

definition RecoverWarmStartSessions ::
  "'ds env \<Rightarrow> time_codec \<Rightarrow> persist_codec \<Rightarrow> go_time \<Rightarrow> 'ds state \<Rightarrow> disk \<Rightarrow> 'ds state \<times> effect list \<times> disk" where
  "RecoverWarmStartSessions env tc pc now s disk =
     (case warm_frames env now (all_frames s) s of
        (s, out, changed) \<Rightarrow> (s, out, if changed then Save pc disk (snapshotSessions env tc s) else disk))"

section \<open>The disk follows the state\<close>

lemma file_name_eq [simp]: "file_name i = file_name j \<longleftrightarrow> i = j"
  by (simp add: file_name_def)

lemma Save_lookup:
  assumes "\<And>i. i \<in> set ids \<Longrightarrow> sn_ID (g i) = i"
  shows "fmlookup (Save pc disk (map g ids)) (file_name i) =
      (if i \<in> set ids then Some (pc_Marshal pc (g i)) else fmlookup disk (file_name i))"
    and "fset (fmdom (Save pc disk (map g ids))) \<subseteq> fset (fmdom disk) \<union> range file_name"
  unfolding Save_def using assms
proof (induction ids arbitrary: disk)
  case (Cons j js)
  {
    case 1
    then show ?case using Cons.IH(1) [of "writeOne pc disk (g j)"] by (auto simp: writeOne_def)
  next
    case 2
    then show ?case using Cons.IH(2) [of "writeOne pc disk (g j)"] by (auto simp: writeOne_def)
  }
qed simp_all

lemma Delete_lookup:
  "fmlookup (foldl Delete disk ids) (file_name i) = (if i \<in> set ids \<and> i \<noteq> [] then None else fmlookup disk (file_name i))"
  "fset (fmdom (foldl Delete disk ids)) \<subseteq> fset (fmdom disk)"
proof (induction ids arbitrary: disk)
  case (Cons j js)
  {
    case 1
    show ?case using Cons(1) [of "Delete disk j"] by (auto simp: Delete_def)
  next
    case 2
    show ?case using Cons(2) [of "Delete disk j"] by (auto simp: Delete_def split: if_splits)
  }
qed simp_all

definition in_sync :: "'ds env \<Rightarrow> time_codec \<Rightarrow> persist_codec \<Rightarrow> disk \<Rightarrow> 'ds state \<Rightarrow> bool" where
  "in_sync env tc pc disk s \<longleftrightarrow>
     (\<forall>i. fmlookup disk (file_name i) =
        map_option (\<lambda>sess. pc_Marshal pc (snapshot_session env tc sess)) (fmlookup (st_Sessions s) i)) \<and>
     fset (fmdom disk) \<subseteq> range file_name"

lemma snapshot_save:
  assumes "state_ok ty env s"
  shows "fmlookup (Save pc disk (snapshotSessions env tc s)) (file_name i) =
      (case fmlookup (st_Sessions s) i of
         Some sess \<Rightarrow> Some (pc_Marshal pc (snapshot_session env tc sess))
       | None \<Rightarrow> fmlookup disk (file_name i))"
    and "fset (fmdom (Save pc disk (snapshotSessions env tc s))) \<subseteq> fset (fmdom disk) \<union> range file_name"
proof -
  let ?g = "\<lambda>i. snapshot_session env tc (the (fmlookup (st_Sessions s) i))"
  have eq: "snapshotSessions env tc s = map ?g (sorted_keys (st_Sessions s))"
    by (simp add: snapshotSessions_def map_values_def)
  have id: "sn_ID (?g i) = i" if "i \<in> set (sorted_keys (st_Sessions s))" for i
  proof -
    from that obtain sess where "fmlookup (st_Sessions s) i = Some sess" by (auto dest: fmlookup_dom_iff [THEN iffD1])
    with assms show ?thesis by (auto simp: state_ok_def sessions_ok_def session_ok_def snapshot_session_def)
  qed
  show "fmlookup (Save pc disk (snapshotSessions env tc s)) (file_name i) =
      (case fmlookup (st_Sessions s) i of
         Some sess \<Rightarrow> Some (pc_Marshal pc (snapshot_session env tc sess))
       | None \<Rightarrow> fmlookup disk (file_name i))"
    unfolding eq
    using Save_lookup(1) [where ids = "sorted_keys (st_Sessions s)" and g = ?g and pc = pc and disk = disk and i = i, OF id]
    by (auto split: option.split simp: fmdom_notI fmdomI)
  show "fset (fmdom (Save pc disk (snapshotSessions env tc s))) \<subseteq> fset (fmdom disk) \<union> range file_name"
    unfolding eq using Save_lookup(2) [where ids = "sorted_keys (st_Sessions s)", OF id] by blast
qed

text \<open>While the effects of a step run, a file holds the old or the new snapshot of its session.\<close>

definition between ::
  "'ds env \<Rightarrow> time_codec \<Rightarrow> persist_codec \<Rightarrow> 'ds state \<Rightarrow> 'ds state \<Rightarrow> disk \<Rightarrow> bool" where
  "between env tc pc s s' disk \<longleftrightarrow>
     (\<forall>i. let file = (\<lambda>s. map_option (\<lambda>sess. pc_Marshal pc (snapshot_session env tc sess)) (fmlookup (st_Sessions s) i))
          in fmlookup disk (file_name i) = file s \<or>
             fmlookup (st_Sessions s') i \<noteq> None \<and> fmlookup disk (file_name i) = file s') \<and>
     fset (fmdom disk) \<subseteq> range file_name"

lemma betweenD:
  assumes "between env tc pc s s' disk"
  shows "fmlookup disk (file_name i) =
      map_option (\<lambda>sess. pc_Marshal pc (snapshot_session env tc sess)) (fmlookup (st_Sessions s) i) \<or>
    fmlookup (st_Sessions s') i \<noteq> None \<and> fmlookup disk (file_name i) =
      map_option (\<lambda>sess. pc_Marshal pc (snapshot_session env tc sess)) (fmlookup (st_Sessions s') i)"
  using assms unfolding between_def Let_def by blast

lemma between_effect:
  assumes "state_ok ty env s'" "between env tc pc s s' disk"
  shows "between env tc pc s s' (execute_persist env tc pc s' disk eff)"
  using assms(2) snapshot_save [OF assms(1), of pc disk tc]
  unfolding execute_persist_def between_def Let_def
  by (cases eff) (auto split: option.splits)

lemma between_effects:
  assumes "state_ok ty env s'" "between env tc pc s s' disk"
  shows "between env tc pc s s' (foldl (execute_persist env tc pc s') disk effs)"
  using assms(2) by (induction effs arbitrary: disk) (simp_all add: between_effect [OF assms(1)])

lemma reconcile_sync:
  assumes ok: "state_ok ty env s'" and names: "\<And>i. i |\<in>| fmdom (st_Sessions s) \<Longrightarrow> i \<noteq> []"
    and b: "between env tc pc s s' disk"
  shows "in_sync env tc pc (reconcilePersist env tc pc s s' disk) s'"
proof (cases "st_Sessions s = st_Sessions s'")
  case True
  with b show ?thesis by (auto simp: in_sync_def between_def reconcilePersist_def Let_def)
next
  case False
  define gone where "gone = filter (\<lambda>i. i |\<notin>| fmdom (st_Sessions s')) (sorted_keys (st_Sessions s))"
  define disk' where "disk' = foldl Delete disk gone"
  have rest: "fmlookup disk' (file_name i) = None" if "fmlookup (st_Sessions s') i = None" for i
  proof (cases "i |\<in>| fmdom (st_Sessions s)")
    case True
    with that names [OF True] show ?thesis
      by (simp add: disk'_def Delete_lookup gone_def fmdom_notI)
  next
    case False
    then have "fmlookup (st_Sessions s) i = None" by (rule fmdom_notD)
    with betweenD [OF b, of i] that have "fmlookup disk (file_name i) = None" by auto
    then show ?thesis by (simp add: disk'_def Delete_lookup)
  qed
  have dom: "fset (fmdom disk') \<subseteq> range file_name"
    using b Delete_lookup(2) [of disk gone] by (auto simp: between_def disk'_def)
  show ?thesis
  proof (cases "fmdom (st_Sessions s') = {||}")
    case True
    then have "fmlookup (st_Sessions s') i = None" for i by (simp add: fmdom_notD)
    moreover have "reconcilePersist env tc pc s s' disk = disk'"
      unfolding reconcilePersist_def Let_def disk'_def gone_def using True False by simp
    ultimately show ?thesis using rest dom by (simp add: in_sync_def)
  next
    case False
    then have eq: "reconcilePersist env tc pc s s' disk = Save pc disk' (snapshotSessions env tc s')"
      using \<open>st_Sessions s \<noteq> st_Sessions s'\<close>
      by (simp add: reconcilePersist_def Let_def gone_def [symmetric] disk'_def [symmetric])
    show ?thesis
      unfolding in_sync_def eq using snapshot_save [OF ok, of pc disk' tc] rest dom
      by (auto split: option.splits)
  qed
qed

lemma drawn_not_Nil: "fresh_ids env \<Longrightarrow> [] \<notin> drawn env n"
  unfolding fresh_ids_def drawn_def by (metis imageE)

lemma session_names:
  assumes "state_ok ty env s" "fresh_ids env" "i |\<in>| fmdom (st_Sessions s)"
  shows "i \<noteq> []"
proof -
  obtain sess where "fmlookup (st_Sessions s) i = Some sess" using assms(3) by (auto simp: fmlookup_dom_iff)
  with assms(1) have "i \<in> drawn env (st_Draws s)" by (auto simp: state_ok_def sessions_ok_def)
  with drawn_not_Nil [OF assms(2)] show ?thesis by metis
qed


definition demo_pc :: persist_codec where
  "demo_pc = \<lparr> pc_Marshal = (\<lambda>sn. sn_ID sn), pc_Unmarshal = (\<lambda>_. None), pc_Legacy = (\<lambda>_. None) \<rparr>"


end
