(* ===== verification/Client_Restart.thy ===== *)
theory Client_Restart
  imports Client_Runtime
begin

text \<open>
  What a cold start makes of the sessions on disk: which frames survive, and that the state of the daemon is
  rebuilt when no frame was stopped.
\<close>

section \<open>Which frames survive\<close>

text \<open>The bag that a cold start restores: a running status becomes waiting.\<close>

definition cold_bag :: "bag \<Rightarrow> bag" where
  "cold_bag bag = (if fmlookup bag ''status'' = Some ''running'' then fmupd ''status'' ''waiting'' bag else bag)"

definition dropped :: "'ds env \<Rightarrow> go_time \<Rightarrow> frame_snapshot \<Rightarrow> bool" where
  "dropped env now fsnap =
     (case get_driver env (fsn_Command fsnap) of
        None \<Rightarrow> True
      | Some drv \<Rightarrow>
          (let ds = drv_Restore drv (cold_bag (fsn_DriverState fsnap)) now
           in drv_Status drv ds = Some StatusStopped \<and> \<not> coldStartRecoverable drv (Some ds)))"

definition reborn :: "time_codec \<Rightarrow> go_time \<Rightarrow> go_time \<Rightarrow> 'ds driver \<Rightarrow> frame_snapshot \<Rightarrow> 'ds session_frame" where
  "reborn tc now createdAt drv fsnap =
     \<lparr> fr_ID = fsn_ID fsnap,
       fr_SubsystemID = (if fsn_SubsystemID fsnap = [] then fsn_ID fsnap else fsn_SubsystemID fsnap),
       fr_TargetID = (if fsn_TargetID fsnap = [] then fsn_ID fsnap else fsn_TargetID fsnap),
       fr_Project = fsn_Project fsnap, fr_Command = fsn_Command fsnap,
       fr_LaunchOptions = fsn_LaunchOptions fsnap, fr_CreatedAt = parse_or tc (fsn_CreatedAt fsnap) createdAt,
       fr_Driver = Some (drv_Restore drv (cold_bag (fsn_DriverState fsnap)) now) \<rparr>"

lemma restore_cold:
  "restore_frames env tc True now createdAt (fsnap # fsnaps) =
     (case get_driver env (fsn_Command fsnap) of
        None \<Rightarrow> Some []
      | Some drv \<Rightarrow>
          (case drv_Status drv (drv_Restore drv (cold_bag (fsn_DriverState fsnap)) now) of
             None \<Rightarrow> None
           | Some status \<Rightarrow>
               if dropped env now fsnap then restore_frames env tc True now createdAt fsnaps
               else map_option (\<lambda>frames. reborn tc now createdAt drv fsnap # frames)
                      (restore_frames env tc True now createdAt fsnaps)))"
proof (cases "get_driver env (fsn_Command fsnap)")
  case (Some drv)
  then show ?thesis
    unfolding restore_frames.simps Let_def cold_bag_def [symmetric] simp_thms
    by (cases "drv_Status drv (drv_Restore drv (cold_bag (fsn_DriverState fsnap)) now)")
      (simp_all only: option.case dropped_def reborn_def Let_def if_True option.inject cong: if_cong)
qed simp

lemma restore_frames_kept:
  assumes "restore_frames env tc True now createdAt fsnaps = Some frames" "f \<in> set frames"
  shows "\<exists>fsnap drv. fsnap \<in> set fsnaps \<and> get_driver env (fsn_Command fsnap) = Some drv \<and>
    f = reborn tc now createdAt drv fsnap \<and> \<not> dropped env now fsnap"
  using assms
proof (induction fsnaps arbitrary: frames)
  case (Cons x xs)
  then obtain drv where d: "get_driver env (fsn_Command x) = Some drv"
    by (cases "get_driver env (fsn_Command x)") (simp_all add: restore_cold)
  show ?case
  proof (cases "dropped env now x")
    case True
    with Cons.prems(1) d have "restore_frames env tc True now createdAt xs = Some frames"
      by (simp only: restore_cold) (simp split: option.splits)
    from Cons.IH [OF this Cons.prems(2)] show ?thesis by auto
  next
    case False
    with Cons.prems(1) d obtain rest where r: "restore_frames env tc True now createdAt xs = Some rest"
      "frames = reborn tc now createdAt drv x # rest"
      by (simp only: restore_cold) (auto split: option.splits)
    with Cons.prems(2) consider "f = reborn tc now createdAt drv x" | "f \<in> set rest" by auto
    then show ?thesis
      using d False Cons.IH [OF r(1)] by cases (auto intro: exI [of _ x])
  qed
qed simp

lemma not_skipped: "\<not> dropped env now fsnap \<Longrightarrow> get_driver env (fsn_Command fsnap) = Some drv \<Longrightarrow>
    \<not> skipColdStartSpawn env (reborn tc now createdAt drv fsnap)"
  by (simp add: dropped_def skipColdStartSpawn_def reborn_def Let_def)

lemma restoreSession_frames:
  assumes "restoreSession env tc True now snap = Some (Some sess)"
  shows "restore_frames env tc True now (parse_or tc (sn_CreatedAt snap) now) (sn_Frames snap) = Some (se_Frames sess)"
    "se_Frames sess \<noteq> []" "se_ID sess = sn_ID snap" "se_MRUFrameIDs sess = sn_MRUFrameIDs snap"
    "sn_HeadFrameID snap \<noteq> [] \<Longrightarrow> se_HeadFrameID sess = sn_HeadFrameID snap"
  using assms by (auto simp: restoreSession_def Let_def split: option.splits list.splits)

lemma load_sessions_source:
  assumes "load_sessions env tc True now snaps s disk = Some (s', disk')"
    and "fmlookup (st_Sessions s') i = Some sess"
  shows "fmlookup (st_Sessions s) i = Some sess \<or>
    (\<exists>snap\<in>set snaps. restoreSession env tc True now snap = Some (Some sess))"
  using assms
proof (induction snaps arbitrary: s disk)
  case (Cons snap snaps)
  show ?case
  proof (cases "\<exists>x. restoreSession env tc True now snap = Some (Some x)")
    case True
    then obtain x where x: "restoreSession env tc True now snap = Some (Some x)" by blast
    then have "load_sessions env tc True now snaps (s\<lparr> st_Sessions := fmupd (se_ID x) x (st_Sessions s) \<rparr>) disk =
        Some (s', disk')"
      using Cons.prems(1) by simp
    from Cons.IH [OF this Cons.prems(2)] x show ?thesis by (auto split: if_splits)
  next
    case False
    with Cons.prems Cons.IH show ?thesis by (fastforce split: option.splits)
  qed
qed simp

section \<open>Reading the disk back\<close>

lemma take_file_name: "take (length (file_name i) - 5) (file_name i) = i"
  by (simp add: file_name_def)

lemma file_suffix: "HasSuffix (file_name i) ''.json''" "\<not> HasSuffix (file_name i) ''.tmp''"
  by (simp_all add: file_name_def HasSuffix_def)

lemma file_names:
  assumes "fset (fmdom disk) = file_name ` A"
  shows "\<exists>ids. set ids = A \<and> sorted_keys disk = map file_name ids"
proof -
  let ?ids = "map (\<lambda>n. take (length n - 5) n) (sorted_keys disk)"
  have keys: "set (sorted_keys disk) = file_name ` A" using assms by simp
  then have "set ?ids = (\<lambda>n. take (length n - 5) n) ` file_name ` A" by simp
  then have "set ?ids = A" by (simp only: image_image take_file_name image_ident)
  moreover have "map file_name ?ids = sorted_keys disk"
    unfolding map_map by (rule map_idI) (use keys take_file_name in \<open>auto simp: o_def\<close>)
  ultimately show ?thesis by metis
qed

lemma load_files_ok:
  assumes "\<And>i. i \<in> set ids \<Longrightarrow> \<exists>data. fmlookup disk (file_name i) = Some data \<and>
      pc_Unmarshal pc data = Some (snap i) \<and> sn_HeadFrameID (snap i) \<noteq> []"
  shows "load_files pc disk (map file_name ids) = Inr (map snap ids)"
  using assms
proof (induction ids)
  case (Cons i ids)
  then obtain data where "fmlookup disk (file_name i) = Some data" "pc_Unmarshal pc data = Some (snap i)"
    "sn_HeadFrameID (snap i) \<noteq> []" by auto
  with Cons show ?case by (simp add: file_suffix)
qed simp

lemma load_sessions_ok:
  assumes "\<And>i. i \<in> set ids \<Longrightarrow> restoreSession env tc True now (snap i) = Some (r i)"
    and "\<And>i. i \<in> set ids \<Longrightarrow> sn_ID (snap i) = i"
  shows "load_sessions env tc True now (map snap ids) s disk =
    Some (s\<lparr> st_Sessions := foldl (\<lambda>m i. case r i of None \<Rightarrow> m | Some x \<Rightarrow> fmupd i x m) (st_Sessions s) ids \<rparr>,
      foldl Delete disk (filter (\<lambda>i. r i = None) ids))"
  using assms
proof (induction ids arbitrary: s disk)
  case (Cons i ids)
  then have r: "restoreSession env tc True now (snap i) = Some (r i)" by simp
  show ?case
  proof (cases "r i")
    case (Some x)
    with r restoreSession_frames(3) [of env tc now "snap i" x] have "se_ID x = i" using Cons.prems(2) by simp
    with Cons r Some show ?thesis by simp
  qed (use Cons r in simp)
qed simp

lemma revived_lookup:
  "fmlookup (foldl (\<lambda>m i. case r i of None \<Rightarrow> m | Some x \<Rightarrow> fmupd i x m) m ids) i =
     (if i \<in> set ids \<and> r i \<noteq> None then r i else fmlookup m i)"
  by (induction ids arbitrary: m) (auto split: option.split)

section \<open>What a driver promises about its bag\<close>

locale persist_contract = driver_contract ty own drv
  for ty :: "'ds \<Rightarrow> 'ty" and own and drv :: "'ds driver" +
  assumes bag_status: "ty ds = own \<Longrightarrow> drv_Status drv ds = Some st \<Longrightarrow>
      fmlookup (drv_Persist drv ds) ''status'' = Some (Status_String st)"
    and restored_status: "fmlookup bag ''status'' = Some v \<Longrightarrow> ParseStatus v = Some st \<Longrightarrow>
      drv_Status drv (drv_Restore drv bag now) = Some st"

locale boxed_persist = boxed_driver im box unbox kind own + persist_law im
  for im :: "'st driver_impl" and box :: "'st \<Rightarrow> 'ds" and unbox and kind :: "'ds \<Rightarrow> 'ty" and own

sublocale boxed_persist \<subseteq> persist_contract kind own "as_driver box unbox im"
proof
  show "fmlookup (drv_Persist (as_driver box unbox im) ds) ''status'' = Some (Status_String st)"
    if "kind ds = own" "drv_Status (as_driver box unbox im) ds = Some st" for ds st
    using that own_kind [of ds] persist_status by (auto simp: as_driver_def)
  show "drv_Status (as_driver box unbox im) (drv_Restore (as_driver box unbox im) bag now) = Some st"
    if "fmlookup bag ''status'' = Some v" "ParseStatus v = Some st" for bag v st now
    using restore_status [OF that] by (simp add: as_driver_def unbox_box)
qed

interpretation claude_disk: boxed_persist "ClaudeDriver d" ClaudeS as_claude kind_of ClaudeK for d
  by unfold_locales

interpretation codex_disk: boxed_persist "CodexDriver d" CodexS as_codex kind_of CodexK for d
  by unfold_locales

interpretation gemini_disk: boxed_persist "GeminiDriver d" GeminiS as_gemini kind_of GeminiK for d
  by unfold_locales

interpretation generic_disk: boxed_persist "GenericDriver tc d" GenericS as_generic kind_of GenericK for tc d
  by unfold_locales

interpretation shell_disk: boxed_persist "ShellDriver tc d" ShellS as_shell kind_of ShellK for tc d
  by unfold_locales

section \<open>A cold start over a registry\<close>

definition cold_status :: "status \<Rightarrow> status" where
  "cold_status st = (if st = StatusRunning then StatusWaiting else st)"

definition survives :: "'ds env \<Rightarrow> time_codec \<Rightarrow> go_time \<Rightarrow> 'ds session_frame \<Rightarrow> bool" where
  "survives env tc now f \<longleftrightarrow> \<not> dropped env now (snapshot_frame env tc f)"

definition status_of :: "'ds env \<Rightarrow> 'ds session_frame \<Rightarrow> status option" where
  "status_of env f =
     (case get_driver env (fr_Command f) of None \<Rightarrow> None
      | Some drv \<Rightarrow> (case fr_Driver f of None \<Rightarrow> None | Some ds \<Rightarrow> drv_Status drv ds))"

definition same_frame :: "'ds env \<Rightarrow> 'ds session_frame \<Rightarrow> 'ds session_frame \<Rightarrow> bool" where
  "same_frame env f f' \<longleftrightarrow>
     fr_ID f' = fr_ID f \<and> fr_Project f' = fr_Project f \<and> fr_Command f' = fr_Command f \<and>
     fr_LaunchOptions f' = (fr_LaunchOptions f)\<lparr> lo_InitialInput := [] \<rparr> \<and>
     (\<forall>st. status_of env f = Some st \<longrightarrow> status_of env f' = Some (cold_status st))"

definition same_session :: "'ds env \<Rightarrow> 'ds session \<Rightarrow> 'ds session_frame list \<Rightarrow> 'ds session \<Rightarrow> bool" where
  "same_session env sess kept sess' \<longleftrightarrow>
     se_ID sess' = se_ID sess \<and> se_Project sess' = se_Project sess \<and> se_Sandbox sess' = se_Sandbox sess \<and>
     se_HeadFrameID sess' = se_HeadFrameID sess \<and> se_MRUFrameIDs sess' = se_MRUFrameIDs sess \<and>
     list_all2 (same_frame env) kept (se_Frames sess')"

definition outcome ::
  "'ds env \<Rightarrow> time_codec \<Rightarrow> go_time \<Rightarrow> 'ds session \<Rightarrow> 'ds session option \<Rightarrow> bool" where
  "outcome env tc now sess r \<longleftrightarrow>
     (let kept = filter (survives env tc now) (se_Frames sess)
      in case r of None \<Rightarrow> kept = []
         | Some sess' \<Rightarrow> kept \<noteq> [] \<and> same_session env sess kept sess')"

text \<open>The JSON encoding reads back the snapshots that are on disk.\<close>

definition decodes :: "'ds env \<Rightarrow> time_codec \<Rightarrow> persist_codec \<Rightarrow> 'ds state \<Rightarrow> bool" where
  "decodes env tc pc s \<longleftrightarrow> (\<forall>i sess. fmlookup (st_Sessions s) i = Some sess \<longrightarrow>
     pc_Unmarshal pc (pc_Marshal pc (snapshot_session env tc sess)) = Some (snapshot_session env tc sess))"

lemma list_all2_mapI: "(\<And>x. x \<in> set xs \<Longrightarrow> P x (f x)) \<Longrightarrow> list_all2 P xs (map f xs)"
  by (induction xs) auto

lemma snapshot_frame_simps [simp]:
  "fsn_ID (snapshot_frame env tc f) = fr_ID f" "fsn_Command (snapshot_frame env tc f) = fr_Command f"
  "fsn_Project (snapshot_frame env tc f) = fr_Project f"
  "fsn_LaunchOptions (snapshot_frame env tc f) = (fr_LaunchOptions f)\<lparr> lo_InitialInput := [] \<rparr>"
  by (simp_all add: snapshot_frame_def Let_def split: prod.split)

lemma reborn_simps [simp]:
  "fr_ID (reborn tc now c drv x) = fsn_ID x" "fr_Command (reborn tc now c drv x) = fsn_Command x"
  "fr_Project (reborn tc now c drv x) = fsn_Project x" "fr_LaunchOptions (reborn tc now c drv x) = fsn_LaunchOptions x"
  "fr_Driver (reborn tc now c drv x) = Some (drv_Restore drv (cold_bag (fsn_DriverState x)) now)"
  by (simp_all add: reborn_def)

lemma cold_bag_status:
  "fmlookup bag ''status'' = Some (Status_String st) \<Longrightarrow>
    fmlookup (cold_bag bag) ''status'' = Some (Status_String (cold_status st))"
  by (cases st) (simp_all add: cold_bag_def cold_status_def)

locale persistent_registry = driver_registry ty reg
  for ty :: "'ds \<Rightarrow> 'ty" and reg :: "'ds registry" +
  assumes total: "GetDriver reg command \<noteq> None"
    and persists: "GetDriver reg command = Some d \<Longrightarrow> persist_contract ty (ty (drv_NewState d zero_time)) d"
begin

lemma status_reborn:
  assumes env: "env_Registry env = reg" and typed: "frame_typed ty reg f"
    and d: "GetDriver reg (fr_Command f) = Some drv"
  shows "same_frame env f (reborn tc now c drv (snapshot_frame env tc f))"
proof -
  have "drv_Status drv (drv_Restore drv (cold_bag (fsn_DriverState (snapshot_frame env tc f))) now) = Some (cold_status st)"
    if st: "fr_Driver f = Some ds" "drv_Status drv ds = Some st" for ds st
  proof -
    have "ty ds = ty (drv_NewState drv zero_time)" using typed d st(1) by (auto simp: frame_typed_def)
    from persist_contract.bag_status [OF persists [OF d] this st(2)]
    have "fmlookup (fsn_DriverState (snapshot_frame env tc f)) ''status'' = Some (Status_String st)"
      using env d st(1) by (simp add: snapshot_frame_def)
    from persist_contract.restored_status [OF persists [OF d] cold_bag_status [OF this] ParseStatus_Status]
    show ?thesis .
  qed
  then show ?thesis
    using env d by (auto simp: same_frame_def status_of_def split: option.splits)
qed

lemma restore_frames_total:
  assumes env: "env_Registry env = reg"
  shows "restore_frames env tc True now c fsnaps =
    Some (map (\<lambda>x. reborn tc now c (the (GetDriver reg (fsn_Command x))) x) (filter (\<lambda>x. \<not> dropped env now x) fsnaps))"
proof (induction fsnaps)
  case (Cons x xs)
  obtain drv where d: "GetDriver reg (fsn_Command x) = Some drv" using total by blast
  have "drv_Status drv (drv_Restore drv (cold_bag (fsn_DriverState x)) now) \<noteq> None"
    using driver_contract.status_own [OF contract [OF d] driver_contract.restore_ty [OF contract [OF d]]] by simp
  then show ?case
    using env d Cons.IH by (auto simp: restore_cold simp del: restore_frames.simps)
qed simp

lemma kept_frames:
  assumes env: "env_Registry env = reg" and typed: "\<And>f. f \<in> set kept \<Longrightarrow> frame_typed ty reg f"
    and new: "new = map (\<lambda>f. reborn tc now c (the (GetDriver reg (fr_Command f))) (snapshot_frame env tc f)) kept"
  shows "list_all2 (same_frame env) kept new" "\<forall>f\<in>set new. frame_typed ty reg f"
proof -
  have "same_frame env f (reborn tc now c (the (GetDriver reg (fr_Command f))) (snapshot_frame env tc f)) \<and>
      frame_typed ty reg (reborn tc now c (the (GetDriver reg (fr_Command f))) (snapshot_frame env tc f))"
    if "f \<in> set kept" for f
  proof -
    obtain drv where d: "GetDriver reg (fr_Command f) = Some drv" using total by blast
    with status_reborn [OF env typed [OF that] d] driver_contract.restore_ty [OF contract [OF d]]
    show ?thesis by (simp add: frame_typed_def)
  qed
  then show "list_all2 (same_frame env) kept new" "\<forall>f\<in>set new. frame_typed ty reg f"
    unfolding new by (auto intro: list_all2_mapI)
qed

lemma restoreSession_total:
  assumes env: "env_Registry env = reg" and ok: "session_ok ty reg i sess"
  shows "\<exists>r. restoreSession env tc True now (snapshot_session env tc sess) = Some r \<and> outcome env tc now sess r \<and>
    (\<forall>sess' f. r = Some sess' \<longrightarrow> f \<in> set (se_Frames sess') \<longrightarrow> frame_typed ty reg f)"
proof -
  let ?kept = "filter (survives env tc now) (se_Frames sess)"
  let ?c = "parse_or tc (tc_Format tc (se_CreatedAt sess)) now"
  define new where "new = map (\<lambda>f. reborn tc now ?c (the (GetDriver reg (fr_Command f))) (snapshot_frame env tc f)) ?kept"
  have fr: "restore_frames env tc True now ?c (map (snapshot_frame env tc) (se_Frames sess)) = Some new"
    by (simp add: restore_frames_total [OF env] filter_map o_def survives_def [abs_def] new_def)
  have typed: "frame_typed ty reg f" if "f \<in> set ?kept" for f using ok that by (auto simp: session_ok_def)
  note k = kept_frames [OF env typed new_def, simplified]
  have head: "se_HeadFrameID sess \<noteq> []" using ok by (auto simp: session_ok_def)
  show ?thesis
  proof (cases new)
    case Nil
    then have "?kept = []" by (simp add: new_def)
    with fr Nil show ?thesis
      by (simp add: restoreSession_def snapshot_session_def outcome_def Let_def)
  next
    case (Cons root rest)
    with fr k head show ?thesis
      by (auto simp: restoreSession_def snapshot_session_def same_session_def outcome_def Let_def)
  qed
qed

lemma Load_in_sync:
  assumes env: "env_Registry env = reg" and ok: "state_ok ty env s" and sync: "in_sync env tc pc disk s"
    and codec: "decodes env tc pc s"
  shows "\<exists>ids. set ids = fset (fmdom (st_Sessions s)) \<and>
    Load pc disk = Inr (map (\<lambda>i. snapshot_session env tc (the (fmlookup (st_Sessions s) i))) ids)"
proof -
  let ?snap = "\<lambda>i. snapshot_session env tc (the (fmlookup (st_Sessions s) i))"
  have files: "fmlookup disk (file_name i) = map_option (\<lambda>sess. pc_Marshal pc (snapshot_session env tc sess))
      (fmlookup (st_Sessions s) i)" and names: "fset (fmdom disk) \<subseteq> range file_name" for i
    using sync by (auto simp: in_sync_def)
  have "file_name i |\<in>| fmdom disk \<longleftrightarrow> i |\<in>| fmdom (st_Sessions s)" for i
    by (simp add: fmlookup_dom_iff files)
  with names have "fset (fmdom disk) = file_name ` fset (fmdom (st_Sessions s))" by auto
  from file_names [OF this] obtain ids where ids: "set ids = fset (fmdom (st_Sessions s))"
    "sorted_keys disk = map file_name ids" by blast
  have "load_files pc disk (map file_name ids) = Inr (map ?snap ids)"
  proof (rule load_files_ok)
    fix i assume "i \<in> set ids"
    with ids(1) ok env obtain sess where "fmlookup (st_Sessions s) i = Some sess" "session_ok ty reg i sess"
      by (auto simp: fmlookup_dom_iff state_ok_def sessions_ok_def)
    with codec [unfolded decodes_def] files [of i] show "\<exists>data. fmlookup disk (file_name i) = Some data \<and>
        pc_Unmarshal pc data = Some (?snap i) \<and> sn_HeadFrameID (?snap i) \<noteq> []"
      by (auto simp: session_ok_def snapshot_session_def)
  qed
  with ids show ?thesis by (auto simp: Load_def)
qed

lemma reload:
  assumes env: "env_Registry env = reg" and ok: "state_ok ty env s" and sync: "in_sync env tc pc disk s"
    and codec: "decodes env tc pc s"
    and empty: "st_Sessions s\<^sub>0 = fmempty"
  shows "\<exists>m disk'. LoadSnapshot env tc pc True now s\<^sub>0 disk = Some (Inr (s\<^sub>0\<lparr> st_Sessions := m \<rparr>, disk')) \<and>
    (\<forall>i. fmlookup m i = Option.bind (fmlookup (st_Sessions s) i)
       (\<lambda>sess. the (restoreSession env tc True now (snapshot_session env tc sess)))) \<and>
    (\<forall>i. i \<noteq> [] \<longrightarrow> fmlookup disk' (file_name i) =
       (if fmlookup m i = None then None else fmlookup disk (file_name i)))"
proof -
  let ?snap = "\<lambda>i. snapshot_session env tc (the (fmlookup (st_Sessions s) i))"
  let ?r = "\<lambda>i. the (restoreSession env tc True now (?snap i))"
  obtain ids where ids: "set ids = fset (fmdom (st_Sessions s))" and load: "Load pc disk = Inr (map ?snap ids)"
    using Load_in_sync [OF env ok sync codec] by blast
  have mem: "\<exists>sess. fmlookup (st_Sessions s) i = Some sess \<and> session_ok ty reg i sess" if "i \<in> set ids" for i
    using that ids ok env by (auto simp: fmlookup_dom_iff state_ok_def sessions_ok_def)
  have r: "restoreSession env tc True now (?snap i) = Some (?r i)" if "i \<in> set ids" for i
    using mem [OF that] restoreSession_total [OF env] by (metis option.sel)
  have i: "sn_ID (?snap i) = i" if "i \<in> set ids" for i
    using mem [OF that] by (auto simp: session_ok_def snapshot_session_def)
  define m where "m = foldl (\<lambda>m i. case ?r i of None \<Rightarrow> m | Some x \<Rightarrow> fmupd i x m) (st_Sessions s\<^sub>0) ids"
  have m: "fmlookup m i = Option.bind (fmlookup (st_Sessions s) i)
      (\<lambda>sess. the (restoreSession env tc True now (snapshot_session env tc sess)))" for i
    by (cases "fmlookup (st_Sessions s) i") (auto simp: m_def revived_lookup empty ids fmlookup_dom_iff)
  have "fmlookup disk (file_name i) = None" if "fmlookup (st_Sessions s) i = None" for i
    using sync that by (auto simp: in_sync_def)
  then have d: "fmlookup (foldl Delete disk (filter (\<lambda>i. ?r i = None) ids)) (file_name i) =
      (if fmlookup m i = None then None else fmlookup disk (file_name i))" if "i \<noteq> []" for i
    using that by (cases "fmlookup (st_Sessions s) i") (auto simp: Delete_lookup m ids fmlookup_dom_iff)
  have "LoadSnapshot env tc pc True now s\<^sub>0 disk =
      Some (Inr (s\<^sub>0\<lparr> st_Sessions := m \<rparr>, foldl Delete disk (filter (\<lambda>i. ?r i = None) ids)))"
    by (simp add: LoadSnapshot_def load load_sessions_ok [OF r i] m_def)
  with m d show ?thesis by blast
qed

lemma cold_load:
  assumes env: "env_Registry env = reg" and ok: "state_ok ty env s" and sync: "in_sync env tc pc disk s"
    and codec: "decodes env tc pc s" and empty: "st_Sessions s\<^sub>0 = fmempty"
  shows "\<exists>m disk'. LoadSnapshot env tc pc True now s\<^sub>0 disk = Some (Inr (s\<^sub>0\<lparr> st_Sessions := m \<rparr>, disk')) \<and>
    (\<forall>i. case fmlookup (st_Sessions s) i of
       None \<Rightarrow> fmlookup m i = None
     | Some sess \<Rightarrow> outcome env tc now sess (fmlookup m i) \<and>
         (\<forall>sess'. fmlookup m i = Some sess' \<longrightarrow> list_all (frame_typed ty reg) (se_Frames sess'))) \<and>
    (\<forall>i. i \<noteq> [] \<longrightarrow> fmlookup disk' (file_name i) =
       (if fmlookup m i = None then None else fmlookup disk (file_name i)))"
proof -
  obtain m disk' where ld: "LoadSnapshot env tc pc True now s\<^sub>0 disk = Some (Inr (s\<^sub>0\<lparr> st_Sessions := m \<rparr>, disk'))"
    and m: "\<And>i. fmlookup m i = Option.bind (fmlookup (st_Sessions s) i)
       (\<lambda>sess. the (restoreSession env tc True now (snapshot_session env tc sess)))"
    and d: "\<forall>i. i \<noteq> [] \<longrightarrow> fmlookup disk' (file_name i) =
       (if fmlookup m i = None then None else fmlookup disk (file_name i))"
    using reload [OF assms] by blast
  have "case fmlookup (st_Sessions s) i of
       None \<Rightarrow> fmlookup m i = None
     | Some sess \<Rightarrow> outcome env tc now sess (fmlookup m i) \<and>
         (\<forall>sess'. fmlookup m i = Some sess' \<longrightarrow> list_all (frame_typed ty reg) (se_Frames sess'))" for i
  proof (cases "fmlookup (st_Sessions s) i")
    case (Some sess)
    then have "session_ok ty reg i sess" using ok env by (auto simp: state_ok_def sessions_ok_def)
    from restoreSession_total [OF env this, of tc now] Some m [of i] show ?thesis
      by (auto simp: list_all_iff)
  qed (simp add: m)
  with ld d show ?thesis by blast
qed

text \<open>Only stopped frames are lost, and a driver that cannot recover them loses all of them.\<close>

lemma survives_iff:
  assumes env: "env_Registry env = reg" and typed: "frame_typed ty reg f"
    and d: "GetDriver reg (fr_Command f) = Some drv" and st: "status_of env f = Some st"
  shows "st \<noteq> StatusStopped \<Longrightarrow> survives env tc now f"
    and "st = StatusStopped \<Longrightarrow> drv_RecoverableOnColdStart drv = None \<Longrightarrow> \<not> survives env tc now f"
proof -
  have "status_of env (reborn tc now 0 drv (snapshot_frame env tc f)) = Some (cold_status st)"
    using status_reborn [OF env typed d] st by (auto simp: same_frame_def)
  then have "drv_Status drv (drv_Restore drv (cold_bag (fsn_DriverState (snapshot_frame env tc f))) now) = Some (cold_status st)"
    using env d by (simp add: status_of_def)
  then show "st \<noteq> StatusStopped \<Longrightarrow> survives env tc now f"
    and "st = StatusStopped \<Longrightarrow> drv_RecoverableOnColdStart drv = None \<Longrightarrow> \<not> survives env tc now f"
    using env d by (auto simp: survives_def dropped_def Let_def cold_status_def coldStartRecoverable_def split: if_splits)
qed

end

section \<open>The drivers of the boot sequence\<close>

lemma persist_contracts:
  "persist_contract kind_of ClaudeK (NewClaudeDriver h opts)"
  "persist_contract kind_of CodexK (NewCodexDriver h opts)"
  "persist_contract kind_of GeminiK (NewGeminiDriver h opts)"
  "persist_contract kind_of GenericK (generic_driver_of h opts name)"
  "persist_contract kind_of ShellK (shell_driver_of h sd)"
  unfolding NewClaudeDriver_def NewCodexDriver_def NewGeminiDriver_def generic_driver_of_def shell_driver_of_def
  by (rule claude_disk.persist_contract_axioms codex_disk.persist_contract_axioms
      gemini_disk.persist_contract_axioms generic_disk.persist_contract_axioms
      shell_disk.persist_contract_axioms)+

interpretation builtin_disk: persistent_registry kind_of "builtin_registry h opts shellName thr"
  for h opts shellName thr
  by (intro persistent_registry.intro persistent_registry_axioms.intro builtin.driver_registry_axioms)
    (auto simp: builtin_GetDriver persist_contracts Let_def)

lemma builtin_recoverable:
  assumes "GetDriver (builtin_registry h opts shellName thr) command = Some drv" "FirstToken command \<noteq> ''codex''"
  shows "drv_RecoverableOnColdStart drv = None"
  using assms
  by (auto simp: builtin_GetDriver Let_def NewClaudeDriver_def NewGeminiDriver_def generic_driver_of_def
      shell_driver_of_def as_driver_def ClaudeDriver_def GeminiDriver_def GenericDriver_def ShellDriver_def
      split: if_splits)

lemma outcome_Some:
  assumes "outcome env tc now sess (Some sess')"
  shows "frame_ids sess' = map fr_ID (filter (survives env tc now) (se_Frames sess))"
    "se_ID sess' = se_ID sess" "se_HeadFrameID sess' = se_HeadFrameID sess"
    "se_MRUFrameIDs sess' = se_MRUFrameIDs sess"
proof -
  have "list_all2 (same_frame env) (filter (survives env tc now) (se_Frames sess)) (se_Frames sess')"
    using assms by (simp add: outcome_def same_session_def Let_def)
  then have "list_all2 (\<lambda>f f'. fr_ID f = fr_ID f') (filter (survives env tc now) (se_Frames sess)) (se_Frames sess')"
    by (rule list_all2_mono) (simp add: same_frame_def)
  then show "frame_ids sess' = map fr_ID (filter (survives env tc now) (se_Frames sess))"
    unfolding frame_ids_def by (simp add: list_all2_conv_all_nth list_eq_iff_nth_eq)
qed (use assms in \<open>simp_all add: outcome_def same_session_def Let_def\<close>)

lemma outcome_lost:
  assumes "outcome env tc now sess (Some sess')" "session_ok ty reg i sess"
    and "f \<in> set (se_Frames sess)" "\<not> survives env tc now f"
  shows "fr_ID f \<notin> set (frame_ids sess')"
proof
  assume "fr_ID f \<in> set (frame_ids sess')"
  then obtain f' where "f' \<in> set (se_Frames sess)" "fr_ID f' = fr_ID f" "survives env tc now f'"
    by (auto simp: outcome_Some(1) [OF assms(1)])
  with assms(2-4) show False by (auto simp: session_ok_def frame_ids_def distinct_map dest: inj_onD)
qed

lemma state_ok_head:
  "state_ok ty env s \<Longrightarrow> fmlookup (st_Sessions s) i = Some sess \<Longrightarrow> se_HeadFrameID sess \<in> set (frame_ids sess)"
  by (simp add: state_ok_def sessions_ok_def session_ok_def)

text \<open>The survivors of a good session are a good session when its head frame is among them.\<close>

lemma outcome_session_ok:
  assumes "outcome env tc now sess (Some sess')" "session_ok ty reg i sess"
    and "list_all (frame_typed ty reg) (se_Frames sess')" "se_HeadFrameID sess \<in> set (frame_ids sess')"
  shows "session_ok ty reg i sess'" "set (frame_ids sess') \<subseteq> set (frame_ids sess)"
proof -
  note o = outcome_Some [OF assms(1)]
  show sub: "set (frame_ids sess') \<subseteq> set (frame_ids sess)" unfolding o by (auto simp: frame_ids_def)
  have "distinct (frame_ids sess')"
    using assms(2) unfolding o by (auto simp: session_ok_def frame_ids_def distinct_map inj_on_def)
  with assms(2-4) o sub show "session_ok ty reg i sess'"
    by (auto simp: session_ok_def list_all_iff)
qed

lemma cold_sessions_ok:
  assumes ok: "sessions_ok ty env m n"
    and each: "\<And>i. case fmlookup m i of
       None \<Rightarrow> fmlookup m' i = None
     | Some sess \<Rightarrow> outcome env tc now sess (fmlookup m' i) \<and>
         (\<forall>sess'. fmlookup m' i = Some sess' \<longrightarrow> list_all (frame_typed ty (env_Registry env)) (se_Frames sess'))"
    and head: "\<And>i sess f. fmlookup m i = Some sess \<Longrightarrow> f \<in> set (se_Frames sess) \<Longrightarrow>
      fr_ID f = se_HeadFrameID sess \<Longrightarrow> survives env tc now f"
  shows "sessions_ok ty env m' n"
proof -
  have each': "\<exists>sess. fmlookup m i = Some sess \<and> session_ok ty (env_Registry env) i sess' \<and>
      set (frame_ids sess') \<subseteq> set (frame_ids sess)" if "fmlookup m' i = Some sess'" for i sess'
  proof -
    from each [of i] that obtain sess where s: "fmlookup m i = Some sess" "outcome env tc now sess (Some sess')"
      "list_all (frame_typed ty (env_Registry env)) (se_Frames sess')" by (auto split: option.splits)
    from ok s(1) have so: "session_ok ty (env_Registry env) i sess" by (auto simp: sessions_ok_def)
    then obtain f where "f \<in> set (se_Frames sess)" "fr_ID f = se_HeadFrameID sess"
      by (auto simp: session_ok_def frame_ids_def)
    with head [OF s(1)] have "se_HeadFrameID sess \<in> set (frame_ids sess')"
      unfolding outcome_Some(1) [OF s(2)] by force
    from outcome_session_ok [OF s(2) so s(3) this] s(1) show ?thesis by blast
  qed
  have sub: "frames_of m' i \<subseteq> frames_of m i" for i
    using each' [of i] by (cases "fmlookup m' i") (auto simp: frames_of_def)
  show ?thesis
    unfolding sessions_ok_def
  proof (intro conjI allI impI)
    fix i sess' assume "fmlookup m' i = Some sess'"
    with each' [OF this] ok show "session_ok ty (env_Registry env) i sess'" "i \<in> drawn env n"
      "set (frame_ids sess') \<subseteq> drawn env n" unfolding sessions_ok_def by blast+
  next
    fix i j :: session_id assume "i \<noteq> j"
    with ok have "frames_of m i \<inter> frames_of m j = {}" by (simp add: sessions_ok_def)
    with sub [of i] sub [of j] show "frames_of m' i \<inter> frames_of m' j = {}" by blast
  qed
qed

section \<open>The theorems\<close>

lemma New_empty: "st_Sessions (New\<lparr> st_Draws := n \<rparr>) = fmempty"
  by (simp add: New_def)


text \<open>C6: If the head frame of no session is stopped, the state after a cold start satisfies the invariant
  again, so the daemon runs on from it as from any other state.\<close>

theorem cold_restart_ok:
  assumes "boot_registry h opts shellName thr = Some (env_Registry env)" "state_ok kind_of env s"
    and "in_sync env tc pc disk s" "decodes env tc pc s"
    and heads: "\<And>i sess f. fmlookup (st_Sessions s) i = Some sess \<Longrightarrow> f \<in> set (se_Frames sess) \<Longrightarrow>
      fr_ID f = se_HeadFrameID sess \<Longrightarrow> \<exists>st. status_of env f = Some st \<and> st \<noteq> StatusStopped"
  shows "\<exists>s' disk'. LoadSnapshot env tc pc True now (New\<lparr> st_Draws := st_Draws s \<rparr>) disk = Some (Inr (s', disk')) \<and>
    state_ok kind_of env s'"
proof -
  let ?reg = "builtin_registry h opts shellName thr"
  have reg: "env_Registry env = ?reg" using assms(1) by (simp add: boot_registry_Some)
  obtain m disk' where ld: "LoadSnapshot env tc pc True now (New\<lparr> st_Draws := st_Draws s \<rparr>) disk =
      Some (Inr ((New\<lparr> st_Draws := st_Draws s \<rparr>)\<lparr> st_Sessions := m \<rparr>, disk'))"
    and each: "\<And>i. case fmlookup (st_Sessions s) i of
       None \<Rightarrow> fmlookup m i = None
     | Some sess \<Rightarrow> outcome env tc now sess (fmlookup m i) \<and>
         (\<forall>sess'. fmlookup m i = Some sess' \<longrightarrow> list_all (frame_typed kind_of (env_Registry env)) (se_Frames sess'))"
    using builtin_disk.cold_load [OF reg assms(2-4) New_empty, where now = now] unfolding reg by blast
  have surv: "survives env tc now f"
    if s: "fmlookup (st_Sessions s) i = Some sess" "f \<in> set (se_Frames sess)" "fr_ID f = se_HeadFrameID sess" for i sess f
  proof -
    have "frame_typed kind_of ?reg f"
      using assms(2) s(1,2) reg by (auto simp: state_ok_def sessions_ok_def session_ok_def)
    moreover obtain drv where "GetDriver ?reg (fr_Command f) = Some drv" by (simp add: builtin_GetDriver)
    ultimately show ?thesis using heads [OF s] builtin_disk.survives_iff(1) [OF reg] by blast
  qed
  have "sessions_ok kind_of env m (st_Draws s)"
    by (rule cold_sessions_ok [OF _ each surv]) (use assms(2) in \<open>auto simp: state_ok_def\<close>)
  then show ?thesis using ld by (auto simp: state_ok_def subs_ok_def New_def)
qed

text \<open>C25: The two passes of a cold start agree: a frame that \<open>LoadSnapshot\<close> keeps is never skipped by
  \<open>RecreateAll\<close>, whatever the drivers and whatever is on disk, so no session is left with a frame that has
  no process.\<close>

theorem cold_respawn:
  assumes "st_Sessions s\<^sub>0 = fmempty" "LoadSnapshot env tc pc True now s\<^sub>0 disk = Some (Inr (s', disk'))"
    and "fmlookup (st_Sessions s') i = Some sess"
  shows "recreateSessionFrames env sess = se_Frames sess \<and> se_Frames sess \<noteq> []"
proof -
  obtain snaps where "load_sessions env tc True now snaps s\<^sub>0 disk = Some (s', disk')"
    using assms(2) by (auto simp: LoadSnapshot_def split: sum.splits option.splits)
  from load_sessions_source [OF this assms(3)] assms(1) obtain snap
    where r: "restoreSession env tc True now snap = Some (Some sess)" by auto
  note f = restoreSession_frames [OF r]
  have "\<not> skipColdStartSpawn env fr" if "fr \<in> set (se_Frames sess)" for fr
    using restore_frames_kept [OF f(1) that] not_skipped by blast
  then show ?thesis using f(2) by (simp add: recreateSessionFrames_def)
qed


section \<open>Examples\<close>

text \<open>One session with a running conversation, and one more frame whose process has exited.\<close>

definition demo_stopped :: "driver_state session_frame" where
  "demo_stopped = demo_frame\<lparr> fr_ID := ''xxx'',
     fr_Driver := Some (ClaudeS ((claude_NewState 1)\<lparr> cs_Status := StatusStopped \<rparr>)) \<rparr>"

definition demo_two :: "driver_state session" where
  "demo_two = demo_session\<lparr> se_Frames := [demo_frame, demo_stopped], se_HeadFrameID := ''xxx'' \<rparr>"

definition demo_two_state :: "driver_state state" where
  "demo_two_state = New\<lparr> st_Sessions := fmupd ''x'' demo_two fmempty, st_Draws := 3 \<rparr>"

definition demo_json :: "driver_state session \<Rightarrow> persist_codec" where
  "demo_json sess = \<lparr> pc_Marshal = (\<lambda>sn. sn_ID sn),
     pc_Unmarshal = (\<lambda>_. Some (snapshot_session demo_env demo_codec sess)), pc_Legacy = (\<lambda>_. None) \<rparr>"

definition demo_disk :: disk where
  "demo_disk = fmupd ''x.json'' ''x'' fmempty"

lemma demo_sync:
  "in_sync demo_env demo_codec (demo_json demo_session) demo_disk demo_state"
  "in_sync demo_env demo_codec (demo_json demo_two) demo_disk demo_two_state"
proof -
  have f: "''x.json'' = file_name ''x''" by (simp add: file_name_def)
  show "in_sync demo_env demo_codec (demo_json demo_session) demo_disk demo_state"
    "in_sync demo_env demo_codec (demo_json demo_two) demo_disk demo_two_state"
    unfolding in_sync_def demo_disk_def f
    by (auto simp: demo_state_def demo_two_state_def demo_json_def snapshot_session_def demo_session_def demo_two_def New_def)
qed

lemma demo_decodes:
  "decodes demo_env demo_codec (demo_json demo_session) demo_state"
  "decodes demo_env demo_codec (demo_json demo_two) demo_two_state"
  by (simp_all add: decodes_def demo_state_def demo_two_state_def demo_json_def New_def)

lemma demo_two_ok: "state_ok kind_of demo_env demo_two_state"
proof -
  have "frame_typed kind_of (env_Registry demo_env) demo_stopped"
    by (simp add: frame_typed_def demo_stopped_def demo_frame_def demo_env_def builtin_GetDriver FirstToken_def Let_def)
  moreover have "drawn demo_env 3 = {''x'', ''xx'', ''xxx''}"
    by (auto simp: drawn_def demo_env_def demo_rand_def lessThan_Suc numeral_3_eq_3)
  ultimately show ?thesis
    using demo_typed
    by (auto simp: state_ok_def sessions_ok_def subs_ok_def demo_two_state_def demo_two_def demo_session_def session_ok_def
        frame_ids_def demo_frame_def demo_stopped_def New_def frames_of_def split: if_splits)
qed

lemma demo_status:
  "status_of demo_env demo_frame = Some StatusIdle" "status_of demo_env demo_stopped = Some StatusStopped"
  by (simp_all add: status_of_def demo_frame_def demo_stopped_def demo_env_def builtin_GetDriver FirstToken_def Let_def
      NewClaudeDriver_def as_driver_def ClaudeDriver_def claude_NewState_def claude_of_def common_new_def common_state.defs
      claude_state.defs)


theorem cold_restart_ok_witness:
  "\<exists>s' disk'. LoadSnapshot demo_env demo_codec (demo_json demo_session) True 9 (New\<lparr> st_Draws := st_Draws demo_state \<rparr>) demo_disk =
     Some (Inr (s', disk')) \<and> state_ok kind_of demo_env s'"
  by (rule cold_restart_ok [OF demo_boot demo_ok demo_sync(1) demo_decodes(1)])
    (auto simp: demo_state_def demo_session_def demo_status split: if_splits)


theorem cold_respawn_witness:
  "\<exists>s' disk' sess. LoadSnapshot demo_env demo_codec (demo_json demo_session) True 9 New demo_disk = Some (Inr (s', disk')) \<and>
     fmlookup (st_Sessions s') ''x'' = Some sess \<and>
     recreateSessionFrames demo_env sess = se_Frames sess \<and> se_Frames sess \<noteq> []"
proof -
  have e: "st_Sessions (New :: driver_state state) = fmempty" by (simp add: New_def)
  have reg: "env_Registry demo_env = builtin_registry demo_host demo_options ''bash'' 0" by (simp add: demo_env_def)
  have l: "fmlookup (st_Sessions demo_state) ''x'' = Some demo_session" by (simp add: demo_state_def)
  obtain m disk' where ld: "LoadSnapshot demo_env demo_codec (demo_json demo_session) True 9 New demo_disk =
      Some (Inr (New\<lparr> st_Sessions := m \<rparr>, disk'))"
    and o: "outcome demo_env demo_codec 9 demo_session (fmlookup m ''x'')"
    using builtin_disk.cold_load [OF reg demo_ok demo_sync(1) demo_decodes(1) e, where now = 9] l
    by (metis (no_types, lifting) option.simps(5))
  have "survives demo_env demo_codec 9 demo_frame"
    using builtin_disk.survives_iff(1) [OF reg demo_typed [unfolded reg] _ demo_status(1)] by (simp add: builtin_GetDriver)
  with o obtain sess where "fmlookup m ''x'' = Some sess"
    by (cases "fmlookup m ''x''") (simp_all add: outcome_def demo_session_def)
  with ld cold_respawn [OF e ld, of "''x''" sess] show ?thesis by simp
qed

end
