(* ===== verification/Spec2Isabelle.thy ===== *)
theory Spec2Isabelle
  imports Workspace Sched_Inv Client_Restart
begin

text \<open>Verification of agent-reactor.\<close>

end
